(* ===== verification/Prelude.thy ===== *)
theory Prelude
  imports Main "HOL-Library.Word"
begin

text \<open>
  Shared vocabulary of the development: the types the Rust code uses everywhere (bytes,
  object identifiers, fallible results), the combinators that stand for the question-mark
  operator and for collecting an iterator of results, and the generic facts about them that
  the component proofs share.  The collection \<open>res\<close> holds the inversion rules of the result
  combinators, so that \<open>auto simp: res\<close> takes a successful run of a handler apart into the
  checks it passed.
\<close>

named_theorems res \<open>inversion rules of the result combinators\<close>

type_synonym byte = "8 word"
type_synonym bytes = "byte list"
type_synonym u32 = "32 word"
type_synonym oid = "u32 list"
type_synonym rstr = string

section \<open>Fallible results\<close>

text \<open>\<open>Result<T, E>\<close> is \<open>'e + 'a\<close>: \<open>Inl\<close> is \<open>Err\<close>, \<open>Inr\<close> is \<open>Ok\<close>.\<close>

definition rbind :: "'e + 'a \<Rightarrow> ('a \<Rightarrow> 'e + 'b) \<Rightarrow> 'e + 'b" where
  "rbind m f = (case m of Inl e \<Rightarrow> Inl e | Inr x \<Rightarrow> f x)"

definition ensure :: "bool \<Rightarrow> 'e \<Rightarrow> 'e + unit" where
  "ensure b e = (if b then Inr () else Inl e)"

definition ok_or :: "'a option \<Rightarrow> 'e \<Rightarrow> 'e + 'a" where
  "ok_or m e = (case m of None \<Rightarrow> Inl e | Some x \<Rightarrow> Inr x)"

definition map_err :: "('e \<Rightarrow> 'f) \<Rightarrow> 'e + 'a \<Rightarrow> 'f + 'a" where
  "map_err g m = (case m of Inl e \<Rightarrow> Inl (g e) | Inr x \<Rightarrow> Inr x)"

definition ok_opt :: "'e + 'a \<Rightarrow> 'a option" where
  "ok_opt m = (case m of Inl _ \<Rightarrow> None | Inr x \<Rightarrow> Some x)"

definition is_ok :: "'e + 'a \<Rightarrow> bool" where
  "is_ok m = (case m of Inl _ \<Rightarrow> False | Inr _ \<Rightarrow> True)"

primrec traverse :: "('a \<Rightarrow> 'e + 'b) \<Rightarrow> 'a list \<Rightarrow> 'e + 'b list" where
  "traverse f [] = Inr []"
| "traverse f (x # xs) = rbind (f x) (\<lambda>y. rbind (traverse f xs) (\<lambda>ys. Inr (y # ys)))"

lemma rbind_simps [simp]:
  "rbind (Inl e) f = Inl e" "rbind (Inr x) f = f x"
  by (simp_all add: rbind_def)

lemma rbind_eq_Inr [res]: "rbind m f = Inr y \<longleftrightarrow> (\<exists>x. m = Inr x \<and> f x = Inr y)"
  by (cases m) auto

lemma rbind_eq_Inl: "rbind m f = Inl e \<longleftrightarrow> m = Inl e \<or> (\<exists>x. m = Inr x \<and> f x = Inl e)"
  by (cases m) auto

lemma rbind_cong [fundef_cong]:
  "m = m' \<Longrightarrow> (\<And>x. m' = Inr x \<Longrightarrow> f x = g x) \<Longrightarrow> rbind m f = rbind m' g"
  by (cases m') auto

lemma rbind_assoc: "rbind (rbind m f) g = rbind m (\<lambda>x. rbind (f x) g)"
  by (cases m) auto

lemma ensure_simps [simp]: "ensure True e = Inr ()" "ensure False e = Inl e"
  by (simp_all add: ensure_def)

lemma ensure_eq [res]:
  "ensure b e = Inr u \<longleftrightarrow> b" "ensure b e = Inl e' \<longleftrightarrow> \<not> b \<and> e' = e"
  by (auto simp: ensure_def)

lemma ok_or_simps [simp]: "ok_or None e = Inl e" "ok_or (Some x) e = Inr x"
  by (simp_all add: ok_or_def)

lemma ok_or_eq [res]:
  "ok_or m e = Inr x \<longleftrightarrow> m = Some x" "ok_or m e = Inl e' \<longleftrightarrow> m = None \<and> e' = e"
  by (cases m; auto)+

lemma map_err_simps [simp]: "map_err g (Inl e) = Inl (g e)" "map_err g (Inr x) = Inr x"
  by (simp_all add: map_err_def)

lemma map_err_eq [res]:
  "map_err g m = Inr x \<longleftrightarrow> m = Inr x"
  "map_err g m = Inl e \<longleftrightarrow> (\<exists>e'. m = Inl e' \<and> e = g e')"
  by (cases m; auto)+

lemma ok_opt_simps [simp]: "ok_opt (Inl e) = None" "ok_opt (Inr x) = Some x"
  by (simp_all add: ok_opt_def)

lemma ok_opt_eq [res]: "ok_opt m = Some x \<longleftrightarrow> m = Inr x"
  by (cases m) auto

lemma ok_opt_None: "ok_opt m = None \<longleftrightarrow> (\<exists>e. m = Inl e)"
  by (cases m) auto

lemma is_ok_simps [simp]: "is_ok (Inr x)" "\<not> is_ok (Inl e)"
  by (simp_all add: is_ok_def)

lemma is_ok_iff [res]: "is_ok m \<longleftrightarrow> (\<exists>x. m = Inr x)"
  by (cases m) auto

lemma traverse_Inr_map: "(\<And>x. x \<in> set xs \<Longrightarrow> f x = Inr (g x)) \<Longrightarrow> traverse f xs = Inr (map g xs)"
  by (induction xs) auto

lemma traverse_eq_Inr:
  "traverse f xs = Inr ys \<longleftrightarrow> list_all2 (\<lambda>x y. f x = Inr y) xs ys"
proof (induction xs arbitrary: ys)
  case Nil
  then show ?case by auto
next
  case (Cons x xs)
  then show ?case by (cases ys) (auto simp: res)
qed

lemma traverse_length: "traverse f xs = Inr ys \<Longrightarrow> length ys = length xs"
  by (auto simp: traverse_eq_Inr dest: list_all2_lengthD)

lemma traverse_set:
  "traverse f xs = Inr ys \<Longrightarrow> y \<in> set ys \<Longrightarrow> \<exists>x\<in>set xs. f x = Inr y"
  by (auto simp: traverse_eq_Inr list_all2_conv_all_nth in_set_conv_nth Bex_def)

lemma traverse_append:
  "traverse f (xs @ ys) = rbind (traverse f xs) (\<lambda>as. rbind (traverse f ys) (\<lambda>bs. Inr (as @ bs)))"
  by (induction xs) (auto simp: rbind_assoc rbind_def split: sum.splits)

text \<open>
  Evaluation reaches the arguments of a function before the function; unfolding the combinators
  in the code equations lets a failed step stop the evaluation of what follows it.
\<close>

declare rbind_def [code_unfold] ensure_def [code_unfold] map_err_def [code_unfold]
  ok_or_def [code_unfold] Let_def [code_unfold]

section \<open>Searching lists\<close>

text \<open>\<open>Iterator::find\<close> is the library's \<^const>\<open>List.find\<close>; what a hit and a miss mean:\<close>

lemma find_SomeD: "List.find P xs = Some x \<Longrightarrow> x \<in> set xs \<and> P x"
  by (induction xs) (auto split: if_splits)

lemma find_NoneD: "List.find P xs = None \<Longrightarrow> x \<in> set xs \<Longrightarrow> \<not> P x"
  by (induction xs) (auto split: if_splits)

lemma find_first:
  "List.find P xs = Some x \<Longrightarrow> \<exists>ys zs. xs = ys @ x # zs \<and> P x \<and> (\<forall>y\<in>set ys. \<not> P y)"
proof (induction xs)
  case Nil
  then show ?case by simp
next
  case (Cons a xs)
  show ?case
  proof (cases "P a")
    case True
    with Cons.prems have "a # xs = [] @ x # xs" "P x" by auto
    then show ?thesis by (metis empty_iff empty_set)
  next
    case False
    with Cons.prems have "List.find P xs = Some x" by simp
    then obtain ys zs where "xs = ys @ x # zs" "P x" "\<forall>y\<in>set ys. \<not> P y"
      using Cons.IH by blast
    with False have "a # xs = (a # ys) @ x # zs \<and> P x \<and> (\<forall>y\<in>set (a # ys). \<not> P y)"
      by simp
    then show ?thesis by blast
  qed
qed

section \<open>Systems of calls\<close>

text \<open>
  A component whose state changes by calls, an invariant that every call keeps and a part of
  the state (or a policy) that no call touches: both hold of every reachable state.
\<close>

locale guarded_calls =
  fixes call :: "'s \<Rightarrow> 's \<Rightarrow> bool"
    and inv :: "'s \<Rightarrow> bool"
    and keeps :: "'s \<Rightarrow> 's \<Rightarrow> bool"
  assumes call_inv: "call s t \<Longrightarrow> inv s \<Longrightarrow> inv t \<and> keeps s t"
    and keeps_refl: "keeps s s"
    and keeps_trans: "keeps s t \<Longrightarrow> keeps t u \<Longrightarrow> keeps s u"
begin

lemma reachable: "call\<^sup>*\<^sup>* s t \<Longrightarrow> inv s \<Longrightarrow> inv t \<and> keeps s t"
  by (induction rule: rtranclp_induct) (auto intro: keeps_refl keeps_trans dest: call_inv)

end

section \<open>Words as bounded integers\<close>

lemma unat_byte_lt [simp]: "unat (b :: byte) < 256"
  using unsigned_less [of b] by simp

lemma unat_of_nat_byte: "n < 256 \<Longrightarrow> unat (of_nat n :: byte) = n"
  by (simp add: unat_of_nat)

lemma unat_of_nat_byte_mod: "unat (of_nat n :: byte) = n mod 256"
  by (simp add: unat_of_nat)

end
