(* ===== verification/Rust_Str.thy ===== *)
theory Rust_Str
  imports Prelude
begin

text \<open>
  The parts of Rust's \<open>str\<close> and integer parsing that the code uses.  A Rust string is valid
  UTF-8 and \<open>str\<close> indices, \<open>find\<close>, \<open>split\<close> and \<open>len\<close> count bytes, so a string here is the
  list of its UTF-8 bytes, each a \<^typ>\<open>char\<close>.  The separators the code uses are ASCII and so
  never occur inside a multi-byte character.
\<close>

section \<open>Bytes\<close>

definition str_bytes :: "rstr \<Rightarrow> bytes" where
  "str_bytes s = map (\<lambda>c. of_nat (of_char c)) s"

definition bytes_str :: "bytes \<Rightarrow> rstr" where
  "bytes_str b = map (\<lambda>x. char_of (unat x)) b"

lemma of_char_byte: "unat (of_nat (of_char c) :: byte) = of_char c"
  by (rule unat_of_nat_byte) simp

lemma bytes_str_bytes [simp]: "bytes_str (str_bytes s) = s"
  by (simp add: bytes_str_def str_bytes_def of_char_byte o_def map_idI del: of_nat_of_char)

lemma str_bytes_inj [simp]: "str_bytes a = str_bytes b \<longleftrightarrow> a = b"
  by (metis bytes_str_bytes)

section \<open>ASCII case\<close>

definition ascii_lower :: "char \<Rightarrow> char" where
  "ascii_lower c = (let n = (of_char c :: nat) in if 65 \<le> n \<and> n \<le> 90 then char_of (n + 32) else c)"

definition to_ascii_lowercase :: "rstr \<Rightarrow> rstr" where
  "to_ascii_lowercase s = map ascii_lower s"

definition eq_ignore_ascii_case :: "rstr \<Rightarrow> rstr \<Rightarrow> bool" where
  "eq_ignore_ascii_case a b \<longleftrightarrow> to_ascii_lowercase a = to_ascii_lowercase b"

lemma ascii_lower_idem [simp]: "ascii_lower (ascii_lower c) = ascii_lower c"
  by (auto simp: ascii_lower_def Let_def of_char_of)

lemma to_ascii_lowercase_idem [simp]:
  "to_ascii_lowercase (to_ascii_lowercase s) = to_ascii_lowercase s"
  by (simp add: to_ascii_lowercase_def)

lemma eq_ignore_ascii_case_refl [simp]: "eq_ignore_ascii_case a a"
  by (simp add: eq_ignore_ascii_case_def)

section \<open>Splitting and searching\<close>

fun split_once :: "char \<Rightarrow> rstr \<Rightarrow> (rstr \<times> rstr) option" where
  "split_once c [] = None"
| "split_once c (x # xs) =
     (if x = c then Some ([], xs)
      else map_option (\<lambda>(a, b). (x # a, b)) (split_once c xs))"

fun split_on :: "char \<Rightarrow> rstr \<Rightarrow> rstr list" where
  "split_on c [] = [[]]"
| "split_on c (x # xs) =
     (if x = c then [] # split_on c xs
      else (case split_on c xs of [] \<Rightarrow> [[x]] | p # ps \<Rightarrow> (x # p) # ps))"

fun join_with :: "rstr \<Rightarrow> rstr list \<Rightarrow> rstr" where
  "join_with sep [] = []"
| "join_with sep [p] = p"
| "join_with sep (p # q # ps) = p @ sep @ join_with sep (q # ps)"

definition starts_with :: "rstr \<Rightarrow> rstr \<Rightarrow> bool" where
  "starts_with s p \<longleftrightarrow> take (length p) s = p"

text \<open>\<open>str::find\<close>: the byte offset of the first occurrence.\<close>

fun find_sub :: "rstr \<Rightarrow> rstr \<Rightarrow> nat option" where
  "find_sub pat s =
     (if take (length pat) s = pat then Some 0
      else (case s of [] \<Rightarrow> None | _ # xs \<Rightarrow> map_option Suc (find_sub pat xs)))"

declare find_sub.simps [simp del]

definition contains :: "rstr \<Rightarrow> rstr \<Rightarrow> bool" where
  "contains s pat \<longleftrightarrow> find_sub pat s \<noteq> None"

lemma split_once_Some:
  "split_once c s = Some (a, b) \<longleftrightarrow> s = a @ c # b \<and> c \<notin> set a"
proof (induction s arbitrary: a)
  case Nil
  then show ?case by simp
next
  case (Cons x xs)
  show ?case
  proof (cases "x = c")
    case True
    then show ?thesis by (cases a) auto
  next
    case False
    with Cons.IH show ?thesis by (cases a) auto
  qed
qed

lemma split_once_None: "split_once c s = None \<longleftrightarrow> c \<notin> set s"
  by (induction s) auto

lemma split_on_not_Nil [simp]: "split_on c s \<noteq> []"
  by (induction s) (auto split: list.splits)

lemma split_on_no_sep: "p \<in> set (split_on c s) \<Longrightarrow> c \<notin> set p"
proof (induction s arbitrary: p)
  case Nil
  then show ?case by simp
next
  case (Cons x xs)
  then show ?case by (cases "split_on c xs") (auto split: if_splits)
qed

lemma split_on_absent [simp]: "c \<notin> set s \<Longrightarrow> split_on c s = [s]"
  by (induction s) auto

lemma split_on_append_sep: "c \<notin> set a \<Longrightarrow> split_on c (a @ c # b) = a # split_on c b"
  by (induction a) auto

lemma join_split: "join_with [c] (split_on c s) = s"
proof (induction s)
  case Nil
  then show ?case by simp
next
  case (Cons x xs)
  obtain p ps where ps: "split_on c xs = p # ps"
    by (meson list.exhaust split_on_not_Nil)
  with Cons show ?case by (cases ps) auto
qed

lemma split_join:
  "ps \<noteq> [] \<Longrightarrow> (\<And>p. p \<in> set ps \<Longrightarrow> c \<notin> set p) \<Longrightarrow> split_on c (join_with [c] ps) = ps"
proof (induction ps)
  case Nil
  then show ?case by simp
next
  case (Cons p ps)
  then show ?case by (cases ps) (auto simp: split_on_append_sep)
qed

lemma take_length_eq_prefix: "take (length p) s = p \<longleftrightarrow> (\<exists>t. s = p @ t)"
  by (metis append_eq_conv_conj append_take_drop_id)

lemma find_sub_SomeD:
  "find_sub pat s = Some i \<Longrightarrow> i + length pat \<le> length s \<and> take (length pat) (drop i s) = pat"
proof (induction pat s arbitrary: i rule: find_sub.induct)
  case (1 pat s)
  show ?case
  proof (cases "take (length pat) s = pat")
    case True
    with 1(2) have "i = 0" by (simp add: find_sub.simps[of pat s])
    moreover from True have "length pat \<le> length s"
      by (metis length_take min.cobounded1 min_def)
    ultimately show ?thesis using True by simp
  next
    case False
    with 1(2) obtain x xs j where "s = x # xs" "find_sub pat xs = Some j" "i = Suc j"
      by (auto simp: find_sub.simps[of pat s] split: list.splits)
    with 1(1)[OF False] show ?thesis by auto
  qed
qed

lemma find_sub_at:
  "s = a @ pat @ b \<Longrightarrow> \<exists>i\<le>length a. find_sub pat s = Some i"
proof (induction a arbitrary: s)
  case Nil
  then show ?case by (simp add: find_sub.simps)
next
  case (Cons x xs)
  then obtain i where i: "i \<le> length xs" "find_sub pat (xs @ pat @ b) = Some i" by blast
  show ?case
  proof (cases "take (length pat) s = pat")
    case True
    then show ?thesis by (simp add: find_sub.simps[of pat s])
  next
    case False
    with i Cons.prems have "find_sub pat s = Some (Suc i)"
      by (simp add: find_sub.simps[of pat "x # xs @ pat @ b"])
    with i show ?thesis by auto
  qed
qed

lemma find_sub_least:
  assumes "find_sub pat s = Some i" "take (length pat) (drop j s) = pat" "j \<le> length s"
  shows "i \<le> j"
proof -
  have "s = take j s @ drop j s" by simp
  with assms(2) have "s = take j s @ pat @ drop (length pat) (drop j s)"
    by (metis append_take_drop_id)
  then obtain i' where "i' \<le> length (take j s)" "find_sub pat s = Some i'"
    using find_sub_at by blast
  with assms(1,3) show ?thesis by simp
qed

lemma contains_iff: "contains s pat \<longleftrightarrow> (\<exists>a b. s = a @ pat @ b)"
proof
  assume "contains s pat"
  then obtain i where "find_sub pat s = Some i" by (auto simp: contains_def)
  from find_sub_SomeD[OF this] have "s = take i s @ pat @ drop (i + length pat) s"
    by (metis add.commute append_take_drop_id drop_drop)
  then show "\<exists>a b. s = a @ pat @ b" by blast
next
  assume "\<exists>a b. s = a @ pat @ b"
  then show "contains s pat" using find_sub_at by (fastforce simp: contains_def)
qed

lemma starts_with_iff: "starts_with s p \<longleftrightarrow> (\<exists>t. s = p @ t)"
  by (simp add: starts_with_def take_length_eq_prefix)

section \<open>Trimming\<close>

text \<open>
  \<open>str::trim\<close> removes Unicode \<open>White_Space\<close> at both ends: the ASCII characters U+0009 to
  U+000D and U+0020, and U+0085, U+00A0, U+1680, U+2000 to U+200A, U+2028, U+2029, U+202F,
  U+205F and U+3000, listed here by their UTF-8 bytes.
\<close>

definition ws_seqs :: "rstr list" where
  "ws_seqs =
    [[CHR 0x09], [CHR 0x0A], [CHR 0x0B], [CHR 0x0C], [CHR 0x0D], [CHR 0x20],
     [CHR 0xC2, CHR 0x85], [CHR 0xC2, CHR 0xA0], [CHR 0xE1, CHR 0x9A, CHR 0x80],
     [CHR 0xE2, CHR 0x80, CHR 0x80], [CHR 0xE2, CHR 0x80, CHR 0x81],
     [CHR 0xE2, CHR 0x80, CHR 0x82], [CHR 0xE2, CHR 0x80, CHR 0x83],
     [CHR 0xE2, CHR 0x80, CHR 0x84], [CHR 0xE2, CHR 0x80, CHR 0x85],
     [CHR 0xE2, CHR 0x80, CHR 0x86], [CHR 0xE2, CHR 0x80, CHR 0x87],
     [CHR 0xE2, CHR 0x80, CHR 0x88], [CHR 0xE2, CHR 0x80, CHR 0x89],
     [CHR 0xE2, CHR 0x80, CHR 0x8A], [CHR 0xE2, CHR 0x80, CHR 0xA8],
     [CHR 0xE2, CHR 0x80, CHR 0xA9], [CHR 0xE2, CHR 0x80, CHR 0xAF],
     [CHR 0xE2, CHR 0x81, CHR 0x9F], [CHR 0xE3, CHR 0x80, CHR 0x80]]"

lemma ws_seqs_nonempty: "w \<in> set ws_seqs \<Longrightarrow> w \<noteq> []"
  by (auto simp: ws_seqs_def)

function strip_front :: "rstr list \<Rightarrow> rstr \<Rightarrow> rstr" where
  "strip_front ws s =
     (case List.find (\<lambda>w. w \<noteq> [] \<and> starts_with s w) ws of
        None \<Rightarrow> s
      | Some w \<Rightarrow> strip_front ws (drop (length w) s))"
  by pat_completeness auto
termination
proof (relation "measure (\<lambda>(ws, s). length s)", goal_cases)
  case 1
  then show ?case by simp
next
  case (2 ws s w)
  then have "w \<noteq> []" "starts_with s w" by (auto dest: find_SomeD)
  then show ?case by (auto simp: starts_with_iff)
qed

declare strip_front.simps [simp del]

definition trim_start :: "rstr \<Rightarrow> rstr" where
  "trim_start s = strip_front ws_seqs s"

definition trim_end :: "rstr \<Rightarrow> rstr" where
  "trim_end s = rev (strip_front (map rev ws_seqs) (rev s))"

definition trim :: "rstr \<Rightarrow> rstr" where
  "trim s = trim_end (trim_start s)"

lemma strip_front_none:
  "(\<And>w. w \<in> set ws \<Longrightarrow> w \<noteq> [] \<Longrightarrow> \<not> starts_with s w) \<Longrightarrow> strip_front ws s = s"
  by (subst strip_front.simps) (auto split: option.splits dest!: find_SomeD)

section \<open>Numbers\<close>

definition digit_val :: "nat \<Rightarrow> char \<Rightarrow> nat option" where
  "digit_val radix c =
     (let n = (of_char c :: nat);
          v = (if 48 \<le> n \<and> n \<le> 57 then Some (n - 48)
               else if 97 \<le> n \<and> n \<le> 122 then Some (n - 97 + 10)
               else if 65 \<le> n \<and> n \<le> 90 then Some (n - 65 + 10) else None)
      in case v of None \<Rightarrow> None | Some d \<Rightarrow> if d < radix then Some d else None)"

text \<open>The digits from left to right, rejecting a value that leaves the type (\<open>PosOverflow\<close>).\<close>

fun digits_from :: "nat \<Rightarrow> nat \<Rightarrow> nat \<Rightarrow> rstr \<Rightarrow> nat option" where
  "digits_from radix bound acc [] = Some acc"
| "digits_from radix bound acc (c # cs) =
     (case digit_val radix c of
        None \<Rightarrow> None
      | Some d \<Rightarrow> if acc * radix + d < bound then digits_from radix bound (acc * radix + d) cs
                 else None)"

text \<open>
  \<open>from_str_radix\<close> and \<open>parse\<close> of an unsigned type: an empty string and a lone sign are
  errors, a leading plus is accepted, a leading minus is not a digit.
\<close>

definition parse_unsigned :: "nat \<Rightarrow> nat \<Rightarrow> rstr \<Rightarrow> nat option" where
  "parse_unsigned radix bound s =
     (case s of
        [] \<Rightarrow> None
      | c # cs \<Rightarrow>
          if c = CHR ''+'' then (if cs = [] then None else digits_from radix bound 0 cs)
          else digits_from radix bound 0 s)"

lemma digits_from_bound:
  "digits_from r b acc s = Some n \<Longrightarrow> acc < b \<Longrightarrow> n < b"
  by (induction s arbitrary: acc) (auto split: option.splits if_splits)

lemma parse_unsigned_bound: "parse_unsigned r b s = Some n \<Longrightarrow> 0 < b \<Longrightarrow> n < b"
  by (auto simp: parse_unsigned_def simp del: digits_from.simps split: list.splits if_splits
      dest: digits_from_bound)

definition digit_char :: "nat \<Rightarrow> char" where
  "digit_char d = char_of (48 + d)"

fun show_nat :: "nat \<Rightarrow> rstr" where
  "show_nat n = (if n < 10 then [digit_char n] else show_nat (n div 10) @ [digit_char (n mod 10)])"

declare show_nat.simps [simp del]

definition show_int :: "int \<Rightarrow> rstr" where
  "show_int i = (if i < 0 then CHR ''-'' # show_nat (nat (- i)) else show_nat (nat i))"

lemma digit_val_digit_char [simp]: "d < 10 \<Longrightarrow> digit_val 10 (digit_char d) = Some d"
  by (simp add: digit_val_def digit_char_def Let_def of_char_of)

lemma digits_from_show:
  "n < b \<Longrightarrow> digits_from 10 b 0 (show_nat n @ cs) = digits_from 10 b n cs"
proof (induction n arbitrary: cs rule: show_nat.induct)
  case (1 n)
  show ?case
  proof (cases "n < 10")
    case True
    with 1 show ?thesis by (simp add: show_nat.simps[of n])
  next
    case False
    have "n div 10 < b" using 1(2) by auto
    with 1(1)[OF False] False 1(2)
    show ?thesis by (simp add: show_nat.simps[of n] div_mult_mod_eq)
  qed
qed

lemma show_nat_first: "\<exists>c cs. show_nat n = c # cs \<and> c \<noteq> CHR ''+''"
proof (induction n rule: show_nat.induct)
  case (1 n)
  show ?case
  proof (cases "n < 10")
    case True
    then have "(of_char (digit_char n) :: nat) \<noteq> of_char CHR ''+''"
      by (simp add: digit_char_def of_char_of)
    then have "digit_char n \<noteq> CHR ''+''" by metis
    with True show ?thesis by (simp add: show_nat.simps[of n])
  next
    case False
    from 1[OF False] show ?thesis using False by (auto simp: show_nat.simps[of n])
  qed
qed

lemma parse_show_nat: "n < b \<Longrightarrow> parse_unsigned 10 b (show_nat n) = Some n"
  using show_nat_first[of n] digits_from_show[of n b "[]"]
  by (auto simp: parse_unsigned_def)

text \<open>\<open>{:?}\<close> of a list of numbers.\<close>

definition debug_oid :: "oid \<Rightarrow> rstr" where
  "debug_oid o1 = ''['' @ join_with '', '' (map (\<lambda>a. show_nat (unat a)) o1) @ '']''"

definition dotted_oid :: "oid \<Rightarrow> rstr" where
  "dotted_oid o1 = join_with ''.'' (map (\<lambda>a. show_nat (unat a)) o1)"

end
