(* ===== verification/Errors.thy ===== *)
theory Errors
  imports Rust_Str
begin

text \<open>
  \<open>pkinit-core/src/error.rs\<close>: the error type every operation of the core returns, its
  constructors in the source's order with their payloads (message strings are kept exactly as
  the code formats them), the classification that decides which KRB-ERROR the KDC plugin
  sends, and the helper that wraps an ASN.1 library failure.
\<close>

datatype pkinit_error =
    CmsSignFailed rstr
  | CmsVerifyFailed rstr
  | CmsContentTypeMismatch rstr rstr
  | DhParamsRejected rstr
  | DhAgreementFailed rstr
  | KdfFailed rstr
  | SanMismatch rstr
  | EkuMismatch rstr
  | CertMatchRejected rstr
  | IdentityLoadFailed rstr
  | Pkcs12PasswordRequired
  | ChainValidationFailed rstr
  | KdcCaTrustDenied rstr
  | KdcCaTrustUnknown
  | ClockSkew int int
  | ChecksumFailed
  | NonceMismatch u32 u32
  | NoSupportedKdf
  | Asn1 rstr
  | Ossl rstr
  | IoError rstr
  | Config rstr
  | KemEncapFailed rstr
  | KemDecapFailed rstr
  | KemAlgorithmMismatch rstr rstr
  | KemCiphertextLengthInvalid nat nat
  | KemAlgorithmNotSupported rstr
  | NoAcceptableKdf
  | KdfNotOffered rstr
  | NoAcceptableKeyExchange rstr
  | KemNonceNotAllowed
  | DowngradeRejected rstr
  | Unsupported rstr

type_synonym 'a res = "pkinit_error + 'a"

text \<open>A foreign library's failure is the text of its \<open>Display\<close>.\<close>

type_synonym 'a ext = "rstr + 'a"

definition asn1_err :: "rstr \<Rightarrow> rstr \<Rightarrow> pkinit_error" where
  "asn1_err context e = Asn1 (context @ '': '' @ e)"

definition asn1 :: "rstr \<Rightarrow> 'a ext \<Rightarrow> 'a res" where
  "asn1 context m = map_err (asn1_err context) m"

text \<open>\<open>map_err\<close> with a formatted message: the constructor applied to \<open>context: e\<close>.\<close>

definition with_err :: "(rstr \<Rightarrow> pkinit_error) \<Rightarrow> rstr \<Rightarrow> 'a ext \<Rightarrow> 'a res" where
  "with_err con context m = map_err (\<lambda>e. con (context @ '': '' @ e)) m"

datatype kem_error_class =
    EphemeralKeyParamsNotAccepted
  | NoAcceptableKdfClass
  | PreauthFailed
  | InvalidSignature
  | ClientNotTrusted
  | InconsistentKeyPurpose
  | OtherClass

definition error_class :: "pkinit_error \<Rightarrow> kem_error_class" where
  "error_class e =
     (case e of
        KemAlgorithmNotSupported _ \<Rightarrow> EphemeralKeyParamsNotAccepted
      | DhParamsRejected _ \<Rightarrow> EphemeralKeyParamsNotAccepted
      | NoAcceptableKdf \<Rightarrow> NoAcceptableKdfClass
      | NoSupportedKdf \<Rightarrow> NoAcceptableKdfClass
      | KemNonceNotAllowed \<Rightarrow> PreauthFailed
      | CmsVerifyFailed _ \<Rightarrow> InvalidSignature
      | ChainValidationFailed _ \<Rightarrow> ClientNotTrusted
      | EkuMismatch _ \<Rightarrow> InconsistentKeyPurpose
      | _ \<Rightarrow> OtherClass)"

declare asn1_def [code_unfold] with_err_def [code_unfold]

lemma asn1_eq [res]:
  "asn1 c m = Inr x \<longleftrightarrow> m = Inr x"
  "asn1 c m = Inl e \<longleftrightarrow> (\<exists>t. m = Inl t \<and> e = Asn1 (c @ '': '' @ t))"
  by (auto simp: asn1_def asn1_err_def res)

lemma asn1_simps [simp]: "asn1 c (Inr x) = Inr x" "asn1 c (Inl t) = Inl (Asn1 (c @ '': '' @ t))"
  by (simp_all add: asn1_def asn1_err_def)

lemma with_err_eq [res]:
  "with_err k c m = Inr x \<longleftrightarrow> m = Inr x"
  "with_err k c m = Inl e \<longleftrightarrow> (\<exists>t. m = Inl t \<and> e = k (c @ '': '' @ t))"
  by (auto simp: with_err_def res)

lemma with_err_simps [simp]:
  "with_err k c (Inr x) = Inr x" "with_err k c (Inl t) = Inl (k (c @ '': '' @ t))"
  by (simp_all add: with_err_def)

end
