(* ===== verification/Algorithms.thy ===== *)
theory Algorithms
  imports Errors
begin

text \<open>
  \<open>pkinit-core/src/constants.rs\<close>: the DH groups and KEM algorithms, their names, sizes and
  strengths, and the protocol constants.  The object identifiers themselves are constants of
  the \<open>synta\<close> crates, which are not in the repository: they are a table
  \<open>T :: oid_name \<Rightarrow> oid\<close>, a parameter of every definition that compares identifiers.  The only
  law the code needs of the table is that different names have different identifiers
  (\<open>oids_ok\<close>).
\<close>

section \<open>Object identifiers\<close>

datatype oid_name =
    ID_ML_KEM_512 | ID_ML_KEM_768 | ID_ML_KEM_1024
  | ID_MLKEM768_X25519_SHA3_256 | ID_MLKEM768_ECDH_P256_SHA3_256 | ID_MLKEM1024_ECDH_P384_SHA3_256
  | ID_PKINIT_AUTH_DATA | ID_PKINIT_DHKEY_DATA
  | ID_PKINIT_KDF_AH_SHA1 | ID_PKINIT_KDF_AH_SHA256 | ID_PKINIT_KDF_AH_SHA512
  | ID_ALG_HKDF_WITH_SHA512
  | ID_PKINIT_KPCLIENT_AUTH | ID_PKINIT_KPKDC | ID_MS_KP_SMARTCARD_LOGON | ID_KP_SERVER_AUTH
  | ID_ML_DSA_44 | ID_ML_DSA_65 | ID_ML_DSA_87
  | ID_MS_SAN_UPN | ID_SHA256
  | ID_EC_PUBLIC_KEY | DHPUBLICNUMBER | SECP256R1 | SECP384R1 | SECP521R1
  | ID_SIGNED_DATA | PKCS9_CONTENT_TYPE | PKCS9_MESSAGE_DIGEST
  | SUBJECT_ALT_NAME | EXTENDED_KEY_USAGE | KEY_USAGE

type_synonym oid_table = "oid_name \<Rightarrow> oid"

definition ID_PKINIT_KEM_KEY_DATA :: oid where
  "ID_PKINIT_KEM_KEY_DATA = [1, 3, 6, 1, 5, 2, 3, 7]"

definition oids_ok :: "oid_table \<Rightarrow> bool" where
  "oids_ok T \<longleftrightarrow> inj T \<and> ID_PKINIT_KEM_KEY_DATA \<notin> range T"

lemma oids_ok_eq [simp]: "oids_ok T \<Longrightarrow> T a = T b \<longleftrightarrow> a = b"
  by (auto simp: oids_ok_def inj_eq)

lemma oids_ok_kem_key_data [simp]:
  "oids_ok T \<Longrightarrow> T a \<noteq> ID_PKINIT_KEM_KEY_DATA"
  "oids_ok T \<Longrightarrow> ID_PKINIT_KEM_KEY_DATA \<noteq> T a"
  by (metis oids_ok_def rangeI)+

section \<open>Diffie-Hellman groups\<close>

datatype dh_group = Oakley2048 | Oakley4096 | EcP256 | EcP384 | EcP521

definition min_bits :: "dh_group \<Rightarrow> u32" where
  "min_bits g =
     (case g of Oakley2048 \<Rightarrow> 2048 | Oakley4096 \<Rightarrow> 4096
      | EcP256 \<Rightarrow> 256 | EcP384 \<Rightarrow> 384 | EcP521 \<Rightarrow> 521)"

definition is_ec :: "dh_group \<Rightarrow> bool" where
  "is_ec g \<longleftrightarrow> g \<in> {EcP256, EcP384, EcP521}"

definition dh_group_name :: "dh_group \<Rightarrow> rstr" where
  "dh_group_name g =
     (case g of Oakley2048 \<Rightarrow> ''DH-2048'' | Oakley4096 \<Rightarrow> ''DH-4096''
      | EcP256 \<Rightarrow> ''ECDH-P256'' | EcP384 \<Rightarrow> ''ECDH-P384'' | EcP521 \<Rightarrow> ''ECDH-P521'')"

section \<open>KEM algorithms\<close>

datatype kem_algorithm =
    MlKem512 | MlKem768 | MlKem1024 | MlKem768X25519 | MlKem768EcdhP256 | MlKem1024EcdhP384

definition parameter_set_name :: "kem_algorithm \<Rightarrow> rstr" where
  "parameter_set_name a =
     (case a of MlKem512 \<Rightarrow> ''ML-KEM-512'' | MlKem768 \<Rightarrow> ''ML-KEM-768''
      | MlKem1024 \<Rightarrow> ''ML-KEM-1024'' | MlKem768X25519 \<Rightarrow> ''ML-KEM-768-X25519''
      | MlKem768EcdhP256 \<Rightarrow> ''ML-KEM-768-ECDH-P256''
      | MlKem1024EcdhP384 \<Rightarrow> ''ML-KEM-1024-ECDH-P384'')"

definition is_composite :: "kem_algorithm \<Rightarrow> bool" where
  "is_composite a \<longleftrightarrow> a \<in> {MlKem768X25519, MlKem768EcdhP256, MlKem1024EcdhP384}"

definition composite_sub_arc :: "kem_algorithm \<Rightarrow> u32 option" where
  "composite_sub_arc a =
     (case a of MlKem768X25519 \<Rightarrow> Some 58 | MlKem768EcdhP256 \<Rightarrow> Some 59
      | MlKem1024EcdhP384 \<Rightarrow> Some 63 | _ \<Rightarrow> None)"

definition ciphertext_len :: "kem_algorithm \<Rightarrow> nat" where
  "ciphertext_len a =
     (case a of MlKem512 \<Rightarrow> 768 | MlKem768 \<Rightarrow> 1088 | MlKem1024 \<Rightarrow> 1568
      | MlKem768X25519 \<Rightarrow> 1088 + 32 | MlKem768EcdhP256 \<Rightarrow> 1088 + 65
      | MlKem1024EcdhP384 \<Rightarrow> 1568 + 97)"

definition encapsulation_key_len :: "kem_algorithm \<Rightarrow> nat" where
  "encapsulation_key_len a =
     (case a of MlKem512 \<Rightarrow> 800 | MlKem768 \<Rightarrow> 1184 | MlKem1024 \<Rightarrow> 1568
      | MlKem768X25519 \<Rightarrow> 1184 + 32 | MlKem768EcdhP256 \<Rightarrow> 1184 + 65
      | MlKem1024EcdhP384 \<Rightarrow> 1568 + 97)"

definition shared_secret_len :: "kem_algorithm \<Rightarrow> nat" where
  "shared_secret_len a = 32"

definition kem_oid_name :: "kem_algorithm \<Rightarrow> oid_name" where
  "kem_oid_name a =
     (case a of MlKem512 \<Rightarrow> ID_ML_KEM_512 | MlKem768 \<Rightarrow> ID_ML_KEM_768
      | MlKem1024 \<Rightarrow> ID_ML_KEM_1024 | MlKem768X25519 \<Rightarrow> ID_MLKEM768_X25519_SHA3_256
      | MlKem768EcdhP256 \<Rightarrow> ID_MLKEM768_ECDH_P256_SHA3_256
      | MlKem1024EcdhP384 \<Rightarrow> ID_MLKEM1024_ECDH_P384_SHA3_256)"

definition kem_oid :: "oid_table \<Rightarrow> kem_algorithm \<Rightarrow> oid" where
  "kem_oid T a = T (kem_oid_name a)"

definition kem_from_oid :: "oid_table \<Rightarrow> oid \<Rightarrow> kem_algorithm option" where
  "kem_from_oid T o1 =
     (if o1 = T ID_ML_KEM_512 then Some MlKem512
      else if o1 = T ID_ML_KEM_768 then Some MlKem768
      else if o1 = T ID_ML_KEM_1024 then Some MlKem1024
      else if o1 = T ID_MLKEM768_X25519_SHA3_256 then Some MlKem768X25519
      else if o1 = T ID_MLKEM768_ECDH_P256_SHA3_256 then Some MlKem768EcdhP256
      else if o1 = T ID_MLKEM1024_ECDH_P384_SHA3_256 then Some MlKem1024EcdhP384
      else None)"

definition kem_from_name :: "rstr \<Rightarrow> kem_algorithm option" where
  "kem_from_name name =
     (let s = to_ascii_lowercase name in
      if s = ''ml-kem-512'' \<or> s = ''mlkem512'' then Some MlKem512
      else if s = ''ml-kem-768'' \<or> s = ''mlkem768'' then Some MlKem768
      else if s = ''ml-kem-1024'' \<or> s = ''mlkem1024'' then Some MlKem1024
      else if s = ''ml-kem-768-x25519'' \<or> s = ''mlkem768-x25519'' then Some MlKem768X25519
      else if s = ''ml-kem-768-ecdh-p256'' \<or> s = ''mlkem768-ecdh-p256'' then Some MlKem768EcdhP256
      else if s = ''ml-kem-1024-ecdh-p384'' \<or> s = ''mlkem1024-ecdh-p384'' then Some MlKem1024EcdhP384
      else None)"

definition strength_order :: "kem_algorithm \<Rightarrow> nat" where
  "strength_order a =
     (case a of MlKem512 \<Rightarrow> 1 | MlKem768 \<Rightarrow> 3 | MlKem1024 \<Rightarrow> 5
      | MlKem768X25519 \<Rightarrow> 3 | MlKem768EcdhP256 \<Rightarrow> 3 | MlKem1024EcdhP384 \<Rightarrow> 5)"

definition algorithms_at_or_above :: "kem_algorithm \<Rightarrow> kem_algorithm list" where
  "algorithms_at_or_above a =
     (let m = strength_order a in
      filter (\<lambda>b. m \<le> strength_order b) [MlKem512, MlKem768, MlKem1024])"

datatype key_exchange_type = KexDh dh_group | KexKem kem_algorithm

definition key_exchange_display :: "key_exchange_type \<Rightarrow> rstr" where
  "key_exchange_display k =
     (case k of KexDh g \<Rightarrow> dh_group_name g | KexKem a \<Rightarrow> parameter_set_name a)"

section \<open>Protocol constants\<close>

definition PA_PK_AS_REQ :: int where "PA_PK_AS_REQ = 16"
definition PA_PK_AS_REP :: int where "PA_PK_AS_REP = 17"
definition PA_PKINIT_KX :: int where "PA_PKINIT_KX = 147"
definition PA_AS_FRESHNESS :: int where "PA_AS_FRESHNESS = 150"
definition ENCTYPE_AES256_CTS_HMAC_SHA1_96 :: int where "ENCTYPE_AES256_CTS_HMAC_SHA1_96 = 18"
definition KRB5_KEYUSAGE_PA_PKINIT_KX :: int where "KRB5_KEYUSAGE_PA_PKINIT_KX = 44"
definition KRB5_PREAUTH_FAILED :: int where "KRB5_PREAUTH_FAILED = -1765328174"

definition KDF_PREFERENCE_ORDER :: "oid_table \<Rightarrow> oid list" where
  "KDF_PREFERENCE_ORDER T =
     [T ID_PKINIT_KDF_AH_SHA256, T ID_PKINIT_KDF_AH_SHA1, T ID_PKINIT_KDF_AH_SHA512]"

lemmas alg_defs = min_bits_def is_ec_def parameter_set_name_def is_composite_def
  composite_sub_arc_def ciphertext_len_def encapsulation_key_len_def strength_order_def
  kem_oid_name_def dh_group_name_def

section \<open>The security-category order on KEM algorithms\<close>

text \<open>Algorithms of one NIST category are equivalent, so the order is a preorder only.\<close>

instantiation kem_algorithm :: preorder
begin

definition less_eq_kem_algorithm :: "kem_algorithm \<Rightarrow> kem_algorithm \<Rightarrow> bool" where
  "less_eq_kem_algorithm a b \<longleftrightarrow> strength_order a \<le> strength_order b"

definition less_kem_algorithm :: "kem_algorithm \<Rightarrow> kem_algorithm \<Rightarrow> bool" where
  "less_kem_algorithm a b \<longleftrightarrow> strength_order a < strength_order b"

instance
  by standard (auto simp: less_eq_kem_algorithm_def less_kem_algorithm_def)

end

instantiation kem_algorithm :: enum
begin

definition enum_kem_algorithm :: "kem_algorithm list" where
  "enum_kem_algorithm =
     [MlKem512, MlKem768, MlKem1024, MlKem768X25519, MlKem768EcdhP256, MlKem1024EcdhP384]"

definition enum_all_kem_algorithm :: "(kem_algorithm \<Rightarrow> bool) \<Rightarrow> bool" where
  "enum_all_kem_algorithm P \<longleftrightarrow> list_all P enum_class.enum"

definition enum_ex_kem_algorithm :: "(kem_algorithm \<Rightarrow> bool) \<Rightarrow> bool" where
  "enum_ex_kem_algorithm P \<longleftrightarrow> list_ex P enum_class.enum"

lemma kem_algorithm_UNIV:
  "(UNIV :: kem_algorithm set) =
     {MlKem512, MlKem768, MlKem1024, MlKem768X25519, MlKem768EcdhP256, MlKem1024EcdhP384}"
  by (auto intro: kem_algorithm.exhaust)

instance
  by standard (auto simp: enum_kem_algorithm_def enum_all_kem_algorithm_def
      enum_ex_kem_algorithm_def kem_algorithm_UNIV)

end

section \<open>Names and identifiers\<close>

lemma kem_oid_name_inj: "inj kem_oid_name"
proof (rule injI)
  fix a b assume "kem_oid_name a = kem_oid_name b"
  then show "a = b" by (cases a; cases b; simp add: kem_oid_name_def)
qed

lemma kem_oid_inj [simp]: "oids_ok T \<Longrightarrow> kem_oid T a = kem_oid T b \<longleftrightarrow> a = b"
  using kem_oid_name_inj by (auto simp: kem_oid_def inj_eq)

lemma kem_from_oid_Some: "kem_from_oid T o1 = Some a \<Longrightarrow> o1 = kem_oid T a"
  by (auto simp: kem_from_oid_def kem_oid_def kem_oid_name_def split: if_splits)

lemma kem_from_oid_of_oid [simp]: "oids_ok T \<Longrightarrow> kem_from_oid T (kem_oid T a) = Some a"
  by (cases a) (auto simp: kem_from_oid_def kem_oid_def kem_oid_name_def)

lemma algorithms_at_or_above_set:
  "set (algorithms_at_or_above a) = {b. \<not> is_composite b \<and> a \<le> b}"
proof (rule set_eqI)
  fix b
  show "b \<in> set (algorithms_at_or_above a) \<longleftrightarrow> b \<in> {b. \<not> is_composite b \<and> a \<le> b}"
    by (cases b) (simp_all add: algorithms_at_or_above_def less_eq_kem_algorithm_def
        is_composite_def Let_def)
qed

lemma ciphertext_len_pos [simp]: "0 < ciphertext_len a"
  by (cases a) (auto simp: ciphertext_len_def)

section \<open>The registered identifiers\<close>

text \<open>
  The identifiers as their standards register them, the concrete table of the witnesses.
\<close>

definition std_oids :: oid_table where
  "std_oids n =
     (case n of
        ID_ML_KEM_512 \<Rightarrow> [2, 16, 840, 1, 101, 3, 4, 4, 1]
      | ID_ML_KEM_768 \<Rightarrow> [2, 16, 840, 1, 101, 3, 4, 4, 2]
      | ID_ML_KEM_1024 \<Rightarrow> [2, 16, 840, 1, 101, 3, 4, 4, 3]
      | ID_MLKEM768_X25519_SHA3_256 \<Rightarrow> [1, 3, 6, 1, 5, 5, 7, 6, 58]
      | ID_MLKEM768_ECDH_P256_SHA3_256 \<Rightarrow> [1, 3, 6, 1, 5, 5, 7, 6, 59]
      | ID_MLKEM1024_ECDH_P384_SHA3_256 \<Rightarrow> [1, 3, 6, 1, 5, 5, 7, 6, 63]
      | ID_PKINIT_AUTH_DATA \<Rightarrow> [1, 3, 6, 1, 5, 2, 3, 1]
      | ID_PKINIT_DHKEY_DATA \<Rightarrow> [1, 3, 6, 1, 5, 2, 3, 2]
      | ID_PKINIT_KPCLIENT_AUTH \<Rightarrow> [1, 3, 6, 1, 5, 2, 3, 4]
      | ID_PKINIT_KPKDC \<Rightarrow> [1, 3, 6, 1, 5, 2, 3, 5]
      | ID_PKINIT_KDF_AH_SHA1 \<Rightarrow> [1, 3, 6, 1, 5, 2, 3, 6, 1]
      | ID_PKINIT_KDF_AH_SHA256 \<Rightarrow> [1, 3, 6, 1, 5, 2, 3, 6, 2]
      | ID_PKINIT_KDF_AH_SHA512 \<Rightarrow> [1, 3, 6, 1, 5, 2, 3, 6, 3]
      | ID_ALG_HKDF_WITH_SHA512 \<Rightarrow> [1, 2, 840, 113549, 1, 9, 16, 3, 30]
      | ID_MS_KP_SMARTCARD_LOGON \<Rightarrow> [1, 3, 6, 1, 4, 1, 311, 20, 2, 2]
      | ID_MS_SAN_UPN \<Rightarrow> [1, 3, 6, 1, 4, 1, 311, 20, 2, 3]
      | ID_KP_SERVER_AUTH \<Rightarrow> [1, 3, 6, 1, 5, 5, 7, 3, 1]
      | ID_ML_DSA_44 \<Rightarrow> [2, 16, 840, 1, 101, 3, 4, 3, 17]
      | ID_ML_DSA_65 \<Rightarrow> [2, 16, 840, 1, 101, 3, 4, 3, 18]
      | ID_ML_DSA_87 \<Rightarrow> [2, 16, 840, 1, 101, 3, 4, 3, 19]
      | ID_SHA256 \<Rightarrow> [2, 16, 840, 1, 101, 3, 4, 2, 1]
      | ID_EC_PUBLIC_KEY \<Rightarrow> [1, 2, 840, 10045, 2, 1]
      | DHPUBLICNUMBER \<Rightarrow> [1, 2, 840, 10046, 2, 1]
      | SECP256R1 \<Rightarrow> [1, 2, 840, 10045, 3, 1, 7]
      | SECP384R1 \<Rightarrow> [1, 3, 132, 0, 34]
      | SECP521R1 \<Rightarrow> [1, 3, 132, 0, 35]
      | ID_SIGNED_DATA \<Rightarrow> [1, 2, 840, 113549, 1, 7, 2]
      | PKCS9_CONTENT_TYPE \<Rightarrow> [1, 2, 840, 113549, 1, 9, 3]
      | PKCS9_MESSAGE_DIGEST \<Rightarrow> [1, 2, 840, 113549, 1, 9, 4]
      | SUBJECT_ALT_NAME \<Rightarrow> [2, 5, 29, 17]
      | EXTENDED_KEY_USAGE \<Rightarrow> [2, 5, 29, 37]
      | KEY_USAGE \<Rightarrow> [2, 5, 29, 15])"

lemma std_oids_inj: "std_oids a = std_oids b \<Longrightarrow> a = b"
  by (cases a; cases b; simp add: std_oids_def)

lemma std_oids_ok: "oids_ok std_oids"
  unfolding oids_ok_def
proof (intro conjI injI notI)
  show "std_oids a = std_oids b \<Longrightarrow> a = b" for a b by (rule std_oids_inj)
next
  assume "ID_PKINIT_KEM_KEY_DATA \<in> range std_oids"
  then obtain n where "std_oids n = ID_PKINIT_KEM_KEY_DATA" by (metis rangeE)
  then show False by (cases n) (simp_all add: std_oids_def ID_PKINIT_KEM_KEY_DATA_def)
qed

section \<open>Properties\<close>

text \<open>Every KEM algorithm is recognised from its own object identifier, and from nothing
  else: with pairwise different identifiers, \<open>from_oid\<close> is the exact inverse of \<open>oid\<close>.\<close>
theorem kem_oid_roundtrip:
  assumes "oids_ok T"
  shows "kem_from_oid T o1 = Some a \<longleftrightarrow> o1 = kem_oid T a"
  using assms kem_from_oid_Some[of T o1 a] by auto

theorem kem_oid_roundtrip_witness:
  "oids_ok std_oids \<and> kem_from_oid std_oids [2, 16, 840, 1, 101, 3, 4, 4, 2] = Some MlKem768"
  using kem_oid_roundtrip[OF std_oids_ok, of "[2, 16, 840, 1, 101, 3, 4, 4, 2]" MlKem768] std_oids_ok
  by (simp add: kem_oid_def kem_oid_name_def std_oids_def)

text \<open>The name an algorithm displays is a name the configuration parser reads back as that
  algorithm, in any letter case, and two algorithms are in the floor list of a configured
  minimum exactly when they are pure ML-KEM of at least the minimum's category, listed from
  the weakest to the strongest.\<close>
theorem kem_names_and_floor:
  "(to_ascii_lowercase s = to_ascii_lowercase (parameter_set_name a) \<longrightarrow> kem_from_name s = Some a) \<and>
   set (algorithms_at_or_above a) = {b. \<not> is_composite b \<and> a \<le> b} \<and>
   sorted (map strength_order (algorithms_at_or_above a))"
proof (intro conjI impI)
  assume "to_ascii_lowercase s = to_ascii_lowercase (parameter_set_name a)"
  then show "kem_from_name s = Some a"
    by (cases a) (simp_all add: kem_from_name_def parameter_set_name_def to_ascii_lowercase_def
        ascii_lower_def char_of_def bit_0 Let_def)
next
  show "set (algorithms_at_or_above a) = {b. \<not> is_composite b \<and> a \<le> b}"
    by (rule algorithms_at_or_above_set)
next
  show "sorted (map strength_order (algorithms_at_or_above a))"
    by (cases a) (simp_all add: algorithms_at_or_above_def Let_def strength_order_def)
qed

theorem kem_names_and_floor_witness:
  "kem_from_name ''Ml-Kem-1024'' = Some MlKem1024"
  using kem_names_and_floor[of "''Ml-Kem-1024''" MlKem1024]
  by (simp add: to_ascii_lowercase_def ascii_lower_def char_of_def bit_0 parameter_set_name_def Let_def)

end
