(* ===== verification/Kem_Types.thy ===== *)
theory Kem_Types
  imports Algorithms
begin

text \<open>
  \<open>pkinit-core/src/kem_types.rs\<close>: the nonce encoding, the KEM reply structures, the hand
  written DER length reader and writer, the explicit \<open>[2]\<close> wrapper of a KEM reply and the
  \<open>PA-PK-AS-REQ-Hint\<close> encoder and parser.

  The ASN.1 encoders and decoders that the \<open>synta\<close> crates derive for the structures are
  parameters, collected in the record \<open>codec\<close>; \<open>codec_ok\<close> states what the code relies on:
  what an encoder produced, the matching decoder reads back.  An ASN.1 element (the
  parameters of an algorithm identifier) is an opaque value, represented by bytes.
\<close>

section \<open>Wire structures\<close>

type_synonym element = bytes

record alg_id =
  ai_oid :: oid
  ai_params :: "element option"

record kem_rep_info =
  kri_signed_data :: bytes

record kdc_kem_info =
  kki_kem_algorithm :: alg_id
  kki_kemct :: bytes
  kki_kdf_algorithm :: alg_id
  kki_nonce :: "int option"
  kki_server_nonce :: "bytes option"

record kem_supp_pub_info =
  ksp_enctype :: int
  ksp_as_req :: bytes
  ksp_kem_signed_data :: bytes

record codec =
  enc_kem_rep_info :: "kem_rep_info \<Rightarrow> bytes ext"
  dec_kem_rep_info :: "bytes \<Rightarrow> kem_rep_info ext"
  enc_kdc_kem_info :: "kdc_kem_info \<Rightarrow> bytes ext"
  dec_kdc_kem_info :: "bytes \<Rightarrow> kdc_kem_info ext"
  enc_kem_supp_pub_info :: "kem_supp_pub_info \<Rightarrow> bytes ext"
  enc_alg_ids :: "alg_id list \<Rightarrow> bytes ext"
  enc_finish :: "bytes \<Rightarrow> bytes ext"
  dec_alg_ids :: "bytes \<Rightarrow> alg_id list ext"
  element_to_der :: "element \<Rightarrow> bytes ext"
  element_from_der :: "bytes \<Rightarrow> element ext"
  oid_new :: "oid \<Rightarrow> oid ext"
  int_as_i64 :: "int \<Rightarrow> int ext"

definition codec_ok :: "codec \<Rightarrow> bool" where
  "codec_ok C \<longleftrightarrow>
     (\<forall>x d. enc_kem_rep_info C x = Inr d \<longrightarrow> dec_kem_rep_info C d = Inr x) \<and>
     (\<forall>x d. enc_kdc_kem_info C x = Inr d \<longrightarrow> dec_kdc_kem_info C d = Inr x) \<and>
     (\<forall>x d f. enc_alg_ids C x = Inr d \<longrightarrow> enc_finish C d = Inr f \<longrightarrow> dec_alg_ids C f = Inr x) \<and>
     (\<forall>x y. oid_new C x = Inr y \<longrightarrow> y = x) \<and>
     (\<forall>i. -(2 ^ 63) \<le> i \<and> i < 2 ^ 63 \<longrightarrow> int_as_i64 C i = Inr i) \<and>
     (\<forall>i j. int_as_i64 C i = Inr j \<longrightarrow> j = i)"

lemma codec_okD:
  assumes "codec_ok C"
  shows "enc_kem_rep_info C k = Inr d \<Longrightarrow> dec_kem_rep_info C d = Inr k"
    and "enc_kdc_kem_info C i = Inr d \<Longrightarrow> dec_kdc_kem_info C d = Inr i"
    and "enc_alg_ids C a = Inr d \<Longrightarrow> enc_finish C d = Inr f \<Longrightarrow> dec_alg_ids C f = Inr a"
    and "oid_new C p = Inr q \<Longrightarrow> q = p"
    and "-(2 ^ 63) \<le> n \<Longrightarrow> n < 2 ^ 63 \<Longrightarrow> int_as_i64 C n = Inr n"
    and "int_as_i64 C n = Inr m \<Longrightarrow> m = n"
  using assms unfolding codec_ok_def by blast+

section \<open>Nonces\<close>

text \<open>A nonce is held in \<open>i32\<close> storage; only the bit pattern matters, so it is a 32-bit word.\<close>

definition encode_nonce :: "u32 \<Rightarrow> int" where
  "encode_nonce nonce = uint nonce"

definition decode_nonce :: "codec \<Rightarrow> int \<Rightarrow> u32 res" where
  "decode_nonce C value =
     rbind (asn1 ''nonce'' (int_as_i64 C value)) (\<lambda>v.
       if 0 \<le> v \<and> v < 2 ^ 32 then Inr (word_of_int v)
       else Inl (Asn1 (''nonce '' @ show_int v @ '' outside 0..4294967295'')))"

section \<open>DER lengths\<close>

text \<open>\<open>usize\<close> is 64 bits wide on the platforms the plugin is built for.\<close>

definition checked_shl :: "nat \<Rightarrow> nat \<Rightarrow> nat option" where
  "checked_shl a n = (if n < 64 then Some ((a * 2 ^ n) mod 2 ^ 64) else None)"

definition checked_add :: "nat \<Rightarrow> nat \<Rightarrow> nat option" where
  "checked_add a b = (if a + b < 2 ^ 64 then Some (a + b) else None)"

fun der_length_loop :: "nat \<Rightarrow> bytes \<Rightarrow> nat res" where
  "der_length_loop len [] = Inr len"
| "der_length_loop len (b # bs) =
     rbind (ok_or (Option.bind (checked_shl len 8) (\<lambda>l. checked_add l (unat b)))
              (Asn1 ''DER length: overflow''))
       (\<lambda>len'. der_length_loop len' bs)"

definition der_parse_length :: "bytes \<Rightarrow> (nat \<times> nat) res" where
  "der_parse_length data =
     (case data of
        [] \<Rightarrow> Inl (Asn1 ''DER length: unexpected end'')
      | first # rest \<Rightarrow>
          if unat first < 128 then Inr (unat first, 1)
          else
            (let n = unat (and first 127) in
             if n = 0 \<or> n > 4 \<or> length data < 1 + n then
               Inl (Asn1 ''DER length: invalid long form'')
             else rbind (der_length_loop 0 (take n rest)) (\<lambda>len. Inr (len, 1 + n))))"

definition der_encode_length :: "nat \<Rightarrow> bytes \<Rightarrow> bytes" where
  "der_encode_length len out1 =
     (if len < 128 then out1 @ [of_nat len]
      else if len \<le> 255 then out1 @ [129, of_nat len]
      else if len \<le> 65535 then out1 @ [130, of_nat (len div 256), of_nat len]
      else if len \<le> 16777215 then
        out1 @ [131, of_nat (len div 65536), of_nat (len div 256), of_nat len]
      else
        out1 @ [132, of_nat (len div 16777216), of_nat (len div 65536), of_nat (len div 256),
               of_nat len])"

text \<open>
  The pattern the parsers repeat: read the length after the tag byte, check that the content
  is there, and return it.  Bytes after the content are ignored.
\<close>

definition read_tlv :: "(bytes \<Rightarrow> (nat \<times> nat) res) \<Rightarrow> rstr \<Rightarrow> bytes \<Rightarrow> bytes res" where
  "read_tlv parse_len truncated der =
     rbind (parse_len (drop 1 der)) (\<lambda>(len, header_size).
       if length der < 1 + header_size + len then Inl (Asn1 truncated)
       else Inr (take len (drop (1 + header_size) der)))"

section \<open>The length codec as an interface\<close>

text \<open>
  What the TLV readers and writers need of a length encoding: below a limit, what was written
  is read back together with its own size, whatever follows.
\<close>

locale length_codec =
  fixes enc_len :: "nat \<Rightarrow> bytes \<Rightarrow> bytes"
    and parse_len :: "bytes \<Rightarrow> (nat \<times> nat) res"
    and limit :: nat
  assumes enc_len_append: "enc_len n out1 = out1 @ enc_len n []"
    and parse_enc: "n < limit \<Longrightarrow> parse_len (enc_len n [] @ rest) = Inr (n, length (enc_len n []))"
begin

lemma read_written:
  assumes "length content < limit"
  shows "read_tlv parse_len err (enc_len (length content) [tag] @ content @ rest) = Inr content"
proof -
  have "enc_len (length content) [tag] = tag # enc_len (length content) []"
    by (subst enc_len_append) simp
  then show ?thesis using assms by (simp add: read_tlv_def parse_enc)
qed

lemma read_written_end:
  "length content < limit \<Longrightarrow>
   read_tlv parse_len err (enc_len (length content) [tag] @ content) = Inr content"
  using read_written[of content err tag "[]"] by simp

lemma first_byte [simp]: "hd (enc_len n [tag] @ rest) = tag" "enc_len n [tag] \<noteq> []"
  by (subst enc_len_append; simp)+

end

lemma der_length_loop_bytes:
  "len * 256 ^ length bs + 256 ^ length bs \<le> 2 ^ 64 \<Longrightarrow>
   der_length_loop len bs = Inr (foldl (\<lambda>a b. a * 256 + unat b) len bs)"
proof (induction bs arbitrary: len)
  case Nil
  then show ?case by simp
next
  case (Cons b bs)
  let ?l = "len * 256 + unat b"
  have b: "unat b < 256" by simp
  have "?l * 256 ^ length bs + 256 ^ length bs = (?l + 1) * 256 ^ length bs"
    by (simp add: algebra_simps)
  also have "\<dots> \<le> (len * 256 + 256) * 256 ^ length bs"
    using b by (intro mult_le_mono1) linarith
  also have "\<dots> = len * 256 ^ length (b # bs) + 256 ^ length (b # bs)"
    by (simp add: algebra_simps)
  finally have l: "?l * 256 ^ length bs + 256 ^ length bs \<le> 2 ^ 64"
    using Cons.prems by linarith
  have "(1 :: nat) \<le> 256 ^ length bs" by simp
  then have "?l * 1 + 1 \<le> ?l * 256 ^ length bs + 256 ^ length bs"
    by (intro add_mono mult_le_mono2)
  from this l have "?l * 1 + 1 \<le> 2 ^ 64" by (rule le_trans)
  then have small: "?l < 2 ^ 64" by simp
  then have "checked_shl len 8 = Some (len * 256)" by (simp add: checked_shl_def)
  moreover have "checked_add (len * 256) (unat b) = Some ?l"
    using small by (simp add: checked_add_def)
  ultimately show ?case using Cons.IH[OF l] by simp
qed

lemma of_nat_byte_unat: "unat (of_nat n :: byte) = n mod 256"
  by (rule unat_of_nat_byte_mod)

lemma der_encode_length_append: "der_encode_length n out1 = out1 @ der_encode_length n []"
  by (simp add: der_encode_length_def)

lemma digits_256:
  fixes n :: nat
  shows "n div 256 mod 256 * 256 + n mod 256 = n mod 65536"
    "(n div 65536 mod 256 * 256 + n div 256 mod 256) * 256 + n mod 256 = n mod 16777216"
    "((n div 16777216 mod 256 * 256 + n div 65536 mod 256) * 256 + n div 256 mod 256) * 256
       + n mod 256 = n mod 4294967296"
proof -
  have *: "n mod (256 * k) = 256 * (n div 256 mod k) + n mod 256" for k
    by (rule mod_mult2_eq)
  have d: "n div 256 div 256 = n div 65536" "n div 65536 div 256 = n div 16777216"
    by (simp_all add: div_mult2_eq [symmetric])
  show 1: "n div 256 mod 256 * 256 + n mod 256 = n mod 65536"
    using *[of 256] by simp
  have **: "n div 256 mod (256 * k) = 256 * (n div 65536 mod k) + n div 256 mod 256" for k
    using mod_mult2_eq[of "n div 256" 256 k] by (simp add: d)
  show "(n div 65536 mod 256 * 256 + n div 256 mod 256) * 256 + n mod 256 = n mod 16777216"
    using *[of 65536] **[of 256] by simp
  have "n div 65536 mod (256 * 256) = 256 * (n div 16777216 mod 256) + n div 65536 mod 256"
    using mod_mult2_eq[of "n div 65536" 256 256] by (simp add: d)
  then show "((n div 16777216 mod 256 * 256 + n div 65536 mod 256) * 256 + n div 256 mod 256) * 256
       + n mod 256 = n mod 4294967296"
    using *[of 16777216] **[of 65536] by simp
qed

lemma der_parse_encode:
  "der_parse_length (der_encode_length n [] @ rest)
     = Inr (n mod 2 ^ 32, length (der_encode_length n []))"
proof -
  consider "n < 128" | "128 \<le> n" "n \<le> 255" | "255 < n" "n \<le> 65535"
    | "65535 < n" "n \<le> 16777215" | "16777215 < n" by linarith
  then show ?thesis
    using digits_256[of n]
    by cases (simp_all add: der_encode_length_def der_parse_length_def der_length_loop_bytes
        of_nat_byte_unat del: der_length_loop.simps)
qed

interpretation der: length_codec der_encode_length der_parse_length "2 ^ 32"
proof unfold_locales
  fix n out1
  show "der_encode_length n out1 = out1 @ der_encode_length n []"
    by (rule der_encode_length_append)
next
  fix n :: nat and rest
  assume "n < 2 ^ 32"
  then show "der_parse_length (der_encode_length n [] @ rest)
      = Inr (n, length (der_encode_length n []))"
    by (simp add: der_parse_encode)
qed

section \<open>The kemInfo wrapper\<close>

definition PA_PK_AS_REP_KEM_TAG :: byte where
  "PA_PK_AS_REP_KEM_TAG = 0xA2"

definition is_kem_rep :: "bytes \<Rightarrow> bool" where
  "is_kem_rep pa_rep_der \<longleftrightarrow>
     (case pa_rep_der of [] \<Rightarrow> False | b # _ \<Rightarrow> b = PA_PK_AS_REP_KEM_TAG)"

definition decode_kem_rep_content :: "bytes \<Rightarrow> bytes res" where
  "decode_kem_rep_content pa_rep_der =
     (if \<not> is_kem_rep pa_rep_der then Inl (Asn1 ''PA-PK-AS-REP: expected kemInfo [2] tag'')
      else read_tlv der_parse_length ''kemInfo: truncated content'' pa_rep_der)"

definition encode_kem_rep_wrapper :: "codec \<Rightarrow> kem_rep_info \<Rightarrow> bytes res" where
  "encode_kem_rep_wrapper C info =
     rbind (asn1 ''encode KEMRepInfo'' (enc_kem_rep_info C info)) (\<lambda>inner_der.
       Inr (der_encode_length (length inner_der) [PA_PK_AS_REP_KEM_TAG] @ inner_der))"

section \<open>The algorithm hint\<close>

type_synonym offered_algorithm = "oid \<times> bytes option"

definition offered_algorithm :: "codec \<Rightarrow> alg_id \<Rightarrow> offered_algorithm res" where
  "offered_algorithm C a =
     (case ai_params a of
        None \<Rightarrow> Inr (ai_oid a, None)
      | Some e \<Rightarrow>
          rbind (asn1 ''encode algorithm parameters'' (element_to_der C e)) (\<lambda>d.
            Inr (ai_oid a, Some d)))"

definition encode_pkinit_hint_alg_ids :: "codec \<Rightarrow> alg_id list \<Rightarrow> bytes res" where
  "encode_pkinit_hint_alg_ids C alg_ids =
     rbind (asn1 ''encode alg ids'' (enc_alg_ids C alg_ids)) (\<lambda>st.
     rbind (asn1 ''finish alg ids'' (enc_finish C st)) (\<lambda>seq_of_der.
       let tagged = der_encode_length (length seq_of_der) [0xA0] @ seq_of_der
       in Inr (der_encode_length (length tagged) [0x30] @ tagged)))"

definition parse_pkinit_hint :: "codec \<Rightarrow> bytes \<Rightarrow> offered_algorithm list res" where
  "parse_pkinit_hint C hint_der =
     (if hint_der = [] \<or> hd hint_der \<noteq> 0x30 then
        Inl (Asn1 ''PA-PK-AS-REQ-Hint: expected SEQUENCE'')
      else
        rbind (read_tlv der_parse_length ''PA-PK-AS-REQ-Hint: truncated outer SEQUENCE'' hint_der)
          (\<lambda>outer_content.
        if outer_content = [] then Inr []
        else if hd outer_content \<noteq> 0xA0 then Inr []
        else
          rbind (read_tlv der_parse_length ''PA-PK-AS-REQ-Hint: truncated [0] content''
                   outer_content) (\<lambda>tag0_content.
          rbind (asn1 ''decode ephemeralKeyParameters'' (dec_alg_ids C tag0_content)) (\<lambda>alg_ids.
            traverse (offered_algorithm C) alg_ids))))"

section \<open>A concrete codec\<close>

text \<open>
  For the witnesses: a codec that knows a finite table of messages, here the known-answer
  encodings the repository's tests record.
\<close>

definition table_enc :: "('a \<times> bytes) list \<Rightarrow> 'a \<Rightarrow> bytes ext" where
  "table_enc tab x = (case map_of tab x of None \<Rightarrow> Inl ''encode'' | Some d \<Rightarrow> Inr d)"

definition table_dec :: "('a \<times> bytes) list \<Rightarrow> bytes \<Rightarrow> 'a ext" where
  "table_dec tab d =
     (case List.find (\<lambda>(x, e). e = d) tab of None \<Rightarrow> Inl ''decode'' | Some (x, e) \<Rightarrow> Inr x)"

lemma table_roundtrip:
  assumes "distinct (map snd tab)" "table_enc tab x = Inr d"
  shows "table_dec tab d = Inr x"
proof -
  from assms(2) have m: "(x, d) \<in> set tab"
    by (auto simp: table_enc_def split: option.splits dest: map_of_SomeD)
  show ?thesis
  proof (cases "List.find (\<lambda>(x, e). e = d) tab")
    case None
    with m show ?thesis by (auto dest: find_NoneD)
  next
    case (Some p)
    then have "p \<in> set tab" "snd p = d" by (auto dest: find_SomeD)
    with m assms(1) have "p = (x, d)"
      by (metis distinct_map inj_on_eq_iff snd_conv)
    with Some show ?thesis by (simp add: table_dec_def)
  qed
qed

lemma table_roundtrip_dec:
  "distinct (map fst tab) \<Longrightarrow> table_dec tab d = Inr x \<Longrightarrow> table_enc tab x = Inr d"
proof -
  assume d: "distinct (map fst tab)" "table_dec tab d = Inr x"
  then have "(x, d) \<in> set tab" by (auto simp: table_dec_def split: option.splits dest!: find_SomeD)
  with d(1) have "map_of tab x = Some d" by simp
  then show ?thesis by (simp add: table_enc_def)
qed

definition demo_alg_ids :: "alg_id list" where
  "demo_alg_ids = [\<lparr>ai_oid = std_oids ID_ML_KEM_768, ai_params = None\<rparr>,
                   \<lparr>ai_oid = std_oids ID_EC_PUBLIC_KEY, ai_params = Some [6, 5]\<rparr>]"

definition demo_codec :: codec where
  "demo_codec = \<lparr>
     enc_kem_rep_info = table_enc [(\<lparr>kri_signed_data = [83, 68]\<rparr>, [0x30, 4, 0x80, 2, 83, 68])],
     dec_kem_rep_info = table_dec [(\<lparr>kri_signed_data = [83, 68]\<rparr>, [0x30, 4, 0x80, 2, 83, 68])],
     enc_kdc_kem_info = (\<lambda>_. Inl ''encode''),
     dec_kdc_kem_info = (\<lambda>_. Inl ''decode''),
     enc_kem_supp_pub_info = (\<lambda>_. Inl ''encode''),
     enc_alg_ids = table_enc [(demo_alg_ids, [0x30, 2, 5, 0])],
     enc_finish = Inr,
     dec_alg_ids = table_dec [(demo_alg_ids, [0x30, 2, 5, 0])],
     element_to_der = Inr,
     element_from_der = Inr,
     oid_new = Inr,
     int_as_i64 = (\<lambda>v. if - (2 ^ 63) \<le> v \<and> v < 2 ^ 63 then Inr v else Inl ''range'')\<rparr>"

lemma demo_codec_ok: "codec_ok demo_codec"
  unfolding codec_ok_def
  by (simp add: demo_codec_def) (auto intro!: table_roundtrip)

section \<open>Properties\<close>

lemma uint_32_lt: "uint (w :: u32) < 4294967296"
  using uint_bounded[of w] by simp

lemma decode_encode_nonce:
  assumes "codec_ok C"
  shows "decode_nonce C (encode_nonce n) = Inr n"
proof -
  have lo: "- (2 ^ 63) \<le> uint n" by (rule order.trans[of _ 0]) simp_all
  have hi: "uint n < 2 ^ 63" by (rule less_trans[OF uint_32_lt]) simp
  from lo hi have "int_as_i64 C (uint n) = Inr (uint n)"
    by (rule codec_okD(5)[OF assms])
  then show ?thesis
    using uint_32_lt[of n] by (simp add: decode_nonce_def encode_nonce_def)
qed

lemma decode_nonce_Inr:
  "decode_nonce C v = Inr n \<Longrightarrow> \<exists>i. int_as_i64 C v = Inr i \<and> i = uint n"
  by (auto simp: decode_nonce_def res word_of_int_inverse[OF refl] split: if_splits)

lemma decode_nonce_exact: "codec_ok C \<Longrightarrow> decode_nonce C v = Inr n \<Longrightarrow> v = uint n"
  using decode_nonce_Inr[of C v n] codec_okD(6)[of C v] by auto

lemma kem_rep_wrapper_tag: "encode_kem_rep_wrapper C i = Inr w \<Longrightarrow> is_kem_rep w"
  by (auto simp: encode_kem_rep_wrapper_def res is_kem_rep_def
      der_encode_length_append[of _ "[PA_PK_AS_REP_KEM_TAG]"])

text \<open>The DER length reader inverts the DER length writer for every length, whatever bytes
  follow, and consumes exactly the bytes written: it reads the length modulo 2^32, so it is
  exact for every content below 4 GiB and truncates above, as the four-byte long form does.\<close>
theorem der_length_roundtrip:
  "der_parse_length (der_encode_length n [] @ rest)
     = Inr (n mod 2 ^ 32, length (der_encode_length n []))"
  using der_parse_encode[of n rest] .

lemma wrapped_rep_unwraps:
  assumes "codec_ok C" "encode_kem_rep_wrapper C info = Inr w" "length w < 2 ^ 32"
  shows "is_kem_rep (w @ rest) \<and>
    (\<exists>d. decode_kem_rep_content (w @ rest) = Inr d \<and> dec_kem_rep_info C d = Inr info)"
proof -
  from assms(2) obtain d where d: "enc_kem_rep_info C info = Inr d"
    and w: "w = der_encode_length (length d) [PA_PK_AS_REP_KEM_TAG] @ d"
    by (auto simp: encode_kem_rep_wrapper_def res)
  have tag: "is_kem_rep (w @ rest)"
    using kem_rep_wrapper_tag[OF assms(2)] by (auto simp: is_kem_rep_def split: list.splits)
  have "length d < 2 ^ 32" using w assms(3) by simp
  then have "decode_kem_rep_content (w @ rest) = Inr d"
    using tag by (simp add: decode_kem_rep_content_def w der.read_written)
  with tag codec_okD(1)[OF assms(1) d] show ?thesis by blast
qed

text \<open>A KEM reply that the KDC wraps as \<open>PA-PK-AS-REP.kemInfo\<close> carries the kemInfo tag, so
  the client dispatches it to its KEM path, and unwrapping it (even with trailing bytes) gives
  back the DER of the same \<open>KEMRepInfo\<close>, provided the reply is below 4 GiB.\<close>
theorem kem_rep_wrapper_roundtrip:
  assumes "codec_ok C" "encode_kem_rep_wrapper C info = Inr w" "length w < 2 ^ 32"
  shows "is_kem_rep (w @ rest) \<and>
    (\<exists>d. decode_kem_rep_content (w @ rest) = Inr d \<and> dec_kem_rep_info C d = Inr info)"
  by (rule wrapped_rep_unwraps[OF assms])

theorem kem_rep_wrapper_roundtrip_witness:
  "codec_ok demo_codec \<and>
   encode_kem_rep_wrapper demo_codec \<lparr>kri_signed_data = [83, 68]\<rparr>
     = Inr [0xA2, 6, 0x30, 4, 0x80, 2, 83, 68] \<and>
   is_kem_rep ([0xA2, 6, 0x30, 4, 0x80, 2, 83, 68] @ [0])"
proof -
  have e: "encode_kem_rep_wrapper demo_codec \<lparr>kri_signed_data = [83, 68]\<rparr>
     = Inr [0xA2, 6, 0x30, 4, 0x80, 2, 83, 68]"
    by (simp add: encode_kem_rep_wrapper_def demo_codec_def table_enc_def der_encode_length_def
        PA_PK_AS_REP_KEM_TAG_def)
  show ?thesis using kem_rep_wrapper_roundtrip[OF demo_codec_ok e, of "[0]"] e demo_codec_ok by simp
qed

text \<open>The hint the KDC advertises is read back by the client as exactly the algorithms that
  were encoded, in the same order, each with the DER of its parameters.\<close>
theorem pkinit_hint_roundtrip:
  assumes "codec_ok C" "encode_pkinit_hint_alg_ids C ids = Inr h" "length h < 2 ^ 32"
  shows "parse_pkinit_hint C h = traverse (offered_algorithm C) ids"
proof -
  from assms(2) obtain st s where enc: "enc_alg_ids C ids = Inr st" "enc_finish C st = Inr s"
    and h: "h = der_encode_length (length (der_encode_length (length s) [0xA0] @ s)) [0x30]
              @ der_encode_length (length s) [0xA0] @ s"
    by (auto simp: encode_pkinit_hint_alg_ids_def res Let_def)
  let ?t = "der_encode_length (length s) [0xA0] @ s"
  have "length ?t < 2 ^ 32" using h assms(3) by simp
  then have outer: "read_tlv der_parse_length e h = Inr ?t" for e
    using der.read_written_end[of ?t] h by simp
  have "length s < 2 ^ 32" using h assms(3) by simp
  then have inner: "read_tlv der_parse_length e ?t = Inr s" for e
    by (rule der.read_written_end)
  have "h \<noteq> [] \<and> hd h = 0x30" by (simp add: h)
  with outer inner codec_okD(3)[OF assms(1) enc] show ?thesis
    by (simp add: parse_pkinit_hint_def)
qed

theorem pkinit_hint_roundtrip_witness:
  "\<exists>h. encode_pkinit_hint_alg_ids demo_codec demo_alg_ids = Inr h \<and>
     parse_pkinit_hint demo_codec h
       = Inr [(std_oids ID_ML_KEM_768, None), (std_oids ID_EC_PUBLIC_KEY, Some [6, 5])]"
proof -
  have e: "encode_pkinit_hint_alg_ids demo_codec demo_alg_ids
      = Inr [0x30, 6, 0xA0, 4, 0x30, 2, 5, 0]"
    by (simp add: encode_pkinit_hint_alg_ids_def demo_codec_def table_enc_def der_encode_length_def)
  show ?thesis
    using pkinit_hint_roundtrip[OF demo_codec_ok e] e
    by (simp add: demo_alg_ids_def offered_algorithm_def demo_codec_def)
qed

text \<open>The nonce check cannot be bypassed by re-encoding: a decoded nonce is the unique 32-bit
  word whose unsigned value is the INTEGER read, every nonce survives encoding, and an INTEGER
  outside 0..4294967295 is refused.\<close>
theorem nonce_encoding:
  assumes "codec_ok C"
  shows "decode_nonce C (encode_nonce n) = Inr n \<and>
    (- (2 ^ 63) \<le> v \<and> v < 2 ^ 63 \<longrightarrow>
       (decode_nonce C v = Inr m \<longleftrightarrow> v = encode_nonce m) \<and>
       (\<not> (0 \<le> v \<and> v \<le> 4294967295) \<longrightarrow> (\<exists>e. decode_nonce C v = Inl e)))"
proof (intro conjI impI)
  show "decode_nonce C (encode_nonce n) = Inr n" by (rule decode_encode_nonce[OF assms])
next
  assume v: "- (2 ^ 63) \<le> v \<and> v < 2 ^ 63"
  show "decode_nonce C v = Inr m \<longleftrightarrow> v = encode_nonce m"
  proof
    assume "decode_nonce C v = Inr m"
    with codec_okD(5)[OF assms] v show "v = encode_nonce m"
      by (auto simp: encode_nonce_def dest: decode_nonce_Inr)
  next
    assume "v = encode_nonce m"
    then show "decode_nonce C v = Inr m" by (simp add: decode_encode_nonce[OF assms])
  qed
next
  assume v: "- (2 ^ 63) \<le> v \<and> v < 2 ^ 63" and out: "\<not> (0 \<le> v \<and> v \<le> 4294967295)"
  with codec_okD(5)[OF assms] show "\<exists>e. decode_nonce C v = Inl e"
    by (auto simp: decode_nonce_def)
qed

theorem nonce_encoding_witness:
  "codec_ok demo_codec \<and> decode_nonce demo_codec 4294967295 = Inr 4294967295 \<and>
   (\<exists>e. decode_nonce demo_codec (- 5) = Inl e)"
  using nonce_encoding[OF demo_codec_ok, of 4294967295 "- 5"]
    demo_codec_ok
  by (simp add: encode_nonce_def)

end
