(* ===== verification/Checksum.thy ===== *)
theory Checksum
  imports Kem_Types
begin

text \<open>
  \<open>pkinit-core/src/crypto/checksum.rs\<close>: the request-body checksums of the PKAuthenticator
  (\<open>paChecksum\<close>, SHA-1 or SHA-256, and \<open>paChecksum2\<close> with an explicit algorithm), their
  generation by the client and their verification by the KDC.  The hash functions, the table
  from digest identifiers to names and the constant-time comparison are library code: the
  record \<open>hash_ops\<close>, with the laws \<open>hash_ok\<close>.
\<close>

record hash_ops =
  hash_data :: "rstr \<Rightarrow> bytes \<Rightarrow> bytes ext"
  digest_oid_to_name :: "oid \<Rightarrow> rstr option"
  ct_eq :: "bytes \<Rightarrow> bytes \<Rightarrow> bool"

definition hash_ok :: "hash_ops \<Rightarrow> bool" where
  "hash_ok H \<longleftrightarrow>
     (\<forall>a b. ct_eq H a b \<longleftrightarrow> a = b) \<and>
     (\<forall>d h. hash_data H ''sha1'' d = Inr h \<longrightarrow> length h = 20) \<and>
     (\<forall>d h. hash_data H ''sha256'' d = Inr h \<longrightarrow> length h = 32)"

record checksums =
  cs_sha1 :: bytes
  cs_sha256 :: bytes

definition generate_checksums :: "hash_ops \<Rightarrow> bytes \<Rightarrow> checksums res" where
  "generate_checksums H req_body_der =
     rbind (with_err Ossl ''SHA-1 hash failed'' (hash_data H ''sha1'' req_body_der)) (\<lambda>sha1.
     rbind (with_err Ossl ''SHA-256 hash failed'' (hash_data H ''sha256'' req_body_der)) (\<lambda>sha256.
       Inr \<lparr>cs_sha1 = sha1, cs_sha256 = sha256\<rparr>))"

definition hash_for_algorithm :: "hash_ops \<Rightarrow> rstr \<Rightarrow> bytes \<Rightarrow> bytes res" where
  "hash_for_algorithm H algorithm data =
     with_err Ossl (algorithm @ '' hash failed'') (hash_data H algorithm data)"

definition verify_checksum2 :: "hash_ops \<Rightarrow> bytes \<Rightarrow> bytes \<Rightarrow> oid \<Rightarrow> unit res" where
  "verify_checksum2 H req_body_der checksum_bytes algorithm_oid =
     rbind (ok_or (digest_oid_to_name H algorithm_oid) ChecksumFailed) (\<lambda>alg.
     rbind (hash_for_algorithm H alg req_body_der) (\<lambda>expected.
       ensure (ct_eq H expected checksum_bytes) ChecksumFailed))"

definition verify_checksums ::
    "hash_ops \<Rightarrow> bytes \<Rightarrow> bytes \<Rightarrow> (bytes \<times> oid) option \<Rightarrow> unit res" where
  "verify_checksums H req_body_der pa_checksum pa_checksum2 =
     rbind (generate_checksums H req_body_der) (\<lambda>computed.
     rbind
       (if length pa_checksum = 32 then ensure (ct_eq H (cs_sha256 computed) pa_checksum) ChecksumFailed
        else if length pa_checksum = 20 then
          ensure (ct_eq H (cs_sha1 computed) pa_checksum) ChecksumFailed
        else Inl ChecksumFailed) (\<lambda>_.
       (case pa_checksum2 of
          Some (checksum_bytes, algorithm_oid) \<Rightarrow>
            verify_checksum2 H req_body_der checksum_bytes algorithm_oid
        | None \<Rightarrow> Inr ())))"

lemma generate_checksums_Inr:
  "generate_checksums H b = Inr c \<longleftrightarrow>
     hash_data H ''sha1'' b = Inr (cs_sha1 c) \<and> hash_data H ''sha256'' b = Inr (cs_sha256 c)"
  by (cases c) (auto simp: generate_checksums_def res)

lemma verify_checksum2_Inr:
  "hash_ok H \<Longrightarrow> verify_checksum2 H b c o2 = Inr u \<longleftrightarrow>
     (\<exists>alg. digest_oid_to_name H o2 = Some alg \<and> hash_data H alg b = Inr c)"
  by (auto simp: verify_checksum2_def hash_for_algorithm_def res hash_ok_def)

lemma verify_checksums_Inr:
  assumes "hash_ok H" "generate_checksums H body = Inr cs"
  shows "verify_checksums H body c1 c2 = Inr () \<longleftrightarrow>
    c1 \<in> {cs_sha256 cs, cs_sha1 cs} \<and>
    (\<forall>b o2. c2 = Some (b, o2) \<longrightarrow>
       (\<exists>alg. digest_oid_to_name H o2 = Some alg \<and> hash_data H alg body = Inr b))"
proof -
  have len: "length (cs_sha1 cs) = 20" "length (cs_sha256 cs) = 32"
    using assms by (auto simp: generate_checksums_Inr hash_ok_def)
  have eq: "ct_eq H a b \<longleftrightarrow> a = b" for a b using assms(1) by (simp add: hash_ok_def)
  have first: "(if length c1 = 32 then ensure (ct_eq H (cs_sha256 cs) c1) ChecksumFailed
      else if length c1 = 20 then ensure (ct_eq H (cs_sha1 cs) c1) ChecksumFailed
      else Inl ChecksumFailed) = Inr u \<longleftrightarrow> c1 \<in> {cs_sha256 cs, cs_sha1 cs}" for u
    using len by (auto simp: res eq)
  show ?thesis
    by (cases c2) (auto simp: verify_checksums_def assms(2) rbind_eq_Inr first
        verify_checksum2_Inr[OF assms(1)])
qed

text \<open>The KDC accepts a pair of checksums exactly when the first is the SHA-256 or the SHA-1
  of the request body (told apart by its length) and the second, if present, is the hash of
  the body under a digest algorithm the library knows.  A checksum of any other length is
  refused.\<close>
theorem verify_checksums_iff:
  assumes "hash_ok H" "generate_checksums H body = Inr cs"
  shows "verify_checksums H body c1 c2 = Inr () \<longleftrightarrow>
    c1 \<in> {cs_sha256 cs, cs_sha1 cs} \<and>
    (\<forall>b o2. c2 = Some (b, o2) \<longrightarrow>
       (\<exists>alg. digest_oid_to_name H o2 = Some alg \<and> hash_data H alg body = Inr b))"
  by (rule verify_checksums_Inr[OF assms])

definition demo_hash :: hash_ops where
  "demo_hash = \<lparr>
     hash_data = (\<lambda>alg d. if alg = ''sha1'' then Inr (take 20 (d @ replicate 20 0))
                         else if alg = ''sha256'' then Inr (take 32 (d @ replicate 32 1))
                         else if alg = ''sha512'' then Inr (take 64 (d @ replicate 64 2))
                         else Inl ''unknown digest''),
     digest_oid_to_name = (\<lambda>o1. if o1 = std_oids ID_SHA256 then Some ''sha256'' else None),
     ct_eq = (=)\<rparr>"

lemma demo_hash_ok: "hash_ok demo_hash"
  by (auto simp: hash_ok_def demo_hash_def)

theorem verify_checksums_iff_witness:
  "hash_ok demo_hash \<and>
   verify_checksums demo_hash [7] (7 # replicate 19 0)
     (Some (7 # replicate 31 1, std_oids ID_SHA256)) = Inr () \<and>
   verify_checksums demo_hash [7] [7] None \<noteq> Inr ()"
proof -
  have g: "generate_checksums demo_hash [7]
      = Inr \<lparr>cs_sha1 = 7 # replicate 19 0, cs_sha256 = 7 # replicate 31 1\<rparr>"
    by (simp add: generate_checksums_def demo_hash_def)
  show ?thesis
    using verify_checksums_iff[OF demo_hash_ok g, of "7 # replicate 19 0"
        "Some (7 # replicate 31 1, std_oids ID_SHA256)"]
      verify_checksums_iff[OF demo_hash_ok g, of "[7]" None] demo_hash_ok
    by (simp add: demo_hash_def)
qed

end
