(* ===== verification/Kem.thy ===== *)
theory Kem
  imports Kem_Types
begin

text \<open>
  \<open>pkinit-core/src/crypto/kem.rs\<close>: the ephemeral KEM key pair of the client, its one-shot
  decapsulation and the KDC's encapsulation, with the length checks the code makes around the
  library.  The ML-KEM and composite KEM primitives are the record \<open>kem_ops\<close>; randomness is
  an explicit argument.  Keys are opaque handles.
\<close>

type_synonym handle = bytes

record kem_ops =
  generate_composite_kem :: "u32 \<Rightarrow> bytes \<Rightarrow> handle ext"
  generate_ml_kem :: "rstr \<Rightarrow> bytes \<Rightarrow> handle ext"
  kem_public_spki :: "handle \<Rightarrow> bytes ext"
  kem_key_from_spki :: "bytes \<Rightarrow> handle"
  composite_kem_encapsulate :: "handle \<Rightarrow> bytes \<Rightarrow> (bytes \<times> bytes) ext"
  ml_kem_encapsulate :: "handle \<Rightarrow> bytes \<Rightarrow> (bytes \<times> bytes) ext"
  composite_kem_decapsulate :: "handle \<Rightarrow> bytes \<Rightarrow> bytes ext"
  ml_kem_decapsulate :: "handle \<Rightarrow> bytes \<Rightarrow> bytes ext"

record kem_key_pair =
  kkp_algorithm :: kem_algorithm
  kkp_private_key :: handle

definition kem_generate :: "kem_ops \<Rightarrow> kem_algorithm \<Rightarrow> bytes \<Rightarrow> kem_key_pair res" where
  "kem_generate K algorithm rnd =
     rbind (with_err KemEncapFailed (''generate '' @ parameter_set_name algorithm)
              (case composite_sub_arc algorithm of
                 Some sub_arc \<Rightarrow> generate_composite_kem K sub_arc rnd
               | None \<Rightarrow> generate_ml_kem K (parameter_set_name algorithm) rnd)) (\<lambda>private_key.
       Inr \<lparr>kkp_algorithm = algorithm, kkp_private_key = private_key\<rparr>)"

definition kem_public_key_spki_der :: "kem_ops \<Rightarrow> kem_key_pair \<Rightarrow> bytes res" where
  "kem_public_key_spki_der K kp =
     with_err KemEncapFailed ''SPKI export'' (kem_public_spki K (kkp_private_key kp))"

text \<open>\<open>decapsulate\<close> takes the key pair by value: the caller has given it up.\<close>

definition kem_decapsulate :: "kem_ops \<Rightarrow> kem_key_pair \<Rightarrow> bytes \<Rightarrow> bytes res" where
  "kem_decapsulate K kp ciphertext =
     (if length ciphertext \<noteq> ciphertext_len (kkp_algorithm kp) then
        Inl (KemCiphertextLengthInvalid (ciphertext_len (kkp_algorithm kp)) (length ciphertext))
      else
        map_err KemDecapFailed
          (if is_composite (kkp_algorithm kp)
           then composite_kem_decapsulate K (kkp_private_key kp) ciphertext
           else ml_kem_decapsulate K (kkp_private_key kp) ciphertext))"

definition encapsulate_for_client ::
    "kem_ops \<Rightarrow> bytes \<Rightarrow> kem_algorithm \<Rightarrow> bytes \<Rightarrow> (bytes \<times> bytes) res" where
  "encapsulate_for_client K client_spki_der algorithm rnd =
     (let pub_key = kem_key_from_spki K client_spki_der in
      rbind (with_err KemEncapFailed (''encapsulate '' @ parameter_set_name algorithm)
               (if is_composite algorithm then composite_kem_encapsulate K pub_key rnd
                else ml_kem_encapsulate K pub_key rnd)) (\<lambda>(ciphertext, shared_secret).
        if length ciphertext \<noteq> ciphertext_len algorithm then
          Inl (KemCiphertextLengthInvalid (ciphertext_len algorithm) (length ciphertext))
        else Inr (ciphertext, shared_secret)))"

text \<open>
  What FIPS 203 and the composite draft promise of the primitives: decapsulating, with the
  private key, what was encapsulated to its public key gives the encapsulated secret.
\<close>

definition kem_ok :: "kem_ops \<Rightarrow> bool" where
  "kem_ok K \<longleftrightarrow>
     (\<forall>n r k p r' ct ss. generate_ml_kem K n r = Inr k \<longrightarrow> kem_public_spki K k = Inr p \<longrightarrow>
        ml_kem_encapsulate K (kem_key_from_spki K p) r' = Inr (ct, ss) \<longrightarrow>
        ml_kem_decapsulate K k ct = Inr ss) \<and>
     (\<forall>a r k p r' ct ss. generate_composite_kem K a r = Inr k \<longrightarrow> kem_public_spki K k = Inr p \<longrightarrow>
        composite_kem_encapsulate K (kem_key_from_spki K p) r' = Inr (ct, ss) \<longrightarrow>
        composite_kem_decapsulate K k ct = Inr ss)"

lemma composite_sub_arc_iff: "composite_sub_arc a = None \<longleftrightarrow> \<not> is_composite a"
  by (cases a) (simp_all add: composite_sub_arc_def is_composite_def)

lemma kem_generate_algorithm: "kem_generate K a r = Inr kp \<Longrightarrow> kkp_algorithm kp = a"
  by (auto simp: kem_generate_def res)

lemma encapsulate_length:
  "encapsulate_for_client K p a r = Inr (ct, ss) \<Longrightarrow> length ct = ciphertext_len a"
  by (auto simp: encapsulate_for_client_def Let_def res split: if_splits prod.splits)

lemma decapsulate_Inr_length:
  "kem_decapsulate K kp ct = Inr ss \<Longrightarrow> length ct = ciphertext_len (kkp_algorithm kp)"
  by (auto simp: kem_decapsulate_def split: if_splits)

lemma encapsulated_secret_agrees:
  assumes "kem_ok K" "kem_generate K a r = Inr kp" "kem_public_key_spki_der K kp = Inr p"
    and "encapsulate_for_client K p a r' = Inr (ct, ss)"
  shows "length ct = ciphertext_len a \<and> kem_decapsulate K kp ct = Inr ss"
proof -
  let ?k = "kkp_private_key kp"
  have len: "length ct = ciphertext_len a" by (rule encapsulate_length[OF assms(4)])
  have alg: "kkp_algorithm kp = a" by (rule kem_generate_algorithm[OF assms(2)])
  have pub: "kem_public_spki K ?k = Inr p" using assms(3) by (simp add: kem_public_key_spki_der_def res)
  show ?thesis
  proof (cases "is_composite a")
    case True
    then obtain s where s: "composite_sub_arc a = Some s"
      using composite_sub_arc_iff[of a] by auto
    with assms(2) have "generate_composite_kem K s r = Inr ?k"
      by (auto simp: kem_generate_def res)
    moreover from assms(4) True
    have "composite_kem_encapsulate K (kem_key_from_spki K p) r' = Inr (ct, ss)"
      by (auto simp: encapsulate_for_client_def Let_def res split: if_splits prod.splits)
    ultimately have "composite_kem_decapsulate K ?k ct = Inr ss"
      using assms(1) pub unfolding kem_ok_def by blast
    with True len alg show ?thesis by (simp add: kem_decapsulate_def)
  next
    case False
    then have "composite_sub_arc a = None" by (simp add: composite_sub_arc_iff)
    with assms(2) have "generate_ml_kem K (parameter_set_name a) r = Inr ?k"
      by (auto simp: kem_generate_def res)
    moreover from assms(4) False
    have "ml_kem_encapsulate K (kem_key_from_spki K p) r' = Inr (ct, ss)"
      by (auto simp: encapsulate_for_client_def Let_def res split: if_splits prod.splits)
    ultimately have "ml_kem_decapsulate K ?k ct = Inr ss"
      using assms(1) pub unfolding kem_ok_def by blast
    with False len alg show ?thesis by (simp add: kem_decapsulate_def)
  qed
qed

text \<open>For every algorithm, pure or composite, the secret the KDC encapsulates to the key the
  client generated is the secret the client decapsulates from the ciphertext, which always
  has the length both sides check for.\<close>
theorem kem_agreement:
  assumes "kem_ok K" "kem_generate K a r = Inr kp" "kem_public_key_spki_der K kp = Inr p"
    and "encapsulate_for_client K p a r' = Inr (ct, ss)"
  shows "length ct = ciphertext_len a \<and> kem_decapsulate K kp ct = Inr ss"
  by (rule encapsulated_secret_agrees[OF assms])

text \<open>A concrete, insecure instance: the secret is the randomness, padded to a ciphertext.\<close>

definition demo_kem :: kem_ops where
  "demo_kem = \<lparr>
     generate_composite_kem = (\<lambda>a r. Inr r),
     generate_ml_kem = (\<lambda>n r. Inr r),
     kem_public_spki = Inr,
     kem_key_from_spki = id,
     composite_kem_encapsulate = (\<lambda>k r. Inr (take 1120 (r @ replicate 1120 0), take 4 (r @ replicate 1120 0))),
     ml_kem_encapsulate = (\<lambda>k r. Inr (take 1088 (r @ replicate 1088 0), take 4 (r @ replicate 1088 0))),
     composite_kem_decapsulate = (\<lambda>k ct. Inr (take 4 ct)),
     ml_kem_decapsulate = (\<lambda>k ct. Inr (take 4 ct))\<rparr>"

lemma demo_kem_ok: "kem_ok demo_kem"
  by (simp add: kem_ok_def demo_kem_def) (auto simp: min_def)

theorem kem_agreement_witness:
  "kem_ok demo_kem \<and> kem_generate demo_kem MlKem768 [1] = Inr \<lparr>kkp_algorithm = MlKem768, kkp_private_key = [1]\<rparr> \<and>
   kem_decapsulate demo_kem \<lparr>kkp_algorithm = MlKem768, kkp_private_key = [1]\<rparr>
     (take 1088 ([9, 8, 7, 6] @ replicate 1088 0)) = Inr [9, 8, 7, 6]"
proof -
  have g: "kem_generate demo_kem MlKem768 [1] = Inr \<lparr>kkp_algorithm = MlKem768, kkp_private_key = [1]\<rparr>"
    by (simp add: kem_generate_def composite_sub_arc_def demo_kem_def)
  have p: "kem_public_key_spki_der demo_kem \<lparr>kkp_algorithm = MlKem768, kkp_private_key = [1]\<rparr> = Inr [1]"
    by (simp add: kem_public_key_spki_der_def demo_kem_def)
  have e: "encapsulate_for_client demo_kem [1] MlKem768 [9, 8, 7, 6]
      = Inr (take 1088 ([9, 8, 7, 6] @ replicate 1088 0), [9, 8, 7, 6])"
    by (simp add: encapsulate_for_client_def demo_kem_def is_composite_def ciphertext_len_def)
  show ?thesis using kem_agreement[OF demo_kem_ok g p e] g demo_kem_ok by simp
qed

end
