(* ===== verification/Kdf.thy ===== *)
theory Kdf
  imports Kem_Types
begin

text \<open>
  \<open>pkinit-core/src/crypto/kdf.rs\<close> and \<open>kurbu5-pkinit/src/o2k.rs\<close>: the selection of a KDF, the
  three key derivations (the RFC 8636 KDF of the DH path, the HKDF of the KEM path, the legacy
  derivation), the principal encoding the first one hashes, and the trait that turns the
  derived bytes into a Kerberos key, with the plugin's implementation of it.

  Parameters: the OpenSSL single-step KDF object calls (\<open>sskdf_ops\<close>), HKDF, the encoders of the
  KDF input structures and the principal parser of \<open>synta_krb5\<close>, in \<open>kdf_ops\<close>; the two libkrb5
  functions behind the plugin's trait implementation, in \<open>krb5_ops\<close>.
\<close>

section \<open>The trait OctetString2Key\<close>

record o2k =
  random_to_key :: "int \<Rightarrow> bytes \<Rightarrow> bytes res"
  random_length :: "int \<Rightarrow> nat res"
  key_length :: "int \<Rightarrow> nat res"

record derived_key =
  dk_enctype :: int
  dk_key_data :: bytes

section \<open>The plugin's implementation\<close>

text \<open>
  \<open>keylengths e\<close> returns the error code and the two lengths; \<open>rand_to_key e seed buf\<close> returns the
  error code and what the C function writes over the key buffer it is given.
\<close>

record krb5_ops =
  krb5_c_keylengths :: "int \<Rightarrow> int \<times> nat \<times> nat"
  krb5_c_random_to_key :: "int \<Rightarrow> bytes \<Rightarrow> bytes \<Rightarrow> int \<times> bytes"

definition krb5_random_length :: "krb5_ops \<Rightarrow> int \<Rightarrow> nat res" where
  "krb5_random_length Q enctype =
     (case krb5_c_keylengths Q enctype of (ret, keybytes, keylength) \<Rightarrow>
        if ret \<noteq> 0 then Inl (KdfFailed (''krb5_c_keylengths failed: '' @ show_int ret))
        else Inr keybytes)"

definition krb5_key_length :: "krb5_ops \<Rightarrow> int \<Rightarrow> nat res" where
  "krb5_key_length Q enctype =
     (case krb5_c_keylengths Q enctype of (ret, keybytes, keylength) \<Rightarrow>
        if ret \<noteq> 0 then Inl (KdfFailed (''krb5_c_keylengths failed: '' @ show_int ret))
        else Inr keylength)"

text \<open>The buffer the C function writes into is allocated once; it keeps its size.\<close>

definition overwrite :: "bytes \<Rightarrow> bytes \<Rightarrow> bytes" where
  "overwrite buf written = take (length buf) written @ drop (length written) buf"

definition krb5_random_to_key :: "krb5_ops \<Rightarrow> int \<Rightarrow> bytes \<Rightarrow> bytes res" where
  "krb5_random_to_key Q enctype random_data =
     rbind (krb5_key_length Q enctype) (\<lambda>keylength.
       let seed = take (length random_data mod 2 ^ 32) random_data;
           key_buf = replicate keylength 0
       in (case krb5_c_random_to_key Q enctype seed key_buf of (ret, written) \<Rightarrow>
             if ret \<noteq> 0 then Inl (KdfFailed (''krb5_c_random_to_key failed: '' @ show_int ret))
             else Inr (overwrite key_buf written)))"

definition krb5_o2k :: "krb5_ops \<Rightarrow> o2k" where
  "krb5_o2k Q = \<lparr>random_to_key = krb5_random_to_key Q, random_length = krb5_random_length Q,
                key_length = krb5_key_length Q\<rparr>"

section \<open>KDF selection\<close>

definition pick_kdf_alg :: "oid_table \<Rightarrow> oid list \<Rightarrow> oid option" where
  "pick_kdf_alg T client_kdfs =
     List.find (\<lambda>preferred. list_ex (\<lambda>k. k = preferred) client_kdfs) (KDF_PREFERENCE_ORDER T)"

definition kdf_oid_to_digest_name :: "oid_table \<Rightarrow> oid \<Rightarrow> rstr res" where
  "kdf_oid_to_digest_name T kdf_oid =
     (if kdf_oid = T ID_PKINIT_KDF_AH_SHA1 then Inr ''SHA1''
      else if kdf_oid = T ID_PKINIT_KDF_AH_SHA256 then Inr ''SHA2-256''
      else if kdf_oid = T ID_PKINIT_KDF_AH_SHA512 then Inr ''SHA2-512''
      else Inl NoSupportedKdf)"

section \<open>Library calls of the derivations\<close>

type_synonym obj = bytes

record sskdf_ops =
  kdf_fetch :: "rstr \<Rightarrow> obj ext"
  kdf_ctx_new :: "obj \<Rightarrow> obj ext"
  pb_new :: "obj ext"
  pb_push_utf8 :: "obj \<Rightarrow> rstr \<Rightarrow> rstr \<Rightarrow> obj ext"
  pb_push_octets :: "obj \<Rightarrow> rstr \<Rightarrow> bytes \<Rightarrow> obj ext"
  pb_build :: "obj \<Rightarrow> obj ext"
  kdf_derive :: "obj \<Rightarrow> bytes \<Rightarrow> obj \<Rightarrow> bytes ext"

record supp_pub_info =
  spi_enctype :: int
  spi_as_req :: bytes
  spi_pk_as_rep :: bytes

record other_info =
  oi_algorithm_id :: alg_id
  oi_party_uinfo :: bytes
  oi_party_vinfo :: bytes
  oi_supp_pub_info :: "bytes option"
  oi_supp_priv_info :: "bytes option"

record principal_name =
  pn_name_type :: int
  pn_name_string :: "bytes list"

record kdf_ops =
  ko_sskdf :: sskdf_ops
  hkdf_extract_sha512 :: "bytes option \<Rightarrow> bytes \<Rightarrow> bytes ext"
  hkdf_expand_sha512 :: "bytes \<Rightarrow> bytes \<Rightarrow> nat \<Rightarrow> bytes ext"
  enc_supp_pub_info :: "supp_pub_info \<Rightarrow> bytes ext"
  enc_other_info :: "other_info \<Rightarrow> bytes ext"
  fin_other_info :: "bytes \<Rightarrow> bytes ext"
  parse_principal :: "rstr \<Rightarrow> (principal_name \<times> obj option) option"
  realm_to_string :: "obj \<Rightarrow> rstr"
  as_latin1_string :: "bytes \<Rightarrow> rstr"
  nt_wellknown :: int
  encode_krb5_principal_name_from_parts :: "int \<Rightarrow> rstr list \<Rightarrow> rstr \<Rightarrow> bytes ext"

section \<open>Derivations\<close>

definition sskdf :: "sskdf_ops \<Rightarrow> rstr \<Rightarrow> bytes \<Rightarrow> bytes \<Rightarrow> nat \<Rightarrow> bytes res" where
  "sskdf S digest_name secret info len =
     rbind (with_err KdfFailed ''fetch SSKDF'' (kdf_fetch S ''SSKDF'')) (\<lambda>alg.
     rbind (with_err KdfFailed ''SSKDF ctx'' (kdf_ctx_new S alg)) (\<lambda>ctx.
     rbind (with_err KdfFailed ''param builder'' (pb_new S)) (\<lambda>b0.
     rbind (with_err KdfFailed ''set digest'' (pb_push_utf8 S b0 ''digest'' digest_name)) (\<lambda>b1.
     rbind (with_err KdfFailed ''set key'' (pb_push_octets S b1 ''key'' secret)) (\<lambda>b2.
     rbind (with_err KdfFailed ''set info'' (pb_push_octets S b2 ''info'' info)) (\<lambda>b3.
     rbind (with_err KdfFailed ''build params'' (pb_build S b3)) (\<lambda>params.
       with_err KdfFailed ''SSKDF derive'' (kdf_derive S ctx (replicate len 0) params))))))))"

record kdf_input =
  ki_shared_secret :: bytes
  ki_kdf_oid :: oid
  ki_enctype :: int
  ki_party_u_info :: bytes
  ki_party_v_info :: bytes
  ki_as_req_der :: bytes
  ki_pa_pk_as_rep_der :: bytes

definition pkinit_kdf ::
    "oid_table \<Rightarrow> codec \<Rightarrow> kdf_ops \<Rightarrow> kdf_input \<Rightarrow> o2k \<Rightarrow> derived_key res" where
  "pkinit_kdf T C D input O2 =
     rbind (kdf_oid_to_digest_name T (ki_kdf_oid input)) (\<lambda>digest_name.
     rbind (random_length O2 (ki_enctype input)) (\<lambda>rand_len.
     rbind (asn1 ''KDF OID'' (oid_new C (ki_kdf_oid input))) (\<lambda>kdf_oid.
     rbind (asn1 ''encode SuppPubInfo'' (enc_supp_pub_info D
              \<lparr>spi_enctype = ki_enctype input, spi_as_req = ki_as_req_der input,
               spi_pk_as_rep = ki_pa_pk_as_rep_der input\<rparr>)) (\<lambda>supp_pub_info_der.
     rbind (asn1 ''encode OtherInfo'' (enc_other_info D
              \<lparr>oi_algorithm_id = \<lparr>ai_oid = kdf_oid, ai_params = None\<rparr>,
               oi_party_uinfo = ki_party_u_info input, oi_party_vinfo = ki_party_v_info input,
               oi_supp_pub_info = Some supp_pub_info_der, oi_supp_priv_info = None\<rparr>)) (\<lambda>encoder.
     rbind (asn1 ''finish OtherInfo'' (fin_other_info D encoder)) (\<lambda>other_info_der.
     rbind (sskdf (ko_sskdf D) digest_name (ki_shared_secret input) other_info_der rand_len)
       (\<lambda>random_data.
     rbind (random_to_key O2 (ki_enctype input) random_data) (\<lambda>key_data.
       Inr \<lparr>dk_enctype = ki_enctype input, dk_key_data = key_data\<rparr>))))))))"

record kem_kdf_input =
  kki_shared_secret :: bytes
  kki_enctype :: int
  kki_as_req_der :: bytes
  kki_kem_signed_data :: bytes

definition pkinit_kem_kdf :: "codec \<Rightarrow> kdf_ops \<Rightarrow> kem_kdf_input \<Rightarrow> o2k \<Rightarrow> derived_key res" where
  "pkinit_kem_kdf C D input O2 =
     rbind (random_length O2 (kki_enctype input)) (\<lambda>rand_len.
     rbind (asn1 ''encode PkinitKEMSuppPubInfo'' (enc_kem_supp_pub_info C
              \<lparr>ksp_enctype = kki_enctype input, ksp_as_req = kki_as_req_der input,
               ksp_kem_signed_data = kki_kem_signed_data input\<rparr>)) (\<lambda>supp_pub_info_der.
     rbind (with_err KdfFailed ''HKDF-Extract''
              (hkdf_extract_sha512 D None (kki_shared_secret input))) (\<lambda>prk.
     rbind (with_err KdfFailed ''HKDF-Expand''
              (hkdf_expand_sha512 D prk supp_pub_info_der rand_len)) (\<lambda>okm.
     rbind (random_to_key O2 (kki_enctype input) okm) (\<lambda>key_data.
       Inr \<lparr>dk_enctype = kki_enctype input, dk_key_data = key_data\<rparr>)))))"

definition octetstring2key :: "bytes \<Rightarrow> int \<Rightarrow> o2k \<Rightarrow> derived_key res" where
  "octetstring2key shared_secret enctype O2 =
     rbind (random_length O2 enctype) (\<lambda>rand_len.
       let random_data = replicate rand_len 0;
           copy_len = min rand_len (length shared_secret);
           random_data = take copy_len shared_secret @ drop copy_len random_data
       in rbind (random_to_key O2 enctype random_data) (\<lambda>key_data.
            Inr \<lparr>dk_enctype = enctype, dk_key_data = key_data\<rparr>))"

section \<open>Principals\<close>

definition is_anonymous_principal :: "kdf_ops \<Rightarrow> rstr \<Rightarrow> bool" where
  "is_anonymous_principal D name =
     (case parse_principal D name of
        None \<Rightarrow> False
      | Some (pname, _) \<Rightarrow>
          pn_name_string pname = [str_bytes ''WELLKNOWN'', str_bytes ''ANONYMOUS''])"

definition encode_principal_for_kdf :: "kdf_ops \<Rightarrow> rstr \<Rightarrow> bytes res" where
  "encode_principal_for_kdf D name =
     (if is_anonymous_principal D name then
        asn1 ''encode anonymous principal for KDF''
          (encode_krb5_principal_name_from_parts D (nt_wellknown D)
             [''WELLKNOWN'', ''ANONYMOUS''] ''WELLKNOWN:ANONYMOUS'')
      else
        rbind (ok_or (parse_principal D name) (Asn1 (''invalid principal name: '' @ name)))
          (\<lambda>(pname, realm_opt).
        let realm_str = (case realm_opt of None \<Rightarrow> [] | Some r \<Rightarrow> realm_to_string D r) in
        asn1 ''encode principal for KDF''
          (encode_krb5_principal_name_from_parts D (pn_name_type pname)
             (map (as_latin1_string D) (pn_name_string pname)) realm_str)))"

section \<open>The key contract\<close>

text \<open>
  What the derivations need of the trait: a key of the length the encryption type asks for.
  Every derivation then returns a key of the requested type and of that length.
\<close>

locale key_maker =
  fixes O2 :: o2k
  assumes key_size: "random_to_key O2 e r = Inr k \<Longrightarrow> key_length O2 e = Inr (length k)"
begin

lemma kdf_key:
  "pkinit_kdf T C D i O2 = Inr dk \<Longrightarrow>
   dk_enctype dk = ki_enctype i \<and> key_length O2 (ki_enctype i) = Inr (length (dk_key_data dk))"
  by (auto simp: pkinit_kdf_def res dest: key_size)

lemma kem_kdf_key:
  "pkinit_kem_kdf C D j O2 = Inr dk \<Longrightarrow>
   dk_enctype dk = kki_enctype j \<and> key_length O2 (kki_enctype j) = Inr (length (dk_key_data dk))"
  by (auto simp: pkinit_kem_kdf_def res dest: key_size)

lemma legacy_key:
  "octetstring2key s e O2 = Inr dk \<Longrightarrow>
   dk_enctype dk = e \<and> key_length O2 e = Inr (length (dk_key_data dk))"
  by (auto simp: octetstring2key_def Let_def res dest: key_size)

end

lemma length_overwrite [simp]: "length (overwrite buf w) = length buf"
  by (auto simp: overwrite_def)

interpretation krb5: key_maker "krb5_o2k Q" for Q
proof unfold_locales
  fix e r k
  assume "random_to_key (krb5_o2k Q) e r = Inr k"
  then show "key_length (krb5_o2k Q) e = Inr (length k)"
    by (auto simp: krb5_o2k_def krb5_random_to_key_def Let_def res case_prod_beta split: if_splits)
qed

section \<open>A concrete instance\<close>

definition demo_sskdf :: sskdf_ops where
  "demo_sskdf = \<lparr>
     kdf_fetch = (\<lambda>n. Inr []), kdf_ctx_new = Inr, pb_new = Inr [],
     pb_push_utf8 = (\<lambda>b k v. Inr (b @ str_bytes v)),
     pb_push_octets = (\<lambda>b k v. Inr (b @ v)),
     pb_build = Inr, kdf_derive = (\<lambda>c out1 p. Inr (overwrite out1 p))\<rparr>"

definition demo_parse_principal :: "rstr \<Rightarrow> (principal_name \<times> obj option) option" where
  "demo_parse_principal n =
     (case split_once CHR ''@'' n of
        None \<Rightarrow> None
      | Some (a, r) \<Rightarrow>
          Some (\<lparr>pn_name_type = 1, pn_name_string = map str_bytes (split_on CHR ''/'' a)\<rparr>,
                Some (str_bytes r)))"

definition demo_kdf :: kdf_ops where
  "demo_kdf = \<lparr>
     ko_sskdf = demo_sskdf,
     hkdf_extract_sha512 = (\<lambda>salt ikm. Inr ikm),
     hkdf_expand_sha512 = (\<lambda>prk info len. Inr (take len (prk @ info @ replicate len 0))),
     enc_supp_pub_info = (\<lambda>x. Inr (spi_as_req x @ spi_pk_as_rep x)),
     enc_other_info = (\<lambda>x. Inr (oi_party_uinfo x @ oi_party_vinfo x)),
     fin_other_info = Inr,
     parse_principal = demo_parse_principal,
     realm_to_string = bytes_str,
     as_latin1_string = bytes_str,
     nt_wellknown = 11,
     encode_krb5_principal_name_from_parts =
       (\<lambda>t ps r. Inr (word_of_int t # concat (map str_bytes ps) @ str_bytes r))\<rparr>"

definition demo_krb5 :: krb5_ops where
  "demo_krb5 = \<lparr>krb5_c_keylengths = (\<lambda>e. if e = 18 then (0, 4, 4) else (22, 0, 0)),
                krb5_c_random_to_key = (\<lambda>e seed buf. (0, seed))\<rparr>"

section \<open>Properties\<close>

text \<open>The KDC picks the KDF by its own preference (SHA-256, then SHA-1, then SHA-512), whatever
  the order of the client's list: it picks one exactly when the lists overlap, the one it picks
  was offered by the client, and the derivation knows a digest for it.\<close>
theorem pick_kdf_alg_preference:
  "pick_kdf_alg T ks =
     (if T ID_PKINIT_KDF_AH_SHA256 \<in> set ks then Some (T ID_PKINIT_KDF_AH_SHA256)
      else if T ID_PKINIT_KDF_AH_SHA1 \<in> set ks then Some (T ID_PKINIT_KDF_AH_SHA1)
      else if T ID_PKINIT_KDF_AH_SHA512 \<in> set ks then Some (T ID_PKINIT_KDF_AH_SHA512)
      else None) \<and>
   (\<forall>k. pick_kdf_alg T ks = Some k \<longrightarrow> k \<in> set ks \<and> is_ok (kdf_oid_to_digest_name T k))"
  by (auto simp: pick_kdf_alg_def KDF_PREFERENCE_ORDER_def list_ex_iff kdf_oid_to_digest_name_def)

theorem pick_kdf_alg_preference_witness:
  "pick_kdf_alg std_oids [std_oids ID_PKINIT_KDF_AH_SHA512, std_oids ID_PKINIT_KDF_AH_SHA1]
     = Some (std_oids ID_PKINIT_KDF_AH_SHA1)"
  using pick_kdf_alg_preference[of std_oids
      "[std_oids ID_PKINIT_KDF_AH_SHA512, std_oids ID_PKINIT_KDF_AH_SHA1]"]
  by (simp add: std_oids_def)

text \<open>C16: With the plugin's libkrb5 implementation of key making, all three derivations return a
  key of exactly the encryption type asked for and of exactly the length libkrb5 reports for
  that type, whatever the C function writes into the buffer.\<close>
theorem derived_key_well_formed:
  assumes "pkinit_kdf T C D i (krb5_o2k Q) = Inr dk \<and> e = ki_enctype i \<or>
     pkinit_kem_kdf C D j (krb5_o2k Q) = Inr dk \<and> e = kki_enctype j \<or>
     octetstring2key s e (krb5_o2k Q) = Inr dk"
  shows "dk_enctype dk = e \<and>
    (\<exists>kb. krb5_c_keylengths Q e = (0, kb, length (dk_key_data dk)))"
proof -
  have "dk_enctype dk = e" and "key_length (krb5_o2k Q) e = Inr (length (dk_key_data dk))"
    using assms krb5.kdf_key krb5.kem_kdf_key krb5.legacy_key by blast+
  then show ?thesis
    by (cases "krb5_c_keylengths Q e")
       (auto simp: krb5_o2k_def krb5_key_length_def split: if_splits)
qed

theorem derived_key_well_formed_witness:
  "octetstring2key [1, 2, 3, 4, 5] 18 (krb5_o2k demo_krb5)
     = Inr \<lparr>dk_enctype = 18, dk_key_data = [1, 2, 3, 4]\<rparr> \<and>
   (\<exists>kb. krb5_c_keylengths demo_krb5 18 = (0, kb, 4))"
proof -
  have e: "octetstring2key [1, 2, 3, 4, 5] 18 (krb5_o2k demo_krb5)
     = Inr \<lparr>dk_enctype = 18, dk_key_data = [1, 2, 3, 4]\<rparr>"
    by (simp add: octetstring2key_def krb5_o2k_def krb5_random_length_def krb5_random_to_key_def
        krb5_key_length_def demo_krb5_def overwrite_def)
  show ?thesis
    using derived_key_well_formed[where s = "[1, 2, 3, 4, 5]" and e = 18 and Q = demo_krb5
        and dk = "\<lparr>dk_enctype = 18, dk_key_data = [1, 2, 3, 4]\<rparr>"] e
    by (simp add: eval_nat_numeral)
qed

text \<open>The legacy derivation truncates or zero-pads its input instead of hashing it, so the
  nonces both sides append after the shared secret do not reach the key as soon as the secret
  alone fills it: any two nonce suffixes give the same reply key.\<close>
theorem legacy_key_ignores_nonces:
  assumes "random_length O2 e = Inr n" "n \<le> length ss"
  shows "octetstring2key (ss @ nonces) e O2 = octetstring2key (ss @ nonces') e O2"
  using assms by (simp add: octetstring2key_def Let_def min_def)

theorem legacy_key_ignores_nonces_witness:
  "octetstring2key ([1, 2, 3, 4] @ [9]) 18 (krb5_o2k demo_krb5)
     = octetstring2key ([1, 2, 3, 4] @ [7, 7]) 18 (krb5_o2k demo_krb5)"
  by (rule legacy_key_ignores_nonces[where n = 4])
     (simp_all add: krb5_o2k_def krb5_random_length_def demo_krb5_def)

text \<open>The anonymous principal enters the KDF in one normal form: two names that parse to
  \<open>WELLKNOWN/ANONYMOUS\<close>, in whatever realm, are encoded identically, as the well-known name in
  the realm \<open>WELLKNOWN:ANONYMOUS\<close>; a name that does not parse is an error.\<close>
theorem anonymous_principal_normal_form:
  "(is_anonymous_principal D a \<longrightarrow>
      encode_principal_for_kdf D a =
        asn1 ''encode anonymous principal for KDF''
          (encode_krb5_principal_name_from_parts D (nt_wellknown D)
             [''WELLKNOWN'', ''ANONYMOUS''] ''WELLKNOWN:ANONYMOUS'')) \<and>
   (parse_principal D a = None \<longrightarrow> \<not> is_ok (encode_principal_for_kdf D a))"
  by (auto simp: encode_principal_for_kdf_def is_anonymous_principal_def)

theorem anonymous_principal_normal_form_witness:
  "encode_principal_for_kdf demo_kdf ''WELLKNOWN/ANONYMOUS@EXAMPLE.COM''
     = encode_principal_for_kdf demo_kdf ''WELLKNOWN/ANONYMOUS@OTHER''"
proof -
  have "is_anonymous_principal demo_kdf ''WELLKNOWN/ANONYMOUS@EXAMPLE.COM''"
    "is_anonymous_principal demo_kdf ''WELLKNOWN/ANONYMOUS@OTHER''"
    by (simp_all add: is_anonymous_principal_def demo_kdf_def demo_parse_principal_def)
  then show ?thesis
    using anonymous_principal_normal_form[of demo_kdf "''WELLKNOWN/ANONYMOUS@EXAMPLE.COM''"]
      anonymous_principal_normal_form[of demo_kdf "''WELLKNOWN/ANONYMOUS@OTHER''"] by simp
qed

end
