(* ===== verification/Dh.thy ===== *)
theory Dh
  imports Oakley
begin

text \<open>
  \<open>pkinit-core/src/crypto/dh.rs\<close>: ephemeral DH and ECDH key pairs, the identification of the
  group of a peer's key and of an advertised algorithm identifier, and the algorithm
  identifier of a group.  OpenSSL's key objects are opaque; the calls the code makes on them
  are the record \<open>dh_ops\<close>.
\<close>

type_synonym obj = bytes

record dh_ops =
  dhx_params_from_der :: "bytes \<Rightarrow> obj ext"
  pkey_export :: "obj \<Rightarrow> obj ext"
  keygen_new :: "rstr \<Rightarrow> obj ext"
  keygen_set_params :: "obj \<Rightarrow> obj \<Rightarrow> obj ext"
  keygen_generate :: "obj \<Rightarrow> bytes \<Rightarrow> obj ext"
  ec_pb_new :: "obj ext"
  ec_pb_set_group :: "obj \<Rightarrow> rstr \<Rightarrow> obj ext"
  ec_pb_build :: "obj \<Rightarrow> obj ext"
  pkey_public_key_to_der :: "obj \<Rightarrow> bytes ext"
  pkey_public_from_der :: "bytes \<Rightarrow> obj ext"
  derive_ctx_new :: "obj \<Rightarrow> obj ext"
  derive_set_peer :: "obj \<Rightarrow> obj \<Rightarrow> obj ext"
  derive_len :: "obj \<Rightarrow> nat ext"
  derive_into :: "obj \<Rightarrow> bytes \<Rightarrow> (bytes \<times> nat) ext"
  pkey_bits :: "obj \<Rightarrow> u32"
  get_group_name :: "obj \<Rightarrow> bytes ext"
  cstr_to_str :: "bytes \<Rightarrow> rstr option"
  get_bn_p :: "obj \<Rightarrow> bytes ext"
  dec_oid :: "bytes \<Rightarrow> oid ext"
  element_of_oid :: "oid \<Rightarrow> element"

section \<open>Key pairs\<close>

record dh_key_pair =
  dkp_group :: dh_group
  dkp_pkey :: obj

definition generate_dhx :: "dh_ops \<Rightarrow> bytes \<Rightarrow> bytes \<Rightarrow> obj res" where
  "generate_dhx G params_der rnd =
     rbind (with_err Ossl ''load DH params'' (dhx_params_from_der G params_der)) (\<lambda>params_key.
     rbind (with_err Ossl ''export DH params'' (pkey_export G params_key)) (\<lambda>exported.
     rbind (with_err Ossl ''DHX keygen ctx'' (keygen_new G ''DHX'')) (\<lambda>kgen.
     rbind (with_err Ossl ''set DH params'' (keygen_set_params G kgen exported)) (\<lambda>kgen.
       with_err Ossl ''DHX keygen'' (keygen_generate G kgen rnd)))))"

definition generate_ec :: "dh_ops \<Rightarrow> rstr \<Rightarrow> bytes \<Rightarrow> obj res" where
  "generate_ec G curve rnd =
     rbind (with_err Ossl ''param builder'' (ec_pb_new G)) (\<lambda>b0.
     rbind (with_err Ossl ''set EC group'' (ec_pb_set_group G b0 curve)) (\<lambda>b1.
     rbind (with_err Ossl ''build EC params'' (ec_pb_build G b1)) (\<lambda>params.
     rbind (with_err Ossl ''EC keygen ctx'' (keygen_new G ''EC'')) (\<lambda>kgen.
     rbind (with_err Ossl ''set EC params'' (keygen_set_params G kgen params)) (\<lambda>kgen.
       with_err Ossl ''EC keygen'' (keygen_generate G kgen rnd))))))"

definition dh_generate :: "dh_ops \<Rightarrow> dh_group \<Rightarrow> bytes \<Rightarrow> dh_key_pair res" where
  "dh_generate G grp rnd =
     rbind (case grp of
         Oakley2048 \<Rightarrow> generate_dhx G OAKLEY_2048_DER rnd
       | Oakley4096 \<Rightarrow> generate_dhx G OAKLEY_4096_DER rnd
       | EcP256 \<Rightarrow> generate_ec G ''P-256'' rnd
       | EcP384 \<Rightarrow> generate_ec G ''P-384'' rnd
       | EcP521 \<Rightarrow> generate_ec G ''P-521'' rnd) (\<lambda>pkey.
       Inr \<lparr>dkp_group = grp, dkp_pkey = pkey\<rparr>)"

definition dh_public_key_spki_der :: "dh_ops \<Rightarrow> dh_key_pair \<Rightarrow> bytes res" where
  "dh_public_key_spki_der G kp =
     with_err Ossl ''SPKI encode failed'' (pkey_public_key_to_der G (dkp_pkey kp))"

definition derive_shared_secret :: "dh_ops \<Rightarrow> dh_key_pair \<Rightarrow> bytes \<Rightarrow> bytes res" where
  "derive_shared_secret G kp peer_spki_der =
     rbind (with_err DhAgreementFailed ''peer key decode'' (pkey_public_from_der G peer_spki_der))
       (\<lambda>peer.
     rbind (with_err DhAgreementFailed ''derive ctx'' (derive_ctx_new G (dkp_pkey kp))) (\<lambda>ctx.
     rbind (with_err DhAgreementFailed ''set peer'' (derive_set_peer G ctx peer)) (\<lambda>ctx.
     rbind (with_err DhAgreementFailed ''derive len'' (derive_len G ctx)) (\<lambda>len.
     rbind (with_err DhAgreementFailed ''derive'' (derive_into G ctx (replicate len 0)))
       (\<lambda>(buf, actual). Inr (take actual buf))))))"

section \<open>The group of a peer's key\<close>

definition too_short :: "u32 \<Rightarrow> u32 \<Rightarrow> pkinit_error" where
  "too_short bits mb =
     DhParamsRejected (''key size '' @ show_nat (unat bits) @ '' bits < minimum '' @
                       show_nat (unat mb) @ '' bits'')"

definition identify_oakley_group :: "bytes \<Rightarrow> u32 \<Rightarrow> dh_group res" where
  "identify_oakley_group p_bytes bits =
     (if 2048 \<le> bits \<and> bits < 4096 \<and> p_bytes = OAKLEY_2048_PRIME then Inr Oakley2048
      else if 4096 \<le> bits \<and> p_bytes = OAKLEY_4096_PRIME then Inr Oakley4096
      else Inl (DhParamsRejected (''DH prime ('' @ show_nat (unat bits) @
                 '' bits) does not match any well-known Oakley group'')))"

definition validate_dh_params :: "dh_ops \<Rightarrow> bytes \<Rightarrow> u32 \<Rightarrow> dh_group res" where
  "validate_dh_params G spki_der mb =
     rbind (with_err DhParamsRejected ''decode SPKI'' (pkey_public_from_der G spki_der)) (\<lambda>key.
     let bits = pkey_bits G key in
     rbind (with_err DhParamsRejected ''export params'' (pkey_export G key)) (\<lambda>exported.
     (case get_group_name G exported of
        Inr group_name \<Rightarrow>
          (let name = (case cstr_to_str G group_name of None \<Rightarrow> [] | Some s \<Rightarrow> s) in
           if name = ''prime256v1'' \<or> name = ''P-256'' then Inr EcP256
           else if name = ''secp384r1'' \<or> name = ''P-384'' then Inr EcP384
           else if name = ''secp521r1'' \<or> name = ''P-521'' then Inr EcP521
           else if bits < mb then Inl (too_short bits mb)
           else if name = ''modp_2048'' then Inr Oakley2048
           else if name = ''modp_4096'' then Inr Oakley4096
           else Inl (DhParamsRejected (''unsupported group: '' @ name)))
      | Inl _ \<Rightarrow>
          if bits < mb then Inl (too_short bits mb)
          else
            (case get_bn_p G exported of
               Inr p_bytes \<Rightarrow> identify_oakley_group p_bytes bits
             | Inl _ \<Rightarrow>
                 Inl (DhParamsRejected ''could not identify DH group from key parameters'')))))"

section \<open>The algorithm identifier of a group\<close>

definition group_params_der :: "dh_group \<Rightarrow> bytes option" where
  "group_params_der grp =
     (case grp of Oakley2048 \<Rightarrow> Some OAKLEY_2048_DER | Oakley4096 \<Rightarrow> Some OAKLEY_4096_DER
      | _ \<Rightarrow> None)"

definition group_curve :: "dh_group \<Rightarrow> oid_name option" where
  "group_curve grp =
     (case grp of EcP256 \<Rightarrow> Some SECP256R1 | EcP384 \<Rightarrow> Some SECP384R1 | EcP521 \<Rightarrow> Some SECP521R1
      | Oakley2048 \<Rightarrow> None | Oakley4096 \<Rightarrow> None)"

definition group_algorithm_oid_and_params ::
    "oid_table \<Rightarrow> codec \<Rightarrow> dh_ops \<Rightarrow> dh_group \<Rightarrow> (oid \<times> element option) res" where
  "group_algorithm_oid_and_params T C G grp =
     (case group_curve grp of
        Some curve \<Rightarrow>
          rbind (asn1 ''curve OID'' (oid_new C (T curve))) (\<lambda>curve_oid.
            Inr (T ID_EC_PUBLIC_KEY, Some (element_of_oid G curve_oid)))
      | None \<Rightarrow>
          rbind (ok_or (group_params_der grp) (DhParamsRejected ''unknown DH group'')) (\<lambda>params_der.
          rbind (asn1 ''decode DH params'' (element_from_der C params_der)) (\<lambda>params_element.
            Inr (T DHPUBLICNUMBER, Some params_element))))"

definition group_from_algorithm_identifier ::
    "oid_table \<Rightarrow> dh_ops \<Rightarrow> oid \<Rightarrow> bytes option \<Rightarrow> u32 \<Rightarrow> dh_group option" where
  "group_from_algorithm_identifier T G o1 params_der mb =
     (if o1 = T ID_EC_PUBLIC_KEY then
        Option.bind params_der (\<lambda>pd.
        Option.bind (ok_opt (dec_oid G pd)) (\<lambda>c.
          if c = T SECP256R1 then Some EcP256
          else if c = T SECP384R1 then Some EcP384
          else if c = T SECP521R1 then Some EcP521
          else None))
      else if o1 = T DHPUBLICNUMBER then
        Option.bind
          (if params_der = Some OAKLEY_2048_DER then Some Oakley2048
           else if params_der = Some OAKLEY_4096_DER then Some Oakley4096
           else None) (\<lambda>grp.
          if mb \<le> min_bits grp then Some grp else None)
      else None)"

text \<open>
  What the code relies on for elements: re-encoding a decoded element gives the same DER, and
  an encoded curve identifier decodes to itself.
\<close>

definition dh_codec_ok :: "codec \<Rightarrow> dh_ops \<Rightarrow> bool" where
  "dh_codec_ok C G \<longleftrightarrow>
     (\<forall>d e d'. element_from_der C d = Inr e \<longrightarrow> element_to_der C e = Inr d' \<longrightarrow> d' = d) \<and>
     (\<forall>o1 d. element_to_der C (element_of_oid G o1) = Inr d \<longrightarrow> dec_oid G d = Inr o1)"

lemma oakley_lengths: "length OAKLEY_2048_DER = 528" "length OAKLEY_4096_DER = 1040"
  by (simp_all add: OAKLEY_2048_DER_def OAKLEY_4096_DER_def)

lemma oakley_ders_differ: "OAKLEY_2048_DER \<noteq> OAKLEY_4096_DER" "OAKLEY_4096_DER \<noteq> OAKLEY_2048_DER"
  using oakley_lengths by auto

lemma dh_generate_group: "dh_generate G g r = Inr kp \<Longrightarrow> dkp_group kp = g"
  by (auto simp: dh_generate_def res)

section \<open>Properties\<close>

text \<open>The two sides agree on the encoding of a group: an algorithm identifier the KDC builds
  for a group is recognised by the client as that group, and a classic DH group below the
  client's minimum is not recognised; an elliptic curve is recognised whatever the minimum.\<close>
theorem group_identifier_roundtrip:
  assumes "oids_ok T" "codec_ok C" "dh_codec_ok C G"
    and "group_algorithm_oid_and_params T C G g = Inr (o1, Some e)" "element_to_der C e = Inr d"
  shows "group_from_algorithm_identifier T G o1 (Some d) mb =
    (if is_ec g \<or> mb \<le> min_bits g then Some g else None)"
proof (cases "group_curve g")
  case (Some c)
  then have o1: "o1 = T ID_EC_PUBLIC_KEY" and e: "e = element_of_oid G (T c)"
    using assms(4) codec_okD(4)[OF assms(2)] by (auto simp: group_algorithm_oid_and_params_def res)
  have "dec_oid G d = Inr (T c)"
    using assms(3,5) e by (simp add: dh_codec_ok_def)
  with o1 Some assms(1) show ?thesis
    by (cases g) (auto simp: group_from_algorithm_identifier_def group_curve_def is_ec_def)
next
  case None
  then obtain p where p: "group_params_der g = Some p" "element_from_der C p = Inr e"
    and o1: "o1 = T DHPUBLICNUMBER"
    using assms(4) by (auto simp: group_algorithm_oid_and_params_def res)
  have "d = p" using assms(3,5) p(2) by (auto simp: dh_codec_ok_def)
  with None p(1) o1 assms(1) oakley_ders_differ show ?thesis
    by (cases g) (auto simp: group_from_algorithm_identifier_def group_curve_def is_ec_def
        group_params_der_def)
qed

text \<open>The names OpenSSL has for a group.\<close>

definition openssl_names :: "dh_group \<Rightarrow> rstr set" where
  "openssl_names g = (case g of
     EcP256 \<Rightarrow> {''prime256v1'', ''P-256''} | EcP384 \<Rightarrow> {''secp384r1'', ''P-384''}
   | EcP521 \<Rightarrow> {''secp521r1'', ''P-521''} | Oakley2048 \<Rightarrow> {''modp_2048''} | Oakley4096 \<Rightarrow> {''modp_4096''})"

lemma openssl_names_simps [simp]:
  "openssl_names EcP256 = {''prime256v1'', ''P-256''}" "openssl_names EcP384 = {''secp384r1'', ''P-384''}"
  "openssl_names EcP521 = {''secp521r1'', ''P-521''}" "openssl_names Oakley2048 = {''modp_2048''}"
  "openssl_names Oakley4096 = {''modp_4096''}"
  by (simp_all add: openssl_names_def)

text \<open>C15: A peer key accepted by \<open>validate_dh_params\<close> is in one of the five supported groups: as a key
  of a curve only when the library names that curve, whatever the configured number of bits; as
  a classic DH key only with at least that number of bits, and when the library names the group
  or, where it reports no name, the key has the well-known prime of the group.\<close>
theorem validate_dh_params_sound:
  assumes "validate_dh_params G spki mb = Inr g"
  shows "\<exists>key ex. pkey_public_from_der G spki = Inr key \<and> pkey_export G key = Inr ex \<and>
    ((\<exists>n name. get_group_name G ex = Inr n \<and> cstr_to_str G n = Some name \<and> name \<in> openssl_names g) \<or>
     \<not> is_ec g \<and> \<not> is_ok (get_group_name G ex) \<and>
       get_bn_p G ex = Inr (if g = Oakley2048 then OAKLEY_2048_PRIME else OAKLEY_4096_PRIME)) \<and>
    (\<not> is_ec g \<longrightarrow> mb \<le> pkey_bits G key)"
proof -
  from assms obtain key ex where "pkey_public_from_der G spki = Inr key" "pkey_export G key = Inr ex"
    by (auto simp: validate_dh_params_def Let_def res)
  with assms show ?thesis
    by (auto simp: validate_dh_params_def identify_oakley_group_def is_ec_def Let_def
        split: sum.splits if_splits option.splits)
qed

definition be_nat :: "bytes \<Rightarrow> nat" where
  "be_nat bs = foldl (\<lambda>a b. a * 256 + unat b) 0 bs"

lemma oakley_2048_layout:
  "OAKLEY_2048_DER = [0x30, 0x82, 0x02, 0x0C, 0x02, 0x82, 0x01, 0x01, 0x00] @ OAKLEY_2048_PRIME @
     [2, 1, 2, 2, 0x82, 1, 0] @ drop 272 OAKLEY_2048_DER"
  by (simp add: OAKLEY_2048_DER_def OAKLEY_2048_PRIME_def)

lemma oakley_4096_layout:
  "OAKLEY_4096_DER = [0x30, 0x82, 0x04, 0x0C, 0x02, 0x82, 0x02, 0x01, 0x00] @ OAKLEY_4096_PRIME @
     [2, 1, 2, 2, 0x82, 2, 0] @ drop 528 OAKLEY_4096_DER"
  by (simp add: OAKLEY_4096_DER_def OAKLEY_4096_PRIME_def)

lemma oakley_2048_subgroup:
  "be_nat OAKLEY_2048_PRIME = 2 * be_nat (drop 272 OAKLEY_2048_DER) + 1"
  by (simp add: OAKLEY_2048_DER_def OAKLEY_2048_PRIME_def be_nat_def)

text \<open>The hard-coded domain parameters and the hard-coded prime the verifier compares against
  are the same group: each DER blob is a SEQUENCE of exactly its declared length holding that
  prime, the generator 2 and a third INTEGER \<open>q\<close>, and for the 2048-bit group the prime is
  \<open>2 q + 1\<close>.\<close>
theorem oakley_constants_consistent:
  "(\<exists>q. OAKLEY_2048_DER = [0x30, 0x82, 0x02, 0x0C, 0x02, 0x82, 0x01, 0x01, 0x00] @ OAKLEY_2048_PRIME @
        [2, 1, 2, 2, 0x82, 1, 0] @ q \<and> length q = 256 \<and> be_nat OAKLEY_2048_PRIME = 2 * be_nat q + 1) \<and>
   (\<exists>q. OAKLEY_4096_DER = [0x30, 0x82, 0x04, 0x0C, 0x02, 0x82, 0x02, 0x01, 0x00] @ OAKLEY_4096_PRIME @
        [2, 1, 2, 2, 0x82, 2, 0] @ q \<and> length q = 512) \<and>
   der_parse_length (drop 1 OAKLEY_2048_DER) = Inr (length OAKLEY_2048_DER - 4, 3) \<and>
   der_parse_length (drop 1 OAKLEY_4096_DER) = Inr (length OAKLEY_4096_DER - 4, 3)"
proof (intro conjI)
  show "\<exists>q. OAKLEY_2048_DER = [0x30, 0x82, 0x02, 0x0C, 0x02, 0x82, 0x01, 0x01, 0x00] @ OAKLEY_2048_PRIME @
        [2, 1, 2, 2, 0x82, 1, 0] @ q \<and> length q = 256 \<and> be_nat OAKLEY_2048_PRIME = 2 * be_nat q + 1"
    using oakley_2048_layout oakley_2048_subgroup oakley_lengths
    by (intro exI[of _ "drop 272 OAKLEY_2048_DER"]) simp
  show "\<exists>q. OAKLEY_4096_DER = [0x30, 0x82, 0x04, 0x0C, 0x02, 0x82, 0x02, 0x01, 0x00] @ OAKLEY_4096_PRIME @
        [2, 1, 2, 2, 0x82, 2, 0] @ q \<and> length q = 512"
    using oakley_4096_layout oakley_lengths
    by (intro exI[of _ "drop 528 OAKLEY_4096_DER"]) simp
  have len: "der_parse_length (drop 1 (t # 0x82 # a # b # r))
      = Inr ((0 * 256 + unat a) * 256 + unat b, 3)" for t a b :: byte and r
    by (simp add: der_parse_length_def der_length_loop_bytes del: der_length_loop.simps)
  show "der_parse_length (drop 1 OAKLEY_2048_DER) = Inr (length OAKLEY_2048_DER - 4, 3)"
    by (subst oakley_2048_layout) (simp only: append_Cons len oakley_lengths, simp)
  show "der_parse_length (drop 1 OAKLEY_4096_DER) = Inr (length OAKLEY_4096_DER - 4, 3)"
    by (subst oakley_4096_layout) (simp only: append_Cons len oakley_lengths, simp)
qed

section \<open>A concrete instance\<close>

text \<open>Private and public keys are the randomness itself; the shared secret is fixed.\<close>

definition demo_dh :: dh_ops where
  "demo_dh = \<lparr>
     dhx_params_from_der = Inr, pkey_export = Inr, keygen_new = (\<lambda>n. Inr []),
     keygen_set_params = (\<lambda>k p. Inr k), keygen_generate = (\<lambda>k r. Inr r),
     ec_pb_new = Inr [], ec_pb_set_group = (\<lambda>b c. Inr b), ec_pb_build = Inr,
     pkey_public_key_to_der = Inr, pkey_public_from_der = Inr,
     derive_ctx_new = Inr, derive_set_peer = (\<lambda>c p. Inr c), derive_len = (\<lambda>c. Inr 4),
     derive_into = (\<lambda>c b. Inr ([5, 5, 5, 5], 4)),
     pkey_bits = (\<lambda>k. 2048), get_group_name = (\<lambda>k. if k = [1] then Inr (str_bytes ''P-256'') else Inl ''no group''),
     cstr_to_str = (\<lambda>b. Some (bytes_str b)), get_bn_p = (\<lambda>k. Inr OAKLEY_2048_PRIME),
     dec_oid = table_dec [(std_oids SECP256R1, [1]), (std_oids SECP384R1, [2]), (std_oids SECP521R1, [3])],
     element_of_oid = (\<lambda>o1. if o1 = std_oids SECP256R1 then [1] else if o1 = std_oids SECP384R1 then [2]
                             else if o1 = std_oids SECP521R1 then [3] else [])\<rparr>"

definition demo_codec_el :: codec where
  "demo_codec_el = demo_codec\<lparr>element_to_der := (\<lambda>e. if e = [] then Inl ''empty'' else Inr e)\<rparr>"

lemma demo_codec_el_ok: "codec_ok demo_codec_el"
  using demo_codec_ok by (simp add: codec_ok_def demo_codec_el_def)

lemma demo_dh_codec_ok: "dh_codec_ok demo_codec_el demo_dh"
  by (auto simp: dh_codec_ok_def demo_codec_el_def demo_codec_def demo_dh_def table_dec_def
      split: if_splits)

theorem group_identifier_roundtrip_witness:
  "dh_codec_ok demo_codec_el demo_dh \<and>
   group_from_algorithm_identifier std_oids demo_dh (std_oids ID_EC_PUBLIC_KEY) (Some [1]) 2048
     = Some EcP256"
proof -
  have a: "group_algorithm_oid_and_params std_oids demo_codec_el demo_dh EcP256
      = Inr (std_oids ID_EC_PUBLIC_KEY, Some [1])"
    by (simp add: group_algorithm_oid_and_params_def group_curve_def demo_codec_el_def
        demo_codec_def demo_dh_def)
  have e: "element_to_der demo_codec_el [1] = Inr [1]"
    by (simp add: demo_codec_el_def)
  show ?thesis
    using group_identifier_roundtrip[OF std_oids_ok demo_codec_el_ok demo_dh_codec_ok a e, of 2048]
      demo_dh_codec_ok
    by (simp add: is_ec_def)
qed

theorem validate_dh_params_sound_witness:
  "validate_dh_params demo_dh [9] 2048 = Inr Oakley2048 \<and>
   (\<exists>key. pkey_public_from_der demo_dh [9] = Inr key \<and> 2048 \<le> pkey_bits demo_dh key)"
proof -
  have v: "validate_dh_params demo_dh [9] 2048 = Inr Oakley2048"
    by (simp add: validate_dh_params_def demo_dh_def identify_oakley_group_def)
  show ?thesis using validate_dh_params_sound[OF v] v by (auto simp: is_ec_def)
qed

end
