(* ===== verification/Cms.thy ===== *)
theory Cms
  imports Checksum Dh
begin

text \<open>
  \<open>pkinit-core/src/crypto/cms.rs\<close>: creation and verification of CMS SignedData, the two
  anonymous (unsigned) forms and the helpers on signed attributes, plus the two functions of
  \<open>client.rs\<close> that recognise post-quantum signing certificates, which the choice of the digest
  depends on.

  The structures are those of \<open>synta_certificate\<close> as far as the code reads them; their
  decoders, encoders and the signature primitives are the record \<open>cms_ops\<close>.  A streaming
  decoder reports how many bytes after the tag byte the element it read has, so that the
  loops over a buffer advance.
\<close>

section \<open>Structures\<close>

record content_info =
  ci_content_type :: oid
  ci_content :: bytes

record signer_info =
  si_version :: int
  si_sid :: bytes
  si_digest_algorithm :: alg_id
  si_signed_attrs :: "bytes option"
  si_signature_algorithm :: alg_id
  si_signature :: bytes

record signed_data =
  sd_version :: int
  sd_digest_algorithms :: "alg_id list"
  sd_e_content_type :: oid
  sd_e_content :: "bytes option"
  sd_certificates :: "bytes option"
  sd_signer_infos :: "signer_info list"

record attribute =
  at_type :: oid
  at_values :: bytes

record certificate =
  crt_serial :: int
  crt_issuer :: bytes
  crt_subject :: bytes
  crt_spki_der :: "bytes ext"
  crt_spki_oid :: oid
  crt_extensions :: "bytes option"

record issuer_and_serial =
  ias_issuer :: obj
  ias_serial :: int

record cms_ops =
  dec_content_info :: "bytes \<Rightarrow> content_info ext"
  enc_content_info :: "content_info \<Rightarrow> bytes ext"
  enter_explicit0 :: "bytes \<Rightarrow> bytes ext"
  enc_explicit0 :: "bytes \<Rightarrow> bytes ext"
  dec_signed_data :: "bytes \<Rightarrow> signed_data ext"
  enc_signed_data :: "signed_data \<Rightarrow> bytes ext"
  dec_raw_size :: "bytes \<Rightarrow> nat ext"
  dec_attribute :: "bytes \<Rightarrow> (attribute \<times> nat) ext"
  enc_attribute :: "attribute \<Rightarrow> bytes ext"
  enter_set :: "bytes \<Rightarrow> bytes ext"
  enc_set_of_oids :: "oid list \<Rightarrow> bytes ext"
  enc_set_of_octets :: "bytes list \<Rightarrow> bytes ext"
  enc_set_of_raw :: "bytes list \<Rightarrow> bytes ext"
  dec_octet_string :: "bytes \<Rightarrow> bytes ext"
  dec_oid_value :: "bytes \<Rightarrow> oid ext"
  dec_ias :: "bytes \<Rightarrow> issuer_and_serial ext"
  enc_ias :: "issuer_and_serial \<Rightarrow> bytes ext"
  name_from_der :: "bytes \<Rightarrow> obj ext"
  name_to_der :: "obj \<Rightarrow> bytes ext"
  dec_alg_id :: "bytes \<Rightarrow> alg_id ext"
  enc_alg_id :: "alg_id \<Rightarrow> bytes ext"
  digest_alg_id :: "rstr \<Rightarrow> alg_id option"
  certificate_from_der :: "bytes \<Rightarrow> certificate ext"
  public_key_from_der :: "bytes \<Rightarrow> obj ext"
  verify_signature :: "obj \<Rightarrow> bytes \<Rightarrow> bytes \<Rightarrow> bytes \<Rightarrow> unit ext"
  signature_algorithm_der :: "obj \<Rightarrow> rstr \<Rightarrow> bytes ext"
  sign_tbs :: "obj \<Rightarrow> rstr \<Rightarrow> bytes \<Rightarrow> bytes ext"
  composite_mldsa_spec :: "oid \<Rightarrow> bool"

text \<open>Everything below the protocol layer that the CMS code uses.\<close>

record crypto_env =
  cv_oids :: oid_table
  cv_codec :: codec
  cv_hash :: hash_ops
  cv_cms :: cms_ops

record verified_signed_data =
  vsd_content :: bytes
  vsd_content_type :: oid
  vsd_signer_cert_der :: bytes
  vsd_all_certs_der :: "bytes list"
  vsd_signer_algorithm_oid :: oid

section \<open>Post-quantum certificates\<close>

definition is_pq_signature_algorithm :: "crypto_env \<Rightarrow> oid \<Rightarrow> bool" where
  "is_pq_signature_algorithm V o1 \<longleftrightarrow>
     o1 = cv_oids V ID_ML_DSA_44 \<or> o1 = cv_oids V ID_ML_DSA_65 \<or> o1 = cv_oids V ID_ML_DSA_87 \<or>
     composite_mldsa_spec (cv_cms V) o1"

definition is_pq_signing_certificate :: "crypto_env \<Rightarrow> bytes \<Rightarrow> bool" where
  "is_pq_signing_certificate V cert_der =
     (case certificate_from_der (cv_cms V) cert_der of
        Inl _ \<Rightarrow> False
      | Inr cert \<Rightarrow> is_pq_signature_algorithm V (crt_spki_oid cert))"

definition digest_for_signer :: "crypto_env \<Rightarrow> bytes \<Rightarrow> rstr" where
  "digest_for_signer V signer_cert_der =
     (if is_pq_signing_certificate V signer_cert_der then ''sha512'' else ''sha256'')"

section \<open>Helpers\<close>

definition issuer_and_serial_der :: "cms_ops \<Rightarrow> bytes \<Rightarrow> bytes ext" where
  "issuer_and_serial_der M cert_der =
     rbind (map_err (\<lambda>e. ''parse certificate: '' @ e) (certificate_from_der M cert_der)) (\<lambda>cert.
     rbind (map_err (\<lambda>e. ''parse issuer Name: '' @ e) (name_from_der M (crt_issuer cert))) (\<lambda>issuer_name.
       map_err (\<lambda>e. ''encode IssuerAndSerialNumber: '' @ e)
         (enc_ias M \<lparr>ias_issuer = issuer_name, ias_serial = crt_serial cert\<rparr>)))"

definition build_signed_attrs :: "crypto_env \<Rightarrow> oid \<Rightarrow> bytes \<Rightarrow> (bytes \<times> bytes) ext" where
  "build_signed_attrs V content_oid digest =
     (let M = cv_cms V in
      rbind (map_err (\<lambda>_. ''invalid id-contentType OID'')
               (oid_new (cv_codec V) (cv_oids V PKCS9_CONTENT_TYPE))) (\<lambda>id_ct.
      rbind (map_err (\<lambda>_. ''invalid id-messageDigest OID'')
               (oid_new (cv_codec V) (cv_oids V PKCS9_MESSAGE_DIGEST))) (\<lambda>id_md.
      rbind (map_err (\<lambda>e. ''encode contentType attrValues: '' @ e) (enc_set_of_oids M [content_oid]))
        (\<lambda>ct_vals.
      rbind (map_err (\<lambda>e. ''encode contentType Attribute: '' @ e)
               (enc_attribute M \<lparr>at_type = id_ct, at_values = ct_vals\<rparr>)) (\<lambda>ct_attr_der.
      rbind (map_err (\<lambda>e. ''encode messageDigest attrValues: '' @ e) (enc_set_of_octets M [digest]))
        (\<lambda>md_vals.
      rbind (map_err (\<lambda>e. ''encode messageDigest Attribute: '' @ e)
               (enc_attribute M \<lparr>at_type = id_md, at_values = md_vals\<rparr>)) (\<lambda>md_attr_der.
      rbind (map_err (\<lambda>e. ''encode signedAttrs SET: '' @ e)
               (enc_set_of_raw M [ct_attr_der, md_attr_der])) (\<lambda>to_sign.
      rbind (map_err (\<lambda>e. ''strip SET outer tag: '' @ e) (enter_set M to_sign))
        (\<lambda>signed_attrs_content. Inr (to_sign, signed_attrs_content))))))))))"

function extract_certificates :: "cms_ops \<Rightarrow> bytes \<Rightarrow> bytes list res" where
  "extract_certificates M buf =
     (if buf = [] then Inr []
      else
        rbind (with_err CmsVerifyFailed ''parse cert in SET'' (dec_raw_size M buf)) (\<lambda>n.
        rbind (extract_certificates M (drop (Suc n) buf)) (\<lambda>certs.
          Inr (take (Suc n) buf # certs))))"
  by pat_completeness auto
termination
  by (relation "measure (\<lambda>(M, buf). length buf)") auto

declare extract_certificates.simps [simp del]

fun find_signer_cert_loop ::
    "cms_ops \<Rightarrow> bytes list \<Rightarrow> issuer_and_serial \<Rightarrow> bytes \<Rightarrow> bytes res" where
  "find_signer_cert_loop M [] ias ias_issuer_der =
     Inl (CmsVerifyFailed ''signer certificate not found in SignedData'')"
| "find_signer_cert_loop M (cert_der # certs) ias ias_issuer_der =
     rbind (with_err CmsVerifyFailed ''parse cert'' (certificate_from_der M cert_der)) (\<lambda>cert.
       if crt_serial cert = ias_serial ias \<and> crt_issuer cert = ias_issuer_der then Inr cert_der
       else find_signer_cert_loop M certs ias ias_issuer_der)"

definition find_signer_cert :: "cms_ops \<Rightarrow> bytes list \<Rightarrow> issuer_and_serial \<Rightarrow> bytes res" where
  "find_signer_cert M certs ias =
     rbind (with_err CmsVerifyFailed ''encode IAS issuer'' (name_to_der M (ias_issuer ias)))
       (\<lambda>ias_issuer_der. find_signer_cert_loop M certs ias ias_issuer_der)"

definition digest_alg_to_name :: "hash_ops \<Rightarrow> alg_id \<Rightarrow> rstr res" where
  "digest_alg_to_name H alg =
     ok_or (digest_oid_to_name H (ai_oid alg))
       (CmsVerifyFailed (''unsupported digest algorithm: '' @ dotted_oid (ai_oid alg)))"

text \<open>
  The two attribute checks walk the signed attributes and decide at the first attribute of
  the type they look for.
\<close>

function find_attribute :: "cms_ops \<Rightarrow> oid \<Rightarrow> rstr \<Rightarrow> bytes \<Rightarrow> attribute res" where
  "find_attribute M wanted missing buf =
     (if buf = [] then Inl (CmsVerifyFailed missing)
      else
        rbind (with_err CmsVerifyFailed ''parse attribute'' (dec_attribute M buf)) (\<lambda>(attr, n).
          if at_type attr = wanted then Inr attr
          else find_attribute M wanted missing (drop (Suc n) buf)))"
  by pat_completeness auto
termination
  by (relation "measure (\<lambda>(M, wanted, missing, buf). length buf)") auto

declare find_attribute.simps [simp del]

definition verify_message_digest :: "crypto_env \<Rightarrow> bytes \<Rightarrow> bytes \<Rightarrow> unit res" where
  "verify_message_digest V signed_attrs_content expected_digest =
     (let M = cv_cms V in
      rbind (map_err (\<lambda>_. CmsVerifyFailed ''invalid id-messageDigest OID'')
               (oid_new (cv_codec V) (cv_oids V PKCS9_MESSAGE_DIGEST))) (\<lambda>id_md.
      rbind (find_attribute M id_md ''messageDigest attribute not found in signedAttrs''
               signed_attrs_content) (\<lambda>attr.
      rbind (with_err CmsVerifyFailed ''enter attrValues SET'' (enter_set M (at_values attr))) (\<lambda>inner.
      rbind (with_err CmsVerifyFailed ''parse digest value'' (dec_octet_string M inner)) (\<lambda>digest.
        ensure (ct_eq (cv_hash V) digest expected_digest)
          (CmsVerifyFailed ''messageDigest does not match content''))))))"

definition verify_content_type :: "crypto_env \<Rightarrow> bytes \<Rightarrow> oid \<Rightarrow> unit res" where
  "verify_content_type V signed_attrs_content expected_content_type =
     (let M = cv_cms V in
      rbind (map_err (\<lambda>_. CmsVerifyFailed ''invalid id-contentType OID'')
               (oid_new (cv_codec V) (cv_oids V PKCS9_CONTENT_TYPE))) (\<lambda>id_ct.
      rbind (find_attribute M id_ct ''contentType attribute not found in signedAttrs''
               signed_attrs_content) (\<lambda>attr.
      rbind (with_err CmsVerifyFailed ''enter contentType attrValues SET'' (enter_set M (at_values attr)))
        (\<lambda>inner.
      rbind (with_err CmsVerifyFailed ''parse contentType OID'' (dec_oid_value M inner)) (\<lambda>o1.
        ensure (o1 = expected_content_type)
          (CmsVerifyFailed (''contentType attribute '' @ debug_oid o1 @
             '' does not match eContentType '' @ debug_oid expected_content_type)))))))"

definition retag_as_set :: "bytes \<Rightarrow> bytes" where
  "retag_as_set content = der_encode_length (length content) [0x31] @ content"

section \<open>Creation\<close>

text \<open>The ContentInfo wrapping both creation functions end with.\<close>

definition wrap_content_info :: "crypto_env \<Rightarrow> signed_data \<Rightarrow> bytes res" where
  "wrap_content_info V sd =
     (let M = cv_cms V in
      rbind (with_err CmsSignFailed ''encode SignedData'' (enc_signed_data M sd)) (\<lambda>sd_der.
      rbind (with_err CmsSignFailed ''encode [0] EXPLICIT'' (enc_explicit0 M sd_der)) (\<lambda>explicit_0.
      rbind (map_err (\<lambda>_. CmsSignFailed ''invalid id-signedData OID'')
               (oid_new (cv_codec V) (cv_oids V ID_SIGNED_DATA))) (\<lambda>id_signed_data.
        with_err CmsSignFailed ''encode ContentInfo''
          (enc_content_info M \<lparr>ci_content_type = id_signed_data, ci_content = explicit_0\<rparr>)))))"

definition create_signed_data ::
    "crypto_env \<Rightarrow> bytes \<Rightarrow> oid \<Rightarrow> obj \<Rightarrow> bytes \<Rightarrow> bytes list \<Rightarrow> rstr \<Rightarrow> bytes res" where
  "create_signed_data V content content_oid signer_key signer_cert_der extra_certs hash_algorithm =
     (let M = cv_cms V in
      rbind (with_err CmsSignFailed ''eContentType OID'' (oid_new (cv_codec V) content_oid))
        (\<lambda>e_content_type.
      rbind (ok_or (digest_alg_id M hash_algorithm)
               (CmsSignFailed (''unsupported hash: '' @ hash_algorithm))) (\<lambda>digest_alg.
      rbind (with_err CmsSignFailed ''hash'' (hash_data (cv_hash V) hash_algorithm content))
        (\<lambda>digest_bytes.
      rbind (with_err CmsSignFailed ''signed attrs'' (build_signed_attrs V e_content_type digest_bytes))
        (\<lambda>(to_sign, signed_attrs_content).
      rbind (with_err CmsSignFailed ''sig alg'' (signature_algorithm_der M signer_key hash_algorithm))
        (\<lambda>sig_alg_bytes.
      rbind (with_err CmsSignFailed ''sign'' (sign_tbs M signer_key hash_algorithm to_sign)) (\<lambda>signature.
      rbind (with_err CmsSignFailed ''signer cert'' (issuer_and_serial_der M signer_cert_der)) (\<lambda>ias_der.
      rbind (with_err CmsSignFailed ''decode sig alg'' (dec_alg_id M sig_alg_bytes)) (\<lambda>sig_alg.
      let signer_info = \<lparr>si_version = 1, si_sid = ias_der, si_digest_algorithm = digest_alg,
            si_signed_attrs = Some signed_attrs_content, si_signature_algorithm = sig_alg,
            si_signature = signature\<rparr>;
          certs_content = concat (signer_cert_der # extra_certs);
          signed_data = \<lparr>sd_version = 3, sd_digest_algorithms = [digest_alg],
            sd_e_content_type = e_content_type, sd_e_content = Some content,
            sd_certificates = (if certs_content = [] then None else Some certs_content),
            sd_signer_infos = [signer_info]\<rparr>
      in wrap_content_info V signed_data)))))))))"

definition create_unsigned_data :: "crypto_env \<Rightarrow> bytes \<Rightarrow> oid \<Rightarrow> bytes res" where
  "create_unsigned_data V content content_oid =
     rbind (with_err CmsSignFailed ''eContentType OID'' (oid_new (cv_codec V) content_oid))
       (\<lambda>e_content_type.
     wrap_content_info V \<lparr>sd_version = 3, sd_digest_algorithms = [],
       sd_e_content_type = e_content_type, sd_e_content = Some content,
       sd_certificates = None, sd_signer_infos = []\<rparr>)"

section \<open>Verification\<close>

text \<open>The unwrapping that both readers of a SignedData start with.\<close>

definition parse_signed_data :: "crypto_env \<Rightarrow> bytes \<Rightarrow> signed_data res" where
  "parse_signed_data V content_info_der =
     (let M = cv_cms V in
      rbind (with_err CmsVerifyFailed ''parse ContentInfo'' (dec_content_info M content_info_der)) (\<lambda>ci.
      rbind (map_err (\<lambda>_. CmsVerifyFailed ''invalid id-signedData OID'')
               (oid_new (cv_codec V) (cv_oids V ID_SIGNED_DATA))) (\<lambda>expected_oid.
      rbind (ensure (ci_content_type ci = expected_oid)
               (CmsContentTypeMismatch ''id-signedData'' (dotted_oid (ci_content_type ci)))) (\<lambda>_.
      rbind (with_err CmsVerifyFailed ''unwrap [0] EXPLICIT'' (enter_explicit0 M (ci_content ci)))
        (\<lambda>sd_bytes.
        with_err CmsVerifyFailed ''parse SignedData'' (dec_signed_data M sd_bytes))))))"

definition verify_signed_data :: "crypto_env \<Rightarrow> bytes \<Rightarrow> verified_signed_data res" where
  "verify_signed_data V content_info_der =
     (let M = cv_cms V in
      rbind (parse_signed_data V content_info_der) (\<lambda>signed_data.
      rbind (ok_or (case sd_signer_infos signed_data of [] \<Rightarrow> None | s # _ \<Rightarrow> Some s)
               (CmsVerifyFailed ''no SignerInfo present'')) (\<lambda>signer_info.
      rbind (case sd_certificates signed_data of
               Some certs_raw \<Rightarrow> extract_certificates M certs_raw
             | None \<Rightarrow> Inr []) (\<lambda>all_certs_der.
      rbind (with_err CmsVerifyFailed ''parse SignerIdentifier'' (dec_ias M (si_sid signer_info)))
        (\<lambda>signer_ias.
      rbind (find_signer_cert M all_certs_der signer_ias) (\<lambda>signer_cert_der.
      rbind (with_err CmsVerifyFailed ''parse signer cert'' (certificate_from_der M signer_cert_der))
        (\<lambda>signer_cert.
      rbind (with_err CmsVerifyFailed ''encode SPKI'' (crt_spki_der signer_cert)) (\<lambda>spki_der.
      rbind (with_err CmsVerifyFailed ''parse public key'' (public_key_from_der M spki_der)) (\<lambda>pub_key.
      rbind (ok_or (sd_e_content signed_data) (CmsVerifyFailed ''no eContent in SignedData'')) (\<lambda>content.
      rbind (ok_or (si_signed_attrs signer_info) (CmsVerifyFailed ''no signedAttrs''))
        (\<lambda>signed_attrs_raw.
      rbind (digest_alg_to_name (cv_hash V) (si_digest_algorithm signer_info)) (\<lambda>hash_name.
      rbind (with_err CmsVerifyFailed ''hash content'' (hash_data (cv_hash V) hash_name content))
        (\<lambda>computed_digest.
      rbind (verify_message_digest V signed_attrs_raw computed_digest) (\<lambda>_.
      rbind (verify_content_type V signed_attrs_raw (sd_e_content_type signed_data)) (\<lambda>_.
      rbind (with_err CmsVerifyFailed ''encode sig alg''
               (enc_alg_id M (si_signature_algorithm signer_info))) (\<lambda>sig_alg_der.
      rbind (with_err CmsVerifyFailed ''signature invalid''
               (verify_signature M pub_key (retag_as_set signed_attrs_raw) sig_alg_der
                  (si_signature signer_info))) (\<lambda>_.
        Inr \<lparr>vsd_content = content, vsd_content_type = sd_e_content_type signed_data,
             vsd_signer_cert_der = signer_cert_der, vsd_all_certs_der = all_certs_der,
             vsd_signer_algorithm_oid = ai_oid (si_signature_algorithm signer_info)\<rparr>)))))))))))))))))"

definition extract_unsigned_content :: "crypto_env \<Rightarrow> bytes \<Rightarrow> (bytes \<times> oid) res" where
  "extract_unsigned_content V content_info_der =
     rbind (parse_signed_data V content_info_der) (\<lambda>signed_data.
     rbind (ensure (sd_signer_infos signed_data = [])
              (CmsVerifyFailed ''SignedData has signers; expected unsigned anonymous content'')) (\<lambda>_.
     rbind (ok_or (sd_e_content signed_data) (CmsVerifyFailed ''no eContent in SignedData''))
       (\<lambda>e_content. Inr (e_content, sd_e_content_type signed_data))))"

definition extract_bare_content :: "crypto_env \<Rightarrow> bytes \<Rightarrow> (bytes \<times> oid) res" where
  "extract_bare_content V content_info_der =
     (let M = cv_cms V in
      rbind (with_err CmsVerifyFailed ''parse ContentInfo'' (dec_content_info M content_info_der)) (\<lambda>ci.
      rbind (with_err CmsVerifyFailed ''unwrap [0] EXPLICIT'' (enter_explicit0 M (ci_content ci)))
        (\<lambda>content_bytes.
      rbind (with_err CmsVerifyFailed ''extract OCTET STRING'' (dec_octet_string M content_bytes))
        (\<lambda>content. Inr (content, ci_content_type ci)))))"

section \<open>What the library promises\<close>

definition cms_ok :: "crypto_env \<Rightarrow> bool" where
  "cms_ok V \<longleftrightarrow>
     (let M = cv_cms V in
      (\<forall>x d. enc_content_info M x = Inr d \<longrightarrow> dec_content_info M d = Inr x) \<and>
      (\<forall>x d. enc_explicit0 M x = Inr d \<longrightarrow> enter_explicit0 M d = Inr x) \<and>
      (\<forall>x d. enc_signed_data M x = Inr d \<longrightarrow> dec_signed_data M d = Inr x) \<and>
      (\<forall>c x r. certificate_from_der M c = Inr x \<longrightarrow> c \<noteq> [] \<and> dec_raw_size M (c @ r) = Inr (length c - 1)) \<and>
      (\<forall>x d. enc_ias M x = Inr d \<longrightarrow> dec_ias M d = Inr x) \<and>
      (\<forall>b n. name_from_der M b = Inr n \<longrightarrow> name_to_der M n = Inr b) \<and>
      (\<forall>a d r. enc_attribute M a = Inr d \<longrightarrow> d \<noteq> [] \<and> dec_attribute M (d @ r) = Inr (a, length d - 1)) \<and>
      (\<forall>x s. enc_set_of_octets M [x] = Inr s \<longrightarrow>
         (\<exists>i. enter_set M s = Inr i \<and> dec_octet_string M i = Inr x)) \<and>
      (\<forall>x s. enc_set_of_oids M [x] = Inr s \<longrightarrow>
         (\<exists>i. enter_set M s = Inr i \<and> dec_oid_value M i = Inr x)) \<and>
      (\<forall>a b s c. enc_set_of_raw M [a, b] = Inr s \<longrightarrow> enter_set M s = Inr c \<longrightarrow>
         s = retag_as_set c \<and> (c = a @ b \<or> c = b @ a)) \<and>
      (\<forall>a d. dec_alg_id M d = Inr a \<longrightarrow> enc_alg_id M a = Inr d) \<and>
      (\<forall>h a. digest_alg_id M h = Some a \<longrightarrow> digest_oid_to_name (cv_hash V) (ai_oid a) = Some h) \<and>
      (\<forall>x d. enc_signed_data M x = Inr d \<longrightarrow> \<not> is_ok (dec_octet_string M d)))"

lemma cms_okD:
  assumes "cms_ok V"
  shows "enc_content_info (cv_cms V) ci = Inr d \<Longrightarrow> dec_content_info (cv_cms V) d = Inr ci"
    and "enc_explicit0 (cv_cms V) b = Inr d \<Longrightarrow> enter_explicit0 (cv_cms V) d = Inr b"
    and "enc_signed_data (cv_cms V) sd = Inr d \<Longrightarrow> dec_signed_data (cv_cms V) d = Inr sd"
    and "certificate_from_der (cv_cms V) c = Inr x \<Longrightarrow> c \<noteq> []"
    and "certificate_from_der (cv_cms V) c = Inr x \<Longrightarrow>
      dec_raw_size (cv_cms V) (c @ r) = Inr (length c - 1)"
    and "enc_ias (cv_cms V) i = Inr d \<Longrightarrow> dec_ias (cv_cms V) d = Inr i"
    and "name_from_der (cv_cms V) b = Inr n \<Longrightarrow> name_to_der (cv_cms V) n = Inr b"
    and "enc_attribute (cv_cms V) a = Inr d \<Longrightarrow> d \<noteq> []"
    and "enc_attribute (cv_cms V) a = Inr d \<Longrightarrow>
      dec_attribute (cv_cms V) (d @ r) = Inr (a, length d - 1)"
    and "enc_set_of_octets (cv_cms V) [y] = Inr s \<Longrightarrow>
      \<exists>i. enter_set (cv_cms V) s = Inr i \<and> dec_octet_string (cv_cms V) i = Inr y"
    and "enc_set_of_oids (cv_cms V) [q] = Inr s \<Longrightarrow>
      \<exists>i. enter_set (cv_cms V) s = Inr i \<and> dec_oid_value (cv_cms V) i = Inr q"
    and "enc_set_of_raw (cv_cms V) [u, v] = Inr s \<Longrightarrow> enter_set (cv_cms V) s = Inr t \<Longrightarrow>
      s = retag_as_set t \<and> (t = u @ v \<or> t = v @ u)"
    and "dec_alg_id (cv_cms V) d = Inr al \<Longrightarrow> enc_alg_id (cv_cms V) al = Inr d"
    and "digest_alg_id (cv_cms V) h = Some al \<Longrightarrow> digest_oid_to_name (cv_hash V) (ai_oid al) = Some h"
    and "enc_signed_data (cv_cms V) sd = Inr d \<Longrightarrow> \<not> is_ok (dec_octet_string (cv_cms V) d)"
  using assms[unfolded cms_ok_def Let_def] by simp_all

text \<open>A signing key belongs to a certificate: what it signs verifies under the certified key.\<close>

definition key_certified :: "crypto_env \<Rightarrow> obj \<Rightarrow> bytes \<Rightarrow> bool" where
  "key_certified V key cert_der \<longleftrightarrow>
     (\<exists>cert spki pk. certificate_from_der (cv_cms V) cert_der = Inr cert \<and>
        crt_spki_der cert = Inr spki \<and> public_key_from_der (cv_cms V) spki = Inr pk \<and>
        (\<forall>h tbs alg sg. signature_algorithm_der (cv_cms V) key h = Inr alg \<longrightarrow>
           sign_tbs (cv_cms V) key h tbs = Inr sg \<longrightarrow>
           verify_signature (cv_cms V) pk tbs alg sg = Inr ()))"

section \<open>Facts about the helpers\<close>

lemma find_signer_cert_loop_Inr:
  "find_signer_cert_loop M certs ias n = Inr c \<Longrightarrow>
   c \<in> set certs \<and> (\<exists>x. certificate_from_der M c = Inr x \<and> crt_serial x = ias_serial ias \<and> crt_issuer x = n)"
  by (induction M certs ias n rule: find_signer_cert_loop.induct) (auto simp: res split: if_splits)

lemma find_attribute_Inr:
  "find_attribute M w m buf = Inr a \<Longrightarrow> at_type a = w"
proof (induction M w m buf rule: find_attribute.induct)
  case (1 M w m buf)
  then show ?case
    by (subst (asm) (2) find_attribute.simps) (auto simp: res split: if_splits)
qed

lemma extract_certificates_concat:
  assumes "\<And>c. c \<in> set cs \<Longrightarrow> c \<noteq> [] \<and> (\<forall>r. dec_raw_size M (c @ r) = Inr (length c - 1))"
  shows "extract_certificates M (concat cs) = Inr cs"
  using assms
proof (induction cs)
  case Nil
  then show ?case by (simp add: extract_certificates.simps)
next
  case (Cons c cs)
  then have c: "c \<noteq> []" "dec_raw_size M (c @ concat cs) = Inr (length c - 1)" by simp_all
  with Cons show ?case
    by (subst extract_certificates.simps) simp
qed

lemma find_attribute_here:
  assumes "d \<noteq> []" "dec_attribute M (d @ r) = Inr (a, length d - 1)" "at_type a = w"
  shows "find_attribute M w m (d @ r) = Inr a"
  using assms by (subst find_attribute.simps) simp

lemma find_attribute_skip:
  assumes "d \<noteq> []" "dec_attribute M (d @ r) = Inr (a, length d - 1)" "at_type a \<noteq> w"
  shows "find_attribute M w m (d @ r) = find_attribute M w m r"
  using assms by (subst find_attribute.simps) simp

lemma find_attribute_either:
  assumes law: "\<And>a d r. enc_attribute M a = Inr d \<Longrightarrow> d \<noteq> [] \<and> dec_attribute M (d @ r) = Inr (a, length d - 1)"
    and "enc_attribute M a = Inr da" "enc_attribute M b = Inr db" "at_type a = w" "at_type b \<noteq> w"
    and "c = da @ db \<or> c = db @ da"
  shows "find_attribute M w m c = Inr a"
proof -
  have here: "find_attribute M w m (da @ r) = Inr a" for r
    using law[OF assms(2), of r] assms(4) by (intro find_attribute_here) auto
  have skip: "find_attribute M w m (db @ r) = find_attribute M w m r" for r
    using law[OF assms(3), of r] assms(5) by (intro find_attribute_skip) auto
  show ?thesis using assms(6) here[of db] here[of "[]"] skip[of da] by auto
qed

lemma parse_wrapped:
  assumes "cms_ok V" "codec_ok (cv_codec V)" "wrap_content_info V sd = Inr d"
  shows "parse_signed_data V d = Inr sd"
proof -
  let ?M = "cv_cms V"
  from assms(3) obtain sd_der e o1 where
    e: "enc_signed_data ?M sd = Inr sd_der" "enc_explicit0 ?M sd_der = Inr e"
      "oid_new (cv_codec V) (cv_oids V ID_SIGNED_DATA) = Inr o1"
      "enc_content_info ?M \<lparr>ci_content_type = o1, ci_content = e\<rparr> = Inr d"
    by (auto simp: wrap_content_info_def Let_def res)
  have "dec_content_info ?M d = Inr \<lparr>ci_content_type = o1, ci_content = e\<rparr>"
    "enter_explicit0 ?M e = Inr sd_der" "dec_signed_data ?M sd_der = Inr sd"
    by (rule cms_okD[OF assms(1)], rule e)+
  with e(3) show ?thesis by (simp add: parse_signed_data_def Let_def)
qed

lemma first_Some [simp]:
  "(case xs of [] \<Rightarrow> None | s # _ \<Rightarrow> Some s) = Some x \<longleftrightarrow> (\<exists>ys. xs = x # ys)"
  by (cases xs) auto

section \<open>Properties\<close>

lemma verify_signed_data_Inr:
  assumes "verify_signed_data V d = Inr v"
  obtains sd si ss ias n cert spki pk attrs h md alg where
      "parse_signed_data V d = Inr sd" "sd_signer_infos sd = si # ss"
      "sd_e_content sd = Some (vsd_content v)" "sd_e_content_type sd = vsd_content_type v"
      "dec_ias (cv_cms V) (si_sid si) = Inr ias"
      "name_to_der (cv_cms V) (ias_issuer ias) = Inr n"
      "find_signer_cert_loop (cv_cms V) (vsd_all_certs_der v) ias n = Inr (vsd_signer_cert_der v)"
      "certificate_from_der (cv_cms V) (vsd_signer_cert_der v) = Inr cert"
      "crt_spki_der cert = Inr spki" "public_key_from_der (cv_cms V) spki = Inr pk"
      "si_signed_attrs si = Some attrs"
      "digest_oid_to_name (cv_hash V) (ai_oid (si_digest_algorithm si)) = Some h"
      "hash_data (cv_hash V) h (vsd_content v) = Inr md"
      "verify_message_digest V attrs md = Inr ()"
      "verify_content_type V attrs (vsd_content_type v) = Inr ()"
      "enc_alg_id (cv_cms V) (si_signature_algorithm si) = Inr alg"
      "verify_signature (cv_cms V) pk (retag_as_set attrs) alg (si_signature si) = Inr ()"
  using assms
  apply (simp only: verify_signed_data_def Let_def find_signer_cert_def digest_alg_to_name_def)
  apply (simp only: res with_err_def)
  apply (elim exE conjE)
  apply (simp only: first_Some sum.inject)
  apply (elim exE conjE)
  apply hypsubst
  apply (rule that; simp)
  done

text \<open>C13: A SignedData is accepted only if its content is authenticated: the certificate returned
  as the signer's is one of those in the message, is the one the first SignerInfo names by
  issuer and serial number, and its key verifies the signature over the signed attributes
  re-tagged as a SET; those attributes contain the hash of exactly the content returned and
  exactly the content type returned.\<close>
theorem verify_signed_data_sound:
  assumes "verify_signed_data V d = Inr v" "hash_ok (cv_hash V)" "codec_ok (cv_codec V)"
  shows "\<exists>sd si ss attrs cert spki pk alg ias h md_attr md_set md ct_attr ct_set.
    parse_signed_data V d = Inr sd \<and> sd_signer_infos sd = si # ss \<and>
    sd_e_content sd = Some (vsd_content v) \<and> sd_e_content_type sd = vsd_content_type v \<and>
    vsd_signer_cert_der v \<in> set (vsd_all_certs_der v) \<and>
    certificate_from_der (cv_cms V) (vsd_signer_cert_der v) = Inr cert \<and>
    dec_ias (cv_cms V) (si_sid si) = Inr ias \<and> crt_serial cert = ias_serial ias \<and>
    name_to_der (cv_cms V) (ias_issuer ias) = Inr (crt_issuer cert) \<and>
    si_signed_attrs si = Some attrs \<and>
    crt_spki_der cert = Inr spki \<and> public_key_from_der (cv_cms V) spki = Inr pk \<and>
    enc_alg_id (cv_cms V) (si_signature_algorithm si) = Inr alg \<and>
    verify_signature (cv_cms V) pk (retag_as_set attrs) alg (si_signature si) = Inr () \<and>
    digest_oid_to_name (cv_hash V) (ai_oid (si_digest_algorithm si)) = Some h \<and>
    find_attribute (cv_cms V) (cv_oids V PKCS9_MESSAGE_DIGEST)
      ''messageDigest attribute not found in signedAttrs'' attrs = Inr md_attr \<and>
    enter_set (cv_cms V) (at_values md_attr) = Inr md_set \<and>
    dec_octet_string (cv_cms V) md_set = Inr md \<and>
    hash_data (cv_hash V) h (vsd_content v) = Inr md \<and>
    find_attribute (cv_cms V) (cv_oids V PKCS9_CONTENT_TYPE)
      ''contentType attribute not found in signedAttrs'' attrs = Inr ct_attr \<and>
    enter_set (cv_cms V) (at_values ct_attr) = Inr ct_set \<and>
    dec_oid_value (cv_cms V) ct_set = Inr (vsd_content_type v)"
proof -
  have eq: "ct_eq (cv_hash V) a b \<longleftrightarrow> a = b" for a b
    using assms(2) by (simp add: hash_ok_def)
  from assms(1) obtain sd si ss ias n cert spki pk attrs h md alg where
    A: "parse_signed_data V d = Inr sd" "sd_signer_infos sd = si # ss"
      "sd_e_content sd = Some (vsd_content v)" "sd_e_content_type sd = vsd_content_type v"
      "dec_ias (cv_cms V) (si_sid si) = Inr ias"
      "name_to_der (cv_cms V) (ias_issuer ias) = Inr n"
      "find_signer_cert_loop (cv_cms V) (vsd_all_certs_der v) ias n = Inr (vsd_signer_cert_der v)"
      "certificate_from_der (cv_cms V) (vsd_signer_cert_der v) = Inr cert"
      "crt_spki_der cert = Inr spki" "public_key_from_der (cv_cms V) spki = Inr pk"
      "si_signed_attrs si = Some attrs"
      "digest_oid_to_name (cv_hash V) (ai_oid (si_digest_algorithm si)) = Some h"
      "hash_data (cv_hash V) h (vsd_content v) = Inr md"
      "verify_message_digest V attrs md = Inr ()"
      "verify_content_type V attrs (vsd_content_type v) = Inr ()"
      "enc_alg_id (cv_cms V) (si_signature_algorithm si) = Inr alg"
      "verify_signature (cv_cms V) pk (retag_as_set attrs) alg (si_signature si) = Inr ()"
    by (rule verify_signed_data_Inr)
  from A(7,8) have C: "vsd_signer_cert_der v \<in> set (vsd_all_certs_der v)"
    "crt_serial cert = ias_serial ias" "crt_issuer cert = n"
    by (auto dest: find_signer_cert_loop_Inr)
  from A(14) obtain a i where
    "find_attribute (cv_cms V) (cv_oids V PKCS9_MESSAGE_DIGEST)
       ''messageDigest attribute not found in signedAttrs'' attrs = Inr a"
    "enter_set (cv_cms V) (at_values a) = Inr i" "dec_octet_string (cv_cms V) i = Inr md"
    using codec_okD(4)[OF assms(3)]
    by (auto simp: verify_message_digest_def Let_def res eq)
  moreover from A(15) obtain b j where
    "find_attribute (cv_cms V) (cv_oids V PKCS9_CONTENT_TYPE)
       ''contentType attribute not found in signedAttrs'' attrs = Inr b"
    "enter_set (cv_cms V) (at_values b) = Inr j"
    "dec_oid_value (cv_cms V) j = Inr (vsd_content_type v)"
    using codec_okD(4)[OF assms(3)]
    by (auto simp: verify_content_type_def Let_def res)
  ultimately show ?thesis using A C by blast
qed

lemma wrapped_not_bare:
  assumes "cms_ok V" "wrap_content_info V sd = Inr d"
  shows "\<not> is_ok (extract_bare_content V d)"
proof -
  let ?M = "cv_cms V"
  from assms(2) obtain sd_der e o1 where
    e: "enc_signed_data ?M sd = Inr sd_der" "enc_explicit0 ?M sd_der = Inr e"
      "enc_content_info ?M \<lparr>ci_content_type = o1, ci_content = e\<rparr> = Inr d"
    by (auto simp: wrap_content_info_def Let_def res)
  have "dec_content_info ?M d = Inr \<lparr>ci_content_type = o1, ci_content = e\<rparr>" "enter_explicit0 ?M e = Inr sd_der"
    by (rule cms_okD[OF assms(1)], rule e)+
  with cms_okD(15)[OF assms(1) e(1)] show ?thesis
    by (auto simp: extract_bare_content_def Let_def res)
qed

lemma created_data_signed:
  assumes "cms_ok V" "codec_ok (cv_codec V)" "create_signed_data V content ctype key cert extras h = Inr d"
  shows "\<not> is_ok (extract_unsigned_content V d)" "\<not> is_ok (extract_bare_content V d)"
proof -
  from assms(3) obtain sd where w: "wrap_content_info V sd = Inr d" and s: "sd_signer_infos sd \<noteq> []"
    by (auto simp: create_signed_data_def Let_def res)
  from parse_wrapped[OF assms(1,2) w] s show "\<not> is_ok (extract_unsigned_content V d)"
    by (simp add: extract_unsigned_content_def res)
  show "\<not> is_ok (extract_bare_content V d)" by (rule wrapped_not_bare[OF assms(1) w])
qed

lemma unsigned_data_extracts:
  assumes "cms_ok V" "codec_ok (cv_codec V)" "create_unsigned_data V content ctype = Inr d"
  shows "extract_unsigned_content V d = Inr (content, ctype)"
proof -
  from assms(3) obtain ct where c: "oid_new (cv_codec V) ctype = Inr ct" and
    w: "wrap_content_info V \<lparr>sd_version = 3, sd_digest_algorithms = [], sd_e_content_type = ct,
      sd_e_content = Some content, sd_certificates = None, sd_signer_infos = []\<rparr> = Inr d"
    by (auto simp: create_unsigned_data_def res)
  show ?thesis
    using parse_wrapped[OF assms(1,2) w] codec_okD(4)[OF assms(2) c] by (simp add: extract_unsigned_content_def)
qed

lemma created_data_verifies:
  assumes ok: "cms_ok V" "codec_ok (cv_codec V)" "hash_ok (cv_hash V)" "oids_ok (cv_oids V)"
    and key: "key_certified V key cert"
    and extras: "\<forall>c\<in>set extras. is_ok (certificate_from_der (cv_cms V) c)"
    and cr: "create_signed_data V content ctype key cert extras h = Inr d"
  shows "\<exists>alg ab a. signature_algorithm_der (cv_cms V) key h = Inr ab \<and> dec_alg_id (cv_cms V) ab = Inr a \<and>
    alg = ai_oid a \<and> verify_signed_data V d = Inr \<lparr>vsd_content = content, vsd_content_type = ctype,
    vsd_signer_cert_der = cert, vsd_all_certs_der = cert # extras, vsd_signer_algorithm_oid = alg\<rparr>"
proof -
  let ?M = "cv_cms V" and ?H = "cv_hash V"
  have oid: "oid_new (cv_codec V) x = Inr y \<Longrightarrow> y = x" for x y by (rule codec_okD(4)[OF ok(2)])
  from cr obtain ct da dg ts sa ab sg ias alg where
    ct: "oid_new (cv_codec V) ctype = Inr ct"
    and D: "digest_alg_id ?M h = Some da"
      "hash_data ?H h content = Inr dg" "build_signed_attrs V ct dg = Inr (ts, sa)"
      "signature_algorithm_der ?M key h = Inr ab" "sign_tbs ?M key h ts = Inr sg"
      "issuer_and_serial_der ?M cert = Inr ias" "dec_alg_id ?M ab = Inr alg"
    and W: "wrap_content_info V \<lparr>sd_version = 3, sd_digest_algorithms = [da],
        sd_e_content_type = ct, sd_e_content = Some content,
        sd_certificates = (if concat (cert # extras) = [] then None else Some (concat (cert # extras))),
        sd_signer_infos = [\<lparr>si_version = 1, si_sid = ias, si_digest_algorithm = da,
          si_signed_attrs = Some sa, si_signature_algorithm = alg, si_signature = sg\<rparr>]\<rparr> = Inr d"
      (is "wrap_content_info V ?sd = Inr d")
    by (auto simp: create_signed_data_def Let_def res simp del: concat.simps)
  have ct_eq: "ct = ctype" by (rule oid[OF ct])
  have P: "parse_signed_data V d = Inr ?sd" by (rule parse_wrapped[OF ok(1,2) W])
  from key obtain x spki pk where K: "certificate_from_der ?M cert = Inr x" "crt_spki_der x = Inr spki"
    "public_key_from_der ?M spki = Inr pk" "verify_signature ?M pk ts ab sg = Inr ()"
    using D(4,5) unfolding key_certified_def by blast
  have raw: "c \<noteq> [] \<and> (\<forall>r. dec_raw_size ?M (c @ r) = Inr (length c - 1))" if "c \<in> set (cert # extras)" for c
  proof -
    obtain y where "certificate_from_der ?M c = Inr y"
      using \<open>c \<in> set (cert # extras)\<close> extras K(1) by (auto simp: is_ok_iff)
    then show ?thesis using cms_okD(4,5)[OF ok(1)] by simp
  qed
  have X: "extract_certificates ?M (concat (cert # extras)) = Inr (cert # extras)"
    by (rule extract_certificates_concat[OF raw])
  from D(6) K(1) obtain nm where I: "name_from_der ?M (crt_issuer x) = Inr nm"
    "enc_ias ?M \<lparr>ias_issuer = nm, ias_serial = crt_serial x\<rparr> = Inr ias"
    by (auto simp: issuer_and_serial_der_def res)
  then have S: "dec_ias ?M ias = Inr \<lparr>ias_issuer = nm, ias_serial = crt_serial x\<rparr>"
    "name_to_der ?M nm = Inr (crt_issuer x)"
    using cms_okD(6)[OF ok(1) I(2)] cms_okD(7)[OF ok(1) I(1)] by simp_all
  have F: "find_signer_cert ?M (cert # extras) \<lparr>ias_issuer = nm, ias_serial = crt_serial x\<rparr> = Inr cert"
    using S K(1) by (simp add: find_signer_cert_def)
  from D(3) obtain o1 o2 ctv ctd mdv mdd where B0:
    "oid_new (cv_codec V) (cv_oids V PKCS9_CONTENT_TYPE) = Inr o1"
    "oid_new (cv_codec V) (cv_oids V PKCS9_MESSAGE_DIGEST) = Inr o2"
    "enc_set_of_oids ?M [ct] = Inr ctv"
    "enc_attribute ?M \<lparr>at_type = o1, at_values = ctv\<rparr> = Inr ctd"
    "enc_set_of_octets ?M [dg] = Inr mdv"
    "enc_attribute ?M \<lparr>at_type = o2, at_values = mdv\<rparr> = Inr mdd"
    "enc_set_of_raw ?M [ctd, mdd] = Inr ts" "enter_set ?M ts = Inr sa"
    by (auto simp: build_signed_attrs_def Let_def res)
  note B = B0[unfolded oid[OF B0(1)] oid[OF B0(2)] ct_eq]
  have R: "ts = retag_as_set sa" "sa = ctd @ mdd \<or> sa = mdd @ ctd"
    using cms_okD(12)[OF ok(1) B(7,8)] by simp_all
  have law: "enc_attribute ?M a = Inr e \<Longrightarrow> e \<noteq> [] \<and> dec_attribute ?M (e @ r) = Inr (a, length e - 1)" for a e r
    using cms_okD(8,9)[OF ok(1)] by simp
  have names: "cv_oids V PKCS9_CONTENT_TYPE \<noteq> cv_oids V PKCS9_MESSAGE_DIGEST" using ok(4) by simp
  have fc: "find_attribute ?M (cv_oids V PKCS9_CONTENT_TYPE) m sa
      = Inr \<lparr>at_type = cv_oids V PKCS9_CONTENT_TYPE, at_values = ctv\<rparr>" for m
    using names R(2) by (intro find_attribute_either[OF law B(4) B(6)]) auto
  have fm: "find_attribute ?M (cv_oids V PKCS9_MESSAGE_DIGEST) m sa
      = Inr \<lparr>at_type = cv_oids V PKCS9_MESSAGE_DIGEST, at_values = mdv\<rparr>" for m
    using names R(2) by (intro find_attribute_either[OF law B(6) B(4)]) auto
  from cms_okD(11)[OF ok(1) B(3)] cms_okD(10)[OF ok(1) B(5)] obtain ci mi where "enter_set ?M ctv = Inr ci" "dec_oid_value ?M ci = Inr ctype"
    "enter_set ?M mdv = Inr mi" "dec_octet_string ?M mi = Inr dg"
    by blast
  then have A: "verify_message_digest V sa dg = Inr ()" "verify_content_type V sa ctype = Inr ()"
    using B(1,2) fc fm ok(3)
    by (simp_all add: verify_message_digest_def verify_content_type_def Let_def hash_ok_def)
  have N: "digest_oid_to_name ?H (ai_oid da) = Some h" "enc_alg_id ?M alg = Inr ab"
    by (rule cms_okD(14)[OF ok(1) D(1)], rule cms_okD(13)[OF ok(1) D(7)])
  show ?thesis
    using P[unfolded ct_eq] cms_okD(4)[OF ok(1) K(1)] X S(1) F K A N D(2,4,7) R(1)
    by (intro exI[of _ "ai_oid alg"] exI[of _ ab] exI[of _ alg]) (simp add: verify_signed_data_def Let_def digest_alg_to_name_def)
qed

text \<open>C14: What one side signs the other side verifies: a SignedData made with a certified key
  verifies, and gives back the content, the content type, the signer's certificate and the
  certificates that were sent, in order.\<close>
theorem signed_data_roundtrip:
  assumes "cms_ok V" "codec_ok (cv_codec V)" "hash_ok (cv_hash V)" "oids_ok (cv_oids V)"
    and "key_certified V key cert"
    and "\<forall>c\<in>set extras. is_ok (certificate_from_der (cv_cms V) c)"
    and "create_signed_data V content ctype key cert extras h = Inr d"
  shows "\<exists>alg. verify_signed_data V d = Inr \<lparr>vsd_content = content, vsd_content_type = ctype,
    vsd_signer_cert_der = cert, vsd_all_certs_der = cert # extras, vsd_signer_algorithm_oid = alg\<rparr>"
  using created_data_verifies[OF assms] by blast

section \<open>A concrete library\<close>

text \<open>
  Three certificates, the KDC's, the client's and one with an ML-DSA key, each three bytes long
  and each with a key that signs by prefixing itself; a table of the SignedData the run at hand exchanges.
\<close>

definition demo_kdc_cert :: bytes where "demo_kdc_cert = [48, 1, 1]"
definition demo_client_cert :: bytes where "demo_client_cert = [48, 1, 2]"
definition demo_pq_cert :: bytes where "demo_pq_cert = [48, 1, 3]"

definition demo_certificate :: "int \<Rightarrow> certificate" where
  "demo_certificate n = \<lparr>crt_serial = n, crt_issuer = [9], crt_subject = [8], crt_spki_der = Inr [5, of_int n],
     crt_spki_oid = std_oids (if n = 3 then ID_ML_DSA_65 else ID_EC_PUBLIC_KEY), crt_extensions = Some [of_int n]\<rparr>"

definition demo_certificate_from_der :: "bytes \<Rightarrow> certificate ext" where
  "demo_certificate_from_der c =
     (if c = demo_kdc_cert then Inr (demo_certificate 1)
      else if c = demo_client_cert then Inr (demo_certificate 2)
      else if c = demo_pq_cert then Inr (demo_certificate 3)
      else Inl ''not a certificate'')"

definition demo_ias_table :: "(issuer_and_serial \<times> bytes) list" where
  "demo_ias_table = [(\<lparr>ias_issuer = [90], ias_serial = 1\<rparr>, [1]), (\<lparr>ias_issuer = [90], ias_serial = 2\<rparr>, [2])]"

definition demo_oid_table :: "(oid \<times> bytes) list" where
  "demo_oid_table = [(std_oids ID_PKINIT_AUTH_DATA, [1]), (std_oids ID_PKINIT_DHKEY_DATA, [2]),
     (ID_PKINIT_KEM_KEY_DATA, [3])]"

definition demo_alg_table :: "(alg_id \<times> bytes) list" where
  "demo_alg_table = [(\<lparr>ai_oid = std_oids ID_EC_PUBLIC_KEY, ai_params = None\<rparr>, [6]),
     (\<lparr>ai_oid = std_oids ID_ML_KEM_1024, ai_params = None\<rparr>, [4])]"

definition demo_enc_attribute :: "attribute \<Rightarrow> bytes ext" where
  "demo_enc_attribute a =
     (if length (at_values a) \<ge> 200 then Inl ''too long''
      else if at_type a = std_oids PKCS9_CONTENT_TYPE
        then Inr (1 # word_of_nat (length (at_values a)) # at_values a)
      else if at_type a = std_oids PKCS9_MESSAGE_DIGEST
        then Inr (2 # word_of_nat (length (at_values a)) # at_values a)
      else Inl ''type'')"

fun demo_dec_attribute :: "bytes \<Rightarrow> (attribute \<times> nat) ext" where
  "demo_dec_attribute (t # l # r) =
     Inr (\<lparr>at_type = std_oids (if t = 1 then PKCS9_CONTENT_TYPE else PKCS9_MESSAGE_DIGEST),
           at_values = take (unat l) r\<rparr>, Suc (unat l))"
| "demo_dec_attribute _ = Inl ''attribute''"

definition demo_enc_set :: "bytes list \<Rightarrow> bytes ext" where
  "demo_enc_set xs =
     (if length (concat xs) < 200 then Inr (retag_as_set (concat xs)) else Inl ''too long'')"

definition demo_enter_set :: "bytes \<Rightarrow> bytes ext" where
  "demo_enter_set s = map_err (\<lambda>_. ''set'') (read_tlv der_parse_length ''set'' s)"

definition demo_cms :: "(signed_data \<times> bytes) list \<Rightarrow> cms_ops" where
  "demo_cms sds = \<lparr>
     dec_content_info = (\<lambda>d. case d of [] \<Rightarrow> Inl ''ci'' | _ # r \<Rightarrow>
       Inr \<lparr>ci_content_type = std_oids ID_SIGNED_DATA, ci_content = r\<rparr>),
     enc_content_info = (\<lambda>c. if ci_content_type c = std_oids ID_SIGNED_DATA then Inr (0x30 # ci_content c)
       else Inl ''ci''),
     enter_explicit0 = (\<lambda>d. case d of [] \<Rightarrow> Inl ''explicit'' | _ # r \<Rightarrow> Inr r),
     enc_explicit0 = (\<lambda>b. Inr (0xA0 # b)),
     dec_signed_data = table_dec sds,
     enc_signed_data = table_enc sds,
     dec_raw_size = (\<lambda>_. Inr 2),
     dec_attribute = demo_dec_attribute,
     enc_attribute = demo_enc_attribute,
     enter_set = demo_enter_set,
     enc_set_of_oids = (\<lambda>os. rbind (traverse (table_enc demo_oid_table) os) demo_enc_set),
     enc_set_of_octets = (\<lambda>xs. if list_ex (\<lambda>x. length x = 1) xs then Inl ''short'' else demo_enc_set xs),
     enc_set_of_raw = demo_enc_set,
     dec_octet_string = (\<lambda>d. if length d = 1 then Inl ''not an octet string'' else Inr d),
     dec_oid_value = table_dec demo_oid_table,
     dec_ias = table_dec demo_ias_table,
     enc_ias = table_enc demo_ias_table,
     name_from_der = (\<lambda>b. if b = [9] then Inr [90] else Inl ''name''),
     name_to_der = (\<lambda>n. if n = [90] then Inr [9] else Inl ''name''),
     dec_alg_id = table_dec demo_alg_table,
     enc_alg_id = table_enc demo_alg_table,
     digest_alg_id = (\<lambda>h. if h = ''sha256'' then Some \<lparr>ai_oid = std_oids ID_SHA256, ai_params = None\<rparr> else None),
     certificate_from_der = demo_certificate_from_der,
     public_key_from_der = Inr,
     verify_signature = (\<lambda>pk tbs alg sg. if alg = [6] \<and> sg = tl pk @ tbs then Inr () else Inl ''bad signature''),
     signature_algorithm_der = (\<lambda>_ _. Inr [6]),
     sign_tbs = (\<lambda>key _ tbs. Inr (key @ tbs)),
     composite_mldsa_spec = (\<lambda>_. False)\<rparr>"

definition demo_env :: "(signed_data \<times> bytes) list \<Rightarrow> crypto_env" where
  "demo_env sds = \<lparr>cv_oids = std_oids, cv_codec = demo_codec, cv_hash = demo_hash, cv_cms = demo_cms sds\<rparr>"

lemma demo_enc_set_enter: "demo_enc_set xs = Inr s \<Longrightarrow> demo_enter_set s = Inr (concat xs)"
  by (auto simp: demo_enc_set_def demo_enter_set_def retag_as_set_def der.read_written_end split: if_splits)

lemma demo_attribute_roundtrip:
  "demo_enc_attribute a = Inr d \<Longrightarrow> d \<noteq> [] \<and> demo_dec_attribute (d @ r) = Inr (a, length d - 1)"
proof -
  assume a: "demo_enc_attribute a = Inr d"
  have "unat (word_of_nat (length (at_values a)) :: byte) = length (at_values a)"
    if "length (at_values a) < 200"
    using that by (simp add: unat_of_nat take_bit_nat_eq_self)
  with a show ?thesis by (cases a) (auto simp: demo_enc_attribute_def split: if_splits)
qed

lemma demo_env_ok:
  assumes "distinct (map snd sds)" "list_all (\<lambda>d. length d = 1) (map snd sds)"
  shows "cms_ok (demo_env sds)"
proof -
  have 1: "demo_certificate_from_der c = Inr x \<Longrightarrow> c \<noteq> [] \<and> length c - 1 = 2" for c x
    by (auto simp: demo_certificate_from_der_def demo_kdc_cert_def demo_client_cert_def demo_pq_cert_def split: if_splits)
  have 2: "table_enc demo_oid_table q = Inr d \<Longrightarrow> table_dec demo_oid_table d = Inr q" for q d
    by (rule table_roundtrip) (simp add: demo_oid_table_def)
  have 3: "table_enc demo_ias_table q = Inr d \<Longrightarrow> table_dec demo_ias_table d = Inr q" for q d
    by (rule table_roundtrip) (simp add: demo_ias_table_def)
  have 4: "demo_enc_set xs = Inr s \<Longrightarrow> demo_enter_set s = Inr c \<Longrightarrow> s = retag_as_set c \<and> c = concat xs"
    for xs s c using demo_enc_set_enter[of xs s] by (auto simp: demo_enc_set_def split: if_splits)
  note 5 = table_roundtrip[OF assms(1)]
  have 7: "table_enc sds x = Inr d \<Longrightarrow> length d = 1" for x d
    using assms(2) by (auto simp: table_enc_def list_all_iff split: option.splits dest!: map_of_SomeD)
  have 8: "demo_enc_set [x] = Inr s \<Longrightarrow> demo_enter_set s = Inr x" for x s
    using demo_enc_set_enter[of "[x]"] by simp
  have 6: "table_dec demo_alg_table d = Inr a \<Longrightarrow> table_enc demo_alg_table a = Inr d" for d a
    by (rule table_roundtrip_dec) (simp_all add: demo_alg_table_def std_oids_def)
  show ?thesis
    unfolding cms_ok_def Let_def demo_env_def demo_cms_def
    using 1 2 3 4 5 6 7 by (simp add: demo_attribute_roundtrip, intro conjI allI impI)
      (auto simp: res demo_hash_def split: list.splits if_splits dest: demo_enc_set_enter 8)
qed

text \<open>The SignedData that \<open>create_signed_data\<close> builds for a content, its type's code and its
  signer.\<close>

definition demo_signed_attrs :: "bytes \<Rightarrow> byte \<Rightarrow> bytes" where
  "demo_signed_attrs content code =
     [1, 3, 0x31, 1, code, 2, 34, 0x31, 32] @ take 32 (content @ replicate 32 1)"

definition demo_sd_of :: "bytes \<Rightarrow> byte \<Rightarrow> oid \<Rightarrow> bytes \<Rightarrow> bytes \<Rightarrow> signed_data" where
  "demo_sd_of content code ctype sid certs =
   \<lparr>sd_version = 3, sd_digest_algorithms = [\<lparr>ai_oid = std_oids ID_SHA256, ai_params = None\<rparr>],
     sd_e_content_type = ctype, sd_e_content = Some content, sd_certificates = Some certs,
     sd_signer_infos = [\<lparr>si_version = 1, si_sid = sid,
       si_digest_algorithm = \<lparr>ai_oid = std_oids ID_SHA256, ai_params = None\<rparr>,
       si_signed_attrs = Some (demo_signed_attrs content code),
       si_signature_algorithm = \<lparr>ai_oid = std_oids ID_EC_PUBLIC_KEY, ai_params = None\<rparr>,
       si_signature = sid @ retag_as_set (demo_signed_attrs content code)\<rparr>]\<rparr>"

definition demo_sd :: signed_data where
  "demo_sd = demo_sd_of [1, 2] 1 (std_oids ID_PKINIT_AUTH_DATA) [2] (demo_client_cert @ demo_kdc_cert)"

definition demo_cms_env :: crypto_env where
  "demo_cms_env = demo_env [(demo_sd, [77])]"

lemma demo_cms_env_ok:
  "cms_ok demo_cms_env" "codec_ok (cv_codec demo_cms_env)" "hash_ok (cv_hash demo_cms_env)"
  "oids_ok (cv_oids demo_cms_env)"
  using demo_env_ok[of "[(demo_sd, [77])]"] demo_codec_ok demo_hash_ok std_oids_ok
  by (simp_all add: demo_cms_env_def demo_env_def)

lemma demo_key_certified: "key_certified (demo_env sds) [2] demo_client_cert"
  by (simp add: key_certified_def demo_env_def demo_cms_def demo_certificate_from_der_def
      demo_client_cert_def demo_kdc_cert_def demo_certificate_def)

theorem signed_data_roundtrip_witness:
  "create_signed_data demo_cms_env [1, 2] (std_oids ID_PKINIT_AUTH_DATA) [2] demo_client_cert
     [demo_kdc_cert] ''sha256'' = Inr [0x30, 0xA0, 77] \<and>
   is_ok (verify_signed_data demo_cms_env [0x30, 0xA0, 77])"
proof -
  let ?V = demo_cms_env
  have c: "create_signed_data ?V [1, 2] (std_oids ID_PKINIT_AUTH_DATA) [2] demo_client_cert
     [demo_kdc_cert] ''sha256'' = Inr [0x30, 0xA0, 77]"
    by code_simp
  show ?thesis
    using signed_data_roundtrip[OF demo_cms_env_ok _ _ c] c demo_key_certified[of "[(demo_sd, [77])]"]
    by (auto simp: is_ok_iff demo_cms_env_def demo_env_def demo_cms_def demo_certificate_from_der_def)
qed

theorem verify_signed_data_sound_witness:
  "\<exists>v sd. verify_signed_data demo_cms_env [0x30, 0xA0, 77] = Inr v \<and> vsd_content v = [1, 2] \<and>
     parse_signed_data demo_cms_env [0x30, 0xA0, 77] = Inr sd \<and>
     sd_e_content_type sd = std_oids ID_PKINIT_AUTH_DATA"
proof -
  have v: "verify_signed_data demo_cms_env [0x30, 0xA0, 77]
     = Inr \<lparr>vsd_content = [1, 2], vsd_content_type = std_oids ID_PKINIT_AUTH_DATA,
        vsd_signer_cert_der = demo_client_cert, vsd_all_certs_der = [demo_client_cert, demo_kdc_cert],
        vsd_signer_algorithm_oid = std_oids ID_EC_PUBLIC_KEY\<rparr>"
    by code_simp
  show ?thesis
    using verify_signed_data_sound[OF v demo_cms_env_ok(3,2)] v by auto
qed

end
