(* ===== verification/San.thy ===== *)
theory San
  imports Cms
begin

text \<open>
  \<open>pkinit-core/src/san.rs\<close> and \<open>pkinit-core/src/certauth.rs\<close> (all but \<open>db_match\<close>, which is in
  \<open>Matching\<close>): what the code reads out of a certificate's extensions, and the decisions taken
  on it, the client's name and key purpose at the KDC and the KDC's at the client.

  The decoders of the extensions are the record \<open>x509_ops\<close>.
\<close>

section \<open>Extensions\<close>

datatype x509_element = Utf8String rstr | OtherElement bytes

record other_name =
  on_type_id :: oid
  on_value :: x509_element

datatype general_name = OtherName other_name | DNSName rstr | OtherGeneralName bytes

datatype der_tag = UniversalConstructed nat | ContextConstructed nat

record x509_ops =
  x_certificate_from_der :: "bytes \<Rightarrow> certificate ext"
  x_certificate_decode :: "bytes \<Rightarrow> certificate ext"
  find_extension_value :: "bytes \<Rightarrow> oid \<Rightarrow> bytes option"
  general_names_from_der :: "bytes \<Rightarrow> general_name list ext"
  other_name_to_der :: "other_name \<Rightarrow> bytes ext"
  decode_krb5_san :: "bytes \<Rightarrow> rstr option"
  eku_from_der :: "bytes \<Rightarrow> oid list ext"
  key_usage_from_der :: "bytes \<Rightarrow> obj ext"
  key_usage_bit :: "obj \<Rightarrow> nat \<Rightarrow> bool"
  KEY_USAGE_DIGITAL_SIGNATURE :: nat
  format_dn :: "bytes \<Rightarrow> rstr"
  x_oid_new :: "oid \<Rightarrow> oid ext"
  utf8_string_to_der :: "rstr \<Rightarrow> bytes ext"
  encoder_start :: "obj \<Rightarrow> der_tag \<Rightarrow> obj ext"
  encoder_oid :: "obj \<Rightarrow> oid \<Rightarrow> obj ext"
  encoder_write :: "obj \<Rightarrow> bytes \<Rightarrow> obj"
  encoder_end :: "obj \<Rightarrow> obj ext"
  encoder_finish :: "obj \<Rightarrow> bytes ext"

definition parse_cert :: "x509_ops \<Rightarrow> bytes \<Rightarrow> certificate res" where
  "parse_cert X cert_der = asn1 ''parse certificate'' (x_certificate_from_der X cert_der)"

definition extensions_raw :: "certificate \<Rightarrow> bytes option" where
  "extensions_raw cert = crt_extensions cert"

definition decode_san :: "oid_table \<Rightarrow> x509_ops \<Rightarrow> bytes \<Rightarrow> general_name list res" where
  "decode_san T X ext_raw =
     (case find_extension_value X ext_raw (T SUBJECT_ALT_NAME) of
        Some b \<Rightarrow> asn1 ''decode SubjectAltName'' (general_names_from_der X b)
      | None \<Rightarrow> Inr [])"

fun pkinit_sans_loop :: "x509_ops \<Rightarrow> general_name list \<Rightarrow> rstr list res" where
  "pkinit_sans_loop X [] = Inr []"
| "pkinit_sans_loop X (OtherName on # gns) =
     rbind (asn1 ''encode OtherName'' (other_name_to_der X on)) (\<lambda>on_der.
     rbind (pkinit_sans_loop X gns) (\<lambda>result.
       case decode_krb5_san X on_der of Some p \<Rightarrow> Inr (p # result) | None \<Rightarrow> Inr result))"
| "pkinit_sans_loop X (gn # gns) = pkinit_sans_loop X gns"

definition extract_pkinit_sans :: "oid_table \<Rightarrow> x509_ops \<Rightarrow> bytes \<Rightarrow> rstr list res" where
  "extract_pkinit_sans T X cert_der =
     rbind (parse_cert X cert_der) (\<lambda>cert.
       case extensions_raw cert of
         None \<Rightarrow> Inr []
       | Some ext_raw \<Rightarrow> rbind (decode_san T X ext_raw) (\<lambda>sans. pkinit_sans_loop X sans))"

definition upn_of :: "oid \<Rightarrow> general_name \<Rightarrow> rstr option" where
  "upn_of ms_upn_oid gn =
     (case gn of
        OtherName on \<Rightarrow>
          if on_type_id on = ms_upn_oid
          then (case on_value on of Utf8String u \<Rightarrow> Some u | OtherElement _ \<Rightarrow> None) else None
      | _ \<Rightarrow> None)"

definition extract_upn_sans :: "oid_table \<Rightarrow> x509_ops \<Rightarrow> bytes \<Rightarrow> rstr list res" where
  "extract_upn_sans T X cert_der =
     rbind (parse_cert X cert_der) (\<lambda>cert.
       case extensions_raw cert of
         None \<Rightarrow> Inr []
       | Some ext_raw \<Rightarrow>
           rbind (decode_san T X ext_raw) (\<lambda>sans.
           rbind (asn1 ''UPN OID'' (x_oid_new X (T ID_MS_SAN_UPN))) (\<lambda>ms_upn_oid.
             Inr (List.map_filter (upn_of ms_upn_oid) sans))))"

definition dns_of :: "general_name \<Rightarrow> rstr option" where
  "dns_of gn = (case gn of DNSName n \<Rightarrow> Some n | _ \<Rightarrow> None)"

definition extract_dns_names :: "oid_table \<Rightarrow> x509_ops \<Rightarrow> bytes \<Rightarrow> rstr list res" where
  "extract_dns_names T X cert_der =
     rbind (parse_cert X cert_der) (\<lambda>cert.
       case extensions_raw cert of
         None \<Rightarrow> Inr []
       | Some ext_raw \<Rightarrow> rbind (decode_san T X ext_raw) (\<lambda>sans. Inr (List.map_filter dns_of sans)))"

definition extract_eku_oids :: "oid_table \<Rightarrow> x509_ops \<Rightarrow> bytes \<Rightarrow> oid list res" where
  "extract_eku_oids T X cert_der =
     rbind (parse_cert X cert_der) (\<lambda>cert.
       case extensions_raw cert of
         None \<Rightarrow> Inr []
       | Some ext_raw \<Rightarrow>
          (case find_extension_value X ext_raw (T EXTENDED_KEY_USAGE) of
             None \<Rightarrow> Inr []
           | Some eku_bytes \<Rightarrow> asn1 ''decode ExtendedKeyUsage'' (eku_from_der X eku_bytes)))"

definition key_usage_bits :: "x509_ops \<Rightarrow> obj \<Rightarrow> 16 word" where
  "key_usage_bits X ku =
     foldl (\<lambda>bits i. if key_usage_bit X ku i then or bits (push_bit i 1) else bits) 0 [0 ..< 9]"

definition extract_key_usage :: "oid_table \<Rightarrow> x509_ops \<Rightarrow> bytes \<Rightarrow> 16 word res" where
  "extract_key_usage T X cert_der =
     rbind (parse_cert X cert_der) (\<lambda>cert.
       case extensions_raw cert of
         None \<Rightarrow> Inr 0
       | Some ext_raw \<Rightarrow>
          (case find_extension_value X ext_raw (T KEY_USAGE) of
             None \<Rightarrow> Inr 0
           | Some ku_bytes \<Rightarrow>
               rbind (asn1 ''decode KeyUsage'' (key_usage_from_der X ku_bytes)) (\<lambda>ku.
                 Inr (key_usage_bits X ku))))"

definition encode_upn_other_name :: "oid_table \<Rightarrow> x509_ops \<Rightarrow> rstr \<Rightarrow> bytes res" where
  "encode_upn_other_name T X upn =
     rbind (asn1 ''UPN OID'' (x_oid_new X (T ID_MS_SAN_UPN))) (\<lambda>upn_oid.
     rbind (asn1 ''encode UPN'' (utf8_string_to_der X upn)) (\<lambda>upn_der.
     rbind (asn1 ''othername seq'' (encoder_start X [] (UniversalConstructed 16))) (\<lambda>enc.
     rbind (asn1 ''encode OID'' (encoder_oid X enc upn_oid)) (\<lambda>enc.
     rbind (asn1 ''value tag'' (encoder_start X enc (ContextConstructed 0))) (\<lambda>enc.
     rbind (asn1 ''value end'' (encoder_end X (encoder_write X enc upn_der))) (\<lambda>enc.
     rbind (asn1 ''othername end'' (encoder_end X enc)) (\<lambda>enc.
       asn1 ''finish'' (encoder_finish X enc))))))))"

section \<open>Decisions\<close>

datatype certauth_result = Authorized | Rejected rstr

definition verify_client_san ::
    "oid_table \<Rightarrow> x509_ops \<Rightarrow> bytes \<Rightarrow> rstr \<Rightarrow> bool \<Rightarrow> certauth_result res" where
  "verify_client_san T X cert_der expected_principal allow_upn =
     rbind (extract_pkinit_sans T X cert_der) (\<lambda>pkinit_sans.
       if list_ex (\<lambda>s. s = expected_principal) pkinit_sans then Inr Authorized
       else if allow_upn then
         rbind (extract_upn_sans T X cert_der) (\<lambda>upn_sans.
           if list_ex (\<lambda>u. eq_ignore_ascii_case u expected_principal) upn_sans then Inr Authorized
           else Inr (Rejected (''no SAN matching '' @ expected_principal)))
       else Inr (Rejected (''no SAN matching '' @ expected_principal)))"

text \<open>The test both key-purpose checks end with: a KeyUsage without digitalSignature.\<close>

definition lacks_digital_signature :: "x509_ops \<Rightarrow> 16 word \<Rightarrow> bool" where
  "lacks_digital_signature X ku \<longleftrightarrow>
     ku \<noteq> 0 \<and> and ku (push_bit (KEY_USAGE_DIGITAL_SIGNATURE X) 1) = 0"

definition verify_client_eku ::
    "oid_table \<Rightarrow> x509_ops \<Rightarrow> bytes \<Rightarrow> bool \<Rightarrow> certauth_result res" where
  "verify_client_eku T X cert_der accept_secondary =
     rbind (extract_eku_oids T X cert_der) (\<lambda>ekus.
       let has_pkinit_client = list_ex (\<lambda>o1. o1 = T ID_PKINIT_KPCLIENT_AUTH) ekus;
           has_ms_sc_logon = accept_secondary \<and> list_ex (\<lambda>o1. o1 = T ID_MS_KP_SMARTCARD_LOGON) ekus
       in if \<not> has_pkinit_client \<and> \<not> has_ms_sc_logon
          then Inr (Rejected ''missing id-pkinit-KPClientAuth EKU'')
          else rbind (extract_key_usage T X cert_der) (\<lambda>ku.
            if lacks_digital_signature X ku
            then Inr (Rejected ''missing digitalSignature KeyUsage'')
            else Inr Authorized))"

definition verify_kdc_san ::
    "oid_table \<Rightarrow> x509_ops \<Rightarrow> bytes \<Rightarrow> rstr \<Rightarrow> rstr option \<Rightarrow> unit res" where
  "verify_kdc_san T X cert_der kdc_principal kdc_hostname =
     rbind (extract_pkinit_sans T X cert_der) (\<lambda>pkinit_sans.
       let mismatch = Inl (SanMismatch (''KDC certificate has no SAN matching '' @ kdc_principal))
       in if list_ex (\<lambda>s. s = kdc_principal) pkinit_sans then Inr ()
          else (case kdc_hostname of
                  Some hostname \<Rightarrow>
                    rbind (extract_dns_names T X cert_der) (\<lambda>dns_names.
                      if list_ex (\<lambda>d. eq_ignore_ascii_case d hostname) dns_names then Inr ()
                      else mismatch)
                | None \<Rightarrow> mismatch))"

definition verify_kdc_eku :: "oid_table \<Rightarrow> x509_ops \<Rightarrow> bytes \<Rightarrow> unit res" where
  "verify_kdc_eku T X cert_der =
     rbind (extract_eku_oids T X cert_der) (\<lambda>ekus.
     rbind (ensure (list_ex (\<lambda>o1. o1 = T ID_PKINIT_KPKDC \<or> o1 = T ID_KP_SERVER_AUTH) ekus)
              (EkuMismatch ''KDC certificate missing id-pkinit-KPKdc or id-kp-serverAuth'')) (\<lambda>_.
     rbind (extract_key_usage T X cert_der) (\<lambda>ku.
       ensure (\<not> lacks_digital_signature X ku)
         (EkuMismatch ''KDC certificate missing digitalSignature KeyUsage''))))"

section \<open>Facts\<close>

lemma bit_key_usage_bits: "bit (key_usage_bits X ku) i \<longleftrightarrow> i < 9 \<and> key_usage_bit X ku i"
proof -
  have "bit (foldl (\<lambda>bits i. if key_usage_bit X ku i then or bits (push_bit i 1) else bits) (a :: 16 word) ns) i
      \<longleftrightarrow> bit a i \<or> (i < 16 \<and> i \<in> set ns \<and> key_usage_bit X ku i)" for a ns
    by (induction ns arbitrary: a) (auto simp: bit_or_iff bit_exp_iff)
  from this[of 0 "[0 ..< 9]"] show ?thesis by (auto simp: key_usage_bits_def)
qed

lemma key_usage_bits_0: "key_usage_bits X ku = 0 \<longleftrightarrow> (\<forall>i<9. \<not> key_usage_bit X ku i)"
  by (auto simp: bit_eq_iff bit_key_usage_bits)

lemma and_push_bit_0: "n < 16 \<Longrightarrow> and (w :: 16 word) (push_bit n 1) = 0 \<longleftrightarrow> \<not> bit w n"
  by (simp add: bit_eq_iff[of "and w (2 ^ n)"] bit_and_iff bit_exp_iff) blast

lemma option_case_Inr:
  "(case m of None \<Rightarrow> a | Some y \<Rightarrow> f y) = Inr z \<longleftrightarrow> m = None \<and> a = Inr z \<or> (\<exists>y. m = Some y \<and> f y = Inr z)"
  by (cases m) auto

lemma lacks_digital_signature_bits:
  "KEY_USAGE_DIGITAL_SIGNATURE X < 9 \<Longrightarrow>
   \<not> lacks_digital_signature X (key_usage_bits X ku) \<longleftrightarrow>
     (\<forall>i<9. \<not> key_usage_bit X ku i) \<or> key_usage_bit X ku (KEY_USAGE_DIGITAL_SIGNATURE X)"
  using and_push_bit_0[of "KEY_USAGE_DIGITAL_SIGNATURE X" "key_usage_bits X ku"]
  by (auto simp: lacks_digital_signature_def key_usage_bits_0 bit_key_usage_bits simp del: push_bit_of_1)

lemma lacks_digital_signature_0 [simp]: "\<not> lacks_digital_signature X 0"
  by (simp add: lacks_digital_signature_def)

lemma pkinit_sans_loop_Inr:
  "pkinit_sans_loop X gns = Inr ps \<Longrightarrow> p \<in> set ps \<Longrightarrow>
   \<exists>on d. OtherName on \<in> set gns \<and> other_name_to_der X on = Inr d \<and> decode_krb5_san X d = Some p"
  by (induction X gns arbitrary: ps rule: pkinit_sans_loop.induct)
    (fastforce simp: res split: option.splits)+

text \<open>The KeyUsage rule: no extension, no bit, or the digitalSignature bit.\<close>

definition may_sign :: "oid_table \<Rightarrow> x509_ops \<Rightarrow> bytes \<Rightarrow> bool" where
  "may_sign T X ext_raw \<longleftrightarrow>
     (case find_extension_value X ext_raw (T KEY_USAGE) of
        None \<Rightarrow> True
      | Some b \<Rightarrow> \<exists>ku. key_usage_from_der X b = Inr ku \<and>
          ((\<forall>i<9. \<not> key_usage_bit X ku i) \<or> key_usage_bit X ku (KEY_USAGE_DIGITAL_SIGNATURE X)))"

lemma extract_key_usage_may_sign:
  assumes "KEY_USAGE_DIGITAL_SIGNATURE X < 9" "x_certificate_from_der X c = Inr cert"
    "crt_extensions cert = Some e"
  shows "(\<exists>ku. extract_key_usage T X c = Inr ku \<and> \<not> lacks_digital_signature X ku) \<longleftrightarrow> may_sign T X e"
  using assms(2,3) lacks_digital_signature_bits[OF assms(1)]
  by (auto simp: extract_key_usage_def parse_cert_def extensions_raw_def may_sign_def res
      split: option.splits)

text \<open>The EKU list of a certificate.\<close>

definition eku_list :: "oid_table \<Rightarrow> x509_ops \<Rightarrow> bytes \<Rightarrow> bytes \<Rightarrow> oid list \<Rightarrow> bool" where
  "eku_list T X c e ekus \<longleftrightarrow>
     (\<exists>cert b. x_certificate_from_der X c = Inr cert \<and> crt_extensions cert = Some e \<and>
        find_extension_value X e (T EXTENDED_KEY_USAGE) = Some b \<and> eku_from_der X b = Inr ekus)"

lemma eku_list_extract: "eku_list T X c e ekus \<Longrightarrow> extract_eku_oids T X c = Inr ekus"
  by (auto simp: extract_eku_oids_def parse_cert_def extensions_raw_def eku_list_def)

lemma extract_eku_list:
  "extract_eku_oids T X c = Inr ekus \<Longrightarrow> ekus \<noteq> [] \<Longrightarrow> \<exists>e. eku_list T X c e ekus"
  by (auto simp: extract_eku_oids_def parse_cert_def extensions_raw_def eku_list_def res
      split: option.splits)

section \<open>Properties\<close>

text \<open>The KDC takes a client certificate for PKINIT exactly when its ExtendedKeyUsage
  extension is present, decodes and lists id-pkinit-KPClientAuth (or the smart-card logon
  purpose where the deployment allows it) and its KeyUsage, if it asserts anything, asserts
  digitalSignature.  A certificate without the extension is never authorized.\<close>
theorem client_eku_iff:
  assumes "KEY_USAGE_DIGITAL_SIGNATURE X < 9"
  shows "verify_client_eku T X c secondary = Inr Authorized \<longleftrightarrow>
    (\<exists>e ekus. eku_list T X c e ekus \<and>
       (T ID_PKINIT_KPCLIENT_AUTH \<in> set ekus \<or> secondary \<and> T ID_MS_KP_SMARTCARD_LOGON \<in> set ekus) \<and>
       may_sign T X e)" (is "?L \<longleftrightarrow> ?R")
proof
  assume ?L
  then obtain ekus ku where *: "extract_eku_oids T X c = Inr ekus"
    "T ID_PKINIT_KPCLIENT_AUTH \<in> set ekus \<or> secondary \<and> T ID_MS_KP_SMARTCARD_LOGON \<in> set ekus"
    "extract_key_usage T X c = Inr ku" "\<not> lacks_digital_signature X ku"
    by (auto simp: verify_client_eku_def Let_def list_ex_iff res split: if_splits)
  then have "ekus \<noteq> []" by auto
  with * obtain e where e: "eku_list T X c e ekus" using extract_eku_list by blast
  with * have "may_sign T X e"
    using extract_key_usage_may_sign[OF assms] unfolding eku_list_def by blast
  with e * show ?R by blast
next
  assume ?R
  then obtain e ekus where *: "eku_list T X c e ekus"
    "T ID_PKINIT_KPCLIENT_AUTH \<in> set ekus \<or> secondary \<and> T ID_MS_KP_SMARTCARD_LOGON \<in> set ekus"
    "may_sign T X e" by blast
  then obtain ku where "extract_key_usage T X c = Inr ku" "\<not> lacks_digital_signature X ku"
    using extract_key_usage_may_sign[OF assms] unfolding eku_list_def by blast
  with * eku_list_extract[OF *(1)] show ?L
    by (auto simp: verify_client_eku_def Let_def list_ex_iff)
qed

text \<open>A KDC certificate passes the client's name check only if a Kerberos name it carries is
  exactly the expected ticket-granting principal, or a host name was configured and one of
  its DNS names is that host name up to letter case; the subject is never consulted.\<close>
theorem kdc_san_binding:
  assumes "verify_kdc_san T X c kdc_principal kdc_hostname = Inr ()"
  shows "\<exists>cert e b gns. x_certificate_from_der X c = Inr cert \<and> crt_extensions cert = Some e \<and>
    find_extension_value X e (T SUBJECT_ALT_NAME) = Some b \<and> general_names_from_der X b = Inr gns \<and>
    ((\<exists>on d. OtherName on \<in> set gns \<and> other_name_to_der X on = Inr d \<and>
        decode_krb5_san X d = Some kdc_principal) \<or>
     (\<exists>h n. kdc_hostname = Some h \<and> DNSName n \<in> set gns \<and> eq_ignore_ascii_case n h))"
proof -
  from assms obtain ps where ps: "extract_pkinit_sans T X c = Inr ps"
    and or: "kdc_principal \<in> set ps \<or>
      (\<exists>h ds n. kdc_hostname = Some h \<and> extract_dns_names T X c = Inr ds \<and> n \<in> set ds \<and>
         eq_ignore_ascii_case n h)"
    by (auto simp: verify_kdc_san_def Let_def list_ex_iff res split: if_splits option.splits)
  have dns: "n \<in> set (List.map_filter dns_of gns) \<Longrightarrow> DNSName n \<in> set gns" for n gns
    by (auto simp: List.map_filter_def dns_of_def split: general_name.splits if_splits)
  from or show ?thesis
  proof
    assume "kdc_principal \<in> set ps"
      with ps show ?thesis
      by (fastforce simp: extract_pkinit_sans_def parse_cert_def extensions_raw_def decode_san_def res
          option_case_Inr dest!: pkinit_sans_loop_Inr)
  next
    assume "\<exists>h ds n. kdc_hostname = Some h \<and> extract_dns_names T X c = Inr ds \<and> n \<in> set ds \<and>
         eq_ignore_ascii_case n h"
    then show ?thesis
      by (fastforce simp: extract_dns_names_def parse_cert_def extensions_raw_def decode_san_def res
          option_case_Inr map_filter_simps dest: dns)
  qed
qed

section \<open>A concrete library\<close>

text \<open>The KDC's certificate names the ticket-granting service of realm R and the host kdc.r, the
  client's names u at R; each has its own key purpose and the digitalSignature usage.\<close>

definition demo_x509 :: x509_ops where
  "demo_x509 = \<lparr>
     x_certificate_from_der = demo_certificate_from_der,
     x_certificate_decode = demo_certificate_from_der,
     find_extension_value = (\<lambda>e o1.
       if o1 = std_oids SUBJECT_ALT_NAME then Some (0 # e)
       else if o1 = std_oids EXTENDED_KEY_USAGE then Some (1 # e)
       else if o1 = std_oids KEY_USAGE then Some (2 # e) else None),
     general_names_from_der = (\<lambda>b.
       if b = [0, 1] then Inr [OtherName \<lparr>on_type_id = [1, 3, 6, 1, 5, 2, 2], on_value = OtherElement [1]\<rparr>,
                               DNSName ''kdc.r'']
       else if b = [0, 2] then Inr [OtherName \<lparr>on_type_id = [1, 3, 6, 1, 5, 2, 2], on_value = OtherElement [2]\<rparr>,
                               OtherName \<lparr>on_type_id = std_oids ID_MS_SAN_UPN, on_value = Utf8String ''U@r''\<rparr>]
       else Inl ''names''),
     other_name_to_der = (\<lambda>on. case on_value on of OtherElement b \<Rightarrow> Inr b | Utf8String _ \<Rightarrow> Inr []),
     decode_krb5_san = (\<lambda>d. if d = [1] then Some ''krbtgt/R@R'' else if d = [2] then Some ''u@R'' else None),
     eku_from_der = (\<lambda>b. if b = [1, 1] then Inr [std_oids ID_PKINIT_KPKDC]
                        else if b = [1, 2] then Inr [std_oids ID_PKINIT_KPCLIENT_AUTH] else Inl ''eku''),
     key_usage_from_der = Inr,
     key_usage_bit = (\<lambda>k i. i = 0),
     KEY_USAGE_DIGITAL_SIGNATURE = 0,
     format_dn = bytes_str,
     x_oid_new = Inr,
     utf8_string_to_der = (\<lambda>s. Inr (str_bytes s)),
     encoder_start = (\<lambda>e t. Inr e),
     encoder_oid = (\<lambda>e o1. Inr e),
     encoder_write = (@),
     encoder_end = Inr,
     encoder_finish = Inr\<rparr>"

theorem client_eku_iff_witness:
  "verify_client_eku std_oids demo_x509 demo_client_cert False = Inr Authorized \<and>
   verify_client_eku std_oids demo_x509 demo_kdc_cert True \<noteq> Inr Authorized"
proof -
  have lt: "KEY_USAGE_DIGITAL_SIGNATURE demo_x509 < 9" by (simp add: demo_x509_def)
  show ?thesis
    unfolding client_eku_iff[OF lt]
    by (auto simp: eku_list_def may_sign_def demo_x509_def demo_certificate_from_der_def
        demo_kdc_cert_def demo_client_cert_def demo_certificate_def std_oids_def)
qed

theorem kdc_san_binding_witness:
  "verify_kdc_san std_oids demo_x509 demo_kdc_cert ''krbtgt/S@S'' (Some ''KDC.r'') = Inr () \<and>
   (\<exists>cert. x_certificate_from_der demo_x509 demo_kdc_cert = Inr cert)"
proof -
  have v: "verify_kdc_san std_oids demo_x509 demo_kdc_cert ''krbtgt/S@S'' (Some ''KDC.r'') = Inr ()"
    by code_simp
  show ?thesis using kdc_san_binding[OF v] v by blast
qed

end
