(* ===== verification/Matching.thy ===== *)
theory Matching
  imports San
begin

text \<open>
  \<open>pkinit-core/src/identity/matching.rs\<close> and \<open>db_match\<close> of \<open>certauth.rs\<close>: the certificate
  matching rules (\<open>pkinit_cert_match\<close>, \<open>dbmatch\<close>), their parser, their evaluation against a
  certificate and the glob matcher, with the glob's meaning as the reference it is checked
  against.
\<close>

section \<open>Rules and their parser\<close>

datatype match_rule =
    Subject rstr
  | Issuer rstr
  | San rstr
  | Eku oid
  | Ku "16 word"
  | And "match_rule list"
  | Or "match_rule list"

text \<open>\<open>ParseIntError\<close>'s text: the first character that is not a digit, or the digit at which the
  value leaves the type.\<close>

fun digits_error :: "nat \<Rightarrow> nat \<Rightarrow> nat \<Rightarrow> rstr \<Rightarrow> rstr" where
  "digits_error radix bound acc [] = []"
| "digits_error radix bound acc (c # cs) =
     (case digit_val radix c of
        None \<Rightarrow> ''invalid digit found in string''
      | Some d \<Rightarrow> if acc * radix + d < bound then digits_error radix bound (acc * radix + d) cs
                 else ''number too large to fit in target type'')"

definition parse_int_error :: "nat \<Rightarrow> nat \<Rightarrow> rstr \<Rightarrow> rstr" where
  "parse_int_error radix bound s =
     (case s of
        [] \<Rightarrow> ''cannot parse integer from empty string''
      | c # cs \<Rightarrow>
          if c = CHR ''+'' then
            (if cs = [] then ''invalid digit found in string'' else digits_error radix bound 0 cs)
          else digits_error radix bound 0 s)"

definition parse_int :: "nat \<Rightarrow> nat \<Rightarrow> rstr \<Rightarrow> nat ext" where
  "parse_int radix bound s = ok_or (parse_unsigned radix bound s) (parse_int_error radix bound s)"

text \<open>
  The scan over the bytes of the rule: \<open>cur\<close> is the slice from \<open>last\<close> to \<open>i\<close>.  Both separators
  the code passes have two bytes, so dropping one byte less of the rest skips the separator.
\<close>

fun split_top_level_from :: "rstr \<Rightarrow> nat \<Rightarrow> rstr \<Rightarrow> rstr \<Rightarrow> rstr list" where
  "split_top_level_from sep depth cur [] = [cur]"
| "split_top_level_from sep depth cur (c # cs) =
     (let depth' = (if c = CHR ''<'' then depth + 1 else if c = CHR ''>'' then depth - 1 else depth)
      in if depth' = 0 \<and> starts_with (c # cs) sep
         then cur # split_top_level_from sep depth' [] (drop (length sep - 1) cs)
         else split_top_level_from sep depth' (cur @ [c]) cs)"

definition split_top_level :: "rstr \<Rightarrow> rstr \<Rightarrow> rstr list" where
  "split_top_level input sep = split_top_level_from sep 0 [] input"

definition parse_leaf :: "rstr \<Rightarrow> match_rule res" where
  "parse_leaf raw =
     (let inp = trim raw in
      if \<not> starts_with inp ''<'' then Inl (Config (''match rule must start with <TAG>: '' @ inp))
      else
        rbind (ok_or (find_sub ''>'' inp) (Config (''match rule missing closing >: '' @ inp))) (\<lambda>close.
        let tag = drop 1 (take close inp);
            val = drop (close + 1) inp
        in if tag = ''SUBJECT'' then Inr (Subject val)
           else if tag = ''ISSUER'' then Inr (Issuer val)
           else if tag = ''SAN'' then Inr (San val)
           else if tag = ''EKU'' then
             rbind (map_err (\<lambda>e. Config (''invalid EKU OID '' @ val @ '': '' @ e))
                      (traverse (parse_int 10 (2 ^ 32)) (split_on CHR ''.'' val))) (\<lambda>arcs.
               Inr (Eku (map of_nat arcs)))
           else if tag = ''KU'' then
             rbind (map_err (\<lambda>e. Config (''invalid KU hex '' @ val @ '': '' @ e))
                      (parse_int 16 (2 ^ 16) val)) (\<lambda>bits. Inr (Ku (of_nat bits)))
           else Inl (Config (''unknown match rule tag: '' @ tag))))"

definition parse_and :: "rstr \<Rightarrow> match_rule res" where
  "parse_and inp =
     (let parts = split_top_level inp ''&&'' in
      if length parts = 1 then parse_leaf (hd parts)
      else rbind (traverse parse_leaf parts) (\<lambda>rules. Inr (And rules)))"

definition parse_or :: "rstr \<Rightarrow> match_rule res" where
  "parse_or inp =
     (let parts = split_top_level inp ''||'' in
      if length parts = 1 then parse_and (hd parts)
      else rbind (traverse parse_and parts) (\<lambda>rules. Inr (Or rules)))"

definition matcher_parse :: "rstr \<Rightarrow> match_rule res" where
  "matcher_parse rule_str = parse_or (trim rule_str)"

section \<open>Evaluation\<close>

definition extract_subject_dn :: "x509_ops \<Rightarrow> bytes \<Rightarrow> rstr res" where
  "extract_subject_dn X cert_der =
     rbind (asn1 ''decoding cert'' (x_certificate_decode X cert_der)) (\<lambda>cert.
       Inr (format_dn X (crt_subject cert)))"

definition extract_issuer_dn :: "x509_ops \<Rightarrow> bytes \<Rightarrow> rstr res" where
  "extract_issuer_dn X cert_der =
     rbind (asn1 ''decoding cert'' (x_certificate_decode X cert_der)) (\<lambda>cert.
       Inr (format_dn X (crt_issuer cert)))"

text \<open>The loop over the parts: \<open>first\<close> is \<open>i = 0\<close>; the result is the final position.\<close>

fun match_parts :: "rstr \<Rightarrow> bool \<Rightarrow> nat \<Rightarrow> rstr list \<Rightarrow> nat option" where
  "match_parts haystack first pos [] = Some pos"
| "match_parts haystack first pos (part # parts) =
     (if part = [] then match_parts haystack False pos parts
      else (case find_sub part (drop pos haystack) of
              Some found \<Rightarrow>
                if first \<and> found \<noteq> 0 then None
                else match_parts haystack False (pos + found + length part) parts
            | None \<Rightarrow> None))"

definition simple_match :: "rstr \<Rightarrow> rstr \<Rightarrow> bool" where
  "simple_match haystack pattern =
     (if \<not> contains pattern ''*'' then contains haystack pattern
      else let parts = split_on CHR ''*'' pattern in
        (case match_parts haystack True 0 parts of
           None \<Rightarrow> False
         | Some pos \<Rightarrow> if last parts \<noteq> [] then pos = length haystack else True))"

fun evaluate :: "oid_table \<Rightarrow> x509_ops \<Rightarrow> match_rule \<Rightarrow> bytes \<Rightarrow> bool res"
  and evaluate_all :: "oid_table \<Rightarrow> x509_ops \<Rightarrow> match_rule list \<Rightarrow> bytes \<Rightarrow> bool res"
  and evaluate_any :: "oid_table \<Rightarrow> x509_ops \<Rightarrow> match_rule list \<Rightarrow> bytes \<Rightarrow> bool res"
where
  "evaluate T X (Subject pattern) c =
     rbind (extract_subject_dn X c) (\<lambda>dn. Inr (simple_match dn pattern))"
| "evaluate T X (Issuer pattern) c =
     rbind (extract_issuer_dn X c) (\<lambda>dn. Inr (simple_match dn pattern))"
| "evaluate T X (San pattern) c =
     rbind (extract_pkinit_sans T X c) (\<lambda>all_sans.
     rbind (extract_upn_sans T X c) (\<lambda>upns.
     rbind (extract_dns_names T X c) (\<lambda>dns.
       Inr (list_ex (\<lambda>s. simple_match s pattern) (all_sans @ upns @ dns)))))"
| "evaluate T X (Eku o1) c =
     rbind (extract_eku_oids T X c) (\<lambda>ekus. Inr (list_ex (\<lambda>e. e = o1) ekus))"
| "evaluate T X (Ku bits) c =
     rbind (extract_key_usage T X c) (\<lambda>ku. Inr (and ku bits = bits))"
| "evaluate T X (And rules) c = evaluate_all T X rules c"
| "evaluate T X (Or rules) c = evaluate_any T X rules c"
| "evaluate_all T X [] c = Inr True"
| "evaluate_all T X (r # rs) c =
     rbind (evaluate T X r c) (\<lambda>b. if \<not> b then Inr False else evaluate_all T X rs c)"
| "evaluate_any T X [] c = Inr False"
| "evaluate_any T X (r # rs) c =
     rbind (evaluate T X r c) (\<lambda>b. if b then Inr True else evaluate_any T X rs c)"

definition matcher_matches :: "oid_table \<Rightarrow> x509_ops \<Rightarrow> match_rule \<Rightarrow> bytes \<Rightarrow> bool res" where
  "matcher_matches T X rule cert_der = evaluate T X rule cert_der"

definition db_match :: "oid_table \<Rightarrow> x509_ops \<Rightarrow> bytes \<Rightarrow> rstr \<Rightarrow> certauth_result res" where
  "db_match T X cert_der match_rule =
     rbind (matcher_parse match_rule) (\<lambda>matcher.
     rbind (matcher_matches T X matcher cert_der) (\<lambda>b.
       if b then Inr Authorized else Inr (Rejected ''certificate does not match rule'')))"

section \<open>The meaning of a glob\<close>

fun glob :: "rstr \<Rightarrow> rstr \<Rightarrow> bool" where
  "glob [] s \<longleftrightarrow> s = []"
| "glob (c # p) s \<longleftrightarrow>
     (if c = CHR ''*'' then (\<exists>k \<in> set [0 ..< Suc (length s)]. glob p (drop k s))
      else (case s of [] \<Rightarrow> False | x # xs \<Rightarrow> x = c \<and> glob p xs))"

lemma glob_star: "glob (CHR ''*'' # p) s \<longleftrightarrow> (\<exists>a b. s = a @ b \<and> glob p b)"
proof
  assume "glob (CHR ''*'' # p) s"
  then obtain k where "glob p (drop k s)" by (auto simp del: set_upt upt_Suc)
  then show "\<exists>a b. s = a @ b \<and> glob p b" by (metis append_take_drop_id)
next
  assume "\<exists>a b. s = a @ b \<and> glob p b"
  then obtain a b where ab: "s = a @ b" "glob p b" by blast
  then show "glob (CHR ''*'' # p) s" by (auto intro!: bexI[of _ "length a"])
qed

lemma glob_literal: "CHR ''*'' \<notin> set a \<Longrightarrow> glob (a @ p) s \<longleftrightarrow> (\<exists>t. s = a @ t \<and> glob p t)"
proof (induction a arbitrary: s)
  case Nil
  then show ?case by simp
next
  case (Cons c a)
  then show ?case by (cases s) auto
qed

declare glob.simps(2) [simp del]

lemma glob_star_prefix: "glob (CHR ''*'' # p) b \<Longrightarrow> glob (CHR ''*'' # p) (a @ b)"
  unfolding glob_star by (metis append.assoc)

lemma glob_literal_star:
  "CHR ''*'' \<notin> set a \<Longrightarrow> glob (CHR ''*'' # a @ p) s \<longleftrightarrow> (\<exists>x t. s = x @ a @ t \<and> glob p t)"
  by (auto simp: glob_star glob_literal)

lemma glob_extend: "glob p s \<Longrightarrow> p \<noteq> [] \<Longrightarrow> last p = CHR ''*'' \<Longrightarrow> glob p (s @ t)"
proof (induction p arbitrary: s)
  case Nil
  then show ?case by simp
next
  case (Cons c p)
  show ?case
  proof (cases "p = []")
    case True
    with Cons.prems show ?thesis by (auto simp: glob_star)
  next
    case False
    show ?thesis
    proof (cases "c = CHR ''*''")
      case True
      with Cons.prems(1) obtain a b where "s = a @ b" "glob p b" by (auto simp: glob_star)
      with Cons.IH[of b] Cons.prems(3) False True show ?thesis by (auto simp: glob_star)
    next
      case other: False
      with Cons False show ?thesis by (cases s) (auto simp: glob.simps(2))
    qed
  qed
qed

lemma find_sub_split:
  "find_sub p s = Some n \<Longrightarrow> s = take n s @ p @ drop (n + length p) s \<and> n + length p \<le> length s"
  using find_sub_SomeD[of p s n] by (metis add.commute append_take_drop_id drop_drop)

lemma match_parts_sound:
  assumes "match_parts h False pos parts = Some e" "parts \<noteq> []" "\<forall>p \<in> set parts. CHR ''*'' \<notin> set p"
    "pos \<le> length h"
  shows "pos \<le> e \<and> e \<le> length h \<and>
    glob (CHR ''*'' # join_with ''*'' parts) (take (e - pos) (drop pos h))"
  using assms
proof (induction parts arbitrary: pos)
  case Nil
  then show ?case by simp
next
  case (Cons p parts)
  show ?case
  proof (cases "p = []")
    case True
    with Cons show ?thesis
      by (cases parts) (auto simp: glob_star[of "CHR ''*'' # _"] glob_star[of "[]"])
  next
    case False
    with Cons.prems(1) obtain n where n: "find_sub p (drop pos h) = Some n"
      and m: "match_parts h False (pos + n + length p) parts = Some e"
      by (auto split: option.splits)
    note sp = find_sub_split[OF n]
    define x r where "x = take n (drop pos h)" and "r = drop (pos + n + length p) h"
    have dh: "drop pos h = x @ p @ r" and le: "pos + n + length p \<le> length h" and lx: "length x = n"
      using sp Cons.prems(4) by (auto simp: x_def r_def add.commute add.left_commute)
    show ?thesis
    proof (cases parts)
      case Nil
      with m dh le lx Cons.prems(3) show ?thesis
        by (auto simp: glob_literal_star[of p "[]", simplified] split: if_splits)
    next
      case (Cons q qs)
      from Cons.IH[OF m] Cons Cons.prems(3) le have ih: "pos + n + length p \<le> e" "e \<le> length h"
        "glob (CHR ''*'' # join_with ''*'' parts) (take (e - (pos + n + length p)) r)"
        by (auto simp: r_def)
      have "take (e - pos) (drop pos h) = x @ p @ take (e - (pos + n + length p)) r"
        using ih(1) lx by (simp add: dh)
      with ih Cons Cons.prems(3) show ?thesis
        by (auto simp: glob_literal_star)
    qed
  qed
qed

lemma match_parts_complete:
  assumes "glob (CHR ''*'' # join_with ''*'' parts) (drop pos h)" "parts \<noteq> []" "last parts = []"
    "\<forall>p \<in> set parts. CHR ''*'' \<notin> set p"
  shows "match_parts h False pos parts \<noteq> None"
  using assms
proof (induction parts arbitrary: pos)
  case Nil
  then show ?case by simp
next
  case (Cons p parts)
  show ?case
  proof (cases "parts = []")
    case True
    with Cons.prems show ?thesis by simp
  next
    case False
    then have jw: "join_with ''*'' (p # parts) = p @ CHR ''*'' # join_with ''*'' parts"
      by (cases parts) auto
    from Cons.prems(1,4) obtain a b where ab: "drop pos h = a @ p @ b"
      "glob (CHR ''*'' # join_with ''*'' parts) b"
      unfolding jw by (auto simp: glob_literal_star)
    have rest: "match_parts h False pos' parts \<noteq> None" if "\<exists>y. drop pos' h = y @ b" for pos'
      using that ab(2) False Cons.prems(3,4) by (intro Cons.IH) (auto intro: glob_star_prefix)
    show ?thesis
    proof (cases "p = []")
      case True
      with rest[of pos] ab show ?thesis by auto
    next
      case False
      from find_sub_at[OF ab(1)] obtain n where n: "n \<le> length a" "find_sub p (drop pos h) = Some n"
        by blast
      have "drop (pos + n + length p) h = drop (n + length p) (a @ p @ b)"
        by (metis ab(1) add.assoc add.commute drop_drop)
      also have "\<dots> = drop (n + length p) (a @ p) @ b" using n(1) by simp
      finally show ?thesis using rest[of "pos + n + length p"] n False by auto
    qed
  qed
qed

lemma contains_star: "contains p ''*'' \<longleftrightarrow> CHR ''*'' \<in> set p"
  by (auto simp: contains_iff in_set_conv_decomp)

lemma last_split_on: "last (split_on c p) = [] \<longleftrightarrow> p = [] \<or> last p = c"
proof (induction p)
  case Nil
  then show ?case by simp
next
  case (Cons x xs)
  moreover have "split_on c xs = [[]] \<Longrightarrow> xs = []" using join_split[of c xs] by simp
  ultimately show ?case by (cases "split_on c xs") (auto split: if_splits)
qed

text \<open>The printed form of a rule in the parser's normal form: a disjunction of conjunctions of
  leaves, either level absent when it has one member.\<close>

fun show_hex :: "nat \<Rightarrow> rstr" where
  "show_hex n =
     (let d = (\<lambda>k. if k < 10 then digit_char k else char_of (87 + k))
      in if n < 16 then [d n] else show_hex (n div 16) @ [d (n mod 16)])"

declare show_hex.simps [simp del]

fun print_leaf :: "match_rule \<Rightarrow> rstr" where
  "print_leaf (Subject v) = ''<SUBJECT>'' @ v"
| "print_leaf (Issuer v) = ''<ISSUER>'' @ v"
| "print_leaf (San v) = ''<SAN>'' @ v"
| "print_leaf (Eku o1) = ''<EKU>'' @ dotted_oid o1"
| "print_leaf (Ku b) = ''<KU>'' @ show_hex (unat b)"
| "print_leaf _ = []"

fun print_and :: "match_rule \<Rightarrow> rstr" where
  "print_and (And rs) = join_with ''&&'' (map print_leaf rs)"
| "print_and r = print_leaf r"

fun print_rule :: "match_rule \<Rightarrow> rstr" where
  "print_rule (Or rs) = join_with ''||'' (map print_and rs)"
| "print_rule r = print_and r"

text \<open>The nesting of angle brackets, a closing one too many being ignored as in the scan.\<close>

definition depth_step :: "nat \<Rightarrow> char \<Rightarrow> nat" where
  "depth_step d c = (if c = CHR ''<'' then d + 1 else if c = CHR ''>'' then d - 1 else d)"

abbreviation depth_after :: "nat \<Rightarrow> rstr \<Rightarrow> nat" where
  "depth_after \<equiv> foldl depth_step"

text \<open>Every doubled \<open>k\<close> of a text stands inside angle brackets; and then the text can stand
  between two separators \<open>kk\<close> if its brackets are closed and it does not end in a \<open>k\<close>.\<close>

fun enclosed :: "char \<Rightarrow> nat \<Rightarrow> rstr \<Rightarrow> bool" where
  "enclosed k d [] \<longleftrightarrow> True"
| "enclosed k d (c # v) \<longleftrightarrow> (starts_with (c # v) [k, k] \<longrightarrow> 0 < d) \<and> enclosed k (depth_step d c) v"

definition unsplit :: "char \<Rightarrow> rstr \<Rightarrow> bool" where
  "unsplit k v \<longleftrightarrow> enclosed k 0 v \<and> depth_after 0 v = 0 \<and> (v = [] \<or> last v \<noteq> k)"

text \<open>A value survives printing if neither separator occurs in it outside angle brackets and it has
  no white space at its end; single \<open>&\<close> and \<open>|\<close> are fine inside it.\<close>

definition plain :: "rstr \<Rightarrow> bool" where
  "plain v \<longleftrightarrow> unsplit CHR ''&'' v \<and> unsplit CHR ''|'' v \<and> trim_end (''<V>'' @ v) = ''<V>'' @ v"

fun leaf_ok :: "match_rule \<Rightarrow> bool" where
  "leaf_ok (Subject v) = plain v"
| "leaf_ok (Issuer v) = plain v"
| "leaf_ok (San v) = plain v"
| "leaf_ok (Eku o1) = (o1 \<noteq> [])"
| "leaf_ok (Ku b) = True"
| "leaf_ok _ = False"

fun and_ok :: "match_rule \<Rightarrow> bool" where
  "and_ok (And rs) = (length rs \<ge> 2 \<and> list_all leaf_ok rs)"
| "and_ok r = leaf_ok r"

fun rule_ok :: "match_rule \<Rightarrow> bool" where
  "rule_ok (Or rs) = (length rs \<ge> 2 \<and> list_all and_ok rs)"
| "rule_ok r = and_ok r"

text \<open>White space.\<close>

lemma strip_front_id:
  "strip_front ws s = s \<longleftrightarrow> (\<forall>w \<in> set ws. w \<noteq> [] \<longrightarrow> \<not> starts_with s w)"
proof
  assume id: "strip_front ws s = s"
  have shorter: "length (strip_front ws t) \<le> length t" for t
  proof (induction ws t rule: strip_front.induct)
    case (1 ws s)
    then show ?case by (subst strip_front.simps) (fastforce split: option.splits)
  qed
  show "\<forall>w \<in> set ws. w \<noteq> [] \<longrightarrow> \<not> starts_with s w"
  proof (intro ballI impI notI)
    fix w assume "w \<in> set ws" "w \<noteq> []" "starts_with s w"
    then obtain v where v: "List.find (\<lambda>w. w \<noteq> [] \<and> starts_with s w) ws = Some v"
      by (cases "List.find (\<lambda>w. w \<noteq> [] \<and> starts_with s w) ws") (auto dest: find_NoneD)
    then have "v \<noteq> []" "starts_with s v" by (auto dest: find_SomeD)
    then have "length (drop (length v) s) < length s" by (auto simp: starts_with_iff)
    moreover have "strip_front ws s = strip_front ws (drop (length v) s)"
      by (subst strip_front.simps) (simp add: v)
    ultimately show False using id shorter[of "drop (length v) s"] by simp
  qed
qed (simp add: strip_front_none)

lemma ws_seqs_short: "w \<in> set ws_seqs \<Longrightarrow> length w \<le> 3"
  by (auto simp: ws_seqs_def)

lemma ws_seqs_chars:
  "w \<in> set ws_seqs \<Longrightarrow> w \<noteq> [] \<and> hd w \<noteq> CHR ''<'' \<and> (of_char (last w) < (48 :: nat) \<or> 127 < (of_char (last w) :: nat))"
proof -
  have "list_all (\<lambda>w. w \<noteq> [] \<and> hd w \<noteq> CHR ''<'' \<and>
      (of_char (last w) < (48 :: nat) \<or> 127 < (of_char (last w) :: nat))) ws_seqs"
    by code_simp
  then show "w \<in> set ws_seqs \<Longrightarrow> ?thesis" by (simp add: list_all_iff)
qed

lemma trim_end_id: "trim_end s = s \<longleftrightarrow> (\<forall>w \<in> set ws_seqs. \<not> starts_with (rev s) (rev w))"
proof -
  have "trim_end s = s \<longleftrightarrow> strip_front (map rev ws_seqs) (rev s) = rev s"
    by (auto simp: trim_end_def rev_swap)
  then show ?thesis by (auto simp: strip_front_id dest: ws_seqs_chars)
qed

lemma trim_end_append:
  assumes "trim_end b = b" "length b \<ge> 3"
  shows "trim_end (a @ b) = a @ b"
  unfolding trim_end_id
proof
  fix w assume w: "w \<in> set ws_seqs"
  then have "length w \<le> length b" using ws_seqs_short[OF w] assms(2) by simp
  with w assms(1) show "\<not> starts_with (rev (a @ b)) (rev w)"
    by (auto simp: trim_end_id starts_with_def)
qed

lemma trim_end_last:
  assumes "s \<noteq> []" "48 \<le> (of_char (last s) :: nat)" "of_char (last s) \<le> (127 :: nat)"
  shows "trim_end s = s"
  unfolding trim_end_id
proof (intro ballI notI)
  fix w assume w: "w \<in> set ws_seqs" "starts_with (rev s) (rev w)"
  then obtain t where "rev s = rev w @ t" by (auto simp: starts_with_iff)
  then have "s = rev t @ w" by (metis rev_append rev_rev_ident)
  with ws_seqs_chars[OF w(1)] have "last s = last w" by simp
  with ws_seqs_chars[OF w(1)] assms show False by auto
qed

lemma trim_start_angle: "trim_start (CHR ''<'' # s) = CHR ''<'' # s"
  unfolding trim_start_def strip_front_id
  by (auto simp: starts_with_iff Cons_eq_append_conv dest!: ws_seqs_chars)

text \<open>Splitting what was joined.\<close>

lemma enclosed_absent: "k \<notin> set v \<Longrightarrow> enclosed k d v"
  by (induction v arbitrary: d) (auto simp: starts_with_iff)

lemma enclosed_append:
  "enclosed k d a \<Longrightarrow> enclosed k (depth_after d a) b \<Longrightarrow> a = [] \<or> last a \<noteq> k \<Longrightarrow> enclosed k d (a @ b)"
proof (induction a arbitrary: d)
  case (Cons c a)
  have "starts_with (c # a @ b) [k, k] \<Longrightarrow> starts_with (c # a) [k, k]"
    using Cons.prems(3) by (cases a) (auto simp: starts_with_iff)
  with Cons show ?case by (cases "a = []") auto
qed simp

lemma depth_after_none: "CHR ''<'' \<notin> set a \<Longrightarrow> CHR ''>'' \<notin> set a \<Longrightarrow> depth_after d a = d"
  by (induction a arbitrary: d) (auto simp: depth_step_def)

lemma unsplit_append: "unsplit k a \<Longrightarrow> unsplit k b \<Longrightarrow> unsplit k (a @ b)"
  by (cases "b = []") (auto simp: unsplit_def intro: enclosed_append)

lemma unsplit_absent: "k \<notin> set v \<Longrightarrow> depth_after 0 v = 0 \<Longrightarrow> unsplit k v"
  by (cases "v = []") (auto simp: unsplit_def enclosed_absent)

lemma unsplit_join:
  "unsplit k sep \<Longrightarrow> (\<And>p. p \<in> set ps \<Longrightarrow> unsplit k p) \<Longrightarrow> unsplit k (join_with sep ps)"
proof (induction sep ps rule: join_with.induct)
  case (1 sep)
  then show ?case by (simp add: unsplit_def)
qed (simp_all add: unsplit_append)

lemma split_from_Cons:
  "split_top_level_from sep d cur (c # cs) =
     (if depth_step d c = 0 \<and> starts_with (c # cs) sep
      then cur # split_top_level_from sep (depth_step d c) [] (drop (length sep - 1) cs)
      else split_top_level_from sep (depth_step d c) (cur @ [c]) cs)"
  by (simp only: split_top_level_from.simps(2) depth_step_def Let_def)

lemma split_from_skip:
  assumes "k \<notin> set ''<>''" "enclosed k d a" "a = [] \<or> last a \<noteq> k"
  shows "split_top_level_from [k, k] d cur (a @ rest)
     = split_top_level_from [k, k] (depth_after d a) (cur @ a) rest"
  using assms(2,3)
proof (induction a arbitrary: d cur)
  case (Cons c a)
  have "\<not> (depth_step d c = 0 \<and> starts_with (c # a @ rest) [k, k])"
    using Cons.prems assms(1) by (cases a) (auto simp: starts_with_iff depth_step_def)
  moreover have "split_top_level_from [k, k] (depth_step d c) (cur @ [c]) (a @ rest)
      = split_top_level_from [k, k] (depth_after d (c # a)) (cur @ c # a) rest"
    using Cons.IH[of "depth_step d c" "cur @ [c]"] Cons.prems by (cases "a = []") simp_all
  ultimately show ?case unfolding append_Cons split_from_Cons by auto
qed simp

lemma split_from_sep:
  "k \<notin> set ''<>'' \<Longrightarrow> split_top_level_from [k, k] 0 cur (k # k # rest)
     = cur # split_top_level_from [k, k] 0 [] rest"
  by (auto simp: starts_with_iff Let_def)

lemma split_top_level_unsplit:
  "k \<notin> set ''<>'' \<Longrightarrow> unsplit k a \<Longrightarrow> split_top_level a [k, k] = [a]"
  using split_from_skip[of k 0 a "[]" "[]"] by (simp add: split_top_level_def unsplit_def)

lemma split_top_level_join:
  assumes "k \<notin> set ''<>''" "ps \<noteq> []" "\<And>p. p \<in> set ps \<Longrightarrow> unsplit k p"
  shows "split_top_level (join_with [k, k] ps) [k, k] = ps"
  using assms(2,3)
proof (induction ps)
  case (Cons p ps)
  show ?case
  proof (cases ps)
    case Nil
    with Cons.prems split_top_level_unsplit[OF assms(1)] show ?thesis by simp
  next
    case (Cons q qs)
    have "split_top_level (join_with [k, k] ps) [k, k] = ps"
      using Cons by (intro Cons.IH) (simp_all add: Cons.prems(2))
    then show ?thesis
      using split_from_skip[OF assms(1), of 0 p "[]" "k # k # join_with [k, k] ps"] Cons.prems(2)[of p]
        split_from_sep[OF assms(1)] Cons
      by (simp add: split_top_level_def unsplit_def del: split_top_level_from.simps(2))
  qed
qed simp

lemma in_set_join: "c \<in> set (join_with sep ps) \<Longrightarrow> c \<in> set sep \<or> (\<exists>p \<in> set ps. c \<in> set p)"
  by (induction sep ps rule: join_with.induct) auto

text \<open>Numbers.\<close>

lemma show_nat_digits: "c \<in> set (show_nat n) \<Longrightarrow> \<exists>d<10. c = digit_char d"
proof (induction n rule: show_nat.induct)
  case (1 n)
  then show ?case
    by (cases "n < 10") (auto simp: show_nat.simps[of n] intro: exI[of _ "n mod 10"])
qed

lemma digit_char_code: "d < 10 \<Longrightarrow> of_char (digit_char d) = (48 + d :: nat)"
  by (simp add: digit_char_def of_char_of)

lemma char_neqI: "(of_char c :: nat) \<noteq> of_char d \<Longrightarrow> c \<noteq> d"
  by auto

definition hex_char :: "nat \<Rightarrow> char" where
  "hex_char k = (if k < 10 then digit_char k else char_of (87 + k))"

lemma show_hex_simps:
  "n < 16 \<Longrightarrow> show_hex n = [hex_char n]"
  "\<not> n < 16 \<Longrightarrow> show_hex n = show_hex (n div 16) @ [hex_char (n mod 16)]"
  by (simp_all add: show_hex.simps[of n] hex_char_def)

lemma hex_char_code:
  "d < 16 \<Longrightarrow> of_char (hex_char d) = (if d < 10 then 48 + d else 87 + d :: nat)"
  by (simp add: hex_char_def digit_char_code of_char_of)

lemma digit_val_hex_char [simp]: "d < 16 \<Longrightarrow> digit_val 16 (hex_char d) = Some d"
  by (simp add: digit_val_def Let_def hex_char_code)

lemma show_hex_chars: "c \<in> set (show_hex n) \<Longrightarrow> \<exists>d<16. c = hex_char d"
proof (induction n rule: show_hex.induct)
  case (1 n)
  then show ?case
    by (cases "n < 16") (auto simp: show_hex_simps intro: exI[of _ "n mod 16"])
qed

lemma digits_from_show_hex: "n < b \<Longrightarrow> digits_from 16 b 0 (show_hex n @ cs) = digits_from 16 b n cs"
proof (induction n arbitrary: cs rule: show_hex.induct)
  case (1 n)
  show ?case
  proof (cases "n < 16")
    case True
    with 1 show ?thesis by (simp add: show_hex_simps)
  next
    case False
    have "n div 16 < b" using 1(2) by auto
    with 1(1)[OF refl False] False 1(2)
    show ?thesis by (simp add: show_hex_simps div_mult_mod_eq)
  qed
qed

lemma show_nonempty: "show_hex n \<noteq> []" "show_nat n \<noteq> []"
  by (subst show_hex.simps, simp add: Let_def) (subst show_nat.simps, simp)

lemma hex_plain: "c \<in> set (show_hex n) \<Longrightarrow> 48 \<le> (of_char c :: nat) \<and> of_char c \<le> (102 :: nat) \<and>
    (of_char c :: nat) \<notin> {60, 62}"
  by (auto dest!: show_hex_chars simp: hex_char_code split: if_splits)

lemma nat_plain: "c \<in> set (show_nat n) \<Longrightarrow> 48 \<le> (of_char c :: nat) \<and> of_char c \<le> (57 :: nat)"
  by (auto dest!: show_nat_digits simp: digit_char_code)

lemma parse_show_hex: "n < b \<Longrightarrow> parse_int 16 b (show_hex n) = Inr n"
proof -
  assume n: "n < b"
  obtain c cs where s: "show_hex n = c # cs" by (metis list.exhaust show_nonempty(1))
  with hex_plain[of c n] have "c \<noteq> CHR ''+''" by auto
  with s digits_from_show_hex[OF n, of "[]"] show ?thesis
    by (simp add: parse_int_def parse_unsigned_def del: digits_from.simps(2))
qed

lemma parse_dotted:
  assumes "o1 \<noteq> []"
  shows "traverse (parse_int 10 (2 ^ 32)) (split_on CHR ''.'' (dotted_oid o1)) = Inr (map unat o1)"
proof -
  have dot: "CHR ''.'' \<notin> set (show_nat n)" for n using nat_plain[of "CHR ''.''" n] by auto
  have "split_on CHR ''.'' (dotted_oid o1) = map (\<lambda>a. show_nat (unat a)) o1"
    unfolding dotted_oid_def using assms dot by (intro split_join) auto
  moreover have "parse_int 10 (2 ^ 32) (show_nat (unat a)) = Inr (unat a)" for a :: u32
    using unsigned_less[where 'a=nat, of a] by (simp add: parse_int_def parse_show_nat)
  then have "traverse (parse_int 10 (2 ^ 32)) (map (\<lambda>a. show_nat (unat a)) os) = Inr (map unat os)"
    for os :: oid by (induction os) simp_all
  ultimately show ?thesis by simp
qed

lemma find_close: "CHR ''>'' \<notin> set a \<Longrightarrow> find_sub ''>'' (a @ CHR ''>'' # b) = Some (length a)"
proof (induction a)
  case Nil
  then show ?case by (simp add: find_sub.simps)
next
  case (Cons c a)
  then show ?case by (subst find_sub.simps) auto
qed

text \<open>A printed leaf: a tag and a value without rule syntax, and no white space at the ends.\<close>

lemma ws_seqs_close: "w \<in> set ws_seqs \<Longrightarrow> CHR ''>'' \<notin> set w"
proof -
  have "list_all (\<lambda>w. CHR ''>'' \<notin> set w) ws_seqs" by code_simp
  then show "w \<in> set ws_seqs \<Longrightarrow> ?thesis" by (simp add: list_all_iff)
qed

lemma trim_end_close:
  "trim_end (a @ CHR ''>'' # v) = a @ CHR ''>'' # v \<longleftrightarrow>
   (\<forall>w \<in> set ws_seqs. \<not> starts_with (rev v) (rev w))"
proof -
  have "starts_with (rev v @ CHR ''>'' # rev a) (rev w) \<longleftrightarrow> starts_with (rev v) (rev w)"
    if w: "w \<in> set ws_seqs" for w
  proof (cases "length w \<le> length v")
    case True
    then show ?thesis by (simp add: starts_with_def)
  next
    case False
    then obtain n where n: "length w - length v = Suc n" by (metis Suc_diff_Suc not_le)
    have "CHR ''>'' \<notin> set (rev w)" using ws_seqs_close[OF w] by simp
    moreover have "\<not> starts_with (rev v) (rev w)"
      using False by (auto simp: starts_with_def)
    moreover have "rev v @ CHR ''>'' # x \<noteq> rev w" for x
      using calculation(1) by (metis in_set_conv_decomp)
    ultimately show ?thesis using n False by (auto simp: starts_with_def)
  qed
  then show ?thesis by (simp add: trim_end_id)
qed

lemma plain_trim:
  "plain v \<Longrightarrow> trim (CHR ''<'' # tag @ CHR ''>'' # v) = CHR ''<'' # tag @ CHR ''>'' # v"
  using trim_end_close[of "''<V''" v] trim_end_close[of "CHR ''<'' # tag" v]
  by (simp add: plain_def trim_def trim_start_angle)

lemma plain_ascii:
  assumes "v \<noteq> []" "\<forall>c \<in> set v. 46 \<le> (of_char c :: nat) \<and> of_char c \<le> (102 :: nat) \<and> (of_char c :: nat) \<notin> {60, 62}"
    "48 \<le> (of_char (last v) :: nat)"
  shows "plain v"
proof -
  have c: "CHR ''<'' \<notin> set v" "CHR ''>'' \<notin> set v" "CHR ''&'' \<notin> set v" "CHR ''|'' \<notin> set v" using assms(2) by auto
  then have "unsplit CHR ''&'' v" "unsplit CHR ''|'' v" by (simp_all add: unsplit_absent depth_after_none)
  moreover have "of_char (last v) \<le> (127 :: nat)"
    using assms(2) last_in_set[OF assms(1)] by fastforce
  then have "trim_end (''<V>'' @ v) = ''<V>'' @ v"
    using assms(1,3) by (intro trim_end_last) auto
  ultimately show ?thesis by (simp add: plain_def)
qed

lemma plain_hex: "plain (show_hex n)"
  using hex_plain[of _ n] show_nonempty(1)[of n] by (intro plain_ascii) (force simp: last_in_set)+

lemma dotted_chars: "c \<in> set (dotted_oid o1) \<Longrightarrow> c = CHR ''.'' \<or> (\<exists>n. c \<in> set (show_nat n))"
  by (auto simp: dotted_oid_def dest!: in_set_join)

lemma last_dotted: "o1 \<noteq> [] \<Longrightarrow> dotted_oid o1 \<noteq> [] \<and> (\<exists>n. last (dotted_oid o1) \<in> set (show_nat n))"
proof (induction o1)
  case Nil
  then show ?case by simp
next
  case (Cons a o1)
  then show ?case
    using show_nonempty(2)[of "unat a"] last_in_set[of "show_nat (unat a)"]
    by (cases o1) (auto simp: dotted_oid_def intro: exI[of _ "unat a"])
qed

lemma plain_dotted: "o1 \<noteq> [] \<Longrightarrow> plain (dotted_oid o1)"
proof (rule plain_ascii)
  assume "o1 \<noteq> []"
  then obtain n where "dotted_oid o1 \<noteq> []" "last (dotted_oid o1) \<in> set (show_nat n)"
    using last_dotted by blast
  then show "dotted_oid o1 \<noteq> []" "48 \<le> (of_char (last (dotted_oid o1)) :: nat)"
    using nat_plain by auto
  show "\<forall>c \<in> set (dotted_oid o1). 46 \<le> (of_char c :: nat) \<and> of_char c \<le> (102 :: nat) \<and>
      (of_char c :: nat) \<notin> {60, 62}"
    by (auto dest!: dotted_chars) (auto dest!: nat_plain)
qed

lemma print_leaf_text:
  "leaf_ok l \<Longrightarrow> \<exists>tag v. print_leaf l = CHR ''<'' # tag @ CHR ''>'' # v \<and>
     set tag \<inter> set ''<>|&'' = {} \<and> plain v"
  by (cases l) (auto simp: plain_dotted plain_hex intro: exI[of _ "''SUBJECT''"] exI[of _ "''ISSUER''"]
      exI[of _ "''SAN''"] exI[of _ "''EKU''"] exI[of _ "''KU''"])

lemma parse_print_leaf: "leaf_ok l \<Longrightarrow> parse_leaf (print_leaf l) = Inr l"
proof (cases l)
  case (Ku b)
  have "plain (show_hex (unat b))" by (rule plain_hex)
  from plain_trim[OF this, of "''KU''"] Ku show ?thesis
    using find_close[of "''<KU''" "show_hex (unat b)"] unsigned_less[where 'a=nat, of b]
    by (simp add: parse_leaf_def Let_def starts_with_def parse_show_hex)
next
  case (Eku o1)
  assume "leaf_ok l"
  with Eku have o1: "o1 \<noteq> []" by simp
  from plain_trim[OF plain_dotted[OF o1], of "''EKU''"] Eku show ?thesis
    using find_close[of "''<EKU''" "dotted_oid o1"] parse_dotted[OF o1]
    by (simp add: parse_leaf_def Let_def starts_with_def o_def)
next
  case (Subject v)
  assume "leaf_ok l"
  with Subject plain_trim[of v "''SUBJECT''"] find_close[of "''<SUBJECT''" v] show ?thesis
    by (simp add: parse_leaf_def Let_def starts_with_def)
next
  case (Issuer v)
  assume "leaf_ok l"
  with Issuer plain_trim[of v "''ISSUER''"] find_close[of "''<ISSUER''" v] show ?thesis
    by (simp add: parse_leaf_def Let_def starts_with_def)
next
  case (San v)
  assume "leaf_ok l"
  with San plain_trim[of v "''SAN''"] find_close[of "''<SAN''" v] show ?thesis
    by (simp add: parse_leaf_def Let_def starts_with_def)
qed simp_all

lemma leaf_split_ok:
  assumes "leaf_ok l" "k \<in> set ''&|''"
  shows "unsplit k (print_leaf l)"
proof -
  from print_leaf_text[OF assms(1)] obtain tag v where l: "print_leaf l = CHR ''<'' # tag @ CHR ''>'' # v"
    "set tag \<inter> set ''<>|&'' = {}" "plain v" by blast
  from l have "depth_after 1 tag = 1" by (intro depth_after_none) auto
  then have "unsplit k (CHR ''<'' # tag @ ''>'')"
    using l(2) assms(2) by (intro unsplit_absent) (auto simp: depth_step_def)
  from unsplit_append[OF this, of v] show ?thesis using l(1,3) assms(2) by (auto simp: plain_def)
qed

lemma traverse_map: "(\<And>x. x \<in> set xs \<Longrightarrow> f (g x) = Inr x) \<Longrightarrow> traverse f (map g xs) = Inr xs"
  by (induction xs) auto

lemma parse_print_and:
  assumes "and_ok r"
  shows "parse_and (print_and r) = Inr r"
proof (cases "\<exists>rs. r = And rs")
  case True
  then obtain rs where r: "r = And rs" by blast
  with assms have ok: "length rs \<ge> 2" "\<forall>l \<in> set rs. leaf_ok l" by (auto simp: list_all_iff)
  have "split_top_level (join_with ''&&'' (map print_leaf rs)) ''&&'' = map print_leaf rs"
    using ok leaf_split_ok by (intro split_top_level_join) auto
  moreover have "traverse parse_leaf (map print_leaf rs) = Inr rs"
    using ok parse_print_leaf by (intro traverse_map) auto
  ultimately show ?thesis using r ok(1) by (auto simp: parse_and_def Let_def)
next
  case False
  with assms have "leaf_ok r" "print_and r = print_leaf r" by (cases r; simp)+
  then show ?thesis
    using leaf_split_ok[of r] by (simp add: parse_and_def Let_def split_top_level_unsplit parse_print_leaf)
qed

lemma and_split_ok: "and_ok r \<Longrightarrow> unsplit CHR ''|'' (print_and r)"
proof (cases r)
  case (And rs)
  assume "and_ok r"
  moreover have "unsplit CHR ''|'' ''&&''" by code_simp
  ultimately show ?thesis
    using And by (auto simp: list_all_iff intro!: unsplit_join leaf_split_ok)
qed (auto simp: leaf_split_ok simp del: print_leaf.simps leaf_ok.simps)

text \<open>Ends of the printed rule.\<close>

definition trimmed :: "rstr \<Rightarrow> bool" where
  "trimmed s \<longleftrightarrow> length s \<ge> 3 \<and> hd s = CHR ''<'' \<and> trim_end s = s"

lemma trimmed_trim: "trimmed s \<Longrightarrow> trim s = s"
  by (cases s) (auto simp: trimmed_def trim_def trim_start_angle)

lemma trimmed_join:
  "ps \<noteq> [] \<Longrightarrow> (\<And>p. p \<in> set ps \<Longrightarrow> trimmed p) \<Longrightarrow> trimmed (join_with sep ps)"
proof (induction ps)
  case Nil
  then show ?case by simp
next
  case (Cons p ps)
  show ?case
  proof (cases ps)
    case Nil
    with Cons show ?thesis by simp
  next
    case (Cons q qs)
    with Cons.IH Cons.prems have "trimmed (join_with sep ps)" "trimmed p" by auto
    then show ?thesis
      using Cons trim_end_append[of "join_with sep ps" "p @ sep"]
      by (cases p) (auto simp: trimmed_def)
  qed
qed

lemma trimmed_leaf: "leaf_ok l \<Longrightarrow> trimmed (print_leaf l)"
proof -
  assume "leaf_ok l"
  from print_leaf_text[OF this] obtain tag v where l: "print_leaf l = CHR ''<'' # tag @ CHR ''>'' # v"
    "plain v" by blast
  with plain_trim[OF l(2), of tag] have "trim_end (print_leaf l) = print_leaf l"
    by (simp add: trim_def trim_start_angle)
  moreover from \<open>leaf_ok l\<close> have "length (print_leaf l) \<ge> 3" by (cases l) auto
  ultimately show ?thesis using l by (simp add: trimmed_def)
qed

lemma trimmed_and: "and_ok r \<Longrightarrow> trimmed (print_and r)"
  by (cases r) (auto simp: list_all_iff intro!: trimmed_join trimmed_leaf simp flip: print_leaf.simps)

lemma trimmed_rule: "rule_ok r \<Longrightarrow> trimmed (print_rule r)"
  by (cases r) (auto simp: list_all_iff intro!: trimmed_join trimmed_and simp flip: print_leaf.simps print_and.simps)

section \<open>Properties\<close>

text \<open>C17: The rule language is read back as written: every rule in the parser's normal form (a
  disjunction of at least two conjunctions of at least two leaves, or less), whose values have
  no separator outside angle brackets, closed brackets, and no white space or half a separator
  at the end, is recovered from its text; in particular the conjunctions bind tighter than the
  disjunctions, and a separator inside the angle brackets of a value does not split.\<close>
theorem matcher_roundtrip:
  assumes "rule_ok r"
  shows "matcher_parse (print_rule r) = Inr r"
proof -
  have t: "trim (print_rule r) = print_rule r" by (rule trimmed_trim[OF trimmed_rule[OF assms]])
  show ?thesis
  proof (cases "\<exists>rs. r = Or rs")
    case True
    then obtain rs where r: "r = Or rs" by blast
    with assms have ok: "length rs \<ge> 2" "\<forall>x \<in> set rs. and_ok x" by (auto simp: list_all_iff)
    have "split_top_level (join_with ''||'' (map print_and rs)) ''||'' = map print_and rs"
      using ok and_split_ok by (intro split_top_level_join) auto
    moreover have "traverse parse_and (map print_and rs) = Inr rs"
      using ok parse_print_and by (intro traverse_map) auto
    ultimately show ?thesis using r ok(1) t by (auto simp: matcher_parse_def parse_or_def Let_def)
  next
    case False
    with assms have "and_ok r" "print_rule r = print_and r" by (cases r; simp)+
    then show ?thesis
      using t and_split_ok[of r]
      by (simp add: matcher_parse_def parse_or_def Let_def split_top_level_unsplit parse_print_and)
  qed
qed

theorem matcher_roundtrip_witness:
  "print_rule (Or [And [Subject ''CN=R&D <a||b&&c>'', Eku [1, 3]], Ku 0x80])
     = ''<SUBJECT>CN=R&D <a||b&&c>&&<EKU>1.3||<KU>80'' \<and>
   matcher_parse ''<SUBJECT>CN=R&D <a||b&&c>&&<EKU>1.3||<KU>80''
     = Inr (Or [And [Subject ''CN=R&D <a||b&&c>'', Eku [1, 3]], Ku 0x80])"
proof -
  let ?r = "Or [And [Subject ''CN=R&D <a||b&&c>'', Eku [1, 3]], Ku 0x80]"
  have p: "print_rule ?r = ''<SUBJECT>CN=R&D <a||b&&c>&&<EKU>1.3||<KU>80''" by code_simp
  have ok: "rule_ok ?r" by code_simp
  show ?thesis using matcher_roundtrip[OF ok] p by simp
qed

lemma star_parts:
  assumes star: "CHR ''*'' \<in> set p"
  obtains q r rs where "p = q @ CHR ''*'' # join_with ''*'' (r # rs)" "\<forall>x\<in>set (q # r # rs). CHR ''*'' \<notin> set x"
    "last (r # rs) = [] \<longleftrightarrow> last p = CHR ''*''"
    "simple_match h p \<longleftrightarrow> take (length q) h = q \<and>
       (\<exists>pos. match_parts h False (length q) (r # rs) = Some pos \<and> (last (r # rs) \<noteq> [] \<longrightarrow> pos = length h))"
proof -
  define parts where "parts = split_on CHR ''*'' p"
  have p: "p = join_with ''*'' parts" by (simp add: parts_def join_split)
  have free: "\<forall>q \<in> set parts. CHR ''*'' \<notin> set q" by (auto simp: parts_def dest: split_on_no_sep)
  from star p obtain q r rs where qr: "parts = q # r # rs"
    using free by (cases parts rule: remdups_adj.cases) auto
  have "match_parts h True 0 parts =
      (if take (length q) h = q then match_parts h False (length q) (r # rs) else None)"
    unfolding qr by (cases "q = []") (auto simp: find_sub.simps[of q h] split: option.splits list.splits)
  then have "simple_match h p \<longleftrightarrow> take (length q) h = q \<and>
       (\<exists>pos. match_parts h False (length q) (r # rs) = Some pos \<and> (last (r # rs) \<noteq> [] \<longrightarrow> pos = length h))"
    using star qr by (auto simp: simple_match_def contains_star Let_def parts_def split: option.splits if_splits)
  moreover have "last (r # rs) = [] \<longleftrightarrow> last p = CHR ''*''"
    using last_split_on[of "CHR ''*''" p] star qr unfolding parts_def by fastforce
  ultimately show thesis using that[of q r rs] free p by (simp add: qr)
qed

lemma simple_match_sound:
  assumes "CHR ''*'' \<in> set p" "simple_match h p"
  shows "glob p h"
proof -
  obtain q r rs where Q: "p = q @ CHR ''*'' # join_with ''*'' (r # rs)" "\<forall>x\<in>set (q # r # rs). CHR ''*'' \<notin> set x"
    "last (r # rs) = [] \<longleftrightarrow> last p = CHR ''*''"
    and M: "simple_match h p \<longleftrightarrow> take (length q) h = q \<and>
       (\<exists>pos. match_parts h False (length q) (r # rs) = Some pos \<and> (last (r # rs) \<noteq> [] \<longrightarrow> pos = length h))"
    by (rule star_parts[OF assms(1), of h])
  then obtain pos where m: "take (length q) h = q" "match_parts h False (length q) (r # rs) = Some pos"
    and e: "last (r # rs) \<noteq> [] \<longrightarrow> pos = length h" using assms(2) by blast
  have le: "length q \<le> length h" using m(1) by (metis length_take min.cobounded1)
  define t where "t = drop (length q) h"
  have h: "h = q @ t" using m(1) by (metis append_take_drop_id t_def)
  from match_parts_sound[OF m(2) _ _ le] Q(2)
  have g: "glob (CHR ''*'' # join_with ''*'' (r # rs)) (take (pos - length q) t)" "pos \<le> length h"
    by (auto simp: t_def)
  have "glob (CHR ''*'' # join_with ''*'' (r # rs)) t"
  proof (cases "last (r # rs) = []")
    case True
    then have "last (CHR ''*'' # join_with ''*'' (r # rs)) = CHR ''*''" using Q(1,3) by simp
    from glob_extend[OF g(1) _ this, of "drop (pos - length q) t"] show ?thesis by simp
  next
    case False
    with e h g show ?thesis by simp
  qed
  then show ?thesis using Q(2) by (auto simp: Q(1) h glob_literal)
qed

lemma simple_match_complete:
  assumes "CHR ''*'' \<in> set p" "last p = CHR ''*''" "glob p h"
  shows "simple_match h p"
proof -
  obtain q r rs where Q: "p = q @ CHR ''*'' # join_with ''*'' (r # rs)" "\<forall>x\<in>set (q # r # rs). CHR ''*'' \<notin> set x"
    "last (r # rs) = [] \<longleftrightarrow> last p = CHR ''*''"
    and M: "simple_match h p \<longleftrightarrow> take (length q) h = q \<and>
       (\<exists>pos. match_parts h False (length q) (r # rs) = Some pos \<and> (last (r # rs) \<noteq> [] \<longrightarrow> pos = length h))"
    by (rule star_parts[OF assms(1), of h])
  from assms(3) obtain t where h: "h = q @ t" "glob (CHR ''*'' # join_with ''*'' (r # rs)) t"
    using Q(2) by (auto simp: Q(1) glob_literal)
  have "match_parts h False (length q) (r # rs) \<noteq> None"
    using h Q(2,3) assms(2) by (intro match_parts_complete) auto
  then show ?thesis unfolding M using h Q(3) assms(2) by auto
qed

text \<open>C18: Names are matched as the configuration describes: without a star the pattern is a
  substring test; with one, a match is always a match of the glob over the whole name (each
  star standing for some string), and a pattern that ends in a star matches everything its
  glob matches.\<close>
theorem simple_match_meaning:
  "(CHR ''*'' \<notin> set p \<longrightarrow> simple_match h p = (\<exists>a b. h = a @ p @ b)) \<and>
   (CHR ''*'' \<in> set p \<longrightarrow> simple_match h p \<longrightarrow> glob p h) \<and>
   (CHR ''*'' \<in> set p \<longrightarrow> last p = CHR ''*'' \<longrightarrow> glob p h \<longrightarrow> simple_match h p)"
proof -
  have "simple_match h p = (\<exists>a b. h = a @ p @ b)" if "CHR ''*'' \<notin> set p"
    using that by (simp add: simple_match_def contains_star contains_iff[of h p])
  then show ?thesis using simple_match_sound[of p h] simple_match_complete[of p h] by blast
qed

theorem simple_match_meaning_witness:
  "simple_match ''host.example.com'' ''host.*'' \<and> \<not> simple_match ''xhost.example.com'' ''host.*'' \<and>
   glob ''*.com'' ''host.example.com''"
proof -
  have "simple_match ''host.example.com'' ''host.*''" by code_simp
  moreover have "\<not> glob ''host.*'' ''xhost.example.com''" by code_simp
  then have "\<not> simple_match ''xhost.example.com'' ''host.*''"
    using simple_match_meaning[of "''host.*''" "''xhost.example.com''"] by auto
  moreover have "glob ''*.com'' ''host.example.com''" by code_simp
  ultimately show ?thesis by simp
qed

text \<open>The last part is looked for at its first occurrence, so a glob that does not end in a star
  can miss names it describes.\<close>

lemma simple_match_misses: "glob ''*a'' ''aba'' \<and> \<not> simple_match ''aba'' ''*a''"
  by code_simp

lemma evaluate_all_True:
  "evaluate_all T X rs c = Inr True \<longleftrightarrow> (\<forall>r \<in> set rs. evaluate T X r c = Inr True)"
  by (induction rs) (auto simp: res split: if_splits)

lemma evaluate_any_True:
  "evaluate_any T X rs c = Inr True \<longleftrightarrow>
   (\<exists>pre r post. rs = pre @ r # post \<and> evaluate T X r c = Inr True \<and>
      (\<forall>q \<in> set pre. evaluate T X q c = Inr False))" (is "_ \<longleftrightarrow> ?R rs")
proof (induction rs)
  case Nil
  then show ?case by simp
next
  case (Cons r rs)
  have "?R (r # rs) \<longleftrightarrow> evaluate T X r c = Inr True \<or> evaluate T X r c = Inr False \<and> ?R rs"
  proof
    assume "?R (r # rs)"
    then obtain pre q post where *: "r # rs = pre @ q # post" "evaluate T X q c = Inr True"
      "\<forall>q \<in> set pre. evaluate T X q c = Inr False" by blast
    then show "evaluate T X r c = Inr True \<or> evaluate T X r c = Inr False \<and> ?R rs"
      by (cases pre) auto
  next
    assume or: "evaluate T X r c = Inr True \<or> evaluate T X r c = Inr False \<and> ?R rs"
    show "?R (r # rs)"
    proof (cases "evaluate T X r c = Inr True")
      case True
      then show ?thesis by (intro exI[of _ "[]"]) auto
    next
      case False
      with or obtain pre q post where "rs = pre @ q # post" "evaluate T X q c = Inr True"
        "\<forall>q \<in> set pre. evaluate T X q c = Inr False" "evaluate T X r c = Inr False" by blast
      then show ?thesis by (intro exI[of _ "r # pre"]) auto
    qed
  qed
  moreover have "evaluate_any T X (r # rs) c = Inr True \<longleftrightarrow>
      evaluate T X r c = Inr True \<or> evaluate T X r c = Inr False \<and> evaluate_any T X rs c = Inr True"
    by (cases "evaluate T X r c") auto
  ultimately show ?case using Cons.IH by simp
qed

text \<open>A database rule authorizes a certificate only if it parses and holds: a conjunction
  holds when each member does, a disjunction when some member does and every member before it
  was decided against, so an undecodable name or extension met on the way never authorizes.\<close>
theorem db_match_authorized:
  assumes "db_match T X c s = Inr Authorized"
  obtains r where "matcher_parse s = Inr r" "evaluate T X r c = Inr True"
    "\<And>rs. r = And rs \<Longrightarrow> \<forall>q \<in> set rs. evaluate T X q c = Inr True"
    "\<And>rs. r = Or rs \<Longrightarrow> \<exists>pre q post. rs = pre @ q # post \<and> evaluate T X q c = Inr True \<and>
       (\<forall>p \<in> set pre. evaluate T X p c = Inr False)"
proof -
  from assms obtain r where r: "matcher_parse s = Inr r" "evaluate T X r c = Inr True"
    by (auto simp: db_match_def matcher_matches_def res split: if_splits)
  show ?thesis
    by (rule that[OF r]) (use r(2) evaluate_all_True evaluate_any_True in auto)
qed

theorem db_match_authorized_witness:
  "db_match std_oids demo_x509 demo_client_cert ''<SAN>x||<SAN>u@R&&<KU>1'' = Inr Authorized \<and>
   (\<exists>r. matcher_parse ''<SAN>x||<SAN>u@R&&<KU>1'' = Inr r)"
proof -
  have "trim ''<SAN>x||<SAN>u@R&&<KU>1'' = ''<SAN>x||<SAN>u@R&&<KU>1''"
    by (simp add: trim_def trim_start_angle trim_end_last)
  moreover have "split_top_level ''<SAN>x||<SAN>u@R&&<KU>1'' ''||'' = [''<SAN>x'', ''<SAN>u@R&&<KU>1'']"
    by code_simp
  moreover have "split_top_level ''<SAN>x'' ''&&'' = [''<SAN>x'']" by code_simp
  moreover have "split_top_level ''<SAN>u@R&&<KU>1'' ''&&'' = [''<SAN>u@R'', ''<KU>1'']" by code_simp
  moreover have "parse_leaf ''<SAN>x'' = Inr (San ''x'')" by code_simp
  moreover have "parse_leaf ''<SAN>u@R'' = Inr (San ''u@R'')" by code_simp
  moreover have "print_leaf (Ku 1) = ''<KU>1''" by code_simp
  ultimately have p: "matcher_parse ''<SAN>x||<SAN>u@R&&<KU>1'' = Inr (Or [San ''x'', And [San ''u@R'', Ku 1]])"
    using parse_print_leaf[of "Ku 1"] by (simp add: matcher_parse_def parse_or_def parse_and_def)
  have e: "evaluate std_oids demo_x509 (Or [San ''x'', And [San ''u@R'', Ku 1]]) demo_client_cert = Inr True"
    by code_simp
  have d: "db_match std_oids demo_x509 demo_client_cert ''<SAN>x||<SAN>u@R&&<KU>1'' = Inr Authorized"
    by (simp add: db_match_def matcher_matches_def p e del: evaluate.simps)
  show ?thesis by (rule db_match_authorized[OF d]) (use d in auto)
qed

end
