(* ===== verification/Identity.thy ===== *)
theory Identity
  imports Dh
begin

text \<open>
  \<open>pkinit-core/src/identity/mod.rs\<close> and \<open>identity/loader.rs\<close>: the identity URI parser, the
  loaders of an identity from files, a directory, a PKCS#12 archive, a PKCS#11 token or the
  environment, and the two rewritings of a PKCS#11 URI (the one that selects certificates and
  the one that hides the query, which may carry the PIN, from messages).

  The file system and the environment are \<open>os_ops\<close>, the readers of key material \<open>pki_ops\<close>.
\<close>

section \<open>The world outside\<close>

record os_ops =
  fs_read :: "rstr \<Rightarrow> bytes ext"
  fs_read_dir :: "rstr \<Rightarrow> rstr ext list ext"
  fs_is_file :: "rstr \<Rightarrow> bool"
  env_var :: "rstr \<Rightarrow> rstr ext"

type_synonym pki_block = "rstr \<times> bytes"

record pkcs12_pki =
  p12_certs :: "bytes list"
  p12_keys :: "bytes list"

datatype decryptor_error = DecryptOpenssl rstr | DecryptUnsupported rstr

datatype pkcs12_error = P12Crypto decryptor_error | P12Other rstr

record pki_ops =
  read_pki_blocks :: "bytes \<Rightarrow> pki_block list ext"
  pki_from_pkcs12 :: "bytes \<Rightarrow> bytes \<Rightarrow> pkcs12_error + pkcs12_pki"
  pkcs12_error_text :: "pkcs12_error \<Rightarrow> rstr"
  key_from_pkcs8 :: "bytes \<Rightarrow> obj"
  key_from_pkcs11_uri :: "rstr \<Rightarrow> obj ext"
  certs_from_pkcs11_uri :: "rstr \<Rightarrow> bytes list ext"

section \<open>Identities\<close>

record pkinit_identity =
  id_cert_der :: bytes
  id_signing_key :: "obj option"
  id_chain :: "bytes list"

datatype identity_source =
    FileId rstr rstr
  | DirId rstr
  | Pkcs12Id rstr
  | Pkcs11Uri rstr
  | EnvId rstr rstr

definition identity_source_parse :: "rstr \<Rightarrow> identity_source res" where
  "identity_source_parse uri =
     rbind (ok_or (split_once CHR '':'' uri) (Config (''identity URI missing scheme: '' @ uri)))
       (\<lambda>(scheme, rest).
       if scheme = ''FILE'' then
         rbind (ok_or (split_once CHR '','' rest)
                  (Config (''FILE identity requires cert,key paths: '' @ rest))) (\<lambda>(cert, key).
           Inr (FileId cert key))
       else if scheme = ''DIR'' then Inr (DirId rest)
       else if scheme = ''PKCS12'' then Inr (Pkcs12Id rest)
       else if scheme = ''PKCS11'' then Inr (Pkcs11Uri rest)
       else if scheme = ''ENV'' then
         rbind (ok_or (split_once CHR '','' rest)
                  (Config (''ENV identity requires cert_var,key_var: '' @ rest))) (\<lambda>(cert_var, key_var).
           Inr (EnvId cert_var key_var))
       else Inl (Config (''unknown identity scheme: '' @ scheme)))"

section \<open>Helpers of the loaders\<close>

definition map_pkcs12_error :: "pki_ops \<Rightarrow> pkcs12_error \<Rightarrow> pkinit_error" where
  "map_pkcs12_error P e =
     (case e of
        P12Crypto (DecryptOpenssl _) \<Rightarrow> Pkcs12PasswordRequired
      | other \<Rightarrow> IdentityLoadFailed (''parsing PKCS#12: '' @ pkcs12_error_text P other))"

definition extract_cert_and_chain :: "pki_block list \<Rightarrow> (bytes \<times> bytes list) res" where
  "extract_cert_and_chain blocks =
     (let certs = map snd (filter (\<lambda>(label, _). label = ''CERTIFICATE'') blocks) in
      rbind (ok_or (case certs of [] \<Rightarrow> None | c # _ \<Rightarrow> Some c)
               (IdentityLoadFailed ''no certificate found'')) (\<lambda>cert_der.
        Inr (cert_der, drop 1 certs)))"

definition extract_private_key :: "pki_block list \<Rightarrow> bytes res" where
  "extract_private_key blocks =
     ok_or (map_option snd
              (List.find (\<lambda>(label, _). label = ''PRIVATE KEY'' \<or> label = ''RSA PRIVATE KEY'') blocks))
       (IdentityLoadFailed ''no private key found'')"

definition redact_pkcs11_uri :: "rstr \<Rightarrow> rstr" where
  "redact_pkcs11_uri uri = (case split_once CHR ''?'' uri of Some (path, _) \<Rightarrow> path | None \<Rightarrow> uri)"

definition pkcs11_cert_uri :: "rstr \<Rightarrow> rstr" where
  "pkcs11_cert_uri uri =
     (let (path, query) = (case split_once CHR ''?'' uri of
            Some (p, q) \<Rightarrow> (p, Some q) | None \<Rightarrow> (uri, None));
          components = filter (\<lambda>c. \<not> starts_with c ''type='') (split_on CHR '';'' path) @ [''type=cert''];
          out = join_with '';'' components
      in case query of Some q \<Rightarrow> out @ ''?'' @ q | None \<Rightarrow> out)"

text \<open>The identity the two PEM loaders build from the blocks of the certificate and of the key.\<close>

definition identity_of_blocks :: "pki_ops \<Rightarrow> pki_block list \<Rightarrow> pki_block list \<Rightarrow> pkinit_identity res" where
  "identity_of_blocks P cert_blocks key_blocks =
     rbind (extract_cert_and_chain cert_blocks) (\<lambda>(cert_der, chain).
     rbind (extract_private_key key_blocks) (\<lambda>key_der.
       Inr \<lparr>id_cert_der = cert_der, id_signing_key = Some (key_from_pkcs8 P key_der), id_chain = chain\<rparr>))"

section \<open>The loaders\<close>

definition load_file :: "os_ops \<Rightarrow> pki_ops \<Rightarrow> rstr \<Rightarrow> rstr \<Rightarrow> pkinit_identity res" where
  "load_file F P cert_path key_path =
     rbind (map_err (\<lambda>e. IdentityLoadFailed (''reading cert '' @ cert_path @ '': '' @ e))
              (fs_read F cert_path)) (\<lambda>cert_data.
     rbind (map_err (\<lambda>e. IdentityLoadFailed (''reading key '' @ key_path @ '': '' @ e))
              (fs_read F key_path)) (\<lambda>key_data.
     rbind (with_err IdentityLoadFailed ''parsing cert file'' (read_pki_blocks P cert_data))
       (\<lambda>cert_blocks.
     rbind (with_err IdentityLoadFailed ''parsing key file'' (read_pki_blocks P key_data))
       (\<lambda>key_blocks. identity_of_blocks P cert_blocks key_blocks))))"

text \<open>The directory loop; a file that does not parse is skipped, one that cannot be read is not.\<close>

fun load_dir_blocks :: "os_ops \<Rightarrow> pki_ops \<Rightarrow> rstr ext list \<Rightarrow> pki_block list res" where
  "load_dir_blocks F P [] = Inr []"
| "load_dir_blocks F P (entry # entries) =
     rbind (with_err IdentityLoadFailed ''reading dir entry'' entry) (\<lambda>path.
       if \<not> fs_is_file F path then load_dir_blocks F P entries
       else
         rbind (map_err (\<lambda>e. IdentityLoadFailed (''reading '' @ path @ '': '' @ e)) (fs_read F path))
           (\<lambda>data.
         rbind (load_dir_blocks F P entries) (\<lambda>rest.
           case read_pki_blocks P data of Inr blocks \<Rightarrow> Inr (blocks @ rest) | Inl _ \<Rightarrow> Inr rest)))"

definition load_dir :: "os_ops \<Rightarrow> pki_ops \<Rightarrow> rstr \<Rightarrow> pkinit_identity res" where
  "load_dir F P dir_path =
     rbind (map_err (\<lambda>e. IdentityLoadFailed (''reading directory '' @ dir_path @ '': '' @ e))
              (fs_read_dir F dir_path)) (\<lambda>entries.
     rbind (load_dir_blocks F P entries) (\<lambda>all_blocks. identity_of_blocks P all_blocks all_blocks))"

definition load_pkcs12 :: "os_ops \<Rightarrow> pki_ops \<Rightarrow> rstr \<Rightarrow> bytes \<Rightarrow> pkinit_identity res" where
  "load_pkcs12 F P path password =
     rbind (map_err (\<lambda>e. IdentityLoadFailed (''reading PKCS#12 '' @ path @ '': '' @ e))
              (fs_read F path)) (\<lambda>data.
     rbind (map_err (map_pkcs12_error P) (pki_from_pkcs12 P data password)) (\<lambda>pki.
     rbind (ok_or (case p12_certs pki of [] \<Rightarrow> None | c # _ \<Rightarrow> Some c)
              (IdentityLoadFailed ''PKCS#12 contains no certificates'')) (\<lambda>cert_der.
     rbind (ok_or (case p12_keys pki of [] \<Rightarrow> None | k # _ \<Rightarrow> Some k)
              (IdentityLoadFailed ''PKCS#12 contains no private keys'')) (\<lambda>key_der.
       Inr \<lparr>id_cert_der = cert_der, id_signing_key = Some (key_from_pkcs8 P key_der),
            id_chain = drop 1 (p12_certs pki)\<rparr>))))"

definition load_pkcs11 :: "pki_ops \<Rightarrow> rstr \<Rightarrow> pkinit_identity res" where
  "load_pkcs11 P uri =
     rbind (map_err (\<lambda>e. IdentityLoadFailed (''loading PKCS#11 key from '' @ redact_pkcs11_uri uri @ '': '' @ e))
              (key_from_pkcs11_uri P uri)) (\<lambda>signing_key.
     let cert_uri = pkcs11_cert_uri uri in
     rbind (map_err (\<lambda>e. IdentityLoadFailed
                (''loading PKCS#11 certificate from '' @ redact_pkcs11_uri cert_uri @ '': '' @ e))
              (certs_from_pkcs11_uri P cert_uri)) (\<lambda>certs.
     rbind (ok_or (case certs of [] \<Rightarrow> None | c # _ \<Rightarrow> Some c)
              (IdentityLoadFailed (''PKCS#11 token exposes no certificate for '' @ redact_pkcs11_uri uri)))
       (\<lambda>cert_der.
       Inr \<lparr>id_cert_der = cert_der, id_signing_key = Some signing_key, id_chain = drop 1 certs\<rparr>)))"

definition load_env :: "os_ops \<Rightarrow> pki_ops \<Rightarrow> rstr \<Rightarrow> rstr \<Rightarrow> pkinit_identity res" where
  "load_env F P cert_var key_var =
     rbind (map_err (\<lambda>e. IdentityLoadFailed (''reading env var '' @ cert_var @ '': '' @ e))
              (env_var F cert_var)) (\<lambda>cert_path.
     rbind (map_err (\<lambda>e. IdentityLoadFailed (''reading env var '' @ key_var @ '': '' @ e))
              (env_var F key_var)) (\<lambda>key_path.
       load_file F P cert_path key_path))"

definition identity_load :: "os_ops \<Rightarrow> pki_ops \<Rightarrow> identity_source \<Rightarrow> pkinit_identity res" where
  "identity_load F P source =
     (case source of
        FileId cert_path key_path \<Rightarrow> load_file F P cert_path key_path
      | DirId dir_path \<Rightarrow> load_dir F P dir_path
      | Pkcs12Id path \<Rightarrow> load_pkcs12 F P path []
      | Pkcs11Uri uri \<Rightarrow> load_pkcs11 P uri
      | EnvId cert_var key_var \<Rightarrow> load_env F P cert_var key_var)"

section \<open>Facts\<close>

lemma redact_no_query: "CHR ''?'' \<notin> set (redact_pkcs11_uri uri)"
proof (cases "split_once CHR ''?'' uri")
  case None
  then have "CHR ''?'' \<notin> set uri" by (simp add: split_once_None)
  with None show ?thesis by (simp add: redact_pkcs11_uri_def)
next
  case (Some ab)
  then obtain a b where ab: "split_once CHR ''?'' uri = Some (a, b)" by (cases ab) simp
  then have "redact_pkcs11_uri uri = a" by (simp add: redact_pkcs11_uri_def)
  with ab show ?thesis by (simp add: split_once_Some)
qed

lemma redact_path: "CHR ''?'' \<notin> set path \<Longrightarrow> redact_pkcs11_uri (path @ CHR ''?'' # query) = path"
  using split_once_Some[of "CHR ''?''" "path @ CHR ''?'' # query" path query]
  by (simp add: redact_pkcs11_uri_def)

definition cert_path_of :: "rstr \<Rightarrow> rstr" where
  "cert_path_of path =
     join_with '';'' (filter (\<lambda>c. \<not> starts_with c ''type='') (split_on CHR '';'' path) @ [''type=cert''])"

lemma join_with_chars: "c \<in> set (join_with sep ps) \<Longrightarrow> c \<in> set sep \<or> (\<exists>p \<in> set ps. c \<in> set p)"
  by (induction sep ps rule: join_with.induct) auto

lemma split_on_chars: "p \<in> set (split_on c s) \<Longrightarrow> set p \<subseteq> set s"
proof (induction s arbitrary: p)
  case Nil
  then show ?case by simp
next
  case (Cons x xs)
  then show ?case
    by (cases "split_on c xs") (fastforce split: if_splits)+
qed

lemma cert_path_no_query: "CHR ''?'' \<notin> set path \<Longrightarrow> CHR ''?'' \<notin> set (cert_path_of path)"
  unfolding cert_path_of_def
  by (auto dest!: join_with_chars dest: subsetD[OF split_on_chars])

lemma pkcs11_cert_uri_query:
  "CHR ''?'' \<notin> set path \<Longrightarrow> pkcs11_cert_uri (path @ CHR ''?'' # query) = cert_path_of path @ CHR ''?'' # query"
  using split_once_Some[of "CHR ''?''" "path @ CHR ''?'' # query" path query]
  by (simp add: pkcs11_cert_uri_def cert_path_of_def Let_def)

lemma split_cert_path:
  "split_on CHR '';'' (cert_path_of path)
     = filter (\<lambda>c. \<not> starts_with c ''type='') (split_on CHR '';'' path) @ [''type=cert'']"
  unfolding cert_path_of_def by (rule split_join) (auto dest: split_on_no_sep)

section \<open>Properties\<close>

text \<open>C19: The PIN never reaches a message: whatever a PKCS#11 load fails with, the message is
  made of a fixed text, a URI cut before its query and at most the library's own text; the
  certificate URI keeps the query for the token and differs from the key's only in the path
  attributes.\<close>
theorem pkcs11_messages_hide_query:
  assumes "CHR ''?'' \<notin> set path" "load_pkcs11 P (path @ CHR ''?'' # query) = Inl e"
  shows "pkcs11_cert_uri (path @ CHR ''?'' # query) = cert_path_of path @ CHR ''?'' # query \<and>
    CHR ''?'' \<notin> set (cert_path_of path) \<and>
    ((\<exists>t. key_from_pkcs11_uri P (path @ CHR ''?'' # query) = Inl t \<and>
        e = IdentityLoadFailed (''loading PKCS#11 key from '' @ path @ '': '' @ t)) \<or>
     (\<exists>t. certs_from_pkcs11_uri P (cert_path_of path @ CHR ''?'' # query) = Inl t \<and>
        e = IdentityLoadFailed (''loading PKCS#11 certificate from '' @ cert_path_of path @ '': '' @ t)) \<or>
     e = IdentityLoadFailed (''PKCS#11 token exposes no certificate for '' @ path))"
proof -
  note cu = pkcs11_cert_uri_query[OF assms(1), of query]
  have r: "redact_pkcs11_uri (cert_path_of path @ CHR ''?'' # query) = cert_path_of path"
    by (rule redact_path[OF cert_path_no_query[OF assms(1)]])
  show ?thesis
    using assms(2) cu r redact_path[OF assms(1), of query] cert_path_no_query[OF assms(1)]
    by (auto simp: load_pkcs11_def Let_def rbind_eq_Inl res)
qed

text \<open>The URI that reads the certificates keeps every attribute of the identity's path except
  those that start with the type selector, adds the certificate selector as the last, and
  leaves the query alone.\<close>
theorem pkcs11_cert_uri_attributes:
  assumes "CHR ''?'' \<notin> set path"
  shows "\<exists>path'. pkcs11_cert_uri (path @ CHR ''?'' # query) = path' @ CHR ''?'' # query \<and>
    split_on CHR '';'' path' = filter (\<lambda>c. \<not> starts_with c ''type='') (split_on CHR '';'' path) @ [''type=cert'']"
  using pkcs11_cert_uri_query[OF assms] split_cert_path by blast

text \<open>A type selector written directly after the scheme is not an attribute of its own to the
  code, so it survives beside the certificate selector.\<close>

lemma leading_type_survives:
  "pkcs11_cert_uri ''pkcs11:type=private;object=a'' = ''pkcs11:type=private;object=a;type=cert''"
  by code_simp

text \<open>How a source is written.\<close>

fun source_text :: "identity_source \<Rightarrow> rstr" where
  "source_text (FileId c k) = ''FILE:'' @ c @ '','' @ k"
| "source_text (DirId d) = ''DIR:'' @ d"
| "source_text (Pkcs12Id p) = ''PKCS12:'' @ p"
| "source_text (Pkcs11Uri u) = ''PKCS11:'' @ u"
| "source_text (EnvId c k) = ''ENV:'' @ c @ '','' @ k"

fun source_ok :: "identity_source \<Rightarrow> bool" where
  "source_ok (FileId c k) = (CHR '','' \<notin> set c)"
| "source_ok (EnvId c k) = (CHR '','' \<notin> set c)"
| "source_ok _ = True"

lemma split_once_at: "c \<notin> set a \<Longrightarrow> split_once c (a @ c # b) = Some (a, b)"
  by (simp add: split_once_Some)

lemma parse_scheme:
  "CHR '':'' \<notin> set sch \<Longrightarrow> split_once CHR '':'' (sch @ CHR '':'' # rest) = Some (sch, rest)"
  by (rule split_once_at)

text \<open>Every identity source that can be written is parsed back: the five schemes are told
  apart by the text before the first colon, and only the first comma separates certificate
  from key, so the key's path may contain commas and colons.  No text is parsed as two
  different sources, and a parsed source is the one its text describes.\<close>
theorem identity_source_roundtrip:
  "(source_ok src \<longrightarrow> identity_source_parse (source_text src) = Inr src) \<and>
   (identity_source_parse uri = Inr src \<longrightarrow> source_ok src \<and> source_text src = uri)"
proof (intro conjI impI)
  show "source_ok src \<Longrightarrow> identity_source_parse (source_text src) = Inr src"
    using parse_scheme[of "''FILE''"] parse_scheme[of "''DIR''"] parse_scheme[of "''PKCS12''"]
      parse_scheme[of "''PKCS11''"] parse_scheme[of "''ENV''"]
    by (cases src) (auto simp: identity_source_parse_def split_once_at)
next
  assume p: "identity_source_parse uri = Inr src"
  then obtain sch rest where "split_once CHR '':'' uri = Some (sch, rest)"
    by (auto simp: identity_source_parse_def res)
  with p show "source_ok src" "source_text src = uri"
    by (auto simp: identity_source_parse_def split_once_Some res split: if_splits)
qed

lemma first_block_Some [simp]:
  "(case xs of [] \<Rightarrow> None | c # _ \<Rightarrow> Some c) = Some x \<longleftrightarrow> (\<exists>ys. xs = x # ys)"
  by (cases xs) auto

lemma identity_of_blocks_Inr:
  "identity_of_blocks P cb kb = Inr i \<Longrightarrow>
   map snd (filter (\<lambda>(l, _). l = ''CERTIFICATE'') cb) = id_cert_der i # id_chain i \<and>
   (\<exists>l d. (l, d) \<in> set kb \<and> l \<in> {''PRIVATE KEY'', ''RSA PRIVATE KEY''} \<and>
      id_signing_key i = Some (key_from_pkcs8 P d))"
  by (fastforce simp: identity_of_blocks_def extract_cert_and_chain_def extract_private_key_def Let_def res
      dest: find_SomeD)

lemma identity_of_blocks_error:
  "identity_of_blocks P cb kb \<noteq> Inl Pkcs12PasswordRequired"
  by (auto simp: identity_of_blocks_def extract_cert_and_chain_def extract_private_key_def Let_def
      rbind_eq_Inl res)

lemma load_file_Inr:
  "load_file F P c k = Inr i \<Longrightarrow> \<exists>cd kd cb kb. fs_read F c = Inr cd \<and> fs_read F k = Inr kd \<and>
     read_pki_blocks P cd = Inr cb \<and> read_pki_blocks P kd = Inr kb \<and> identity_of_blocks P cb kb = Inr i"
  by (auto simp: load_file_def res)

lemma load_file_error: "load_file F P c k \<noteq> Inl Pkcs12PasswordRequired"
  by (auto simp: load_file_def rbind_eq_Inl res identity_of_blocks_error)

lemma load_dir_blocks_error: "load_dir_blocks F P es \<noteq> Inl Pkcs12PasswordRequired"
  by (induction F P es rule: load_dir_blocks.induct)
    (auto simp: rbind_eq_Inl res split: if_splits sum.splits)

lemma load_dir_error: "load_dir F P d \<noteq> Inl Pkcs12PasswordRequired"
  by (auto simp: load_dir_def rbind_eq_Inl res identity_of_blocks_error load_dir_blocks_error)

lemma map_pkcs12_error_password:
  "Pkcs12PasswordRequired = map_pkcs12_error P e \<longleftrightarrow> (\<exists>t. e = P12Crypto (DecryptOpenssl t))"
  by (auto simp: map_pkcs12_error_def split: pkcs12_error.splits decryptor_error.splits)

lemma load_pkcs12_password:
  "load_pkcs12 F P p w = Inl Pkcs12PasswordRequired \<Longrightarrow>
   \<exists>d t. fs_read F p = Inr d \<and> pki_from_pkcs12 P d w = Inl (P12Crypto (DecryptOpenssl t))"
  by (auto simp: load_pkcs12_def rbind_eq_Inl res map_pkcs12_error_password)

lemma load_pkcs11_error: "load_pkcs11 P u \<noteq> Inl Pkcs12PasswordRequired"
  by (auto simp: load_pkcs11_def Let_def rbind_eq_Inl res)

lemma load_pkcs11_Inr:
  "load_pkcs11 P u = Inr i \<Longrightarrow>
   certs_from_pkcs11_uri P (pkcs11_cert_uri u) = Inr (id_cert_der i # id_chain i) \<and>
   (\<exists>k. key_from_pkcs11_uri P u = Inr k \<and> id_signing_key i = Some k)"
  by (auto simp: load_pkcs11_def Let_def res)

lemma identity_load_key: "identity_load F P src = Inr i \<Longrightarrow> id_signing_key i \<noteq> None"
  by (auto simp: identity_load_def load_env_def load_dir_def load_pkcs12_def res
      split: identity_source.splits dest!: load_file_Inr identity_of_blocks_Inr load_pkcs11_Inr)

text \<open>An identity that loads can sign, and its parts come from where its source says: from
  the first CERTIFICATE block, the later ones in order as the chain, and the first private key
  block; for a token, from the certificates the token exposes with the key left on the token.
  Only a failed decryption of an archive asks for another password.\<close>
theorem identity_load_parts:
  assumes "identity_load F P src = r"
  shows "(\<forall>i. r = Inr i \<longrightarrow> id_signing_key i \<noteq> None) \<and>
    (\<forall>i c k cd kd cb kb. src = FileId c k \<longrightarrow> r = Inr i \<longrightarrow> fs_read F c = Inr cd \<longrightarrow> fs_read F k = Inr kd \<longrightarrow>
       read_pki_blocks P cd = Inr cb \<longrightarrow> read_pki_blocks P kd = Inr kb \<longrightarrow>
       map snd (filter (\<lambda>(l, _). l = ''CERTIFICATE'') cb) = id_cert_der i # id_chain i \<and>
       (\<exists>l d. (l, d) \<in> set kb \<and> l \<in> {''PRIVATE KEY'', ''RSA PRIVATE KEY''} \<and>
          id_signing_key i = Some (key_from_pkcs8 P d))) \<and>
    (\<forall>i u. src = Pkcs11Uri u \<longrightarrow> r = Inr i \<longrightarrow>
       certs_from_pkcs11_uri P (pkcs11_cert_uri u) = Inr (id_cert_der i # id_chain i) \<and>
       (\<exists>k. key_from_pkcs11_uri P u = Inr k \<and> id_signing_key i = Some k)) \<and>
    (r = Inl Pkcs12PasswordRequired \<longrightarrow>
       (\<exists>p d t. src = Pkcs12Id p \<and> fs_read F p = Inr d \<and>
          pki_from_pkcs12 P d [] = Inl (P12Crypto (DecryptOpenssl t))))"
proof (intro conjI allI impI)
  fix i assume "r = Inr i"
  then show "id_signing_key i \<noteq> None" using identity_load_key assms by blast
next
  fix i c k cd kd cb kb
  assume "src = FileId c k" "r = Inr i" "fs_read F c = Inr cd" "fs_read F k = Inr kd"
    "read_pki_blocks P cd = Inr cb" "read_pki_blocks P kd = Inr kb"
  then have "identity_of_blocks P cb kb = Inr i"
    using assms by (auto simp: identity_load_def dest!: load_file_Inr)
  from identity_of_blocks_Inr[OF this]
  show "map snd (filter (\<lambda>(l, _). l = ''CERTIFICATE'') cb) = id_cert_der i # id_chain i"
    "\<exists>l d. (l, d) \<in> set kb \<and> l \<in> {''PRIVATE KEY'', ''RSA PRIVATE KEY''} \<and>
       id_signing_key i = Some (key_from_pkcs8 P d)" by blast+
next
  fix i u assume "src = Pkcs11Uri u" "r = Inr i"
  then have "load_pkcs11 P u = Inr i" using assms by (simp add: identity_load_def)
  from load_pkcs11_Inr[OF this]
  show "certs_from_pkcs11_uri P (pkcs11_cert_uri u) = Inr (id_cert_der i # id_chain i)"
    "\<exists>k. key_from_pkcs11_uri P u = Inr k \<and> id_signing_key i = Some k" by blast+
next
  assume "r = Inl Pkcs12PasswordRequired"
  then show "\<exists>p d t. src = Pkcs12Id p \<and> fs_read F p = Inr d \<and>
      pki_from_pkcs12 P d [] = Inl (P12Crypto (DecryptOpenssl t))"
    using assms load_file_error load_dir_error load_pkcs11_error
    by (auto simp: identity_load_def load_env_def rbind_eq_Inl res split: identity_source.splits
        dest: load_pkcs12_password)
qed

section \<open>Witnesses\<close>

definition demo_os :: os_ops where
  "demo_os = \<lparr>fs_read = (\<lambda>p. if p = ''c.pem'' then Inr [1] else if p = ''k.pem'' then Inr [2]
       else if p = ''id.p12'' then Inr [3] else Inl ''not found''),
     fs_read_dir = (\<lambda>_. Inl ''not found''), fs_is_file = (\<lambda>_. True),
     env_var = (\<lambda>_. Inl ''environment variable not found'')\<rparr>"

definition demo_pki :: pki_ops where
  "demo_pki = \<lparr>read_pki_blocks = (\<lambda>d.
       if d = [1] then Inr [(''CERTIFICATE'', [48, 1, 2]), (''CERTIFICATE'', [48, 1, 1])]
       else if d = [2] then Inr [(''EC PARAMETERS'', [0]), (''PRIVATE KEY'', [2])] else Inl ''no PEM''),
     pki_from_pkcs12 = (\<lambda>d w. if w = [1] then Inr \<lparr>p12_certs = [[48, 1, 2]], p12_keys = [[2]]\<rparr>
       else Inl (P12Crypto (DecryptOpenssl ''mac'')) ),
     pkcs12_error_text = (\<lambda>_. ''error''),
     key_from_pkcs8 = (\<lambda>k. k),
     key_from_pkcs11_uri = (\<lambda>_. Inl ''no token''),
     certs_from_pkcs11_uri = (\<lambda>_. Inl ''no token'')\<rparr>"

theorem pkcs11_messages_hide_query_witness:
  "load_pkcs11 demo_pki ''pkcs11:token=T?pin-value=1234''
     = Inl (IdentityLoadFailed ''loading PKCS#11 key from pkcs11:token=T: no token'')"
proof -
  have l: "load_pkcs11 demo_pki (''pkcs11:token=T'' @ CHR ''?'' # ''pin-value=1234'')
      = Inl (IdentityLoadFailed ''loading PKCS#11 key from pkcs11:token=T: no token'')"
    by code_simp
  have "CHR ''?'' \<notin> set ''pkcs11:token=T''" by code_simp
  from pkcs11_messages_hide_query[OF this l] show ?thesis using l by simp
qed

theorem pkcs11_cert_uri_attributes_witness:
  "\<exists>path'. pkcs11_cert_uri (''pkcs11:token=T;type=private'' @ CHR ''?'' # ''pin-value=1'')
     = path' @ CHR ''?'' # ''pin-value=1'' \<and>
   split_on CHR '';'' path' = [''pkcs11:token=T'', ''type=cert'']"
proof -
  have n: "CHR ''?'' \<notin> set ''pkcs11:token=T;type=private''" by code_simp
  have "filter (\<lambda>c. \<not> starts_with c ''type='') (split_on CHR '';'' ''pkcs11:token=T;type=private'')
      = [''pkcs11:token=T'']" by code_simp
  with pkcs11_cert_uri_attributes[OF n, of "''pin-value=1''"] show ?thesis by simp
qed

theorem identity_source_roundtrip_witness:
  "identity_source_parse ''FILE:/c.pem,/k,1.pem'' = Inr (FileId ''/c.pem'' ''/k,1.pem'')"
  using identity_source_roundtrip[of "FileId ''/c.pem'' ''/k,1.pem''"] by simp

theorem identity_load_parts_witness:
  "\<exists>i. identity_load demo_os demo_pki (FileId ''c.pem'' ''k.pem'') = Inr i \<and>
     id_cert_der i = [48, 1, 2] \<and> id_chain i = [[48, 1, 1]] \<and>
     (\<exists>d. id_signing_key i = Some d)"
proof -
  have l: "identity_load demo_os demo_pki (FileId ''c.pem'' ''k.pem'')
      = Inr \<lparr>id_cert_der = [48, 1, 2], id_signing_key = Some [2], id_chain = [[48, 1, 1]]\<rparr>"
    by code_simp
  show ?thesis using identity_load_parts[OF l] l by auto
qed

end
