(* ===== verification/Trust_Store.thy ===== *)
theory Trust_Store
  imports Identity Cms
begin

text \<open>
  \<open>pkinit-core/src/identity/store.rs\<close>, \<open>trust_broker.rs\<close> and \<open>config.rs\<close>: the trust store
  (anchors, intermediates, revocation lists) with its loaders and the chain validation, the
  request and decision types of the trust broker, and the two configurations with their
  defaults.

  The path validation itself is \<open>synta_x509_verification\<close>, the operations \<open>chain_ops\<close>.
\<close>

section \<open>Trust store\<close>

record trust_store =
  ts_anchors :: "bytes list"
  ts_intermediates :: "bytes list"
  ts_crls :: "bytes list"

definition trust_store_new :: trust_store where
  "trust_store_new = \<lparr>ts_anchors = [], ts_intermediates = [], ts_crls = []\<rparr>"

definition add_anchor :: "trust_store \<Rightarrow> bytes \<Rightarrow> trust_store" where
  "add_anchor s cert_der = s\<lparr>ts_anchors := ts_anchors s @ [cert_der]\<rparr>"

definition add_intermediate :: "trust_store \<Rightarrow> bytes \<Rightarrow> trust_store" where
  "add_intermediate s cert_der = s\<lparr>ts_intermediates := ts_intermediates s @ [cert_der]\<rparr>"

definition add_crl :: "trust_store \<Rightarrow> bytes \<Rightarrow> trust_store" where
  "add_crl s crl_der = s\<lparr>ts_crls := ts_crls s @ [crl_der]\<rparr>"

text \<open>The loop over the PEM blocks of a file.\<close>

fun push_blocks :: "trust_store \<Rightarrow> pki_block list \<Rightarrow> trust_store" where
  "push_blocks s [] = s"
| "push_blocks s ((label, der) # blocks) =
     push_blocks
       (if label = ''CERTIFICATE'' then add_anchor s der
        else if label = ''X509 CRL'' then add_crl s der
        else s) blocks"

text \<open>
  \<open>load_from_path\<close> mutates the store while it reads, so a failure leaves what was pushed
  before it: the result carries the store and the outcome.
\<close>

fun load_store_dir :: "os_ops \<Rightarrow> pki_ops \<Rightarrow> trust_store \<Rightarrow> rstr ext list \<Rightarrow> trust_store \<times> unit res" where
  "load_store_dir F P s [] = (s, Inr ())"
| "load_store_dir F P s (entry # entries) =
     (case entry of
        Inl e \<Rightarrow> (s, Inl (IdentityLoadFailed (''dir entry: '' @ e)))
      | Inr file_path \<Rightarrow>
          if \<not> fs_is_file F file_path then load_store_dir F P s entries
          else
            (case fs_read F file_path of
               Inl e \<Rightarrow> (s, Inl (IdentityLoadFailed (''reading '' @ file_path @ '': '' @ e)))
             | Inr data \<Rightarrow>
                 (case read_pki_blocks P data of
                    Inr blocks \<Rightarrow> load_store_dir F P (push_blocks s blocks) entries
                  | Inl _ \<Rightarrow> load_store_dir F P s entries)))"

definition load_from_path :: "os_ops \<Rightarrow> pki_ops \<Rightarrow> trust_store \<Rightarrow> rstr \<Rightarrow> trust_store \<times> unit res" where
  "load_from_path F P s uri =
     (let (scheme, path) = (case split_once CHR '':'' uri of Some p \<Rightarrow> p | None \<Rightarrow> (''FILE'', uri))
      in if scheme = ''FILE'' then
           (case fs_read F path of
              Inl e \<Rightarrow> (s, Inl (IdentityLoadFailed (''reading '' @ path @ '': '' @ e)))
            | Inr data \<Rightarrow>
                (case read_pki_blocks P data of
                   Inl e \<Rightarrow> (s, Inl (IdentityLoadFailed (''parsing '' @ path @ '': '' @ e)))
                 | Inr blocks \<Rightarrow> (push_blocks s blocks, Inr ())))
         else if scheme = ''DIR'' then
           (case fs_read_dir F path of
              Inl e \<Rightarrow> (s, Inl (IdentityLoadFailed (''reading dir '' @ path @ '': '' @ e)))
            | Inr entries \<Rightarrow> load_store_dir F P s entries)
         else (s, Inl (Config (''unsupported trust store URI scheme: '' @ scheme))))"

section \<open>Chain validation\<close>

datatype validation_profile = Rfc5280Profile | WebPkiProfile

datatype algorithm_list = WebPkiSpkiWithPq | WebPkiSignaturesWithPq

datatype extension_policy = PermitAll | DefaultWebPkiCa

record policy =
  pol_now :: "64 word"
  pol_profile :: validation_profile
  pol_extended_key_usage :: "oid option"
  pol_spki_algorithms :: algorithm_list
  pol_signature_algorithms :: algorithm_list
  pol_ca_extensions :: extension_policy
  pol_ee_extensions :: extension_policy

record chain_ops =
  owned_store_try_new :: "bytes list \<Rightarrow> obj ext"
  chain_cert_decode :: "bytes \<Rightarrow> certificate ext"
  chain_verify :: "obj \<Rightarrow> bytes \<Rightarrow> bytes list \<Rightarrow> policy \<Rightarrow> bytes list option \<Rightarrow> unit ext"
  chain_verify_roots :: "bytes list \<Rightarrow> bytes \<Rightarrow> bytes list \<Rightarrow> policy \<Rightarrow> unit ext"
  time_since_epoch :: "nat ext"

text \<open>A clock before the epoch counts as the epoch (\<open>unwrap_or_default\<close>).\<close>

definition unix_now :: "chain_ops \<Rightarrow> 64 word" where
  "unix_now K = (case time_since_epoch K of Inr n \<Rightarrow> of_nat n | Inl _ \<Rightarrow> 0)"

definition client_policy :: "64 word \<Rightarrow> policy" where
  "client_policy now = \<lparr>pol_now = now, pol_profile = Rfc5280Profile, pol_extended_key_usage = None,
     pol_spki_algorithms = WebPkiSpkiWithPq, pol_signature_algorithms = WebPkiSignaturesWithPq,
     pol_ca_extensions = PermitAll, pol_ee_extensions = PermitAll\<rparr>"

definition validate_chain :: "chain_ops \<Rightarrow> trust_store \<Rightarrow> bytes \<Rightarrow> bytes list \<Rightarrow> bool \<Rightarrow> unit res" where
  "validate_chain K s cert_der chain require_crl =
     rbind (with_err ChainValidationFailed ''building trust store'' (owned_store_try_new K (ts_anchors s)))
       (\<lambda>store.
     rbind (with_err ChainValidationFailed ''decoding leaf cert'' (chain_cert_decode K cert_der)) (\<lambda>leaf.
     let all_intermediates = chain @ ts_intermediates s in
     rbind (traverse (\<lambda>d. with_err ChainValidationFailed ''decoding intermediate cert''
                           (chain_cert_decode K d)) all_intermediates) (\<lambda>_.
     rbind (ensure (\<not> (require_crl \<and> ts_crls s = []))
              (ChainValidationFailed ''CRL checking required but no CRLs loaded'')) (\<lambda>_.
     let revocation = (if require_crl then Some (ts_crls s) else None) in
       map_err ChainValidationFailed
         (chain_verify K store cert_der all_intermediates (client_policy (unix_now K)) revocation)))))"

section \<open>The trust broker's interface\<close>

record kdc_trust_request =
  tr_realm :: rstr
  tr_kdc_principal :: rstr
  tr_signer_cert_der :: bytes
  tr_presented_certs_der :: "bytes list"
  tr_interactive :: bool

datatype kdc_trust_decision = Trusted "bytes list" | Denied rstr | Unknown

type_synonym trust_broker = "kdc_trust_request \<Rightarrow> kdc_trust_decision res"

section \<open>Configurations\<close>

record client_config =
  cc_require_eku :: bool
  cc_accept_secondary_eku :: bool
  cc_allow_upn :: bool
  cc_require_crl_checking :: bool
  cc_require_freshness :: bool
  cc_disable_freshness :: bool
  cc_dh_min_bits :: u32
  cc_dh_group :: dh_group
  cc_kem_algorithm :: "kem_algorithm option"
  cc_require_kem :: bool
  cc_identity :: "rstr option"
  cc_anchors :: "rstr list"
  cc_intermediates :: "rstr list"
  cc_crls :: "rstr list"
  cc_kdc_trust_tofu :: bool
  cc_kdc_trust_broker :: "rstr option"
  cc_kdc_trust_timeout :: u32

definition client_config_default :: client_config where
  "client_config_default = \<lparr>cc_require_eku = True, cc_accept_secondary_eku = False, cc_allow_upn = False,
     cc_require_crl_checking = False, cc_require_freshness = False, cc_disable_freshness = False,
     cc_dh_min_bits = 2048, cc_dh_group = Oakley2048, cc_kem_algorithm = None, cc_require_kem = False,
     cc_identity = None, cc_anchors = [], cc_intermediates = [], cc_crls = [],
     cc_kdc_trust_tofu = False, cc_kdc_trust_broker = None, cc_kdc_trust_timeout = 30\<rparr>"

record kdc_config =
  kc_require_eku :: bool
  kc_accept_secondary_eku :: bool
  kc_allow_upn :: bool
  kc_require_crl_checking :: bool
  kc_require_freshness :: bool
  kc_dh_min_bits :: u32
  kc_identity :: "rstr option"
  kc_anchors :: "rstr list"
  kc_intermediates :: "rstr list"
  kc_crls :: "rstr list"
  kc_auth_indicators :: "rstr list"
  kc_supported_kem_algorithms :: "kem_algorithm list"
  kc_supported_composite_kem_algorithms :: "kem_algorithm list"
  kc_require_kem :: bool

definition kdc_config_default :: kdc_config where
  "kdc_config_default = \<lparr>kc_require_eku = True, kc_accept_secondary_eku = False, kc_allow_upn = False,
     kc_require_crl_checking = False, kc_require_freshness = False, kc_dh_min_bits = 2048,
     kc_identity = None, kc_anchors = [], kc_intermediates = [], kc_crls = [],
     kc_auth_indicators = [], kc_supported_kem_algorithms = [],
     kc_supported_composite_kem_algorithms = [], kc_require_kem = False\<rparr>"

section \<open>Facts\<close>

lemma push_blocks_eq:
  "push_blocks s blocks = s\<lparr>
     ts_anchors := ts_anchors s @ map snd (filter (\<lambda>(l, _). l = ''CERTIFICATE'') blocks),
     ts_crls := ts_crls s @ map snd (filter (\<lambda>(l, _). l = ''X509 CRL'') blocks)\<rparr>"
  by (induction s blocks rule: push_blocks.induct) (auto simp: add_anchor_def add_crl_def)

text \<open>A store only grows while it is loaded.\<close>

definition grows :: "trust_store \<Rightarrow> trust_store \<Rightarrow> bool" where
  "grows s t \<longleftrightarrow> (\<exists>a c. ts_anchors t = ts_anchors s @ a \<and> ts_crls t = ts_crls s @ c) \<and>
     ts_intermediates t = ts_intermediates s"

lemma grows_refl [simp]: "grows s s"
  by (simp add: grows_def)

lemma grows_trans: "grows s t \<Longrightarrow> grows t u \<Longrightarrow> grows s u"
  by (auto simp: grows_def)

lemma grows_push: "grows s (push_blocks s b)"
  by (simp add: grows_def push_blocks_eq)

lemma load_store_dir_grows: "grows s (fst (load_store_dir F P s entries))"
proof (induction entries arbitrary: s)
  case Nil
  then show ?case by simp
next
  case (Cons entry entries)
  from Cons.IH have "grows s (fst (load_store_dir F P (push_blocks s b) entries))" for b
    by (rule grows_trans[OF grows_push])
  with Cons.IH show ?case by (auto split: sum.splits)
qed

text \<open>Where an anchor can come from: a CERTIFICATE block of a file that was read.\<close>

definition read_block :: "os_ops \<Rightarrow> pki_ops \<Rightarrow> rstr \<Rightarrow> bytes \<Rightarrow> bool" where
  "read_block F P label der \<longleftrightarrow> (\<exists>path data blocks. fs_read F path = Inr data \<and>
     read_pki_blocks P data = Inr blocks \<and> (label, der) \<in> set blocks)"

lemma push_blocks_anchor:
  "a \<in> set (ts_anchors (push_blocks s b)) \<longleftrightarrow> a \<in> set (ts_anchors s) \<or> (''CERTIFICATE'', a) \<in> set b"
  by (force simp: push_blocks_eq)

lemma read_blockI:
  "fs_read F path = Inr data \<Longrightarrow> read_pki_blocks P data = Inr blocks \<Longrightarrow> (label, der) \<in> set blocks \<Longrightarrow>
   read_block F P label der"
  unfolding read_block_def by blast

lemma load_store_dir_anchors:
  "a \<in> set (ts_anchors (fst (load_store_dir F P s entries))) \<Longrightarrow>
   a \<in> set (ts_anchors s) \<or> read_block F P ''CERTIFICATE'' a"
proof (induction entries arbitrary: s)
  case Nil
  then show ?case by simp
next
  case (Cons entry entries)
  then show ?case
    by (auto split: sum.splits if_splits dest!: Cons.IH simp: push_blocks_anchor dest: read_blockI)
qed

section \<open>Properties\<close>

text \<open>Loading a trust source never drops or reorders what the store already trusts, even when
  it fails half-way, and every new anchor is a CERTIFICATE block of a file that was read.\<close>
theorem load_from_path_grows:
  assumes "load_from_path F P s uri = (t, r)"
  shows "grows s t \<and> (\<forall>a \<in> set (ts_anchors t) - set (ts_anchors s). read_block F P ''CERTIFICATE'' a)"
proof -
  have t: "t = fst (load_from_path F P s uri)" using assms by simp
  have "grows s t"
    unfolding t load_from_path_def Let_def
    by (auto simp: grows_push load_store_dir_grows split: prod.splits sum.splits)
  moreover have "a \<in> set (ts_anchors t) \<Longrightarrow> a \<in> set (ts_anchors s) \<or> read_block F P ''CERTIFICATE'' a" for a
    unfolding t load_from_path_def Let_def
    by (auto simp: push_blocks_anchor split: prod.splits sum.splits if_splits
        dest: load_store_dir_anchors read_blockI)
  ultimately show ?thesis by blast
qed

text \<open>A chain is accepted only if the path validator accepted this leaf against exactly the
  store's anchors, with the presented chain and the store's intermediates in that order, at
  the current time, under the fixed RFC 5280 policy; when revocation checking is required
  there is at least one revocation list and the validator was given them all.\<close>
theorem validate_chain_sound:
  assumes "validate_chain K s leaf chain require_crl = Inr ()"
  shows "\<exists>store. owned_store_try_new K (ts_anchors s) = Inr store \<and>
    chain_verify K store leaf (chain @ ts_intermediates s) (client_policy (unix_now K))
      (if require_crl then Some (ts_crls s) else None) = Inr () \<and>
    (require_crl \<longrightarrow> ts_crls s \<noteq> [])"
  using assms by (auto simp: validate_chain_def Let_def res)

definition demo_chain :: chain_ops where
  "demo_chain = \<lparr>
     owned_store_try_new = (\<lambda>as. if as = [] then Inl ''no anchors'' else Inr (concat as)),
     chain_cert_decode = demo_certificate_from_der,
     chain_verify = (\<lambda>st leaf ints pol crls. if st = demo_kdc_cert then Inr () else Inl ''unknown issuer''),
     chain_verify_roots = (\<lambda>roots leaf ints pol. if demo_kdc_cert \<in> set roots then Inr () else Inl ''no path''),
     time_since_epoch = Inr 1700\<rparr>"

theorem load_from_path_grows_witness:
  "load_from_path demo_os demo_pki trust_store_new ''c.pem''
     = (\<lparr>ts_anchors = [[48, 1, 2], [48, 1, 1]], ts_intermediates = [], ts_crls = []\<rparr>, Inr ()) \<and>
   read_block demo_os demo_pki ''CERTIFICATE'' [48, 1, 1]"
proof -
  have l: "load_from_path demo_os demo_pki trust_store_new ''c.pem''
     = (\<lparr>ts_anchors = [[48, 1, 2], [48, 1, 1]], ts_intermediates = [], ts_crls = []\<rparr>, Inr ())"
    by code_simp
  show ?thesis using load_from_path_grows[OF l] l by (auto simp: trust_store_new_def)
qed

theorem validate_chain_sound_witness:
  "validate_chain demo_chain \<lparr>ts_anchors = [demo_kdc_cert], ts_intermediates = [], ts_crls = [[1]]\<rparr>
     demo_client_cert [demo_kdc_cert] True = Inr () \<and>
   (\<exists>store. owned_store_try_new demo_chain [demo_kdc_cert] = Inr store)"
proof -
  have v: "validate_chain demo_chain \<lparr>ts_anchors = [demo_kdc_cert], ts_intermediates = [], ts_crls = [[1]]\<rparr>
     demo_client_cert [demo_kdc_cert] True = Inr ()"
    by (simp add: validate_chain_def demo_chain_def demo_certificate_from_der_def demo_kdc_cert_def
        demo_client_cert_def)
  show ?thesis using validate_chain_sound[OF v] v by auto
qed

end
