(* ===== verification/Messages.thy ===== *)
theory Messages
  imports San Kem Kdf Trust_Store
begin

text \<open>
  The PKINIT messages that client and KDC exchange, as far as the code reads or writes them:
  the structures of \<open>synta_krb5::pkinit\<close> and its \<open>SubjectPublicKeyInfo\<close>.  Their encoders and
  decoders, the conversion of times and the typed-data numbers are \<open>pkinit_msgs\<close>; \<open>msgs_ok\<close>
  says that a decoder inverts its encoder.  \<open>pkinit_env\<close> bundles every library the protocol
  code of \<open>client.rs\<close> and \<open>server.rs\<close> calls.
\<close>

section \<open>Structures\<close>

record pa_checksum2 =
  pc2_checksum :: bytes
  pc2_algorithm :: alg_id

record pk_authenticator =
  pka_cusec :: int
  pka_ctime :: obj
  pka_nonce :: int
  pka_pa_checksum :: "bytes option"
  pka_freshness_token :: "bytes option"
  pka_pa_checksum2 :: "pa_checksum2 option"

record auth_pack =
  ap_pk_authenticator :: pk_authenticator
  ap_client_public_value :: "element option"
  ap_client_dhnonce :: "bytes option"
  ap_supported_kdfs :: "oid list option"

record pa_pk_as_req =
  par_signed_auth_pack :: bytes

record dh_rep_info =
  dri_dh_signed_data :: bytes
  dri_server_dhnonce :: "bytes option"
  dri_kdf :: "oid option"

datatype pa_pk_as_rep = DhInfo dh_rep_info | EncKeyPack bytes

record kdc_dh_key_info =
  kdk_subject_public_key :: bytes
  kdk_nonce :: int
  kdk_dh_key_expiration :: "obj option"

record spki =
  spki_algorithm :: alg_id
  spki_subject_public_key :: bytes

record pkinit_msgs =
  time_from_unix :: "int \<Rightarrow> obj option"
  time_to_unix :: "obj \<Rightarrow> int"
  enc_auth_pack :: "auth_pack \<Rightarrow> bytes ext"
  dec_auth_pack :: "bytes \<Rightarrow> auth_pack ext"
  enc_pa_pk_as_req :: "pa_pk_as_req \<Rightarrow> bytes ext"
  dec_pa_pk_as_req :: "bytes \<Rightarrow> pa_pk_as_req ext"
  enc_pa_pk_as_rep :: "pa_pk_as_rep \<Rightarrow> bytes ext"
  dec_pa_pk_as_rep :: "bytes \<Rightarrow> pa_pk_as_rep ext"
  enc_kdc_dh_key_info :: "kdc_dh_key_info \<Rightarrow> bytes ext"
  dec_kdc_dh_key_info :: "bytes \<Rightarrow> kdc_dh_key_info ext"
  enc_spki :: "spki \<Rightarrow> bytes ext"
  dec_spki :: "bytes \<Rightarrow> spki ext"
  bit_string_new :: "bytes \<Rightarrow> bytes ext"
  dec_td_dh_parameters :: "bytes \<Rightarrow> element list ext"
  enc_td_dh_parameters :: "alg_id list \<Rightarrow> bytes ext"
  dec_pa_data_list :: "bytes \<Rightarrow> (int \<times> bytes) list ext"
  TD_DH_PARAMETERS :: int
  TD_TRUSTED_CERTIFIERS :: int
  TD_PKINIT_CMS_CERTIFICATES :: int

record pkinit_env =
  pe_crypto :: crypto_env
  pe_x509 :: x509_ops
  pe_chain :: chain_ops
  pe_kem :: kem_ops
  pe_dh :: dh_ops
  pe_kdf :: kdf_ops
  pe_msgs :: pkinit_msgs
  pe_rand_bytes :: "nat \<Rightarrow> bytes ext"
  pe_keygen_seed :: bytes

abbreviation pe_oids :: "pkinit_env \<Rightarrow> oid_table" where
  "pe_oids E \<equiv> cv_oids (pe_crypto E)"

abbreviation pe_codec :: "pkinit_env \<Rightarrow> codec" where
  "pe_codec E \<equiv> cv_codec (pe_crypto E)"

abbreviation pe_hash :: "pkinit_env \<Rightarrow> hash_ops" where
  "pe_hash E \<equiv> cv_hash (pe_crypto E)"

definition msgs_ok :: "codec \<Rightarrow> pkinit_msgs \<Rightarrow> bool" where
  "msgs_ok C M \<longleftrightarrow>
     (\<forall>x d. enc_auth_pack M x = Inr d \<longrightarrow> dec_auth_pack M d = Inr x) \<and>
     (\<forall>x d. enc_pa_pk_as_req M x = Inr d \<longrightarrow> dec_pa_pk_as_req M d = Inr x) \<and>
     (\<forall>x d. enc_pa_pk_as_rep M x = Inr d \<longrightarrow> dec_pa_pk_as_rep M d = Inr x \<and> \<not> is_kem_rep d) \<and>
     (\<forall>x d. enc_kdc_dh_key_info M x = Inr d \<longrightarrow> dec_kdc_dh_key_info M d = Inr x) \<and>
     (\<forall>x d. enc_spki M x = Inr d \<longrightarrow> dec_spki M d = Inr x) \<and>
     (\<forall>t x. time_from_unix M t = Some x \<longrightarrow> time_to_unix M x = t) \<and>
     (\<forall>d e. element_from_der C d = Inr e \<longrightarrow> element_to_der C e = Inr d)"

definition env_ok :: "pkinit_env \<Rightarrow> bool" where
  "env_ok E \<longleftrightarrow> cms_ok (pe_crypto E) \<and> codec_ok (pe_codec E) \<and> hash_ok (pe_hash E) \<and>
     oids_ok (pe_oids E) \<and> kem_ok (pe_kem E) \<and> msgs_ok (pe_codec E) (pe_msgs E)"

section \<open>What client and KDC share\<close>

record as_rep_params =
  arp_nonce :: u32
  arp_enctype :: int
  arp_as_req_der :: bytes
  arp_pa_rep_raw :: bytes
  arp_client_name :: rstr
  arp_server_name :: rstr

record build_as_rep_params =
  brp_nonce :: u32
  brp_enctype :: int
  brp_as_req_der :: bytes
  brp_client_name :: rstr
  brp_server_name :: rstr

lemma msgs_okD:
  assumes "msgs_ok C M"
  shows "enc_auth_pack M ap = Inr d \<Longrightarrow> dec_auth_pack M d = Inr ap"
    and "enc_pa_pk_as_req M rq = Inr d \<Longrightarrow> dec_pa_pk_as_req M d = Inr rq"
    and "enc_pa_pk_as_rep M rp = Inr d \<Longrightarrow> dec_pa_pk_as_rep M d = Inr rp"
    and "enc_pa_pk_as_rep M rp = Inr d \<Longrightarrow> \<not> is_kem_rep d"
    and "enc_kdc_dh_key_info M ki = Inr d \<Longrightarrow> dec_kdc_dh_key_info M d = Inr ki"
    and "enc_spki M sp = Inr d \<Longrightarrow> dec_spki M d = Inr sp"
    and "time_from_unix M t = Some x \<Longrightarrow> time_to_unix M x = t"
    and "element_from_der C d = Inr e \<Longrightarrow> element_to_der C e = Inr d"
  using assms unfolding msgs_ok_def by blast+

section \<open>A concrete exchange\<close>

text \<open>
  One signed ML-KEM-768 request and its reply, between the client and the KDC of the concrete
  certificates: the libraries know exactly the messages of this exchange.
\<close>

definition demo_ct :: bytes where
  "demo_ct = take 1088 ([9, 9, 9] @ replicate 1088 0)"

definition demo_kem_info :: kdc_kem_info where
  "demo_kem_info = \<lparr>kki_kem_algorithm = \<lparr>ai_oid = std_oids ID_ML_KEM_768, ai_params = None\<rparr>,
     kki_kemct = demo_ct,
     kki_kdf_algorithm = \<lparr>ai_oid = std_oids ID_ALG_HKDF_WITH_SHA512, ai_params = None\<rparr>,
     kki_nonce = Some 7, kki_server_nonce = None\<rparr>"

definition demo_pcodec :: codec where
  "demo_pcodec = demo_codec\<lparr>
     enc_kem_rep_info := (\<lambda>x. Inr (0x30 # kri_signed_data x)),
     dec_kem_rep_info := (\<lambda>d. case d of [] \<Rightarrow> Inl ''rep'' | _ # r \<Rightarrow> Inr \<lparr>kri_signed_data = r\<rparr>),
     enc_kdc_kem_info := (\<lambda>k. if kki_nonce k = Some 7
       then (if k = demo_kem_info then Inr [200] else Inl ''info'') else Inl ''info''),
     dec_kdc_kem_info := (\<lambda>d. if d = [200] then Inr demo_kem_info else Inl ''info''),
     enc_kem_supp_pub_info := (\<lambda>x. Inr (ksp_as_req x @ ksp_kem_signed_data x)),
     enc_alg_ids := table_enc [([\<lparr>ai_oid = std_oids ID_ML_KEM_768, ai_params = None\<rparr>], [1]),
       ([\<lparr>ai_oid = std_oids ID_ML_KEM_1024, ai_params = None\<rparr>, \<lparr>ai_oid = std_oids ID_ML_KEM_768, ai_params = None\<rparr>], [2])],
     dec_alg_ids := table_dec [([\<lparr>ai_oid = std_oids ID_ML_KEM_768, ai_params = None\<rparr>], [1]),
       ([\<lparr>ai_oid = std_oids ID_ML_KEM_1024, ai_params = None\<rparr>, \<lparr>ai_oid = std_oids ID_ML_KEM_768, ai_params = None\<rparr>], [2])]\<rparr>"

definition demo_auth_pack :: auth_pack where
  "demo_auth_pack = \<lparr>
     ap_pk_authenticator = \<lparr>pka_cusec = 0, pka_ctime = [], pka_nonce = 7,
       pka_pa_checksum = Some (1 # replicate 19 0), pka_freshness_token = None,
       pka_pa_checksum2 = Some \<lparr>pc2_checksum = replicate 32 1,
         pc2_algorithm = \<lparr>ai_oid = std_oids ID_SHA256, ai_params = None\<rparr>\<rparr>\<rparr>,
     ap_client_public_value = Some [9, 9, 9], ap_client_dhnonce = None,
     ap_supported_kdfs = Some [std_oids ID_ALG_HKDF_WITH_SHA512]\<rparr>"

definition demo_msgs :: pkinit_msgs where
  "demo_msgs = \<lparr>
     time_from_unix = (\<lambda>t. if t = 1000 then Some [] else None),
     time_to_unix = (\<lambda>_. 1000),
     enc_auth_pack = table_enc [(demo_auth_pack, [100])],
     dec_auth_pack = table_dec [(demo_auth_pack, [100])],
     enc_pa_pk_as_req = (\<lambda>x. Inr (0x30 # par_signed_auth_pack x)),
     dec_pa_pk_as_req = (\<lambda>d. case d of [] \<Rightarrow> Inl ''req'' | _ # r \<Rightarrow> Inr \<lparr>par_signed_auth_pack = r\<rparr>),
     enc_pa_pk_as_rep = (\<lambda>_. Inl ''rep''),
     dec_pa_pk_as_rep = (\<lambda>_. Inl ''rep''),
     enc_kdc_dh_key_info = (\<lambda>_. Inl ''info''),
     dec_kdc_dh_key_info = (\<lambda>_. Inl ''info''),
     enc_spki = table_enc [(\<lparr>spki_algorithm = \<lparr>ai_oid = std_oids ID_ML_KEM_768, ai_params = None\<rparr>,
                            spki_subject_public_key = [9]\<rparr>, [9, 9, 9])],
     dec_spki = table_dec [(\<lparr>spki_algorithm = \<lparr>ai_oid = std_oids ID_ML_KEM_768, ai_params = None\<rparr>,
                            spki_subject_public_key = [9]\<rparr>, [9, 9, 9])],
     bit_string_new = Inr,
     dec_td_dh_parameters = (\<lambda>d. Inr (map (\<lambda>b. [b]) d)),
     enc_td_dh_parameters = (\<lambda>_. Inr [1]),
     dec_pa_data_list = (\<lambda>_. Inl ''padata''),
     TD_DH_PARAMETERS = 109, TD_TRUSTED_CERTIFIERS = 104, TD_PKINIT_CMS_CERTIFICATES = 105\<rparr>"

definition demo_crypto :: crypto_env where
  "demo_crypto = (demo_env
     [(demo_sd_of [100] 1 (std_oids ID_PKINIT_AUTH_DATA) [2] demo_client_cert, [77]),
      (demo_sd_of [200] 3 ID_PKINIT_KEM_KEY_DATA [1] demo_kdc_cert, [78])])\<lparr>cv_codec := demo_pcodec\<rparr>"

definition demo_pkem :: kem_ops where
  "demo_pkem = \<lparr>
     generate_composite_kem = (\<lambda>_ _. Inl ''composite''), generate_ml_kem = (\<lambda>n r. if n = ''ML-KEM-768'' \<and> r = [9, 9, 9] then Inr r else Inl ''key''),
     kem_public_spki = Inr, kem_key_from_spki = (\<lambda>p. p),
     composite_kem_encapsulate = (\<lambda>_ _. Inl ''composite''),
     ml_kem_encapsulate = (\<lambda>p _. if p = [9, 9, 9] then Inr (demo_ct, [5, 5, 5, 5]) else Inl ''key''),
     composite_kem_decapsulate = (\<lambda>_ _. Inl ''composite''),
     ml_kem_decapsulate = (\<lambda>k ct. if k = [9, 9, 9] then Inr [5, 5, 5, 5] else Inl ''key'')\<rparr>"

definition demo_pdh :: dh_ops where
  "demo_pdh = \<lparr>
     dhx_params_from_der = Inr, pkey_export = Inr, keygen_new = (\<lambda>_. Inr []),
     keygen_set_params = (\<lambda>k _. Inr k), keygen_generate = (\<lambda>_ r. Inr r),
     ec_pb_new = Inr [], ec_pb_set_group = (\<lambda>b _. Inr b), ec_pb_build = Inr,
     pkey_public_key_to_der = Inr, pkey_public_from_der = Inr,
     derive_ctx_new = Inr, derive_set_peer = (\<lambda>c _. Inr c), derive_len = (\<lambda>_. Inr 4),
     derive_into = (\<lambda>_ _. Inr ([5, 5, 5, 5], 4)),
     pkey_bits = (\<lambda>_. 256), get_group_name = (\<lambda>_. Inr (str_bytes ''P-256'')),
     cstr_to_str = (\<lambda>b. Some (bytes_str b)), get_bn_p = (\<lambda>_. Inl ''no p''),
     dec_oid = table_dec [(std_oids SECP256R1, [1])], element_of_oid = (\<lambda>_. [1])\<rparr>"

definition demo_o2k :: o2k where
  "demo_o2k = \<lparr>random_to_key = (\<lambda>_ d. Inr d), random_length = (\<lambda>_. Inr 4), key_length = (\<lambda>_. Inr 4)\<rparr>"

definition demo_penv :: pkinit_env where
  "demo_penv = \<lparr>pe_crypto = demo_crypto, pe_x509 = demo_x509, pe_chain = demo_chain, pe_kem = demo_pkem,
     pe_dh = demo_pdh, pe_kdf = demo_kdf, pe_msgs = demo_msgs,
     pe_rand_bytes = (\<lambda>n. Inr (replicate n 1)), pe_keygen_seed = [9, 9, 9]\<rparr>"

definition demo_store :: trust_store where
  "demo_store = \<lparr>ts_anchors = [demo_kdc_cert], ts_intermediates = [], ts_crls = []\<rparr>"

definition demo_client_identity :: pkinit_identity where
  "demo_client_identity = \<lparr>id_cert_der = demo_client_cert, id_signing_key = Some [2], id_chain = []\<rparr>"

definition demo_kdc_identity :: pkinit_identity where
  "demo_kdc_identity = \<lparr>id_cert_der = demo_kdc_cert, id_signing_key = Some [1], id_chain = []\<rparr>"

lemma demo_pcodec_ok: "codec_ok demo_pcodec"
proof -
  have "enc_finish demo_codec = Inr" by (simp add: demo_codec_def)
  with demo_codec_ok show ?thesis
    unfolding codec_ok_def demo_pcodec_def by (auto intro!: table_roundtrip split: if_splits)
qed

lemma demo_msgs_ok: "msgs_ok demo_pcodec demo_msgs"
  unfolding msgs_ok_def demo_msgs_def
  by (auto intro!: table_roundtrip simp: demo_pcodec_def demo_codec_def split: if_splits)

lemma cms_ok_codec: "cms_ok V \<Longrightarrow> cms_ok (V\<lparr>cv_codec := C\<rparr>)"
  by (simp add: cms_ok_def)

lemma demo_crypto_ok: "cms_ok demo_crypto"
  unfolding demo_crypto_def by (intro cms_ok_codec demo_env_ok) simp_all

lemma demo_pkem_ok: "kem_ok demo_pkem"
  by (auto simp: kem_ok_def demo_pkem_def split: if_splits)

lemma demo_penv_ok: "env_ok demo_penv"
  using demo_crypto_ok demo_pcodec_ok demo_hash_ok std_oids_ok demo_pkem_ok demo_msgs_ok
  by (simp add: env_ok_def demo_penv_def demo_crypto_def demo_env_def)

end
