(* ===== verification/Client.thy ===== *)
theory Client
  imports Messages
begin

text \<open>
  \<open>pkinit-core/src/client.rs\<close>: the client's state, the construction of the request, the choice
  and the change of the key-establishment algorithm (configuration, the KDC's hint, the KDC's
  error data), the validation of the KDC with its fall-back to the trust broker, and the two
  reply paths.

  An operation that takes \<open>&mut self\<close> returns the new state and its result; a failure keeps the
  mutations made before it, as in the code.  The predicates on post-quantum certificates are in
  \<open>Cms\<close>.
\<close>

section \<open>State\<close>

datatype retry_action =
    RetryWithDhParams dh_group
  | RetryWithKemAlgorithm kem_algorithm
  | RetryWithCerts
  | NoRetry

record client_state =
  cl_identity :: pkinit_identity
  cl_trust_store :: trust_store
  cl_config :: client_config
  cl_dh_key :: "dh_key_pair option"
  cl_kem_key :: "kem_key_pair option"
  cl_freshness_token :: "bytes option"
  cl_dh_nonce :: "bytes option"
  cl_kdc_principal :: "rstr option"
  cl_kdc_hostname :: "rstr option"
  cl_key_exchange :: "key_exchange_type option"
  cl_broker :: "trust_broker option"
  cl_is_anonymous :: bool
  cl_kem_floor :: "kem_algorithm option"

datatype offered = OfferedKem kem_algorithm | OfferedDh dh_group

definition client_new :: "pkinit_identity \<Rightarrow> trust_store \<Rightarrow> client_config \<Rightarrow> client_state" where
  "client_new ident store cfg0 =
     (let cfg = (if cc_require_kem cfg0 \<and> cc_kem_algorithm cfg0 = None
                 then cfg0\<lparr>cc_kem_algorithm := Some MlKem768\<rparr> else cfg0)
      in \<lparr>cl_identity = ident, cl_trust_store = store, cl_config = cfg, cl_dh_key = None, cl_kem_key = None,
          cl_freshness_token = None, cl_dh_nonce = None, cl_kdc_principal = None, cl_kdc_hostname = None,
          cl_key_exchange = None, cl_broker = None, cl_is_anonymous = False,
          cl_kem_floor = cc_kem_algorithm cfg\<rparr>)"

definition has_dh_key :: "client_state \<Rightarrow> bool" where
  "has_dh_key s \<longleftrightarrow> cl_dh_key s \<noteq> None"

definition has_kem_key :: "client_state \<Rightarrow> bool" where
  "has_kem_key s \<longleftrightarrow> cl_kem_key s \<noteq> None"

definition has_pq_certificate :: "pkinit_env \<Rightarrow> client_state \<Rightarrow> bool" where
  "has_pq_certificate E s \<longleftrightarrow>
     id_cert_der (cl_identity s) \<noteq> [] \<and> is_pq_signing_certificate (pe_crypto E) (id_cert_der (cl_identity s))"

definition set_freshness_token :: "client_state \<Rightarrow> bytes \<Rightarrow> client_state" where
  "set_freshness_token s token = s\<lparr>cl_freshness_token := Some token\<rparr>"

definition set_kdc_identity :: "client_state \<Rightarrow> rstr \<Rightarrow> rstr option \<Rightarrow> client_state" where
  "set_kdc_identity s kdc_principal hostname =
     s\<lparr>cl_kdc_principal := Some kdc_principal, cl_kdc_hostname := hostname\<rparr>"

definition set_trust_broker :: "client_state \<Rightarrow> trust_broker \<Rightarrow> client_state" where
  "set_trust_broker s broker = s\<lparr>cl_broker := Some broker\<rparr>"

definition set_is_anonymous :: "client_state \<Rightarrow> bool \<Rightarrow> client_state" where
  "set_is_anonymous s b = s\<lparr>cl_is_anonymous := b\<rparr>"

definition set_dh_group :: "client_state \<Rightarrow> dh_group \<Rightarrow> client_state" where
  "set_dh_group s grp =
     s\<lparr>cl_config := (cl_config s)\<lparr>cc_dh_group := grp, cc_kem_algorithm := None\<rparr>,
       cl_dh_key := None, cl_kem_key := None, cl_key_exchange := None\<rparr>"

definition set_kem_algorithm :: "client_state \<Rightarrow> kem_algorithm \<Rightarrow> client_state" where
  "set_kem_algorithm s kem_alg =
     s\<lparr>cl_config := (cl_config s)\<lparr>cc_kem_algorithm := Some kem_alg\<rparr>,
       cl_kem_key := None, cl_key_exchange := None\<rparr>"

section \<open>Trusting the KDC\<close>

definition anchor_vc :: "chain_ops \<Rightarrow> rstr \<Rightarrow> bytes \<Rightarrow> bytes res" where
  "anchor_vc K what der =
     rbind (map_err (\<lambda>e. KdcCaTrustDenied (''bad '' @ what @ '' DER: '' @ e)) (chain_cert_decode K der))
       (\<lambda>_. Inr der)"

definition broker_policy :: "64 word \<Rightarrow> policy" where
  "broker_policy now = (client_policy now)\<lparr>pol_ca_extensions := DefaultWebPkiCa\<rparr>"

definition validate_broker_anchors :: "chain_ops \<Rightarrow> bytes list \<Rightarrow> bytes \<Rightarrow> bytes list \<Rightarrow> unit res" where
  "validate_broker_anchors K anchors signer_cert_der all_certs_der =
     (let tofu_store = fold (\<lambda>i s. add_intermediate s i) all_certs_der
            (fold (\<lambda>a s. add_anchor s a) anchors trust_store_new) in
      rbind (traverse (anchor_vc K ''anchor'') (ts_anchors tofu_store)) (\<lambda>anchors_vc.
      rbind (traverse (anchor_vc K ''presented certificate'') all_certs_der) (\<lambda>intermediates_vc.
      rbind (anchor_vc K ''KDC signer certificate'' signer_cert_der) (\<lambda>leaf.
        map_err (\<lambda>e. KdcCaTrustDenied (''broker-approved anchor failed validation: '' @ e))
          (chain_verify_roots K anchors_vc leaf intermediates_vc (broker_policy (unix_now K)))))))"

definition nth_opt :: "nat \<Rightarrow> 'a list \<Rightarrow> 'a option" where
  "nth_opt n xs = (if n < length xs then Some (xs ! n) else None)"

definition consult_broker ::
    "pkinit_env \<Rightarrow> client_state \<Rightarrow> bytes \<Rightarrow> bytes list \<Rightarrow> pkinit_error \<Rightarrow> unit res" where
  "consult_broker E s signer_cert_der all_certs_der configured_err =
     rbind (ok_or (cl_broker s) configured_err) (\<lambda>broker.
     rbind (ok_or (cl_kdc_principal s) configured_err) (\<lambda>kdc_principal.
     rbind (ok_or (nth_opt 1 (split_on CHR ''@'' kdc_principal)) configured_err) (\<lambda>realm.
     rbind (broker \<lparr>tr_realm = realm, tr_kdc_principal = kdc_principal,
              tr_signer_cert_der = signer_cert_der, tr_presented_certs_der = all_certs_der,
              tr_interactive = cl_is_anonymous s\<rparr>) (\<lambda>decision.
       case decision of
         Trusted anchors \<Rightarrow> validate_broker_anchors (pe_chain E) anchors signer_cert_der all_certs_der
       | Denied reason \<Rightarrow> Inl (KdcCaTrustDenied reason)
       | Unknown \<Rightarrow> Inl KdcCaTrustUnknown))))"

definition validate_kdc_chain :: "pkinit_env \<Rightarrow> client_state \<Rightarrow> bytes \<Rightarrow> bytes list \<Rightarrow> unit res" where
  "validate_kdc_chain E s signer_cert_der all_certs_der =
     rbind (case validate_chain (pe_chain E) (cl_trust_store s) signer_cert_der all_certs_der False of
              Inr u \<Rightarrow> Inr u
            | Inl configured_err \<Rightarrow> consult_broker E s signer_cert_der all_certs_der configured_err) (\<lambda>_.
     rbind (verify_kdc_eku (pe_oids E) (pe_x509 E) signer_cert_der) (\<lambda>_.
       case cl_kdc_principal s of
         Some kdc_principal \<Rightarrow>
           verify_kdc_san (pe_oids E) (pe_x509 E) signer_cert_der kdc_principal (cl_kdc_hostname s)
       | None \<Rightarrow> Inr ()))"

section \<open>Choosing the algorithm\<close>

definition recognize :: "pkinit_env \<Rightarrow> client_state \<Rightarrow> oid \<times> bytes option \<Rightarrow> offered option" where
  "recognize E s a =
     (case a of (o1, params) \<Rightarrow>
        (case kem_from_oid (pe_oids E) o1 of
           Some kem_alg \<Rightarrow> Some (OfferedKem kem_alg)
         | None \<Rightarrow> map_option OfferedDh
             (group_from_algorithm_identifier (pe_oids E) (pe_dh E) o1 params
                (cc_dh_min_bits (cl_config s)))))"

definition dh_allowed :: "pkinit_env \<Rightarrow> client_state \<Rightarrow> bool" where
  "dh_allowed E s \<longleftrightarrow>
     \<not> cc_require_kem (cl_config s) \<and>
     \<not> (has_pq_certificate E s \<and>
        (cl_kem_floor s \<noteq> None \<or>
         (case cl_key_exchange s of Some (KexKem _) \<Rightarrow> True | Some (KexDh _) \<Rightarrow> False | None \<Rightarrow> False)))"

definition accepts :: "pkinit_env \<Rightarrow> client_state \<Rightarrow> offered \<Rightarrow> bool" where
  "accepts E s off =
     (case off of
        OfferedKem alg \<Rightarrow>
          (case cl_kem_floor s of None \<Rightarrow> True | Some flr \<Rightarrow> strength_order flr \<le> strength_order alg)
      | OfferedDh _ \<Rightarrow> dh_allowed E s)"

definition apply_offer :: "client_state \<Rightarrow> offered \<Rightarrow> client_state" where
  "apply_offer s off =
     (case off of OfferedKem alg \<Rightarrow> set_kem_algorithm s alg | OfferedDh grp \<Rightarrow> set_dh_group s grp)"

definition process_pkinit_hint :: "pkinit_env \<Rightarrow> client_state \<Rightarrow> bytes \<Rightarrow> client_state \<times> unit res" where
  "process_pkinit_hint E s hint_der =
     (case parse_pkinit_hint (pe_codec E) hint_der of
        Inl e \<Rightarrow> (s, Inl e)
      | Inr advertised \<Rightarrow>
          if advertised = [] then (s, Inr ())
          else
            let offers = List.map_filter (recognize E s) advertised in
            if (case cc_kem_algorithm (cl_config s) of
                  Some current \<Rightarrow> OfferedKem current \<in> set offers \<and> accepts E s (OfferedKem current)
                | None \<Rightarrow> False)
            then (s, Inr ())
            else
              (case List.find (accepts E s) offers of
                 Some off \<Rightarrow> (apply_offer s off, Inr ())
               | None \<Rightarrow> (s, Inl (NoAcceptableKeyExchange
                   ''the KDC advertised no key-establishment algorithm acceptable to the client''))))"

definition parse_td_offered :: "pkinit_env \<Rightarrow> bytes \<Rightarrow> (oid \<times> bytes option) list res" where
  "parse_td_offered E data =
     rbind (asn1 ''decode TD-EPHEMERAL-KEY-PARAMETERS-DATA'' (dec_td_dh_parameters (pe_msgs E) data)) (\<lambda>td.
       traverse (\<lambda>elem.
         rbind (asn1 ''encode AlgorithmIdentifier'' (element_to_der (pe_codec E) elem)) (\<lambda>elem_der.
         rbind (asn1 ''decode AlgorithmIdentifier'' (dec_alg_id (cv_cms (pe_crypto E)) elem_der)) (\<lambda>aid.
           offered_algorithm (pe_codec E) aid))) td)"

fun offered_of_kex :: "key_exchange_type \<Rightarrow> offered" where
  "offered_of_kex (KexKem alg) = OfferedKem alg"
| "offered_of_kex (KexDh grp) = OfferedDh grp"

fun is_offered_dh :: "offered \<Rightarrow> bool" where
  "is_offered_dh (OfferedDh _) = True"
| "is_offered_dh (OfferedKem _) = False"

definition retry_key_parameters :: "pkinit_env \<Rightarrow> client_state \<Rightarrow> bytes \<Rightarrow> client_state \<times> retry_action res" where
  "retry_key_parameters E s val =
     (case parse_td_offered E val of
        Inl e \<Rightarrow> (s, Inl e)
      | Inr advertised \<Rightarrow>
          let sent = map_option offered_of_kex (cl_key_exchange s);
              offers = filter (\<lambda>off. Some off \<noteq> sent) (List.map_filter (recognize E s) advertised)
          in (case List.find (accepts E s) offers of
                Some off \<Rightarrow>
                  (apply_offer s off,
                   Inr (case off of OfferedKem alg \<Rightarrow> RetryWithKemAlgorithm alg
                        | OfferedDh grp \<Rightarrow> RetryWithDhParams grp))
              | None \<Rightarrow>
                  if list_ex is_offered_dh offers then
                    (s, Inl (DowngradeRejected
                       (if cc_require_kem (cl_config s)
                        then ''KDC offered only classic DH/ECDH; pkinit_require_kem is set''
                        else ''client is committed to a post-quantum KEM; refusing to fall back to classical DH/ECDH'')))
                  else
                    (s, Inl (NoAcceptableKeyExchange
                       ''the KDC offered no key-establishment algorithm acceptable to the client''))))"

fun handle_tryagain_typed_data ::
    "pkinit_env \<Rightarrow> client_state \<Rightarrow> (int \<times> bytes) list \<Rightarrow> client_state \<times> retry_action res" where
  "handle_tryagain_typed_data E s [] = (s, Inr NoRetry)"
| "handle_tryagain_typed_data E s ((pa_type, val) # typed_data) =
     (if pa_type = TD_DH_PARAMETERS (pe_msgs E) then retry_key_parameters E s val
      else if pa_type = TD_TRUSTED_CERTIFIERS (pe_msgs E) \<or> pa_type = TD_PKINIT_CMS_CERTIFICATES (pe_msgs E)
      then (s, Inr RetryWithCerts)
      else handle_tryagain_typed_data E s typed_data)"

definition handle_tryagain :: "pkinit_env \<Rightarrow> client_state \<Rightarrow> bytes \<Rightarrow> client_state \<times> retry_action res" where
  "handle_tryagain E s error_padata_der =
     (case asn1 ''decode error padata'' (dec_pa_data_list (pe_msgs E) error_padata_der) of
        Inl e \<Rightarrow> (s, Inl e)
      | Inr typed \<Rightarrow> handle_tryagain_typed_data E s typed)"

section \<open>The request\<close>

text \<open>The PKAuthenticator: everything \<open>build_as_req\<close> computes before it touches its state.\<close>

definition build_pk_authenticator ::
    "pkinit_env \<Rightarrow> client_state \<Rightarrow> u32 \<Rightarrow> int \<Rightarrow> int \<Rightarrow> bytes \<Rightarrow> pk_authenticator res" where
  "build_pk_authenticator E s nonce ctime cusec req_body_der =
     rbind (generate_checksums (pe_hash E) req_body_der) (\<lambda>sums.
     rbind (ok_or (time_from_unix (pe_msgs E) ctime) (Asn1 ''invalid ctime'')) (\<lambda>gen_time.
     rbind (asn1 ''SHA-256 OID'' (oid_new (pe_codec E) (pe_oids E ID_SHA256))) (\<lambda>sha256.
       Inr \<lparr>pka_cusec = cusec, pka_ctime = gen_time, pka_nonce = encode_nonce nonce,
            pka_pa_checksum = Some (cs_sha1 sums), pka_freshness_token = cl_freshness_token s,
            pka_pa_checksum2 = Some \<lparr>pc2_checksum = cs_sha256 sums,
              pc2_algorithm = \<lparr>ai_oid = sha256, ai_params = None\<rparr>\<rparr>\<rparr>)))"

text \<open>The ephemeral key of this request: a fresh KEM key pair every time, a DH key pair once.\<close>

definition request_key :: "pkinit_env \<Rightarrow> client_state \<Rightarrow> client_state \<times> bytes res" where
  "request_key E s =
     (case cc_kem_algorithm (cl_config s) of
        Some kem_alg \<Rightarrow>
          let s = s\<lparr>cl_key_exchange := Some (KexKem kem_alg)\<rparr> in
          (case kem_generate (pe_kem E) kem_alg (pe_keygen_seed E) of
             Inl e \<Rightarrow> (s, Inl e)
           | Inr kem_key \<Rightarrow>
               (s\<lparr>cl_kem_key := Some kem_key\<rparr>, kem_public_key_spki_der (pe_kem E) kem_key))
      | None \<Rightarrow>
          let s = s\<lparr>cl_key_exchange := Some (KexDh (cc_dh_group (cl_config s)))\<rparr> in
          (case cl_dh_key s of
             Some dh_key \<Rightarrow> (s, dh_public_key_spki_der (pe_dh E) dh_key)
           | None \<Rightarrow>
               (case dh_generate (pe_dh E) (cc_dh_group (cl_config s)) (pe_keygen_seed E) of
                  Inl e \<Rightarrow> (s, Inl e)
                | Inr dh_key \<Rightarrow>
                    (s\<lparr>cl_dh_key := Some dh_key\<rparr>, dh_public_key_spki_der (pe_dh E) dh_key))))"

definition request_dh_nonce ::
    "pkinit_env \<Rightarrow> client_state \<Rightarrow> bool \<Rightarrow> client_state \<times> bytes option res" where
  "request_dh_nonce E s use_kem =
     (if use_kem then (s, Inr None)
      else
        (case pe_rand_bytes E 32 of
           Inl e \<Rightarrow> (s, Inl (Ossl (''random bytes: '' @ e)))
         | Inr nonce \<Rightarrow> (s\<lparr>cl_dh_nonce := Some nonce\<rparr>, Inr (Some nonce))))"

definition request_kdfs :: "pkinit_env \<Rightarrow> bool \<Rightarrow> oid list res" where
  "request_kdfs E use_kem =
     traverse (\<lambda>n. asn1 ''KDF OID'' (oid_new (pe_codec E) (pe_oids E n)))
       (if use_kem then [ID_ALG_HKDF_WITH_SHA512]
        else [ID_PKINIT_KDF_AH_SHA256, ID_PKINIT_KDF_AH_SHA512, ID_PKINIT_KDF_AH_SHA1])"

text \<open>The signed, or for an anonymous client unsigned, content.\<close>

definition sign_auth_pack :: "pkinit_env \<Rightarrow> pkinit_identity \<Rightarrow> bytes \<Rightarrow> bytes res" where
  "sign_auth_pack E ident auth_pack_der =
     (if id_cert_der ident = [] then
        create_unsigned_data (pe_crypto E) auth_pack_der (pe_oids E ID_PKINIT_AUTH_DATA)
      else
        rbind (ok_or (id_signing_key ident)
                 (IdentityLoadFailed ''client identity has a certificate but no signing key'')) (\<lambda>signer_key.
          create_signed_data (pe_crypto E) auth_pack_der (pe_oids E ID_PKINIT_AUTH_DATA) signer_key
            (id_cert_der ident) (id_chain ident) (digest_for_signer (pe_crypto E) (id_cert_der ident))))"

definition finish_as_req ::
    "pkinit_env \<Rightarrow> client_state \<Rightarrow> pk_authenticator \<Rightarrow> element \<Rightarrow> bytes option \<Rightarrow> bool \<Rightarrow> bytes res" where
  "finish_as_req E s pk_auth client_spki_element dh_nonce_bytes use_kem =
     rbind (request_kdfs E use_kem) (\<lambda>kdfs.
     rbind (asn1 ''encode AuthPack'' (enc_auth_pack (pe_msgs E)
              \<lparr>ap_pk_authenticator = pk_auth, ap_client_public_value = Some client_spki_element,
               ap_client_dhnonce = dh_nonce_bytes, ap_supported_kdfs = Some kdfs\<rparr>)) (\<lambda>auth_pack_der.
     rbind (sign_auth_pack E (cl_identity s) auth_pack_der) (\<lambda>signed_auth_pack.
       asn1 ''encode PA-PK-AS-REQ'' (enc_pa_pk_as_req (pe_msgs E)
         \<lparr>par_signed_auth_pack = signed_auth_pack\<rparr>))))"

definition build_as_req ::
    "pkinit_env \<Rightarrow> client_state \<Rightarrow> u32 \<Rightarrow> int \<Rightarrow> int \<Rightarrow> bytes \<Rightarrow> client_state \<times> bytes res" where
  "build_as_req E s nonce ctime cusec req_body_der =
     (case build_pk_authenticator E s nonce ctime cusec req_body_der of
        Inl e \<Rightarrow> (s, Inl e)
      | Inr pk_auth \<Rightarrow>
          if cc_require_kem (cl_config s) \<and> cc_kem_algorithm (cl_config s) = None then
            (s, Inl (DowngradeRejected ''classic DH/ECDH key exchange refused: pkinit_require_kem is set''))
          else
            let use_kem = (cc_kem_algorithm (cl_config s) \<noteq> None) in
            (case request_key E s of
               (s1, Inl e) \<Rightarrow> (s1, Inl e)
             | (s1, Inr client_spki_der) \<Rightarrow>
                 (case asn1 ''decode SPKI element'' (element_from_der (pe_codec E) client_spki_der) of
                    Inl e \<Rightarrow> (s1, Inl e)
                  | Inr client_spki_element \<Rightarrow>
                      (case request_dh_nonce E s1 use_kem of
                         (s2, Inl e) \<Rightarrow> (s2, Inl e)
                       | (s2, Inr dh_nonce_bytes) \<Rightarrow>
                           (s2, finish_as_req E s2 pk_auth client_spki_element dh_nonce_bytes use_kem)))))"

section \<open>The reply\<close>

definition rebuild_spki :: "pkinit_env \<Rightarrow> dh_group \<Rightarrow> bytes \<Rightarrow> bytes res" where
  "rebuild_spki E grp pub_key_bits =
     rbind (group_algorithm_oid_and_params (pe_oids E) (pe_codec E) (pe_dh E) grp) (\<lambda>(algorithm, parameters).
     rbind (asn1 ''algorithm OID'' (oid_new (pe_codec E) algorithm)) (\<lambda>alg_oid.
     rbind (asn1 ''BitString'' (bit_string_new (pe_msgs E) pub_key_bits)) (\<lambda>bits.
       asn1 ''encode SPKI'' (enc_spki (pe_msgs E)
         \<lparr>spki_algorithm = \<lparr>ai_oid = alg_oid, ai_params = parameters\<rparr>, spki_subject_public_key = bits\<rparr>))))"

text \<open>The key of a DH reply: with a KDF the reply names, the RFC 8636 derivation; without one, the
  legacy derivation over the secret and the two nonces.\<close>

definition dh_reply_key ::
    "pkinit_env \<Rightarrow> client_state \<Rightarrow> dh_rep_info \<Rightarrow> as_rep_params \<Rightarrow> bytes \<Rightarrow> o2k \<Rightarrow> derived_key res" where
  "dh_reply_key E s rep p shared_secret O2 =
     (case dri_kdf rep of
        Some kdf_oid \<Rightarrow>
          rbind (encode_principal_for_kdf (pe_kdf E) (arp_client_name p)) (\<lambda>party_u.
          rbind (encode_principal_for_kdf (pe_kdf E) (arp_server_name p)) (\<lambda>party_v.
            pkinit_kdf (pe_oids E) (pe_codec E) (pe_kdf E)
              \<lparr>ki_shared_secret = shared_secret, ki_kdf_oid = kdf_oid, ki_enctype = arp_enctype p,
               ki_party_u_info = party_u, ki_party_v_info = party_v, ki_as_req_der = arp_as_req_der p,
               ki_pa_pk_as_rep_der = arp_pa_rep_raw p\<rparr> O2))
      | None \<Rightarrow>
          let combined_nonce = (case cl_dh_nonce s of Some n \<Rightarrow> n | None \<Rightarrow> []) @
                (case dri_server_dhnonce rep of Some sn \<Rightarrow> sn | None \<Rightarrow> [])
          in octetstring2key (shared_secret @ combined_nonce) (arp_enctype p) O2)"

definition process_dh_rep ::
    "pkinit_env \<Rightarrow> client_state \<Rightarrow> dh_rep_info \<Rightarrow> as_rep_params \<Rightarrow> o2k \<Rightarrow> derived_key res" where
  "process_dh_rep E s rep p O2 =
     rbind (verify_signed_data (pe_crypto E) (dri_dh_signed_data rep)) (\<lambda>v.
     rbind (ensure (vsd_content_type v = pe_oids E ID_PKINIT_DHKEY_DATA)
              (CmsContentTypeMismatch ''id-pkinit-DHKeyData'' (debug_oid (vsd_content_type v)))) (\<lambda>_.
     rbind (validate_kdc_chain E s (vsd_signer_cert_der v) (vsd_all_certs_der v)) (\<lambda>_.
     rbind (asn1 ''decode KDCDHKeyInfo'' (dec_kdc_dh_key_info (pe_msgs E) (vsd_content v))) (\<lambda>info.
     rbind (decode_nonce (pe_codec E) (kdk_nonce info)) (\<lambda>reply_nonce.
     rbind (ensure (reply_nonce = arp_nonce p) (NonceMismatch (arp_nonce p) reply_nonce)) (\<lambda>_.
     rbind (ok_or (cl_dh_key s) (DhAgreementFailed ''no DH key generated'')) (\<lambda>dh_key.
     rbind (rebuild_spki E (dkp_group dh_key) (kdk_subject_public_key info)) (\<lambda>kdc_spki_der.
     rbind (derive_shared_secret (pe_dh E) dh_key kdc_spki_der) (\<lambda>shared_secret.
       dh_reply_key E s rep p shared_secret O2)))))))))"

text \<open>The checks of a KEM reply after its signature is verified, and the derivation.\<close>

definition check_kem_info :: "pkinit_env \<Rightarrow> kem_algorithm \<Rightarrow> u32 \<Rightarrow> kdc_kem_info \<Rightarrow> unit res" where
  "check_kem_info E kem_alg nonce info =
     rbind (ensure (kki_server_nonce info = None)
              (KemDecapFailed ''serverNonce must be absent for pure ML-KEM'')) (\<lambda>_.
     rbind (ok_or (kki_nonce info) (Asn1 ''KDC omitted required nonce in KDCKEMInfo'')) (\<lambda>reply_nonce.
     rbind (decode_nonce (pe_codec E) reply_nonce) (\<lambda>n.
     rbind (ensure (n = nonce) (NonceMismatch nonce n)) (\<lambda>_.
     rbind (ensure (ai_oid (kki_kem_algorithm info) = kem_oid (pe_oids E) kem_alg)
              (KemAlgorithmMismatch (debug_oid (kem_oid (pe_oids E) kem_alg))
                 (debug_oid (ai_oid (kki_kem_algorithm info))))) (\<lambda>_.
     rbind (ensure (ai_params (kki_kem_algorithm info) = None)
              (Asn1 ''KDCKEMInfo.kemAlgorithm parameters must be absent'')) (\<lambda>_.
     rbind (ensure (ai_oid (kki_kdf_algorithm info) = pe_oids E ID_ALG_HKDF_WITH_SHA512 \<and>
                    ai_params (kki_kdf_algorithm info) = None)
              (KdfNotOffered (dotted_oid (ai_oid (kki_kdf_algorithm info)) @ '' (parameters '' @
                 (if ai_params (kki_kdf_algorithm info) \<noteq> None then ''present'' else ''absent'') @ '')''))) (\<lambda>_.
       ensure (length (kki_kemct info) = ciphertext_len kem_alg)
         (KemCiphertextLengthInvalid (ciphertext_len kem_alg) (length (kki_kemct info))))))))))"

definition open_kem_rep ::
    "pkinit_env \<Rightarrow> client_state \<Rightarrow> kem_key_pair \<Rightarrow> bytes \<Rightarrow> as_rep_params \<Rightarrow> o2k \<Rightarrow> derived_key res" where
  "open_kem_rep E s kem_key pa_rep_der p O2 =
     rbind (decode_kem_rep_content pa_rep_der) (\<lambda>kem_rep_content.
     rbind (asn1 ''decode KEMRepInfo'' (dec_kem_rep_info (pe_codec E) kem_rep_content)) (\<lambda>kem_rep_info.
     rbind (verify_signed_data (pe_crypto E) (kri_signed_data kem_rep_info)) (\<lambda>v.
     rbind (ensure (vsd_content_type v = ID_PKINIT_KEM_KEY_DATA)
              (CmsContentTypeMismatch ''id-pkinit-KEMKeyData'' (debug_oid (vsd_content_type v)))) (\<lambda>_.
     rbind (ensure (\<not> (has_pq_certificate E s \<and>
                        \<not> is_pq_signature_algorithm (pe_crypto E) (vsd_signer_algorithm_oid v)))
              (DowngradeRejected ''KDC must use quantum-resistant signature with PQ client'')) (\<lambda>_.
     rbind (validate_kdc_chain E s (vsd_signer_cert_der v) (vsd_all_certs_der v)) (\<lambda>_.
     rbind (asn1 ''decode KDCKEMInfo'' (dec_kdc_kem_info (pe_codec E) (vsd_content v))) (\<lambda>info.
     rbind (check_kem_info E (kkp_algorithm kem_key) (arp_nonce p) info) (\<lambda>_.
     rbind (kem_decapsulate (pe_kem E) kem_key (kki_kemct info)) (\<lambda>shared_secret.
       pkinit_kem_kdf (pe_codec E) (pe_kdf E)
         \<lparr>kki_shared_secret = shared_secret, kki_enctype = arp_enctype p, kki_as_req_der = arp_as_req_der p,
          kki_kem_signed_data = kri_signed_data kem_rep_info\<rparr> O2)))))))))"

definition process_kem_rep ::
    "pkinit_env \<Rightarrow> client_state \<Rightarrow> bytes \<Rightarrow> as_rep_params \<Rightarrow> o2k \<Rightarrow> client_state \<times> derived_key res" where
  "process_kem_rep E s pa_rep_der p O2 =
     (case cl_kem_key s of
        None \<Rightarrow> (s, Inl (KemDecapFailed ''no KEM key generated for this exchange''))
      | Some kem_key \<Rightarrow>
          let s = s\<lparr>cl_kem_key := None\<rparr> in (s, open_kem_rep E s kem_key pa_rep_der p O2))"

definition process_as_rep ::
    "pkinit_env \<Rightarrow> client_state \<Rightarrow> bytes \<Rightarrow> as_rep_params \<Rightarrow> o2k \<Rightarrow> client_state \<times> derived_key res" where
  "process_as_rep E s pa_rep_der p O2 =
     (if is_kem_rep pa_rep_der then process_kem_rep E s pa_rep_der p O2
      else
        (s, rbind (asn1 ''decode PA-PK-AS-REP'' (dec_pa_pk_as_rep (pe_msgs E) pa_rep_der)) (\<lambda>pa_rep.
              case pa_rep of
                DhInfo rep \<Rightarrow> process_dh_rep E s rep p O2
              | EncKeyPack _ \<Rightarrow> Inl (Unsupported ''RSA key transport mode not supported''))))"

section \<open>Every way the state can change\<close>

text \<open>
  One step is one call of a public operation of the client, with the libraries in any state
  (random numbers, clock) but with the same cryptography \<open>V\<close>.
\<close>

inductive client_step :: "crypto_env \<Rightarrow> client_state \<Rightarrow> client_state \<Rightarrow> bool" for V where
  Freshness: "client_step V s (set_freshness_token s token)"
| Kdc_identity: "client_step V s (set_kdc_identity s kp hostname)"
| Broker: "client_step V s (set_trust_broker s b)"
| Anonymous: "client_step V s (set_is_anonymous s anon)"
| Dh_override: "client_step V s (set_dh_group s grp)"
| Hint: "pe_crypto E = V \<Longrightarrow> process_pkinit_hint E s hint_der = (s', r) \<Longrightarrow> client_step V s s'"
| Tryagain: "pe_crypto E = V \<Longrightarrow> handle_tryagain_typed_data E s td = (s', ra) \<Longrightarrow> client_step V s s'"
| Tryagain_der: "pe_crypto E = V \<Longrightarrow> handle_tryagain E s der = (s', ra) \<Longrightarrow> client_step V s s'"
| Request: "pe_crypto E = V \<Longrightarrow> build_as_req E s nonce ctime cusec body = (s', rq) \<Longrightarrow> client_step V s s'"
| Reply: "pe_crypto E = V \<Longrightarrow> process_as_rep E s rep p O2 = (s', rk) \<Longrightarrow> client_step V s s'"

definition client_reachable ::
    "crypto_env \<Rightarrow> pkinit_identity \<Rightarrow> trust_store \<Rightarrow> client_config \<Rightarrow> client_state \<Rightarrow> bool" where
  "client_reachable V ident store cfg s \<longleftrightarrow> (client_step V)\<^sup>*\<^sup>* (client_new ident store cfg) s"

text \<open>What no sequence of calls can change, and what ties the keys to the chosen algorithm.\<close>

definition meets_floor :: "client_state \<Rightarrow> kem_algorithm \<Rightarrow> bool" where
  "meets_floor s alg \<longleftrightarrow> (\<forall>flr. cl_kem_floor s = Some flr \<longrightarrow> strength_order flr \<le> strength_order alg)"

definition client_inv :: "client_state \<Rightarrow> bool" where
  "client_inv s \<longleftrightarrow>
     (cc_require_kem (cl_config s) \<longrightarrow>
        cl_dh_key s = None \<and> (\<forall>grp. cl_key_exchange s \<noteq> Some (KexDh grp)) \<and> cl_kem_floor s \<noteq> None) \<and>
     (\<forall>alg. cc_kem_algorithm (cl_config s) = Some alg \<longrightarrow> meets_floor s alg) \<and>
     (\<forall>k. cl_kem_key s = Some k \<longrightarrow>
        cc_kem_algorithm (cl_config s) = Some (kkp_algorithm k) \<and>
        cl_key_exchange s = Some (KexKem (kkp_algorithm k))) \<and>
     (\<forall>alg. cl_key_exchange s = Some (KexKem alg) \<longrightarrow> cc_kem_algorithm (cl_config s) = Some alg)"

definition same_policy :: "client_state \<Rightarrow> client_state \<Rightarrow> bool" where
  "same_policy s t \<longleftrightarrow>
     cl_kem_floor t = cl_kem_floor s \<and> cc_require_kem (cl_config t) = cc_require_kem (cl_config s) \<and>
     cl_identity t = cl_identity s \<and> cl_trust_store t = cl_trust_store s \<and>
     cc_dh_min_bits (cl_config t) = cc_dh_min_bits (cl_config s)"

lemma same_policy_refl [simp]: "same_policy s s"
  by (simp add: same_policy_def)

lemma same_policy_trans: "same_policy s t \<Longrightarrow> same_policy t u \<Longrightarrow> same_policy s u"
  by (simp add: same_policy_def)

lemma same_policy_sets [simp]:
  "same_policy s (set_freshness_token s tok)" "same_policy s (set_kdc_identity s kp h)"
  "same_policy s (set_trust_broker s b)" "same_policy s (set_is_anonymous s a)"
  "same_policy s (set_dh_group s grp)" "same_policy s (set_kem_algorithm s alg)"
  "same_policy s (apply_offer s off)"
  by (simp_all add: same_policy_def set_freshness_token_def set_kdc_identity_def set_trust_broker_def
      set_is_anonymous_def set_dh_group_def set_kem_algorithm_def apply_offer_def split: offered.splits)

lemma client_inv_sets:
  "client_inv s \<Longrightarrow> client_inv (set_freshness_token s tok)"
  "client_inv s \<Longrightarrow> client_inv (set_kdc_identity s kp h)"
  "client_inv s \<Longrightarrow> client_inv (set_trust_broker s b)"
  "client_inv s \<Longrightarrow> client_inv (set_is_anonymous s a)"
  "client_inv s \<Longrightarrow> client_inv (set_dh_group s grp)"
  by (simp_all add: client_inv_def meets_floor_def set_freshness_token_def set_kdc_identity_def
      set_trust_broker_def set_is_anonymous_def set_dh_group_def)

lemma client_inv_set_kem:
  "client_inv s \<Longrightarrow> meets_floor s alg \<Longrightarrow> client_inv (set_kem_algorithm s alg)"
  by (simp add: client_inv_def meets_floor_def set_kem_algorithm_def)

lemma accepts_kem: "accepts E s (OfferedKem alg) \<longleftrightarrow> meets_floor s alg"
  by (simp add: accepts_def meets_floor_def split: option.splits)

lemma accepts_dh: "accepts E s (OfferedDh grp) \<longleftrightarrow> dh_allowed E s"
  by (simp add: accepts_def)

lemma client_inv_apply: "client_inv s \<Longrightarrow> accepts E s off \<Longrightarrow> client_inv (apply_offer s off)"
  by (cases off) (simp_all add: apply_offer_def accepts_kem client_inv_set_kem client_inv_sets)

text \<open>Both negotiations leave the state alone or apply one offer the policy accepts.\<close>

lemma hint_cases:
  "process_pkinit_hint E s h = (s', r) \<Longrightarrow>
   s' = s \<or> (\<exists>off. accepts E s off \<and> s' = apply_offer s off \<and> r = Inr ())"
  by (auto simp: process_pkinit_hint_def Let_def dest: find_SomeD
      split: sum.splits if_splits option.splits)

lemma retry_cases:
  "retry_key_parameters E s v = (s', r) \<Longrightarrow>
   s' = s \<and> is_ok r = False \<or>
   (\<exists>off. accepts E s off \<and> Some off \<noteq> map_option offered_of_kex (cl_key_exchange s) \<and>
      s' = apply_offer s off \<and>
      r = Inr (case off of OfferedKem alg \<Rightarrow> RetryWithKemAlgorithm alg | OfferedDh grp \<Rightarrow> RetryWithDhParams grp))"
  by (auto simp: retry_key_parameters_def Let_def dest!: find_SomeD
      split: sum.splits if_splits option.splits)

lemma tryagain_cases:
  "handle_tryagain_typed_data E s td = (s', r) \<Longrightarrow>
   s' = s \<or>
   (\<exists>off. accepts E s off \<and> Some off \<noteq> map_option offered_of_kex (cl_key_exchange s) \<and>
      s' = apply_offer s off \<and>
      r = Inr (case off of OfferedKem alg \<Rightarrow> RetryWithKemAlgorithm alg | OfferedDh grp \<Rightarrow> RetryWithDhParams grp))"
  by (induction E s td rule: handle_tryagain_typed_data.induct)
    (auto split: if_splits dest!: retry_cases)

text \<open>The same with where the offer comes from.\<close>

definition retry_of :: "offered \<Rightarrow> retry_action" where
  "retry_of off = (case off of OfferedKem alg \<Rightarrow> RetryWithKemAlgorithm alg | OfferedDh grp \<Rightarrow> RetryWithDhParams grp)"

lemma retry_of_eq:
  "retry_of off = RetryWithKemAlgorithm alg \<longleftrightarrow> off = OfferedKem alg"
  "RetryWithKemAlgorithm alg = retry_of off \<longleftrightarrow> off = OfferedKem alg"
  "retry_of off = RetryWithDhParams grp \<longleftrightarrow> off = OfferedDh grp"
  "RetryWithDhParams grp = retry_of off \<longleftrightarrow> off = OfferedDh grp"
  by (cases off; auto simp: retry_of_def)+

lemma set_map_filter: "y \<in> set (List.map_filter f xs) \<longleftrightarrow> Some y \<in> f ` set xs"
  by (induction xs) (auto simp: List.map_filter_simps split: option.split)

lemma hint_offers:
  "process_pkinit_hint E s h = (t, r) \<Longrightarrow>
   t = s \<or> r = Inr () \<and> (\<exists>advertised off. parse_pkinit_hint (pe_codec E) h = Inr advertised \<and>
      Some off \<in> recognize E s ` set advertised \<and> accepts E s off \<and> t = apply_offer s off)"
  unfolding set_map_filter[symmetric]
  by (auto simp: process_pkinit_hint_def Let_def dest: find_SomeD
      split: sum.splits if_splits option.splits)

lemma retry_offers:
  "retry_key_parameters E s v = (u, ra) \<Longrightarrow>
   u = s \<and> (\<forall>a. ra \<noteq> Inr a) \<or>
   (\<exists>advertised off. parse_td_offered E v = Inr advertised \<and> Some off \<in> recognize E s ` set advertised \<and>
      accepts E s off \<and> Some off \<noteq> map_option offered_of_kex (cl_key_exchange s) \<and> u = apply_offer s off \<and>
      ra = Inr (retry_of off))"
  unfolding set_map_filter[symmetric] retry_of_def
  by (auto simp: retry_key_parameters_def Let_def dest!: find_SomeD
      split: sum.splits if_splits option.splits)

lemma tryagain_offers:
  "handle_tryagain_typed_data E s td = (u, ra) \<Longrightarrow>
   u = s \<and> (\<forall>alg. ra \<noteq> Inr (RetryWithKemAlgorithm alg)) \<and> (\<forall>grp. ra \<noteq> Inr (RetryWithDhParams grp)) \<or>
   (\<exists>val advertised off. (TD_DH_PARAMETERS (pe_msgs E), val) \<in> set td \<and>
      parse_td_offered E val = Inr advertised \<and> Some off \<in> recognize E s ` set advertised \<and>
      accepts E s off \<and> Some off \<noteq> map_option offered_of_kex (cl_key_exchange s) \<and> u = apply_offer s off \<and>
      ra = Inr (retry_of off))"
proof (induction E s td rule: handle_tryagain_typed_data.induct)
  case (2 E s pa_type val td)
  then show ?case by (auto split: if_splits dest!: retry_offers)
qed auto

lemma tryagain_der_cases:
  "handle_tryagain E s d = (s', r) \<Longrightarrow> s' = s \<or> (\<exists>off. accepts E s off \<and> s' = apply_offer s off)"
  by (auto simp: handle_tryagain_def split: sum.splits dest!: tryagain_cases)

lemma request_key_inv:
  assumes "request_key E s = (t, r)" "client_inv s"
    "\<not> (cc_require_kem (cl_config s) \<and> cc_kem_algorithm (cl_config s) = None)"
  shows "client_inv t \<and> same_policy s t \<and> cl_config t = cl_config s"
  using assms
  by (auto simp: request_key_def Let_def client_inv_def same_policy_def meets_floor_def
      dest: kem_generate_algorithm split: option.splits sum.splits)

lemma request_dh_nonce_inv:
  "request_dh_nonce E s k = (t, r) \<Longrightarrow> client_inv s \<Longrightarrow> client_inv t \<and> same_policy s t"
  by (auto simp: request_dh_nonce_def client_inv_def same_policy_def meets_floor_def
      split: if_splits sum.splits)

lemma build_as_req_inv:
  assumes "build_as_req E s nonce ctime cusec body = (t, r)" "client_inv s"
  shows "client_inv t \<and> same_policy s t"
  using assms
  by (auto simp: build_as_req_def Let_def split: sum.splits if_splits prod.splits
      dest!: request_key_inv request_dh_nonce_inv intro: same_policy_trans)

lemma process_as_rep_inv:
  assumes "process_as_rep E s rep p O2 = (t, r)" "client_inv s"
  shows "client_inv t \<and> same_policy s t"
  using assms
  by (auto simp: process_as_rep_def process_kem_rep_def client_inv_def same_policy_def meets_floor_def Let_def
      split: if_splits option.splits)

lemma client_inv_new: "client_inv (client_new ident store cfg)"
  by (auto simp: client_inv_def client_new_def meets_floor_def Let_def)

inductive_cases client_stepE: "client_step V s t"

lemma client_step_inv: "client_step V s t \<Longrightarrow> client_inv s \<Longrightarrow> client_inv t \<and> same_policy s t"
  by (erule client_stepE)
    (auto simp: client_inv_sets dest!: hint_cases tryagain_cases tryagain_der_cases
      intro: client_inv_apply build_as_req_inv process_as_rep_inv
      dest: build_as_req_inv process_as_rep_inv)

interpretation client_calls: guarded_calls "client_step V" client_inv same_policy for V
  by unfold_locales (rule client_step_inv, assumption+, rule same_policy_refl, rule same_policy_trans)

lemma client_reachable_inv:
  "client_reachable V ident store cfg s \<Longrightarrow>
   client_inv s \<and> same_policy (client_new ident store cfg) s"
  unfolding client_reachable_def by (rule client_calls.reachable) (simp_all add: client_inv_new)

section \<open>Facts about requests and replies\<close>

lemma build_as_req_kem_parts:
  assumes "build_as_req E s nonce ctime cusec body = (t, Inr req)" "cc_kem_algorithm (cl_config s) = Some alg"
  shows "\<exists>kp p elem pk_auth. kem_generate (pe_kem E) alg (pe_keygen_seed E) = Inr kp \<and>
    kem_public_key_spki_der (pe_kem E) kp = Inr p \<and> element_from_der (pe_codec E) p = Inr elem \<and>
    build_pk_authenticator E s nonce ctime cusec body = Inr pk_auth \<and>
    t = s\<lparr>cl_key_exchange := Some (KexKem alg), cl_kem_key := Some kp\<rparr> \<and>
    finish_as_req E t pk_auth elem None True = Inr req"
  using assms
  by (auto simp: build_as_req_def request_key_def request_dh_nonce_def Let_def asn1_eq
      split: sum.splits if_splits prod.splits option.splits)

lemma finish_as_req_parts:
  "finish_as_req E t pk_auth elem None True = Inr req \<Longrightarrow>
   \<exists>kdf content signed. oid_new (pe_codec E) (pe_oids E ID_ALG_HKDF_WITH_SHA512) = Inr kdf \<and>
     enc_auth_pack (pe_msgs E) \<lparr>ap_pk_authenticator = pk_auth, ap_client_public_value = Some elem,
       ap_client_dhnonce = None, ap_supported_kdfs = Some [kdf]\<rparr> = Inr content \<and>
     sign_auth_pack E (cl_identity t) content = Inr signed \<and>
     enc_pa_pk_as_req (pe_msgs E) \<lparr>par_signed_auth_pack = signed\<rparr> = Inr req"
  by (auto simp: finish_as_req_def request_kdfs_def res)

lemma build_as_req_refused:
  "build_as_req E s nonce ctime cusec body = (t, Inr req) \<Longrightarrow> cc_require_kem (cl_config s) \<Longrightarrow>
   cc_kem_algorithm (cl_config s) \<noteq> None"
  by (auto simp: build_as_req_def split: sum.splits if_splits)

lemma process_dh_needs_key: "process_dh_rep E s rep p O2 = Inr key \<Longrightarrow> cl_dh_key s \<noteq> None"
  by (auto simp: process_dh_rep_def res)

lemma process_as_rep_dh:
  assumes "process_as_rep E s rep p O2 = (t, Inr key)" "\<not> is_kem_rep rep"
  shows "t = s \<and> (\<exists>info. dec_pa_pk_as_rep (pe_msgs E) rep = Inr (DhInfo info) \<and>
    process_dh_rep E s info p O2 = Inr key)"
proof (cases "dec_pa_pk_as_rep (pe_msgs E) rep")
  case (Inr r)
  with assms show ?thesis by (cases r) (auto simp: process_as_rep_def)
qed (use assms in \<open>simp add: process_as_rep_def\<close>)

lemma process_as_rep_kem:
  assumes "process_as_rep E s rep p O2 = (t, r)" "is_kem_rep rep"
  shows "t = s\<lparr>cl_kem_key := None\<rparr> \<and>
    (\<forall>key. r = Inr key \<longrightarrow> (\<exists>k. cl_kem_key s = Some k \<and> open_kem_rep E t k rep p O2 = Inr key))"
  using assms by (auto simp: process_as_rep_def process_kem_rep_def Let_def split: option.splits)

lemma client_reachable_config:
  assumes "client_reachable V ident store cfg s"
  shows "cc_require_kem (cl_config s) = cc_require_kem cfg"
    and "cl_identity s = ident"
    and "cl_kem_floor s = (if cc_require_kem cfg \<and> cc_kem_algorithm cfg = None then Some MlKem768
      else cc_kem_algorithm cfg)"
  using client_reachable_inv[OF assms] by (auto simp: same_policy_def client_new_def Let_def)

lemma client_reachable_step: "client_reachable V ident store cfg s \<Longrightarrow> client_step V s t \<Longrightarrow>
    client_reachable V ident store cfg t"
  by (simp add: client_reachable_def rtranclp.rtrancl_into_rtrancl)

text \<open>Settings that the configuration has and the client does not consult.\<close>

definition other_settings :: "bool \<Rightarrow> bool \<Rightarrow> bool \<Rightarrow> client_state \<Rightarrow> client_state" where
  "other_settings crl eku freshness s = s\<lparr>cl_config := (cl_config s)\<lparr>cc_require_crl_checking := crl,
     cc_require_eku := eku, cc_disable_freshness := freshness\<rparr>\<rparr>"

lemma settings_not_consulted:
  "validate_kdc_chain E (other_settings a b c s) cert certs = validate_kdc_chain E s cert certs"
  "build_pk_authenticator E (other_settings a b c s) nonce ctime cusec body =
   build_pk_authenticator E s nonce ctime cusec body"
  by (simp_all add: other_settings_def validate_kdc_chain_def consult_broker_def build_pk_authenticator_def
      cong: sum.case_cong option.case_cong)

section \<open>Properties\<close>

text \<open>C9: \<open>pkinit_require_kem\<close> holds over every run: whatever hints, errors, replies, overrides and
  broker decisions the client has met, a request it builds is for the KEM it has chosen: its one
  public key is the public half of a KEM key pair generated for this very request, whose private
  half the client keeps, it has no DH nonce, the only KDF it offers is the KEM's, and this is
  the content that is signed and sent; and a reply it accepts is a KEM reply.  Classic
  Diffie-Hellman is never offered and never accepted.\<close>
theorem require_kem_never_dh:
  assumes "client_reachable V ident store cfg s" "cc_require_kem cfg"
  shows "(\<forall>E nonce ctime cusec body t req. pe_crypto E = V \<longrightarrow>
      build_as_req E s nonce ctime cusec body = (t, Inr req) \<longrightarrow>
      (\<exists>k spki elem kdf pk_auth content signed.
         cc_kem_algorithm (cl_config s) = Some (kkp_algorithm k) \<and>
         kem_generate (pe_kem E) (kkp_algorithm k) (pe_keygen_seed E) = Inr k \<and>
         kem_public_key_spki_der (pe_kem E) k = Inr spki \<and> element_from_der (pe_codec E) spki = Inr elem \<and>
         oid_new (pe_codec E) (pe_oids E ID_ALG_HKDF_WITH_SHA512) = Inr kdf \<and>
         enc_auth_pack (pe_msgs E) \<lparr>ap_pk_authenticator = pk_auth, ap_client_public_value = Some elem,
           ap_client_dhnonce = None, ap_supported_kdfs = Some [kdf]\<rparr> = Inr content \<and>
         sign_auth_pack E ident content = Inr signed \<and>
         enc_pa_pk_as_req (pe_msgs E) \<lparr>par_signed_auth_pack = signed\<rparr> = Inr req \<and>
         cl_kem_key t = Some k \<and> cl_dh_key t = None \<and> cl_key_exchange t = Some (KexKem (kkp_algorithm k)))) \<and>
    (\<forall>E rep p O2 t key. process_as_rep E s rep p O2 = (t, Inr key) \<longrightarrow> is_kem_rep rep)"
proof (intro conjI allI impI)
  note rk = client_reachable_config[OF assms(1)]
  have dh: "cl_dh_key s = None"
    using client_reachable_inv[OF assms(1)] rk(1) assms(2) by (simp add: client_inv_def)
  show "\<exists>k spki elem kdf pk_auth content signed.
       cc_kem_algorithm (cl_config s) = Some (kkp_algorithm k) \<and>
       kem_generate (pe_kem E) (kkp_algorithm k) (pe_keygen_seed E) = Inr k \<and>
       kem_public_key_spki_der (pe_kem E) k = Inr spki \<and> element_from_der (pe_codec E) spki = Inr elem \<and>
       oid_new (pe_codec E) (pe_oids E ID_ALG_HKDF_WITH_SHA512) = Inr kdf \<and>
       enc_auth_pack (pe_msgs E) \<lparr>ap_pk_authenticator = pk_auth, ap_client_public_value = Some elem,
         ap_client_dhnonce = None, ap_supported_kdfs = Some [kdf]\<rparr> = Inr content \<and>
       sign_auth_pack E ident content = Inr signed \<and>
       enc_pa_pk_as_req (pe_msgs E) \<lparr>par_signed_auth_pack = signed\<rparr> = Inr req \<and>
       cl_kem_key t = Some k \<and> cl_dh_key t = None \<and> cl_key_exchange t = Some (KexKem (kkp_algorithm k))"
    if b: "build_as_req E s nonce ctime cusec body = (t, Inr req)" for E nonce ctime cusec body t req
  proof -
    from build_as_req_refused[OF b] rk(1) assms(2) obtain alg where alg: "cc_kem_algorithm (cl_config s) = Some alg"
      by auto
    from build_as_req_kem_parts[OF b alg] obtain k spki elem pk_auth where
      K: "kem_generate (pe_kem E) alg (pe_keygen_seed E) = Inr k" "kem_public_key_spki_der (pe_kem E) k = Inr spki"
        "element_from_der (pe_codec E) spki = Inr elem" "t = s\<lparr>cl_key_exchange := Some (KexKem alg), cl_kem_key := Some k\<rparr>"
        "finish_as_req E t pk_auth elem None True = Inr req" by blast
    from finish_as_req_parts[OF K(5)] obtain kdf content signed where
      "oid_new (pe_codec E) (pe_oids E ID_ALG_HKDF_WITH_SHA512) = Inr kdf"
      "enc_auth_pack (pe_msgs E) \<lparr>ap_pk_authenticator = pk_auth, ap_client_public_value = Some elem,
         ap_client_dhnonce = None, ap_supported_kdfs = Some [kdf]\<rparr> = Inr content"
      "sign_auth_pack E (cl_identity t) content = Inr signed"
      "enc_pa_pk_as_req (pe_msgs E) \<lparr>par_signed_auth_pack = signed\<rparr> = Inr req" by blast
    then show ?thesis
      using K(1-4) kem_generate_algorithm[OF K(1)] rk(2) alg dh
      by (intro exI[of _ k] exI[of _ spki] exI[of _ elem] exI[of _ kdf] exI[of _ pk_auth] exI[of _ content]
          exI[of _ signed]) simp
  qed
  show "is_kem_rep rep" if a: "process_as_rep E s rep p O2 = (t, Inr key)" for E rep p O2 t key
    using process_as_rep_dh[OF a] process_dh_needs_key dh by blast
qed

text \<open>C11: The configured minimum is a floor over every run: the KDC's hints and error data, which
  are not authenticated, can raise or exchange the algorithm but never bring the client to
  hold, request or accept a reply for a KEM of a lower category than the configured one.\<close>
theorem kem_floor_never_weakened:
  assumes "client_reachable V ident store cfg s" "cc_kem_algorithm cfg = Some flr"
  shows "(\<forall>k. cl_kem_key s = Some k \<longrightarrow> strength_order flr \<le> strength_order (kkp_algorithm k)) \<and>
    (\<forall>alg. cl_key_exchange s = Some (KexKem alg) \<longrightarrow> strength_order flr \<le> strength_order alg) \<and>
    (\<forall>E. accepts E s (OfferedKem alg) \<longleftrightarrow> strength_order flr \<le> strength_order alg)"
  using client_reachable_inv[OF assms(1)] client_reachable_config(3)[OF assms(1)] assms(2)
  by (auto simp: client_inv_def meets_floor_def accepts_kem)

lemma committed_applies_kem:
  assumes "accepts E s off" "has_pq_certificate E s"
    "cl_kem_floor s \<noteq> None \<or> (\<exists>a. cl_key_exchange s = Some (KexKem a))"
  shows "cc_kem_algorithm (cl_config (apply_offer s off)) \<noteq> None \<and> (\<forall>grp. retry_of off \<noteq> RetryWithDhParams grp)"
  using assms
  by (cases off) (auto simp: accepts_dh dh_allowed_def apply_offer_def set_kem_algorithm_def retry_of_def)

text \<open>C12: Negotiation is the client's decision: a hint or an error either leaves the state alone (and
  then announces no other algorithm) or applies one offer, which the KDC's message really has,
  the client implements and its policy accepts (a KEM no weaker than the floor; a classic group
  only where neither \<open>pkinit_require_kem\<close> nor a commitment to a KEM forbids it).  The retry that
  is announced is the algorithm the state now has, with no key of an earlier one left for it,
  and differs from the one just refused; and a client with a post-quantum certificate that is
  committed to a KEM is not moved to classic Diffie-Hellman by either.\<close>
theorem negotiation_respects_policy:
  assumes "process_pkinit_hint E s h = (t, r)" "handle_tryagain_typed_data E s td = (u, ra)"
  shows "(t = s \<or> r = Inr () \<and> (\<exists>advertised off. parse_pkinit_hint (pe_codec E) h = Inr advertised \<and>
      Some off \<in> recognize E s ` set advertised \<and> accepts E s off \<and> t = apply_offer s off)) \<and>
    (u = s \<and> (\<forall>alg. ra \<noteq> Inr (RetryWithKemAlgorithm alg)) \<and> (\<forall>grp. ra \<noteq> Inr (RetryWithDhParams grp)) \<or>
     (\<exists>val advertised off. (TD_DH_PARAMETERS (pe_msgs E), val) \<in> set td \<and>
        parse_td_offered E val = Inr advertised \<and> Some off \<in> recognize E s ` set advertised \<and>
        accepts E s off \<and> u = apply_offer s off)) \<and>
    (\<forall>alg. ra = Inr (RetryWithKemAlgorithm alg) \<longrightarrow>
       cc_kem_algorithm (cl_config u) = Some alg \<and> meets_floor s alg \<and>
       cl_key_exchange s \<noteq> Some (KexKem alg) \<and> cl_kem_key u = None) \<and>
    (\<forall>grp. ra = Inr (RetryWithDhParams grp) \<longrightarrow>
       cc_kem_algorithm (cl_config u) = None \<and> cc_dh_group (cl_config u) = grp \<and> \<not> cc_require_kem (cl_config s) \<and>
       cl_key_exchange s \<noteq> Some (KexDh grp) \<and> cl_kem_key u = None \<and> cl_dh_key u = None) \<and>
    (has_pq_certificate E s \<and> (cl_kem_floor s \<noteq> None \<or> (\<exists>a. cl_key_exchange s = Some (KexKem a))) \<and>
       cc_kem_algorithm (cl_config s) \<noteq> None \<longrightarrow>
       cc_kem_algorithm (cl_config t) \<noteq> None \<and> cc_kem_algorithm (cl_config u) \<noteq> None \<and>
       (\<forall>grp. ra \<noteq> Inr (RetryWithDhParams grp)))"
proof -
  have T: "t = s \<or> r = Inr () \<and> (\<exists>advertised off. parse_pkinit_hint (pe_codec E) h = Inr advertised \<and>
      Some off \<in> recognize E s ` set advertised \<and> accepts E s off \<and> t = apply_offer s off)"
    by (rule hint_offers[OF assms(1)])
  have U: "u = s \<and> (\<forall>alg. ra \<noteq> Inr (RetryWithKemAlgorithm alg)) \<and> (\<forall>grp. ra \<noteq> Inr (RetryWithDhParams grp)) \<or>
     (\<exists>val advertised off. (TD_DH_PARAMETERS (pe_msgs E), val) \<in> set td \<and>
        parse_td_offered E val = Inr advertised \<and> Some off \<in> recognize E s ` set advertised \<and>
        accepts E s off \<and> Some off \<noteq> map_option offered_of_kex (cl_key_exchange s) \<and> u = apply_offer s off \<and>
        ra = Inr (retry_of off))"
    by (rule tryagain_offers[OF assms(2)])
  show ?thesis
  proof (intro conjI)
    show "\<forall>alg. ra = Inr (RetryWithKemAlgorithm alg) \<longrightarrow>
       cc_kem_algorithm (cl_config u) = Some alg \<and> meets_floor s alg \<and>
       cl_key_exchange s \<noteq> Some (KexKem alg) \<and> cl_kem_key u = None"
      using U by (auto simp: retry_of_eq apply_offer_def set_kem_algorithm_def accepts_kem)
    show "\<forall>grp. ra = Inr (RetryWithDhParams grp) \<longrightarrow>
       cc_kem_algorithm (cl_config u) = None \<and> cc_dh_group (cl_config u) = grp \<and> \<not> cc_require_kem (cl_config s) \<and>
       cl_key_exchange s \<noteq> Some (KexDh grp) \<and> cl_kem_key u = None \<and> cl_dh_key u = None"
      using U by (auto simp: retry_of_eq apply_offer_def set_dh_group_def accepts_dh dh_allowed_def)
    show "has_pq_certificate E s \<and> (cl_kem_floor s \<noteq> None \<or> (\<exists>a. cl_key_exchange s = Some (KexKem a))) \<and>
       cc_kem_algorithm (cl_config s) \<noteq> None \<longrightarrow>
       cc_kem_algorithm (cl_config t) \<noteq> None \<and> cc_kem_algorithm (cl_config u) \<noteq> None \<and>
       (\<forall>grp. ra \<noteq> Inr (RetryWithDhParams grp))"
    proof (rule impI)
      assume c: "has_pq_certificate E s \<and> (cl_kem_floor s \<noteq> None \<or> (\<exists>a. cl_key_exchange s = Some (KexKem a))) \<and>
       cc_kem_algorithm (cl_config s) \<noteq> None"
      then have k: "cc_kem_algorithm (cl_config (apply_offer s off)) \<noteq> None \<and> (\<forall>grp. retry_of off \<noteq> RetryWithDhParams grp)"
        if "accepts E s off" for off using committed_applies_kem[OF that] by blast
      have "cc_kem_algorithm (cl_config t) \<noteq> None" using T c k by blast
      moreover have "cc_kem_algorithm (cl_config u) \<noteq> None" using U c k by blast
      moreover have "\<forall>grp. ra \<noteq> Inr (RetryWithDhParams grp)" using U k by (metis sum.inject(2))
      ultimately show "cc_kem_algorithm (cl_config t) \<noteq> None \<and> cc_kem_algorithm (cl_config u) \<noteq> None \<and>
       (\<forall>grp. ra \<noteq> Inr (RetryWithDhParams grp))" by blast
    qed
  qed (use T U in blast)+
qed

lemma check_kem_info_Inr:
  assumes "check_kem_info E alg nonce info = Inr u" "codec_ok (pe_codec E)"
  shows "kki_server_nonce info = None \<and> kki_nonce info = Some (uint nonce) \<and>
    kki_kem_algorithm info = \<lparr>ai_oid = kem_oid (pe_oids E) alg, ai_params = None\<rparr> \<and>
    kki_kdf_algorithm info = \<lparr>ai_oid = pe_oids E ID_ALG_HKDF_WITH_SHA512, ai_params = None\<rparr> \<and>
    length (kki_kemct info) = ciphertext_len alg"
proof -
  from assms(1) obtain rn where *: "kki_server_nonce info = None" "kki_nonce info = Some rn"
    "decode_nonce (pe_codec E) rn = Inr nonce"
    "ai_oid (kki_kem_algorithm info) = kem_oid (pe_oids E) alg" "ai_params (kki_kem_algorithm info) = None"
    "ai_oid (kki_kdf_algorithm info) = pe_oids E ID_ALG_HKDF_WITH_SHA512"
    "ai_params (kki_kdf_algorithm info) = None" "length (kki_kemct info) = ciphertext_len alg"
    by (auto simp: check_kem_info_def res)
  from decode_nonce_exact[OF assms(2) *(3)] * show ?thesis
    by (cases "kki_kem_algorithm info"; cases "kki_kdf_algorithm info") simp
qed

lemma verify_kdc_chain_Inr:
  "validate_kdc_chain E s c cs = Inr () \<longleftrightarrow>
   (validate_chain (pe_chain E) (cl_trust_store s) c cs False = Inr () \<or>
    (\<exists>e. validate_chain (pe_chain E) (cl_trust_store s) c cs False = Inl e \<and> consult_broker E s c cs e = Inr ())) \<and>
   verify_kdc_eku (pe_oids E) (pe_x509 E) c = Inr () \<and>
   (\<forall>p. cl_kdc_principal s = Some p \<longrightarrow>
      verify_kdc_san (pe_oids E) (pe_x509 E) c p (cl_kdc_hostname s) = Inr ())"
  by (cases "validate_chain (pe_chain E) (cl_trust_store s) c cs False")
    (auto simp: validate_kdc_chain_def res split: option.splits)

lemma traverse_anchor_vc: "traverse (anchor_vc K w) ds = Inr vs \<Longrightarrow> vs = ds"
  by (induction ds arbitrary: vs) (auto simp: anchor_vc_def res)

lemma fold_add_anchor: "ts_anchors (fold (\<lambda>a s. add_anchor s a) as s) = ts_anchors s @ as"
  by (induction as arbitrary: s) (auto simp: add_anchor_def)

lemma fold_add_intermediate: "ts_anchors (fold (\<lambda>i s. add_intermediate s i) is s) = ts_anchors s"
  by (induction "is" arbitrary: s) (auto simp: add_intermediate_def)

lemma validate_broker_anchors_Inr:
  "validate_broker_anchors K as c cs = Inr () \<Longrightarrow>
   chain_verify_roots K as c cs (broker_policy (unix_now K)) = Inr ()"
  by (auto simp: validate_broker_anchors_def Let_def res fold_add_anchor fold_add_intermediate
      trust_store_new_def dest!: traverse_anchor_vc) (auto simp: anchor_vc_def res)

lemma consult_broker_Inr:
  assumes "consult_broker E s signer certs err = Inr ()"
  shows "\<exists>broker kp realm anchors. cl_broker s = Some broker \<and> cl_kdc_principal s = Some kp \<and>
    nth_opt 1 (split_on CHR ''@'' kp) = Some realm \<and>
    broker \<lparr>tr_realm = realm, tr_kdc_principal = kp, tr_signer_cert_der = signer, tr_presented_certs_der = certs,
      tr_interactive = cl_is_anonymous s\<rparr> = Inr (Trusted anchors) \<and>
    validate_broker_anchors (pe_chain E) anchors signer certs = Inr ()"
proof -
  from assms obtain broker kp realm d where *: "cl_broker s = Some broker" "cl_kdc_principal s = Some kp"
    "nth_opt 1 (split_on CHR ''@'' kp) = Some realm"
    "broker \<lparr>tr_realm = realm, tr_kdc_principal = kp, tr_signer_cert_der = signer, tr_presented_certs_der = certs,
      tr_interactive = cl_is_anonymous s\<rparr> = Inr d"
    "(case d of Trusted anchors \<Rightarrow> validate_broker_anchors (pe_chain E) anchors signer certs
      | Denied reason \<Rightarrow> Inl (KdcCaTrustDenied reason) | Unknown \<Rightarrow> Inl KdcCaTrustUnknown) = Inr ()"
    by (auto simp: consult_broker_def res)
  then show ?thesis by (cases d) auto
qed

text \<open>C10: No trust without validation: the client accepts a KDC certificate only if it has the
  KDC's key purpose, carries the expected name when one is known, and validates against the
  configured anchors or, failing that, against anchors that a broker approved for exactly this
  realm, principal and certificate list, and under a policy that refuses a leaf as an anchor;
  the broker is asked to establish new trust only in an anonymous exchange.\<close>
theorem kdc_trust_sound:
  assumes "validate_kdc_chain E s c cs = Inr ()"
  shows "verify_kdc_eku (pe_oids E) (pe_x509 E) c = Inr () \<and>
    (\<forall>p. cl_kdc_principal s = Some p \<longrightarrow>
       verify_kdc_san (pe_oids E) (pe_x509 E) c p (cl_kdc_hostname s) = Inr ()) \<and>
    (validate_chain (pe_chain E) (cl_trust_store s) c cs False = Inr () \<or>
     (\<exists>broker p realm anchors. cl_broker s = Some broker \<and> cl_kdc_principal s = Some p \<and>
        nth_opt 1 (split_on CHR ''@'' p) = Some realm \<and>
        broker \<lparr>tr_realm = realm, tr_kdc_principal = p, tr_signer_cert_der = c,
          tr_presented_certs_der = cs, tr_interactive = cl_is_anonymous s\<rparr> = Inr (Trusted anchors) \<and>
        chain_verify_roots (pe_chain E) anchors c cs (broker_policy (unix_now (pe_chain E))) = Inr () \<and>
        pol_ca_extensions (broker_policy (unix_now (pe_chain E))) = DefaultWebPkiCa))"
proof (cases "validate_chain (pe_chain E) (cl_trust_store s) c cs False = Inr ()")
  case True
  with assms show ?thesis unfolding verify_kdc_chain_Inr by simp
next
  case False
  with assms obtain e where "consult_broker E s c cs e = Inr ()" unfolding verify_kdc_chain_Inr by blast
  from consult_broker_Inr[OF this] obtain broker p realm anchors where
    A: "cl_broker s = Some broker" "cl_kdc_principal s = Some p" "nth_opt 1 (split_on CHR ''@'' p) = Some realm"
      "broker \<lparr>tr_realm = realm, tr_kdc_principal = p, tr_signer_cert_der = c,
        tr_presented_certs_der = cs, tr_interactive = cl_is_anonymous s\<rparr> = Inr (Trusted anchors)"
      "validate_broker_anchors (pe_chain E) anchors c cs = Inr ()" by blast
  have "pol_ca_extensions (broker_policy n) = DefaultWebPkiCa" for n by (simp add: broker_policy_def)
  with A(1-4) validate_broker_anchors_Inr[OF A(5)] assms show ?thesis unfolding verify_kdc_chain_Inr by blast
qed

lemma open_kem_rep_Inr:
  assumes "open_kem_rep E s k rep p O2 = Inr key" "codec_ok (pe_codec E)"
  shows "\<exists>content wrapped v info ss.
      decode_kem_rep_content rep = Inr content \<and> dec_kem_rep_info (pe_codec E) content = Inr wrapped \<and>
      verify_signed_data (pe_crypto E) (kri_signed_data wrapped) = Inr v \<and>
      vsd_content_type v = ID_PKINIT_KEM_KEY_DATA \<and>
      (has_pq_certificate E s \<longrightarrow> is_pq_signature_algorithm (pe_crypto E) (vsd_signer_algorithm_oid v)) \<and>
      validate_kdc_chain E s (vsd_signer_cert_der v) (vsd_all_certs_der v) = Inr () \<and>
      dec_kdc_kem_info (pe_codec E) (vsd_content v) = Inr info \<and>
      info = \<lparr>kki_kem_algorithm = \<lparr>ai_oid = kem_oid (pe_oids E) (kkp_algorithm k), ai_params = None\<rparr>,
        kki_kemct = kki_kemct info,
        kki_kdf_algorithm = \<lparr>ai_oid = pe_oids E ID_ALG_HKDF_WITH_SHA512, ai_params = None\<rparr>,
        kki_nonce = Some (uint (arp_nonce p)), kki_server_nonce = None\<rparr> \<and>
      length (kki_kemct info) = ciphertext_len (kkp_algorithm k) \<and>
      kem_decapsulate (pe_kem E) k (kki_kemct info) = Inr ss \<and>
      pkinit_kem_kdf (pe_codec E) (pe_kdf E) \<lparr>kki_shared_secret = ss, kki_enctype = arp_enctype p,
        kki_as_req_der = arp_as_req_der p, kki_kem_signed_data = kri_signed_data wrapped\<rparr> O2 = Inr key"
proof -
  from assms(1) obtain content wrapped v info ss u where
    A: "decode_kem_rep_content rep = Inr content" "dec_kem_rep_info (pe_codec E) content = Inr wrapped"
      "verify_signed_data (pe_crypto E) (kri_signed_data wrapped) = Inr v"
      "vsd_content_type v = ID_PKINIT_KEM_KEY_DATA"
      "has_pq_certificate E s \<longrightarrow> is_pq_signature_algorithm (pe_crypto E) (vsd_signer_algorithm_oid v)"
      "validate_kdc_chain E s (vsd_signer_cert_der v) (vsd_all_certs_der v) = Inr ()"
      "dec_kdc_kem_info (pe_codec E) (vsd_content v) = Inr info"
      "kem_decapsulate (pe_kem E) k (kki_kemct info) = Inr ss"
      "pkinit_kem_kdf (pe_codec E) (pe_kdf E) \<lparr>kki_shared_secret = ss, kki_enctype = arp_enctype p,
        kki_as_req_der = arp_as_req_der p, kki_kem_signed_data = kri_signed_data wrapped\<rparr> O2 = Inr key"
    and c: "check_kem_info E (kkp_algorithm k) (arp_nonce p) info = Inr u"
    by (auto simp: open_kem_rep_def res)
  from check_kem_info_Inr[OF c assms(2)] have
    "info = \<lparr>kki_kem_algorithm = \<lparr>ai_oid = kem_oid (pe_oids E) (kkp_algorithm k), ai_params = None\<rparr>,
        kki_kemct = kki_kemct info,
        kki_kdf_algorithm = \<lparr>ai_oid = pe_oids E ID_ALG_HKDF_WITH_SHA512, ai_params = None\<rparr>,
        kki_nonce = Some (uint (arp_nonce p)), kki_server_nonce = None\<rparr>"
    "length (kki_kemct info) = ciphertext_len (kkp_algorithm k)"
    by (cases info; simp)+
  with A show ?thesis by blast
qed

lemma kem_key_irrelevant [simp]:
  "has_pq_certificate E (s\<lparr>cl_kem_key := x\<rparr>) = has_pq_certificate E s"
  "validate_kdc_chain E (s\<lparr>cl_kem_key := x\<rparr>) c cs = validate_kdc_chain E s c cs"
  by (simp_all add: has_pq_certificate_def validate_kdc_chain_def consult_broker_def
      cong: option.case_cong sum.case_cong)

text \<open>Switching to a KEM keeps the Diffie-Hellman key (the other direction drops both), and a reply is
  taken by its own form: a classic reply that was acceptable before the switch still is.\<close>

lemma dh_key_outlives_switch:
  assumes "\<not> is_kem_rep rep"
  shows "snd (process_as_rep E (set_kem_algorithm s alg) rep p O2) = snd (process_as_rep E s rep p O2)"
proof -
  have "process_dh_rep E (set_kem_algorithm s alg) info p O2 = process_dh_rep E s info p O2" for info
    by (simp add: process_dh_rep_def dh_reply_key_def validate_kdc_chain_def consult_broker_def
        set_kem_algorithm_def cong: option.case_cong sum.case_cong)
  with assms show ?thesis by (simp add: process_as_rep_def)
qed

text \<open>C7: A KEM reply yields a key only if everything holds: the client has a KEM key for the
  exchange, the reply's SignedData verifies and is of the KEM type, a client with a
  post-quantum certificate got a post-quantum signature, the KDC is trusted, the signed
  content names this request's nonce, the algorithm of the client's key with no parameters,
  the one KDF that was offered and a ciphertext of the exact length, and has no server nonce;
  the key is the HKDF derivation from the decapsulated secret.  The decapsulation key is gone
  afterwards, whether or not the reply was good, so no second KEM reply is accepted for the same
  request, from whatever libraries; what could still be accepted is a classic reply by a client
  that has kept a Diffie-Hellman key, the one it made for an earlier request.\<close>
theorem kem_reply_sound:
  assumes "process_as_rep E s rep p O2 = (t, r)" "is_kem_rep rep" "codec_ok (pe_codec E)"
  shows "cl_kem_key t = None \<and>
    (\<forall>E2 O3 rep2 p2. is_ok (snd (process_as_rep E2 t rep2 p2 O3)) \<longrightarrow>
       \<not> is_kem_rep rep2 \<and> cl_dh_key s \<noteq> None) \<and>
    (\<forall>key. r = Inr key \<longrightarrow> (\<exists>k content wrapped v info ss. cl_kem_key s = Some k \<and>
      decode_kem_rep_content rep = Inr content \<and> dec_kem_rep_info (pe_codec E) content = Inr wrapped \<and>
      verify_signed_data (pe_crypto E) (kri_signed_data wrapped) = Inr v \<and>
      vsd_content_type v = ID_PKINIT_KEM_KEY_DATA \<and>
      (has_pq_certificate E s \<longrightarrow> is_pq_signature_algorithm (pe_crypto E) (vsd_signer_algorithm_oid v)) \<and>
      validate_kdc_chain E s (vsd_signer_cert_der v) (vsd_all_certs_der v) = Inr () \<and>
      dec_kdc_kem_info (pe_codec E) (vsd_content v) = Inr info \<and>
      info = \<lparr>kki_kem_algorithm = \<lparr>ai_oid = kem_oid (pe_oids E) (kkp_algorithm k), ai_params = None\<rparr>,
        kki_kemct = kki_kemct info,
        kki_kdf_algorithm = \<lparr>ai_oid = pe_oids E ID_ALG_HKDF_WITH_SHA512, ai_params = None\<rparr>,
        kki_nonce = Some (uint (arp_nonce p)), kki_server_nonce = None\<rparr> \<and>
      length (kki_kemct info) = ciphertext_len (kkp_algorithm k) \<and>
      kem_decapsulate (pe_kem E) k (kki_kemct info) = Inr ss \<and>
      pkinit_kem_kdf (pe_codec E) (pe_kdf E) \<lparr>kki_shared_secret = ss, kki_enctype = arp_enctype p,
        kki_as_req_der = arp_as_req_der p, kki_kem_signed_data = kri_signed_data wrapped\<rparr> O2 = Inr key))"
proof -
  note t = process_as_rep_kem[OF assms(1,2)]
  then have n: "cl_kem_key t = None" by simp
  have once: "\<not> is_kem_rep rep2 \<and> cl_dh_key s \<noteq> None" if ok: "is_ok (snd (process_as_rep E2 t rep2 p2 O3))" for E2 O3 rep2 p2
  proof -
    from ok obtain t2 key2 where r2: "process_as_rep E2 t rep2 p2 O3 = (t2, Inr key2)"
      by (metis is_ok_iff prod.collapse)
    with n have k: "\<not> is_kem_rep rep2" by (auto simp: process_as_rep_def process_kem_rep_def)
    from process_as_rep_dh[OF r2 k] have "cl_dh_key t \<noteq> None" using process_dh_needs_key by blast
    with k t show ?thesis by simp
  qed
  have "open_kem_rep E t k rep p O2 = open_kem_rep E s k rep p O2" for k
    using t by (simp add: open_kem_rep_def)
  with t have opened: "\<exists>k. cl_kem_key s = Some k \<and> open_kem_rep E s k rep p O2 = Inr key" if "r = Inr key" for key
    using that by simp
  show ?thesis
  proof (intro conjI allI impI, goal_cases)
    case (4 key)
    then obtain k where k: "cl_kem_key s = Some k" "open_kem_rep E s k rep p O2 = Inr key" using opened by blast
    then show ?case using open_kem_rep_Inr[OF k(2) assms(3)] by (intro exI[of _ k]) simp
  qed (use n once in simp_all)
qed

end
