(* ===== verification/Server.thy ===== *)
theory Server
  imports Messages
begin

text \<open>
  \<open>pkinit-core/src/server.rs\<close>: the KDC's state with its cached advertisement, the verification
  of a request (signed or anonymous), the two reply builders and the list of algorithms the
  KDC advertises.
\<close>

section \<open>State and advertisement\<close>

record verified_request =
  vr_client_cert_der :: bytes
  vr_client_dh_public :: bytes
  vr_nonce :: u32
  vr_supported_kdfs :: "oid list"
  vr_client_dh_nonce :: "bytes option"
  vr_is_anonymous :: bool
  vr_key_exchange :: key_exchange_type

record kdc_state =
  ks_identity :: pkinit_identity
  ks_trust_store :: trust_store
  ks_config :: kdc_config
  ks_supported_algorithms_hint :: "bytes option"
  ks_td_ephemeral_key_params :: bytes

definition group_algorithm_identifier :: "pkinit_env \<Rightarrow> dh_group \<Rightarrow> alg_id res" where
  "group_algorithm_identifier E grp =
     rbind (group_algorithm_oid_and_params (pe_oids E) (pe_codec E) (pe_dh E) grp) (\<lambda>(algorithm, parameters).
     rbind (asn1 ''algorithm OID'' (oid_new (pe_codec E) algorithm)) (\<lambda>alg_oid.
       Inr \<lparr>ai_oid = alg_oid, ai_params = parameters\<rparr>))"

definition kem_algorithm_identifier :: "pkinit_env \<Rightarrow> kem_algorithm \<Rightarrow> alg_id res" where
  "kem_algorithm_identifier E alg =
     rbind (asn1 ''KEM OID'' (oid_new (pe_codec E) (kem_oid (pe_oids E) alg))) (\<lambda>algorithm.
       Inr \<lparr>ai_oid = algorithm, ai_params = None\<rparr>)"

text \<open>\<open>sort_by_key\<close> with the reversed strength, a stable sort.\<close>

definition advertised_kems :: "kdc_config \<Rightarrow> kem_algorithm list" where
  "advertised_kems cfg =
     sort_key (\<lambda>alg. - int (strength_order alg)) (kc_supported_kem_algorithms cfg) @
     kc_supported_composite_kem_algorithms cfg"

definition advertised_groups :: "kdc_config \<Rightarrow> dh_group list" where
  "advertised_groups cfg =
     filter (\<lambda>grp. \<not> kc_require_kem cfg \<and> kc_dh_min_bits cfg \<le> min_bits grp)
       [EcP521, EcP384, EcP256, Oakley4096, Oakley2048]"

definition acceptable_key_establishment_alg_ids :: "pkinit_env \<Rightarrow> kdc_config \<Rightarrow> alg_id list res" where
  "acceptable_key_establishment_alg_ids E cfg =
     rbind (traverse (kem_algorithm_identifier E) (advertised_kems cfg)) (\<lambda>kem_ids.
     rbind (traverse (group_algorithm_identifier E) (advertised_groups cfg)) (\<lambda>group_ids.
       Inr (kem_ids @ group_ids)))"

definition make_supported_algorithms_hint :: "pkinit_env \<Rightarrow> kdc_config \<Rightarrow> bytes option res" where
  "make_supported_algorithms_hint E cfg =
     rbind (acceptable_key_establishment_alg_ids E cfg) (\<lambda>alg_ids.
       if alg_ids = [] then Inr None
       else rbind (encode_pkinit_hint_alg_ids (pe_codec E) alg_ids) (\<lambda>h. Inr (Some h)))"

definition make_td_ephemeral_key_params :: "pkinit_env \<Rightarrow> kdc_config \<Rightarrow> bytes res" where
  "make_td_ephemeral_key_params E cfg =
     rbind (acceptable_key_establishment_alg_ids E cfg) (\<lambda>alg_ids.
       asn1 ''encode TD params'' (enc_td_dh_parameters (pe_msgs E) alg_ids))"

definition effective_kdc_config :: "kdc_config \<Rightarrow> kdc_config" where
  "effective_kdc_config cfg =
     (if kc_require_kem cfg \<and> kc_supported_kem_algorithms cfg = [] \<and>
         kc_supported_composite_kem_algorithms cfg = []
      then cfg\<lparr>kc_supported_kem_algorithms := algorithms_at_or_above MlKem512\<rparr> else cfg)"

definition kdc_new :: "pkinit_env \<Rightarrow> pkinit_identity \<Rightarrow> trust_store \<Rightarrow> kdc_config \<Rightarrow> kdc_state res" where
  "kdc_new E ident store cfg0 =
     (let cfg = effective_kdc_config cfg0 in
      rbind (make_supported_algorithms_hint E cfg) (\<lambda>hint.
      rbind (make_td_ephemeral_key_params E cfg) (\<lambda>td.
        Inr \<lparr>ks_identity = ident, ks_trust_store = store, ks_config = cfg,
             ks_supported_algorithms_hint = hint, ks_td_ephemeral_key_params = td\<rparr>)))"

definition build_supported_algorithms_hint :: "kdc_state \<Rightarrow> bytes option" where
  "build_supported_algorithms_hint k = ks_supported_algorithms_hint k"

definition build_td_ephemeral_key_params :: "kdc_state \<Rightarrow> bytes" where
  "build_td_ephemeral_key_params k = ks_td_ephemeral_key_params k"

definition accepts_kem :: "kdc_state \<Rightarrow> kem_algorithm \<Rightarrow> bool" where
  "accepts_kem k alg =
     (if is_composite alg then alg \<in> set (kc_supported_composite_kem_algorithms (ks_config k))
      else kc_supported_kem_algorithms (ks_config k) = [] \<or>
           alg \<in> set (kc_supported_kem_algorithms (ks_config k)))"

section \<open>Verifying a request\<close>

text \<open>The KEM algorithm of a public key, which must have no parameters.\<close>

definition detect_spki_algorithm :: "pkinit_env \<Rightarrow> bytes \<Rightarrow> kem_algorithm option res" where
  "detect_spki_algorithm E spki_der =
     rbind (asn1 ''decode SPKI'' (dec_spki (pe_msgs E) spki_der)) (\<lambda>key.
       case kem_from_oid (pe_oids E) (ai_oid (spki_algorithm key)) of
         None \<Rightarrow> Inr None
       | Some kem_alg \<Rightarrow>
           if ai_params (spki_algorithm key) \<noteq> None then
             Inl (KemAlgorithmNotSupported (parameter_set_name kem_alg @
               '' key with algorithm parameters (they must be absent)''))
           else Inr (Some kem_alg))"

text \<open>The content, the signer's certificate (empty without one) and whether nobody signed.\<close>

definition open_auth_pack :: "pkinit_env \<Rightarrow> kdc_state \<Rightarrow> bytes \<Rightarrow> (bytes \<times> bytes \<times> bool) res" where
  "open_auth_pack E k signed_auth_pack =
     (let V = pe_crypto E;
          unsigned = ok_opt (case extract_unsigned_content V signed_auth_pack of
             Inr u \<Rightarrow> Inr u | Inl _ \<Rightarrow> extract_bare_content V signed_auth_pack)
      in case unsigned of
           Some (content, ct) \<Rightarrow>
             rbind (ensure (ct = pe_oids E ID_PKINIT_AUTH_DATA)
                      (CmsContentTypeMismatch ''id-pkinit-authData'' (debug_oid ct))) (\<lambda>_.
               Inr (content, [], True))
         | None \<Rightarrow>
             rbind (verify_signed_data V signed_auth_pack) (\<lambda>v.
             rbind (ensure (vsd_content_type v = pe_oids E ID_PKINIT_AUTH_DATA)
                      (CmsContentTypeMismatch ''id-pkinit-authData'' (debug_oid (vsd_content_type v)))) (\<lambda>_.
             rbind (validate_chain (pe_chain E) (ks_trust_store k) (vsd_signer_cert_der v)
                      (vsd_all_certs_der v) (kc_require_crl_checking (ks_config k))) (\<lambda>_.
             rbind (if kc_require_eku (ks_config k) then
                      rbind (verify_client_eku (pe_oids E) (pe_x509 E) (vsd_signer_cert_der v)
                               (kc_accept_secondary_eku (ks_config k))) (\<lambda>eku_result.
                        ensure (eku_result = Authorized) (EkuMismatch ''client EKU check failed''))
                    else Inr ()) (\<lambda>_.
               Inr (vsd_content v, vsd_signer_cert_der v, False))))))"

text \<open>The two checksums over the request body, when the caller has the body.\<close>

definition check_body :: "pkinit_env \<Rightarrow> pk_authenticator \<Rightarrow> bytes option \<Rightarrow> unit res" where
  "check_body E pk_auth req_body_der =
     (let pa_checksum2_info = map_option (\<lambda>c. (pc2_checksum c, ai_oid (pc2_algorithm c)))
            (pka_pa_checksum2 pk_auth)
      in case req_body_der of
           None \<Rightarrow> Inr ()
         | Some body \<Rightarrow>
             (case pka_pa_checksum pk_auth of
                Some pa_checksum \<Rightarrow> verify_checksums (pe_hash E) body pa_checksum pa_checksum2_info
              | None \<Rightarrow>
                  (case pa_checksum2_info of
                     Some (checksum2_bytes, o2) \<Rightarrow> verify_checksum2 (pe_hash E) body checksum2_bytes o2
                   | None \<Rightarrow> Inr ())))"

definition request_key_exchange ::
    "pkinit_env \<Rightarrow> kdc_state \<Rightarrow> bytes \<Rightarrow> bytes option \<Rightarrow> key_exchange_type res" where
  "request_key_exchange E k client_dh_public client_dhnonce =
     rbind (detect_spki_algorithm E client_dh_public) (\<lambda>detected.
       case detected of
         Some kem_alg \<Rightarrow>
           if \<not> accepts_kem k kem_alg then Inl (KemAlgorithmNotSupported (parameter_set_name kem_alg))
           else if client_dhnonce \<noteq> None then Inl KemNonceNotAllowed
           else Inr (KexKem kem_alg)
       | None \<Rightarrow>
           if kc_require_kem (ks_config k) then
             Inl (DhParamsRejected ''classic DH/ECDH key exchange refused: pkinit_require_kem is set'')
           else rbind (validate_dh_params (pe_dh E) client_dh_public (kc_dh_min_bits (ks_config k)))
                  (\<lambda>grp. Inr (KexDh grp)))"

definition verify_as_req ::
    "pkinit_env \<Rightarrow> kdc_state \<Rightarrow> bytes \<Rightarrow> bytes option \<Rightarrow> int \<Rightarrow> int \<Rightarrow> verified_request res" where
  "verify_as_req E k pa_req_der req_body_der max_skew current_time =
     rbind (asn1 ''decode PA-PK-AS-REQ'' (dec_pa_pk_as_req (pe_msgs E) pa_req_der)) (\<lambda>pa_req.
     rbind (open_auth_pack E k (par_signed_auth_pack pa_req))
       (\<lambda>(auth_pack_der, client_cert_der, anonymous).
     rbind (asn1 ''decode AuthPack'' (dec_auth_pack (pe_msgs E) auth_pack_der)) (\<lambda>ap.
     let pk_auth = ap_pk_authenticator ap;
         client_time = time_to_unix (pe_msgs E) (pka_ctime pk_auth) in
     rbind (ensure (\<not> \<bar>client_time - current_time\<bar> > max_skew) (ClockSkew client_time max_skew)) (\<lambda>_.
     rbind (ensure (\<not> (kc_require_freshness (ks_config k) \<and> pka_freshness_token pk_auth = None))
              (Config ''freshness token required but not provided by client'')) (\<lambda>_.
     rbind (check_body E pk_auth req_body_der) (\<lambda>_.
     rbind (ok_or (ap_client_public_value ap) (DhParamsRejected ''missing client DH public value''))
       (\<lambda>public_value.
     rbind (asn1 ''encode client SPKI'' (element_to_der (pe_codec E) public_value)) (\<lambda>client_dh_public.
     rbind (request_key_exchange E k client_dh_public (ap_client_dhnonce ap)) (\<lambda>kex.
     rbind (decode_nonce (pe_codec E) (pka_nonce pk_auth)) (\<lambda>nonce.
       Inr \<lparr>vr_client_cert_der = client_cert_der, vr_client_dh_public = client_dh_public, vr_nonce = nonce,
            vr_supported_kdfs = (case ap_supported_kdfs ap of Some kdfs \<Rightarrow> kdfs | None \<Rightarrow> []),
            vr_client_dh_nonce = ap_client_dhnonce ap, vr_is_anonymous = anonymous,
            vr_key_exchange = kex\<rparr>))))))))))"

section \<open>Building the reply\<close>

definition kdc_sign :: "pkinit_env \<Rightarrow> kdc_state \<Rightarrow> bytes \<Rightarrow> oid \<Rightarrow> bytes res" where
  "kdc_sign E k content content_oid =
     (let ident = ks_identity k in
      rbind (ok_or (id_signing_key ident) (IdentityLoadFailed ''KDC identity has no signing key''))
        (\<lambda>signer_key.
        create_signed_data (pe_crypto E) content content_oid signer_key (id_cert_der ident)
          (id_chain ident) (digest_for_signer (pe_crypto E) (id_cert_der ident))))"

definition build_kem_rep ::
    "pkinit_env \<Rightarrow> kdc_state \<Rightarrow> verified_request \<Rightarrow> build_as_rep_params \<Rightarrow> o2k \<Rightarrow> kem_algorithm \<Rightarrow>
     (bytes \<times> derived_key) res" where
  "build_kem_rep E k verified p O2 kem_alg =
     rbind (ensure (\<not> (vr_supported_kdfs verified \<noteq> [] \<and>
                        \<not> list_ex (\<lambda>kdf. kdf = pe_oids E ID_ALG_HKDF_WITH_SHA512) (vr_supported_kdfs verified)))
              NoAcceptableKdf) (\<lambda>_.
     rbind (encapsulate_for_client (pe_kem E) (vr_client_dh_public verified) kem_alg (pe_keygen_seed E))
       (\<lambda>(kemct, shared_secret).
     rbind (asn1 ''KEM OID'' (oid_new (pe_codec E) (kem_oid (pe_oids E) kem_alg))) (\<lambda>kem_alg_oid.
     rbind (asn1 ''KDF OID'' (oid_new (pe_codec E) (pe_oids E ID_ALG_HKDF_WITH_SHA512))) (\<lambda>kdf_oid.
     rbind (asn1 ''encode KDCKEMInfo'' (enc_kdc_kem_info (pe_codec E)
              \<lparr>kki_kem_algorithm = \<lparr>ai_oid = kem_alg_oid, ai_params = None\<rparr>, kki_kemct = kemct,
               kki_kdf_algorithm = \<lparr>ai_oid = kdf_oid, ai_params = None\<rparr>,
               kki_nonce = Some (encode_nonce (brp_nonce p)), kki_server_nonce = None\<rparr>))
       (\<lambda>kdc_kem_info_der.
     rbind (kdc_sign E k kdc_kem_info_der ID_PKINIT_KEM_KEY_DATA) (\<lambda>kem_signed_data.
     rbind (encode_kem_rep_wrapper (pe_codec E) \<lparr>kri_signed_data = kem_signed_data\<rparr>) (\<lambda>pa_rep_der.
     rbind (pkinit_kem_kdf (pe_codec E) (pe_kdf E)
              \<lparr>kki_shared_secret = shared_secret, kki_enctype = brp_enctype p,
               kki_as_req_der = brp_as_req_der p, kki_kem_signed_data = kem_signed_data\<rparr> O2) (\<lambda>key.
       Inr (pa_rep_der, key)))))))))"

definition extract_pub_key_bits :: "pkinit_env \<Rightarrow> bytes \<Rightarrow> bytes res" where
  "extract_pub_key_bits E spki_der =
     rbind (asn1 ''decode SPKI'' (dec_spki (pe_msgs E) spki_der)) (\<lambda>key.
       Inr (spki_subject_public_key key))"

text \<open>
  The selected KDF's identifier goes through \<open>ObjectIdentifier::new(..).unwrap()\<close>; it is one of
  the constants of \<open>KDF_PREFERENCE_ORDER\<close>, so the panic is a failure of the library's own
  table and is the \<open>Asn1\<close> value here.
\<close>

definition selected_kdf_id :: "pkinit_env \<Rightarrow> oid option \<Rightarrow> oid option res" where
  "selected_kdf_id E selected =
     (case selected of
        None \<Rightarrow> Inr None
      | Some kdf_oid \<Rightarrow> rbind (asn1 ''unwrap'' (oid_new (pe_codec E) kdf_oid)) (\<lambda>o1. Inr (Some o1)))"

definition build_dh_rep ::
    "pkinit_env \<Rightarrow> kdc_state \<Rightarrow> verified_request \<Rightarrow> build_as_rep_params \<Rightarrow> o2k \<Rightarrow> dh_group \<Rightarrow>
     (bytes \<times> derived_key) res" where
  "build_dh_rep E k verified p O2 grp =
     rbind (dh_generate (pe_dh E) grp (pe_keygen_seed E)) (\<lambda>kdc_dh_key.
     rbind (dh_public_key_spki_der (pe_dh E) kdc_dh_key) (\<lambda>kdc_spki_der.
     rbind (derive_shared_secret (pe_dh E) kdc_dh_key (vr_client_dh_public verified)) (\<lambda>shared_secret.
     rbind (extract_pub_key_bits E kdc_spki_der) (\<lambda>kdc_pub_bits.
     rbind (asn1 ''BitStringRef'' (bit_string_new (pe_msgs E) kdc_pub_bits)) (\<lambda>bits.
     rbind (asn1 ''encode KDCDHKeyInfo'' (enc_kdc_dh_key_info (pe_msgs E)
              \<lparr>kdk_subject_public_key = bits, kdk_nonce = encode_nonce (brp_nonce p),
               kdk_dh_key_expiration = None\<rparr>)) (\<lambda>kdc_dh_key_info_der.
     rbind (kdc_sign E k kdc_dh_key_info_der (pe_oids E ID_PKINIT_DHKEY_DATA)) (\<lambda>signed_kdc_dh.
     rbind (with_err Ossl ''random bytes'' (pe_rand_bytes E 32)) (\<lambda>server_dh_nonce.
     let selected_kdf = pick_kdf_alg (pe_oids E) (vr_supported_kdfs verified) in
     rbind (selected_kdf_id E selected_kdf) (\<lambda>kdf_alg_id.
     rbind (asn1 ''encode PA-PK-AS-REP'' (enc_pa_pk_as_rep (pe_msgs E)
              (DhInfo \<lparr>dri_dh_signed_data = signed_kdc_dh, dri_server_dhnonce = Some server_dh_nonce,
                      dri_kdf = kdf_alg_id\<rparr>))) (\<lambda>pa_rep_der.
     rbind (case selected_kdf of
              Some kdf_oid \<Rightarrow>
                rbind (encode_principal_for_kdf (pe_kdf E) (brp_client_name p)) (\<lambda>party_u.
                rbind (encode_principal_for_kdf (pe_kdf E) (brp_server_name p)) (\<lambda>party_v.
                  pkinit_kdf (pe_oids E) (pe_codec E) (pe_kdf E)
                    \<lparr>ki_shared_secret = shared_secret, ki_kdf_oid = kdf_oid, ki_enctype = brp_enctype p,
                     ki_party_u_info = party_u, ki_party_v_info = party_v,
                     ki_as_req_der = brp_as_req_der p, ki_pa_pk_as_rep_der = pa_rep_der\<rparr> O2))
            | None \<Rightarrow>
                let combined_nonce = (case vr_client_dh_nonce verified of Some n \<Rightarrow> n | None \<Rightarrow> []) @
                      server_dh_nonce
                in octetstring2key (shared_secret @ combined_nonce) (brp_enctype p) O2) (\<lambda>key.
       Inr (pa_rep_der, key))))))))))))"

definition build_as_rep ::
    "pkinit_env \<Rightarrow> kdc_state \<Rightarrow> verified_request \<Rightarrow> build_as_rep_params \<Rightarrow> o2k \<Rightarrow>
     (bytes \<times> derived_key) res" where
  "build_as_rep E k verified p O2 =
     (case vr_key_exchange verified of
        KexDh grp \<Rightarrow> build_dh_rep E k verified p O2 grp
      | KexKem kem_alg \<Rightarrow> build_kem_rep E k verified p O2 kem_alg)"

section \<open>Facts\<close>

lemma open_auth_pack_anonymous:
  "open_auth_pack E k d = Inr (content, cert, True) \<Longrightarrow>
   cert = [] \<and>
   (extract_unsigned_content (pe_crypto E) d = Inr (content, pe_oids E ID_PKINIT_AUTH_DATA) \<or>
    extract_bare_content (pe_crypto E) d = Inr (content, pe_oids E ID_PKINIT_AUTH_DATA))"
  by (auto simp: open_auth_pack_def Let_def res split: option.splits sum.splits prod.splits)

lemma open_auth_pack_signed:
  assumes "open_auth_pack E k d = Inr (content, cert, False)"
  shows "\<not> is_ok (extract_unsigned_content (pe_crypto E) d) \<and> \<not> is_ok (extract_bare_content (pe_crypto E) d) \<and>
    (\<exists>v. verify_signed_data (pe_crypto E) d = Inr v \<and> content = vsd_content v \<and>
      cert = vsd_signer_cert_der v \<and> vsd_content_type v = pe_oids E ID_PKINIT_AUTH_DATA \<and>
      validate_chain (pe_chain E) (ks_trust_store k) cert (vsd_all_certs_der v)
        (kc_require_crl_checking (ks_config k)) = Inr () \<and>
      (kc_require_eku (ks_config k) \<longrightarrow>
         verify_client_eku (pe_oids E) (pe_x509 E) cert (kc_accept_secondary_eku (ks_config k)) = Inr Authorized))"
proof -
  let ?u = "ok_opt (case extract_unsigned_content (pe_crypto E) d of
     Inr u \<Rightarrow> Inr u | Inl _ \<Rightarrow> extract_bare_content (pe_crypto E) d)"
  have none: "?u = None"
    using assms by (cases ?u) (auto simp: open_auth_pack_def Let_def res)
  then have n: "\<not> is_ok (extract_unsigned_content (pe_crypto E) d) \<and> \<not> is_ok (extract_bare_content (pe_crypto E) d)"
    by (cases "extract_unsigned_content (pe_crypto E) d"; cases "extract_bare_content (pe_crypto E) d") auto
  have "\<exists>v. verify_signed_data (pe_crypto E) d = Inr v \<and> content = vsd_content v \<and>
      cert = vsd_signer_cert_der v \<and> vsd_content_type v = pe_oids E ID_PKINIT_AUTH_DATA \<and>
      validate_chain (pe_chain E) (ks_trust_store k) cert (vsd_all_certs_der v)
        (kc_require_crl_checking (ks_config k)) = Inr () \<and>
      (kc_require_eku (ks_config k) \<longrightarrow>
         verify_client_eku (pe_oids E) (pe_x509 E) cert (kc_accept_secondary_eku (ks_config k)) = Inr Authorized)"
    using assms none by (auto simp: open_auth_pack_def Let_def res split: if_splits)
  with n show ?thesis by blast
qed

text \<open>What \<open>check_body\<close> leaves: each checksum the authenticator has is one of the body.\<close>

lemma check_body_Inr:
  assumes "check_body E pk_auth (Some b) = Inr u" "hash_ok (pe_hash E)"
  shows "(\<forall>c. pka_pa_checksum pk_auth = Some c \<longrightarrow>
      hash_data (pe_hash E) ''sha256'' b = Inr c \<or> hash_data (pe_hash E) ''sha1'' b = Inr c) \<and>
    (\<forall>c. pka_pa_checksum2 pk_auth = Some c \<longrightarrow>
      (\<exists>alg. digest_oid_to_name (pe_hash E) (ai_oid (pc2_algorithm c)) = Some alg \<and>
         hash_data (pe_hash E) alg b = Inr (pc2_checksum c)))"
proof (cases "pka_pa_checksum pk_auth")
  case None
  with assms show ?thesis
    by (auto simp: check_body_def Let_def verify_checksum2_Inr split: option.splits)
next
  case (Some c)
  let ?c2 = "map_option (\<lambda>c. (pc2_checksum c, ai_oid (pc2_algorithm c))) (pka_pa_checksum2 pk_auth)"
  from Some assms(1) have v: "verify_checksums (pe_hash E) b c ?c2 = Inr ()"
    by (simp add: check_body_def Let_def)
  then obtain cs where g: "generate_checksums (pe_hash E) b = Inr cs"
    by (auto simp: verify_checksums_def res)
  from v[unfolded verify_checksums_Inr[OF assms(2) g]] g[unfolded generate_checksums_Inr] Some
  show ?thesis by auto
qed

lemma request_key_exchange_kem:
  "request_key_exchange E k pub dhn = Inr (KexKem alg) \<Longrightarrow>
   accepts_kem k alg \<and> dhn = None \<and>
   (\<exists>key. dec_spki (pe_msgs E) pub = Inr key \<and> kem_from_oid (pe_oids E) (ai_oid (spki_algorithm key)) = Some alg \<and>
      ai_params (spki_algorithm key) = None)"
  by (auto simp: request_key_exchange_def detect_spki_algorithm_def res option_case_Inr split: if_splits option.splits)

lemma request_key_exchange_dh:
  "request_key_exchange E k pub dhn = Inr (KexDh grp) \<Longrightarrow>
   \<not> kc_require_kem (ks_config k) \<and>
   validate_dh_params (pe_dh E) pub (kc_dh_min_bits (ks_config k)) = Inr grp \<and>
   (\<exists>key. dec_spki (pe_msgs E) pub = Inr key \<and> kem_from_oid (pe_oids E) (ai_oid (spki_algorithm key)) = None)"
  by (auto simp: request_key_exchange_def detect_spki_algorithm_def res option_case_Inr split: if_splits)

lemma sort_key_empty [simp]: "sort_key f xs = [] \<longleftrightarrow> xs = []"
  by (metis set_empty set_sort)

lemma advertised_kems_set:
  "set (advertised_kems cfg) = set (kc_supported_kem_algorithms cfg) \<union> set (kc_supported_composite_kem_algorithms cfg)"
  by (simp add: advertised_kems_def)

lemma kdc_new_config: "kdc_new E ident store cfg = Inr k \<Longrightarrow> ks_config k = effective_kdc_config cfg"
  by (auto simp: kdc_new_def Let_def res)

text \<open>The two lists of a configuration hold what their names say.\<close>

definition kem_lists_ok :: "kdc_config \<Rightarrow> bool" where
  "kem_lists_ok cfg \<longleftrightarrow> list_all (\<lambda>a. \<not> is_composite a) (kc_supported_kem_algorithms cfg) \<and>
     list_all is_composite (kc_supported_composite_kem_algorithms cfg)"

lemma kem_lists_ok_effective: "kem_lists_ok cfg \<Longrightarrow> kem_lists_ok (effective_kdc_config cfg)"
  using algorithms_at_or_above_set[of MlKem512]
  by (auto simp: kem_lists_ok_def effective_kdc_config_def list_all_iff)

lemma sorted_map_neg:
  "sorted (map (\<lambda>a. - int (f a)) xs) \<Longrightarrow> sorted (rev (map f xs))"
  by (induction xs) (auto simp: sorted_append)

section \<open>Properties\<close>

text \<open>C8: The KDC accepts a request only after every check of the protocol: the content is
  PKINIT's; if anyone signed it, the signature verified and the signer's chain validated under
  the configured revocation policy and its key purpose was accepted where that is required;
  only a message that nobody signed is anonymous, never one whose signature failed; the clock
  is within the skew; a required freshness token is there; where the caller gave the request
  body, each checksum the request carries is one of that body (\<open>paChecksum\<close> its SHA-256 or SHA-1,
  \<open>paChecksum2\<close> under the digest it names, which the library knows); and the key exchange obeys
  the configuration (a KEM key only of an accepted algorithm, without parameters and without a
  DH nonce; Diffie-Hellman only with good parameters and never under \<open>pkinit_require_kem\<close>).\<close>
theorem verify_as_req_sound:
  assumes "verify_as_req E k d body skew now = Inr v" "hash_ok (pe_hash E)"
  shows "\<exists>rq content ap. dec_pa_pk_as_req (pe_msgs E) d = Inr rq \<and> dec_auth_pack (pe_msgs E) content = Inr ap \<and>
    (vr_is_anonymous v \<longrightarrow> vr_client_cert_der v = [] \<and>
       (extract_unsigned_content (pe_crypto E) (par_signed_auth_pack rq) = Inr (content, pe_oids E ID_PKINIT_AUTH_DATA) \<or>
        extract_bare_content (pe_crypto E) (par_signed_auth_pack rq) = Inr (content, pe_oids E ID_PKINIT_AUTH_DATA))) \<and>
    (\<not> vr_is_anonymous v \<longrightarrow>
       \<not> is_ok (extract_unsigned_content (pe_crypto E) (par_signed_auth_pack rq)) \<and>
       (\<exists>sd. verify_signed_data (pe_crypto E) (par_signed_auth_pack rq) = Inr sd \<and> content = vsd_content sd \<and>
         vr_client_cert_der v = vsd_signer_cert_der sd \<and> vsd_content_type sd = pe_oids E ID_PKINIT_AUTH_DATA \<and>
         validate_chain (pe_chain E) (ks_trust_store k) (vr_client_cert_der v) (vsd_all_certs_der sd)
           (kc_require_crl_checking (ks_config k)) = Inr () \<and>
         (kc_require_eku (ks_config k) \<longrightarrow>
            verify_client_eku (pe_oids E) (pe_x509 E) (vr_client_cert_der v)
              (kc_accept_secondary_eku (ks_config k)) = Inr Authorized))) \<and>
    \<bar>time_to_unix (pe_msgs E) (pka_ctime (ap_pk_authenticator ap)) - now\<bar> \<le> skew \<and>
    (kc_require_freshness (ks_config k) \<longrightarrow> pka_freshness_token (ap_pk_authenticator ap) \<noteq> None) \<and>
    (\<forall>b c. body = Some b \<and> pka_pa_checksum (ap_pk_authenticator ap) = Some c \<longrightarrow>
       hash_data (pe_hash E) ''sha256'' b = Inr c \<or> hash_data (pe_hash E) ''sha1'' b = Inr c) \<and>
    (\<forall>b c. body = Some b \<and> pka_pa_checksum2 (ap_pk_authenticator ap) = Some c \<longrightarrow>
       (\<exists>alg. digest_oid_to_name (pe_hash E) (ai_oid (pc2_algorithm c)) = Some alg \<and>
          hash_data (pe_hash E) alg b = Inr (pc2_checksum c))) \<and>
    (case vr_key_exchange v of
       KexKem alg \<Rightarrow> accepts_kem k alg \<and> ap_client_dhnonce ap = None \<and>
         (\<exists>key. dec_spki (pe_msgs E) (vr_client_dh_public v) = Inr key \<and>
            kem_from_oid (pe_oids E) (ai_oid (spki_algorithm key)) = Some alg \<and>
            ai_params (spki_algorithm key) = None)
     | KexDh grp \<Rightarrow> \<not> kc_require_kem (ks_config k) \<and>
         validate_dh_params (pe_dh E) (vr_client_dh_public v) (kc_dh_min_bits (ks_config k)) = Inr grp)"
proof -
  from assms(1) obtain rq content cert anon ap pv kex where
    A: "dec_pa_pk_as_req (pe_msgs E) d = Inr rq" "open_auth_pack E k (par_signed_auth_pack rq) = Inr (content, cert, anon)"
      "dec_auth_pack (pe_msgs E) content = Inr ap"
      "\<bar>time_to_unix (pe_msgs E) (pka_ctime (ap_pk_authenticator ap)) - now\<bar> \<le> skew"
      "kc_require_freshness (ks_config k) \<longrightarrow> pka_freshness_token (ap_pk_authenticator ap) \<noteq> None"
      "check_body E (ap_pk_authenticator ap) body = Inr ()"
      "ap_client_public_value ap = Some pv" "element_to_der (pe_codec E) pv = Inr (vr_client_dh_public v)"
      "request_key_exchange E k (vr_client_dh_public v) (ap_client_dhnonce ap) = Inr kex"
      "vr_client_cert_der v = cert" "vr_is_anonymous v = anon" "vr_key_exchange v = kex"
    by (auto simp: verify_as_req_def Let_def res)
  have sums: "(\<forall>b c. body = Some b \<and> pka_pa_checksum (ap_pk_authenticator ap) = Some c \<longrightarrow>
       hash_data (pe_hash E) ''sha256'' b = Inr c \<or> hash_data (pe_hash E) ''sha1'' b = Inr c) \<and>
    (\<forall>b c. body = Some b \<and> pka_pa_checksum2 (ap_pk_authenticator ap) = Some c \<longrightarrow>
       (\<exists>alg. digest_oid_to_name (pe_hash E) (ai_oid (pc2_algorithm c)) = Some alg \<and>
          hash_data (pe_hash E) alg b = Inr (pc2_checksum c)))"
    using A(6) check_body_Inr[OF _ assms(2)] by blast
  have kex: "case kex of
       KexKem alg \<Rightarrow> accepts_kem k alg \<and> ap_client_dhnonce ap = None \<and>
         (\<exists>key. dec_spki (pe_msgs E) (vr_client_dh_public v) = Inr key \<and>
            kem_from_oid (pe_oids E) (ai_oid (spki_algorithm key)) = Some alg \<and>
            ai_params (spki_algorithm key) = None)
     | KexDh grp \<Rightarrow> \<not> kc_require_kem (ks_config k) \<and>
         validate_dh_params (pe_dh E) (vr_client_dh_public v) (kc_dh_min_bits (ks_config k)) = Inr grp"
    using A(9) by (cases kex) (auto dest: request_key_exchange_kem request_key_exchange_dh)
  show ?thesis
  proof (cases anon)
    case True
    from A(2) True open_auth_pack_anonymous[of E k "par_signed_auth_pack rq" content cert] A(1,3-5,10,11)
      kex[folded A(12)] sums show ?thesis
      by (intro exI[of _ rq] exI[of _ content] exI[of _ ap]) simp
  next
    case False
    from A(2) False open_auth_pack_signed[of E k "par_signed_auth_pack rq" content cert] A(1,3-5,10,11)
      kex[folded A(12)] sums show ?thesis
      by (intro exI[of _ rq] exI[of _ content] exI[of _ ap]) simp
  qed
qed

text \<open>A KDC with the default configuration accepts algorithms that it does not advertise.\<close>

lemma accepted_not_advertised:
  assumes "kdc_new E ident store kdc_config_default = Inr k"
  shows "accepts_kem k MlKem768 \<and> MlKem768 \<notin> set (advertised_kems (ks_config k)) \<and>
    EcP256 \<notin> set (advertised_groups (ks_config k))"
proof -
  have "ks_config k = kdc_config_default"
    using assms by (auto simp: kdc_new_def res effective_kdc_config_def kdc_config_default_def Let_def)
  then show ?thesis
    by (simp add: accepts_kem_def advertised_kems_def advertised_groups_def kdc_config_default_def alg_defs)
qed

text \<open>What the KDC advertises it accepts: every advertised KEM passes the check of a request,
  strongest pure KEM first and then the composites in the configured order, no DH group is
  advertised under \<open>pkinit_require_kem\<close>, and an accepted KEM that is not advertised is a pure
  one on a KDC with no configured floor.\<close>
theorem advertised_is_accepted:
  assumes "kdc_new E ident store cfg = Inr k" "kem_lists_ok cfg"
  shows "(alg \<in> set (advertised_kems (ks_config k)) \<longrightarrow> accepts_kem k alg) \<and>
    (accepts_kem k alg \<longrightarrow> alg \<in> set (advertised_kems (ks_config k)) \<or>
       \<not> is_composite alg \<and> kc_supported_kem_algorithms (ks_config k) = []) \<and>
    (kc_require_kem cfg \<longrightarrow> advertised_groups (ks_config k) = [] \<and> advertised_kems (ks_config k) \<noteq> []) \<and>
    sorted (rev (map strength_order (filter (\<lambda>a. \<not> is_composite a) (advertised_kems (ks_config k)))))"
proof -
  let ?c = "ks_config k"
  have c: "?c = effective_kdc_config cfg" by (rule kdc_new_config[OF assms(1)])
  have ok: "\<forall>a\<in>set (kc_supported_kem_algorithms ?c). \<not> is_composite a"
    "\<forall>a\<in>set (kc_supported_composite_kem_algorithms ?c). is_composite a"
    using kem_lists_ok_effective[OF assms(2)] by (simp_all add: kem_lists_ok_def c list_all_iff)
  have "kc_require_kem cfg \<Longrightarrow> advertised_groups ?c = [] \<and> advertised_kems ?c \<noteq> []"
    by (auto simp: algorithms_at_or_above_def strength_order_def advertised_groups_def advertised_kems_def c effective_kdc_config_def)
  moreover have "filter (\<lambda>a. \<not> is_composite a) (advertised_kems ?c)
      = sort_key (\<lambda>alg. - int (strength_order alg)) (kc_supported_kem_algorithms ?c)"
    using ok by (simp add: advertised_kems_def filter_id_conv filter_empty_conv)
  then have "sorted (rev (map strength_order (filter (\<lambda>a. \<not> is_composite a) (advertised_kems ?c))))"
    using sorted_sort_key[of "\<lambda>alg. - int (strength_order alg)" "kc_supported_kem_algorithms ?c"]
    by (simp add: sorted_map_neg)
  ultimately show ?thesis using ok by (auto simp: accepts_kem_def advertised_kems_set)
qed

end
