(* ===== verification/Exchange.thy ===== *)
theory Exchange
  imports Client Server
begin

text \<open>
  Client and KDC together: the request the client builds, as the KDC verifies it, and the KEM
  reply the KDC builds, as the client opens it.  Both sides use the same formats and primitives
  (\<open>same_libraries\<close>), each its own clock, random numbers and certificate path validator.
\<close>

definition same_libraries :: "pkinit_env \<Rightarrow> pkinit_env \<Rightarrow> bool" where
  "same_libraries E K \<longleftrightarrow> pe_crypto K = pe_crypto E \<and> pe_x509 K = pe_x509 E \<and> pe_kem K = pe_kem E \<and>
     pe_dh K = pe_dh E \<and> pe_kdf K = pe_kdf E \<and> pe_msgs K = pe_msgs E"

text \<open>
  What the two sides need beyond \<open>env_ok\<close>: the public key of a KEM key pair is a
  SubjectPublicKeyInfo with the algorithm's identifier and no parameters, and SHA-256 is known
  under its identifier.
\<close>

definition exchange_ok :: "pkinit_env \<Rightarrow> bool" where
  "exchange_ok E \<longleftrightarrow> env_ok E \<and>
     digest_oid_to_name (pe_hash E) (pe_oids E ID_SHA256) = Some ''sha256'' \<and>
     (\<forall>alg r kp p. kem_generate (pe_kem E) alg r = Inr kp \<longrightarrow> kem_public_key_spki_der (pe_kem E) kp = Inr p \<longrightarrow>
        (\<exists>key. dec_spki (pe_msgs E) p = Inr key \<and>
           spki_algorithm key = \<lparr>ai_oid = kem_oid (pe_oids E) alg, ai_params = None\<rparr>))"

lemma exchange_okD:
  assumes "exchange_ok E"
  shows "env_ok E" "cms_ok (pe_crypto E)" "codec_ok (pe_codec E)" "hash_ok (pe_hash E)"
    "oids_ok (pe_oids E)" "kem_ok (pe_kem E)" "msgs_ok (pe_codec E) (pe_msgs E)"
    "digest_oid_to_name (pe_hash E) (pe_oids E ID_SHA256) = Some ''sha256''"
    and "kem_generate (pe_kem E) alg r = Inr kp \<Longrightarrow> kem_public_key_spki_der (pe_kem E) kp = Inr p \<Longrightarrow>
      \<exists>key. dec_spki (pe_msgs E) p = Inr key \<and>
        spki_algorithm key = \<lparr>ai_oid = kem_oid (pe_oids E) alg, ai_params = None\<rparr>"
  using assms by (auto simp: exchange_ok_def env_ok_def)

text \<open>A signer the other side can verify: a certified key and a chain of readable certificates.\<close>

definition signer_ok :: "pkinit_env \<Rightarrow> pkinit_identity \<Rightarrow> bool" where
  "signer_ok E ident \<longleftrightarrow> (\<exists>key. id_signing_key ident = Some key \<and> key_certified (pe_crypto E) key (id_cert_der ident)) \<and>
     (\<forall>c\<in>set (id_chain ident). is_ok (certificate_from_der (cv_cms (pe_crypto E)) c))"

definition client_trusted :: "pkinit_env \<Rightarrow> kdc_state \<Rightarrow> pkinit_identity \<Rightarrow> bool" where
  "client_trusted K k ident \<longleftrightarrow>
     validate_chain (pe_chain K) (ks_trust_store k) (id_cert_der ident) (id_cert_der ident # id_chain ident)
       (kc_require_crl_checking (ks_config k)) = Inr () \<and>
     (kc_require_eku (ks_config k) \<longrightarrow>
        verify_client_eku (pe_oids K) (pe_x509 K) (id_cert_der ident) (kc_accept_secondary_eku (ks_config k))
          = Inr Authorized)"

section \<open>The request\<close>

lemma check_body_generated:
  assumes "exchange_ok E" "build_pk_authenticator E s nonce ctime cusec body = Inr pk_auth"
  shows "check_body E pk_auth (Some body) = Inr () \<and> pka_nonce pk_auth = encode_nonce nonce \<and>
    time_to_unix (pe_msgs E) (pka_ctime pk_auth) = ctime \<and> pka_freshness_token pk_auth = cl_freshness_token s"
proof -
  from assms(2) obtain sums g o1 where A: "generate_checksums (pe_hash E) body = Inr sums"
    "time_from_unix (pe_msgs E) ctime = Some g" "oid_new (pe_codec E) (pe_oids E ID_SHA256) = Inr o1"
    "pk_auth = \<lparr>pka_cusec = cusec, pka_ctime = g, pka_nonce = encode_nonce nonce,
       pka_pa_checksum = Some (cs_sha1 sums), pka_freshness_token = cl_freshness_token s,
       pka_pa_checksum2 = Some \<lparr>pc2_checksum = cs_sha256 sums, pc2_algorithm = \<lparr>ai_oid = o1, ai_params = None\<rparr>\<rparr>\<rparr>"
    by (auto simp: build_pk_authenticator_def res)
  have "o1 = pe_oids E ID_SHA256" by (rule codec_okD(4)[OF exchange_okD(3)[OF assms(1)] A(3)])
  moreover have "hash_data (pe_hash E) ''sha256'' body = Inr (cs_sha256 sums)"
    using A(1) by (simp add: generate_checksums_Inr)
  ultimately show ?thesis
    using verify_checksums_Inr[OF exchange_okD(4)[OF assms(1)] A(1), of "cs_sha1 sums"]
      msgs_okD(7)[OF exchange_okD(7)[OF assms(1)] A(2)] exchange_okD(8)[OF assms(1)] A(4)
    by (simp add: check_body_def)
qed

lemma finish_as_req_kem:
  assumes "exchange_ok E" "finish_as_req E t pk_auth elem None True = Inr req"
    "signer_ok E (cl_identity t)"
  shows "\<exists>d ap. dec_pa_pk_as_req (pe_msgs E) req = Inr \<lparr>par_signed_auth_pack = d\<rparr> \<and>
    (\<exists>alg. verify_signed_data (pe_crypto E) d = Inr \<lparr>vsd_content = ap,
       vsd_content_type = pe_oids E ID_PKINIT_AUTH_DATA, vsd_signer_cert_der = id_cert_der (cl_identity t),
       vsd_all_certs_der = id_cert_der (cl_identity t) # id_chain (cl_identity t),
       vsd_signer_algorithm_oid = alg\<rparr>) \<and>
    \<not> is_ok (extract_unsigned_content (pe_crypto E) d) \<and> \<not> is_ok (extract_bare_content (pe_crypto E) d) \<and>
    dec_auth_pack (pe_msgs E) ap = Inr \<lparr>ap_pk_authenticator = pk_auth, ap_client_public_value = Some elem,
      ap_client_dhnonce = None, ap_supported_kdfs = Some [pe_oids E ID_ALG_HKDF_WITH_SHA512]\<rparr>"
proof -
  note ok = exchange_okD[OF assms(1)]
  let ?I = "cl_identity t"
  from assms(3) obtain key where K: "id_signing_key ?I = Some key" "key_certified (pe_crypto E) key (id_cert_der ?I)"
    and ch: "\<forall>c\<in>set (id_chain ?I). is_ok (certificate_from_der (cv_cms (pe_crypto E)) c)"
    by (auto simp: signer_ok_def)
  have ne: "id_cert_der ?I \<noteq> []" using K(2) cms_okD(4)[OF ok(2)] by (auto simp: key_certified_def)
  from assms(2) obtain kdf ap d where A: "oid_new (pe_codec E) (pe_oids E ID_ALG_HKDF_WITH_SHA512) = Inr kdf"
    "enc_auth_pack (pe_msgs E) \<lparr>ap_pk_authenticator = pk_auth, ap_client_public_value = Some elem,
       ap_client_dhnonce = None, ap_supported_kdfs = Some [kdf]\<rparr> = Inr ap"
    "create_signed_data (pe_crypto E) ap (pe_oids E ID_PKINIT_AUTH_DATA) key (id_cert_der ?I) (id_chain ?I)
       (digest_for_signer (pe_crypto E) (id_cert_der ?I)) = Inr d"
    "enc_pa_pk_as_req (pe_msgs E) \<lparr>par_signed_auth_pack = d\<rparr> = Inr req"
    using ne K(1) by (auto simp: finish_as_req_def request_kdfs_def sign_auth_pack_def res)
  have "kdf = pe_oids E ID_ALG_HKDF_WITH_SHA512" by (rule codec_okD(4)[OF ok(3) A(1)])
  with msgs_okD(1)[OF ok(7) A(2)] msgs_okD(2)[OF ok(7) A(4)]
    created_data_verifies[OF ok(2-5) K(2) ch A(3)] created_data_signed[OF ok(2,3) A(3)]
  show ?thesis by blast
qed

lemma open_auth_pack_signed_ok:
  assumes "\<not> is_ok (extract_unsigned_content (pe_crypto K) d)" "\<not> is_ok (extract_bare_content (pe_crypto K) d)"
    "verify_signed_data (pe_crypto K) d = Inr v" "vsd_content_type v = pe_oids K ID_PKINIT_AUTH_DATA"
    "vsd_signer_cert_der v = id_cert_der ident" "vsd_all_certs_der v = id_cert_der ident # id_chain ident"
    "client_trusted K k ident"
  shows "open_auth_pack K k d = Inr (vsd_content v, id_cert_der ident, False)"
  using assms
  by (cases "extract_unsigned_content (pe_crypto K) d"; cases "extract_bare_content (pe_crypto K) d")
    (auto simp: open_auth_pack_def client_trusted_def)

text \<open>What the KDC reads of a KEM request, whatever its policy.\<close>

lemma kem_request_parts:
  assumes ok: "exchange_ok E" and same: "same_libraries E K"
    and req: "build_as_req E s nonce ctime cusec body = (t, Inr req)"
    and alg: "cc_kem_algorithm (cl_config s) = Some alg" and signer: "signer_ok E (cl_identity s)"
  obtains kp p elem pk_auth d v key where
    "kem_generate (pe_kem E) alg (pe_keygen_seed E) = Inr kp" "kem_public_key_spki_der (pe_kem E) kp = Inr p"
    "t = s\<lparr>cl_key_exchange := Some (KexKem alg), cl_kem_key := Some kp\<rparr>"
    "dec_pa_pk_as_req (pe_msgs K) req = Inr \<lparr>par_signed_auth_pack = d\<rparr>"
    "\<not> is_ok (extract_unsigned_content (pe_crypto K) d)" "\<not> is_ok (extract_bare_content (pe_crypto K) d)"
    "verify_signed_data (pe_crypto K) d = Inr v" "vsd_content_type v = pe_oids K ID_PKINIT_AUTH_DATA"
    "vsd_signer_cert_der v = id_cert_der (cl_identity s)"
    "vsd_all_certs_der v = id_cert_der (cl_identity s) # id_chain (cl_identity s)"
    "dec_auth_pack (pe_msgs K) (vsd_content v) = Inr \<lparr>ap_pk_authenticator = pk_auth, ap_client_public_value = Some elem,
      ap_client_dhnonce = None, ap_supported_kdfs = Some [pe_oids E ID_ALG_HKDF_WITH_SHA512]\<rparr>"
    "element_to_der (pe_codec K) elem = Inr p" "dec_spki (pe_msgs K) p = Inr key"
    "spki_algorithm key = \<lparr>ai_oid = kem_oid (pe_oids K) alg, ai_params = None\<rparr>"
    "check_body K pk_auth (Some body) = Inr ()" "pka_nonce pk_auth = encode_nonce nonce"
    "time_to_unix (pe_msgs K) (pka_ctime pk_auth) = ctime" "pka_freshness_token pk_auth = cl_freshness_token s"
proof -
  have lib: "pe_crypto K = pe_crypto E" "pe_msgs K = pe_msgs E"
    using same by (simp_all add: same_libraries_def)
  from build_as_req_kem_parts[OF req alg] obtain kp p elem pk_auth where
    A: "kem_generate (pe_kem E) alg (pe_keygen_seed E) = Inr kp" "kem_public_key_spki_der (pe_kem E) kp = Inr p"
      "element_from_der (pe_codec E) p = Inr elem" "build_pk_authenticator E s nonce ctime cusec body = Inr pk_auth"
    and t: "t = s\<lparr>cl_key_exchange := Some (KexKem alg), cl_kem_key := Some kp\<rparr>"
    and fin: "finish_as_req E t pk_auth elem None True = Inr req" by blast
  have "cl_identity t = cl_identity s" by (simp add: t)
  with finish_as_req_kem[OF ok fin] signer obtain d ap v where
    B: "dec_pa_pk_as_req (pe_msgs E) req = Inr \<lparr>par_signed_auth_pack = d\<rparr>"
      "verify_signed_data (pe_crypto E) d = Inr v" "vsd_content v = ap"
      "vsd_content_type v = pe_oids E ID_PKINIT_AUTH_DATA" "vsd_signer_cert_der v = id_cert_der (cl_identity s)"
      "vsd_all_certs_der v = id_cert_der (cl_identity s) # id_chain (cl_identity s)"
      "\<not> is_ok (extract_unsigned_content (pe_crypto E) d)" "\<not> is_ok (extract_bare_content (pe_crypto E) d)"
      "dec_auth_pack (pe_msgs E) ap = Inr \<lparr>ap_pk_authenticator = pk_auth, ap_client_public_value = Some elem,
        ap_client_dhnonce = None, ap_supported_kdfs = Some [pe_oids E ID_ALG_HKDF_WITH_SHA512]\<rparr>"
    by auto
  from exchange_okD(9)[OF ok A(1,2)] obtain key where key: "dec_spki (pe_msgs E) p = Inr key"
    "spki_algorithm key = \<lparr>ai_oid = kem_oid (pe_oids E) alg, ai_params = None\<rparr>" by blast
  have "check_body K pk_auth b = check_body E pk_auth b" for b unfolding check_body_def lib ..
  moreover have "element_to_der (pe_codec E) elem = Inr p" by (rule msgs_okD(8)[OF exchange_okD(7)[OF ok] A(3)])
  ultimately show thesis
    using that[OF A(1,2) t, of d v pk_auth elem key] B key check_body_generated[OF ok A(4)] by (simp add: lib)
qed

lemma kem_request_accepted:
  assumes ok: "exchange_ok E" and same: "same_libraries E K"
    and req: "build_as_req E s nonce ctime cusec body = (t, Inr req)"
    and alg: "cc_kem_algorithm (cl_config s) = Some alg"
    and signer: "signer_ok E (cl_identity s)" "client_trusted K k (cl_identity s)"
    and pol: "accepts_kem k alg" "\<bar>ctime - now\<bar> \<le> skew"
      "kc_require_freshness (ks_config k) \<longrightarrow> cl_freshness_token s \<noteq> None"
  shows "\<exists>kp p. kem_generate (pe_kem E) alg (pe_keygen_seed E) = Inr kp \<and>
    kem_public_key_spki_der (pe_kem E) kp = Inr p \<and>
    t = s\<lparr>cl_key_exchange := Some (KexKem alg), cl_kem_key := Some kp\<rparr> \<and>
    verify_as_req K k req (Some body) skew now = Inr \<lparr>vr_client_cert_der = id_cert_der (cl_identity s),
      vr_client_dh_public = p, vr_nonce = nonce, vr_supported_kdfs = [pe_oids E ID_ALG_HKDF_WITH_SHA512],
      vr_client_dh_nonce = None, vr_is_anonymous = False, vr_key_exchange = KexKem alg\<rparr>"
proof -
  have lib: "pe_crypto K = pe_crypto E" using same by (simp add: same_libraries_def)
  show ?thesis
  proof (rule kem_request_parts[OF ok same req alg signer(1)], goal_cases)
    case (1 kp p elem pk_auth d v key)
    have o: "open_auth_pack K k d = Inr (vsd_content v, id_cert_der (cl_identity s), False)"
      by (rule open_auth_pack_signed_ok[OF 1(5-10) signer(2)])
    have "request_key_exchange K k p None = Inr (KexKem alg)"
      using 1(13,14) pol(1) exchange_okD(5)[OF ok]
      by (simp add: request_key_exchange_def detect_spki_algorithm_def lib kem_from_oid_of_oid)
    then show ?case
      using 1 o pol by (simp add: verify_as_req_def lib asn1_def decode_encode_nonce[OF exchange_okD(3)[OF ok]])
  qed
qed

text \<open>The KDC's plugin has no body to check.\<close>

lemma verify_without_body:
  "verify_as_req K k d (Some b) skew now = Inr v \<Longrightarrow> verify_as_req K k d None skew now = Inr v"
  by (auto simp: verify_as_req_def check_body_def Let_def res)

text \<open>A KEM request that the KDC verified, with or without the body, is the client's.\<close>

lemma verified_kem_request:
  assumes ok: "exchange_ok E" and same: "same_libraries E K"
    and req: "build_as_req E s nonce ctime cusec body = (t, Inr req)"
    and alg: "cc_kem_algorithm (cl_config s) = Some alg" and signer: "signer_ok E (cl_identity s)"
    and ver: "verify_as_req K k req b skew now = Inr v"
  shows "\<exists>kp. kem_generate (pe_kem E) alg (pe_keygen_seed E) = Inr kp \<and>
    kem_public_key_spki_der (pe_kem E) kp = Inr (vr_client_dh_public v) \<and>
    t = s\<lparr>cl_key_exchange := Some (KexKem alg), cl_kem_key := Some kp\<rparr> \<and>
    vr_nonce v = nonce \<and> vr_key_exchange v = KexKem alg \<and> \<not> vr_is_anonymous v \<and>
    vr_client_cert_der v = id_cert_der (cl_identity s)"
proof -
  have lib: "pe_crypto K = pe_crypto E" using same by (simp add: same_libraries_def)
  show ?thesis
  proof (rule kem_request_parts[OF ok same req alg signer], goal_cases)
    case (1 kp p elem pk_auth d sd key)
    from ver 1(4) obtain content cert anon where o: "open_auth_pack K k d = Inr (content, cert, anon)"
      by (auto simp: verify_as_req_def Let_def res)
    then have c: "content = vsd_content sd" "cert = vsd_signer_cert_der sd" "\<not> anon"
      using 1(5-7) by (cases "extract_unsigned_content (pe_crypto K) d"; cases "extract_bare_content (pe_crypto K) d";
          auto simp: open_auth_pack_def Let_def res)+
    have "kem_from_oid (pe_oids K) (ai_oid (spki_algorithm key)) = Some alg"
      using 1(14) exchange_okD(5)[OF ok] by (simp add: lib kem_from_oid_of_oid)
    then have "request_key_exchange K k p None = Inr kex \<Longrightarrow> kex = KexKem alg" for kex
      using 1(13,14) by (auto simp: request_key_exchange_def detect_spki_algorithm_def split: if_splits)
    then show ?case
      using 1 o c ver
      by (auto simp: verify_as_req_def Let_def res asn1_def decode_encode_nonce[OF exchange_okD(3)[OF ok]] lib)
  qed
qed

section \<open>The reply\<close>

text \<open>The client trusts the KDC's certificate and, with a post-quantum certificate of its own, the
  KDC's signature is post-quantum.\<close>

definition kdc_trusted :: "pkinit_env \<Rightarrow> client_state \<Rightarrow> pkinit_identity \<Rightarrow> bool" where
  "kdc_trusted E s ident \<longleftrightarrow>
     validate_kdc_chain E s (id_cert_der ident) (id_cert_der ident # id_chain ident) = Inr () \<and>
     (has_pq_certificate E s \<longrightarrow> (\<forall>key ab a. id_signing_key ident = Some key \<longrightarrow>
        signature_algorithm_der (cv_cms (pe_crypto E)) key (digest_for_signer (pe_crypto E) (id_cert_der ident)) = Inr ab \<longrightarrow>
        dec_alg_id (cv_cms (pe_crypto E)) ab = Inr a \<longrightarrow> is_pq_signature_algorithm (pe_crypto E) (ai_oid a)))"

lemma kem_reply_opened:
  assumes ok: "exchange_ok E" and same: "same_libraries E K"
    and key: "kem_generate (pe_kem E) alg r = Inr kp" "kem_public_key_spki_der (pe_kem E) kp = Inr (vr_client_dh_public v)"
    and rep: "build_kem_rep K k v pk O2 alg = Inr (rep, dk)" "length rep < 2 ^ 32"
    and kdc: "signer_ok E (ks_identity k)" "kdc_trusted E s (ks_identity k)"
    and par: "arp_nonce p = brp_nonce pk" "arp_enctype p = brp_enctype pk" "arp_as_req_der p = brp_as_req_der pk"
  shows "is_kem_rep rep \<and> open_kem_rep E s kp rep p O2 = Inr dk"
proof -
  note okD = exchange_okD[OF ok]
  have lib: "pe_crypto K = pe_crypto E" "pe_kdf K = pe_kdf E" "pe_kem K = pe_kem E"
    using same by (simp_all add: same_libraries_def)
  let ?I = "ks_identity k"
  from kdc(1) obtain sk where S: "id_signing_key ?I = Some sk" "key_certified (pe_crypto E) sk (id_cert_der ?I)"
    and ch: "\<forall>c\<in>set (id_chain ?I). is_ok (certificate_from_der (cv_cms (pe_crypto E)) c)"
    by (auto simp: signer_ok_def)
  from rep(1) obtain ct ss o1 o2 info_der sd where A:
    "encapsulate_for_client (pe_kem E) (vr_client_dh_public v) alg (pe_keygen_seed K) = Inr (ct, ss)"
    "oid_new (pe_codec E) (kem_oid (pe_oids E) alg) = Inr o1"
    "oid_new (pe_codec E) (pe_oids E ID_ALG_HKDF_WITH_SHA512) = Inr o2"
    "enc_kdc_kem_info (pe_codec E) \<lparr>kki_kem_algorithm = \<lparr>ai_oid = o1, ai_params = None\<rparr>, kki_kemct = ct,
       kki_kdf_algorithm = \<lparr>ai_oid = o2, ai_params = None\<rparr>, kki_nonce = Some (encode_nonce (brp_nonce pk)),
       kki_server_nonce = None\<rparr> = Inr info_der"
    "create_signed_data (pe_crypto E) info_der ID_PKINIT_KEM_KEY_DATA sk (id_cert_der ?I) (id_chain ?I)
       (digest_for_signer (pe_crypto E) (id_cert_der ?I)) = Inr sd"
    "encode_kem_rep_wrapper (pe_codec E) \<lparr>kri_signed_data = sd\<rparr> = Inr rep"
    "pkinit_kem_kdf (pe_codec E) (pe_kdf E) \<lparr>kki_shared_secret = ss, kki_enctype = brp_enctype pk,
       kki_as_req_der = brp_as_req_der pk, kki_kem_signed_data = sd\<rparr> O2 = Inr dk"
    using S(1) by (auto simp: build_kem_rep_def kdc_sign_def Let_def res lib)
  have o: "o1 = kem_oid (pe_oids E) alg" "o2 = pe_oids E ID_ALG_HKDF_WITH_SHA512"
    by (rule codec_okD(4)[OF okD(3)], rule A)+
  have ct: "length ct = ciphertext_len alg" "kem_decapsulate (pe_kem E) kp ct = Inr ss"
    using encapsulated_secret_agrees[OF okD(6) key A(1)] by auto
  have a: "kkp_algorithm kp = alg" by (rule kem_generate_algorithm[OF key(1)])
  from created_data_verifies[OF okD(2-5) S(2) ch A(5)] kdc(2) S(1) obtain sa where
    V: "verify_signed_data (pe_crypto E) sd = Inr \<lparr>vsd_content = info_der, vsd_content_type = ID_PKINIT_KEM_KEY_DATA,
      vsd_signer_cert_der = id_cert_der ?I, vsd_all_certs_der = id_cert_der ?I # id_chain ?I,
      vsd_signer_algorithm_oid = sa\<rparr>"
    and pq: "has_pq_certificate E s \<longrightarrow> is_pq_signature_algorithm (pe_crypto E) sa"
    unfolding kdc_trusted_def by blast
  have info: "dec_kdc_kem_info (pe_codec E) info_der = Inr \<lparr>kki_kem_algorithm = \<lparr>ai_oid = o1, ai_params = None\<rparr>,
      kki_kemct = ct, kki_kdf_algorithm = \<lparr>ai_oid = o2, ai_params = None\<rparr>,
      kki_nonce = Some (encode_nonce (brp_nonce pk)), kki_server_nonce = None\<rparr>"
    by (rule codec_okD(2)[OF okD(3) A(4)])
  from wrapped_rep_unwraps[OF okD(3) A(6) rep(2), of "[]"] obtain d where
    W: "is_kem_rep rep" "decode_kem_rep_content rep = Inr d" "dec_kem_rep_info (pe_codec E) d = Inr \<lparr>kri_signed_data = sd\<rparr>"
    by auto
  have "check_kem_info E alg (arp_nonce p) \<lparr>kki_kem_algorithm = \<lparr>ai_oid = o1, ai_params = None\<rparr>,
      kki_kemct = ct, kki_kdf_algorithm = \<lparr>ai_oid = o2, ai_params = None\<rparr>,
      kki_nonce = Some (encode_nonce (brp_nonce pk)), kki_server_nonce = None\<rparr> = Inr ()"
    by (simp add: check_kem_info_def par(1) decode_encode_nonce[OF okD(3)] o ct(1))
  with W V pq kdc(2) info ct(2) A(7) par(2,3) a show ?thesis
    by (auto simp: open_kem_rep_def asn1_def kdc_trusted_def)
qed

section \<open>The Diffie-Hellman reply\<close>

text \<open>
  What Diffie-Hellman in a group needs: the exported public key is a SubjectPublicKeyInfo with
  the group's algorithm identifier, the encodings are canonical, and agreement is symmetric.
\<close>

definition dh_exchange_ok :: "pkinit_env \<Rightarrow> dh_group \<Rightarrow> bool" where
  "dh_exchange_ok E grp \<longleftrightarrow> env_ok E \<and>
     (\<forall>b b'. bit_string_new (pe_msgs E) b = Inr b' \<longrightarrow> b' = b) \<and>
     (\<forall>r r' kc kk pc pk. dh_generate (pe_dh E) grp r = Inr kc \<longrightarrow> dh_generate (pe_dh E) grp r' = Inr kk \<longrightarrow>
        dh_public_key_spki_der (pe_dh E) kc = Inr pc \<longrightarrow> dh_public_key_spki_der (pe_dh E) kk = Inr pk \<longrightarrow>
        (\<exists>al bits. dec_spki (pe_msgs E) pk = Inr \<lparr>spki_algorithm = al, spki_subject_public_key = bits\<rparr> \<and>
           enc_spki (pe_msgs E) \<lparr>spki_algorithm = al, spki_subject_public_key = bits\<rparr> = Inr pk \<and>
           group_algorithm_identifier E grp = Inr al) \<and>
        (\<forall>ss. derive_shared_secret (pe_dh E) kk pc = Inr ss \<longrightarrow> derive_shared_secret (pe_dh E) kc pk = Inr ss))"

lemma rebuild_spki_identifier:
  "rebuild_spki E grp bits = rbind (group_algorithm_identifier E grp) (\<lambda>al.
     rbind (asn1 ''BitString'' (bit_string_new (pe_msgs E) bits)) (\<lambda>bs.
       asn1 ''encode SPKI'' (enc_spki (pe_msgs E) \<lparr>spki_algorithm = al, spki_subject_public_key = bs\<rparr>)))"
  by (simp add: rebuild_spki_def group_algorithm_identifier_def rbind_assoc case_prod_unfold)

lemma dh_reply_opened:
  assumes ok: "dh_exchange_ok E grp" and same: "same_libraries E K"
    and kc: "dh_generate (pe_dh E) grp r = Inr kc" "dh_public_key_spki_der (pe_dh E) kc = Inr (vr_client_dh_public v)"
    and st: "cl_dh_key t = Some kc" "vr_client_dh_nonce v = cl_dh_nonce t"
    and rep: "build_dh_rep K k v pk O2 grp = Inr (rep, dk)"
    and kdc: "signer_ok E (ks_identity k)"
      "validate_kdc_chain E t (id_cert_der (ks_identity k)) (id_cert_der (ks_identity k) # id_chain (ks_identity k)) = Inr ()"
    and par: "arp_nonce p = brp_nonce pk" "arp_enctype p = brp_enctype pk" "arp_as_req_der p = brp_as_req_der pk"
      "arp_client_name p = brp_client_name pk" "arp_server_name p = brp_server_name pk" "arp_pa_rep_raw p = rep"
  shows "process_as_rep E t rep p O2 = (t, Inr dk)"
proof -
  have lib: "pe_crypto K = pe_crypto E" "pe_kdf K = pe_kdf E" "pe_dh K = pe_dh E" "pe_msgs K = pe_msgs E"
    using same by (simp_all add: same_libraries_def)
  have ok': "cms_ok (pe_crypto E)" "codec_ok (pe_codec E)" "hash_ok (pe_hash E)" "oids_ok (pe_oids E)"
    "msgs_ok (pe_codec E) (pe_msgs E)"
    using ok by (simp_all add: dh_exchange_ok_def env_ok_def)
  have bits: "bit_string_new (pe_msgs E) b = Inr b' \<Longrightarrow> b' = b" for b b'
    using ok by (simp add: dh_exchange_ok_def)
  let ?I = "ks_identity k"
  from kdc(1) obtain sk where S: "id_signing_key ?I = Some sk" "key_certified (pe_crypto E) sk (id_cert_der ?I)"
    and ch: "\<forall>c\<in>set (id_chain ?I). is_ok (certificate_from_der (cv_cms (pe_crypto E)) c)"
    by (auto simp: signer_ok_def)
  from rep[unfolded build_dh_rep_def kdc_sign_def extract_pub_key_bits_def Let_def lib st(2)] S(1) obtain kk pub ss key pb info_der sd sn kid where A:
    "dh_generate (pe_dh E) grp (pe_keygen_seed K) = Inr kk" "dh_public_key_spki_der (pe_dh E) kk = Inr pub"
    "derive_shared_secret (pe_dh E) kk (vr_client_dh_public v) = Inr ss" "dec_spki (pe_msgs E) pub = Inr key"
    "bit_string_new (pe_msgs E) (spki_subject_public_key key) = Inr pb"
    "enc_kdc_dh_key_info (pe_msgs E) \<lparr>kdk_subject_public_key = pb, kdk_nonce = encode_nonce (brp_nonce pk),
       kdk_dh_key_expiration = None\<rparr> = Inr info_der"
    "create_signed_data (pe_crypto E) info_der (pe_oids E ID_PKINIT_DHKEY_DATA) sk (id_cert_der ?I) (id_chain ?I)
       (digest_for_signer (pe_crypto E) (id_cert_der ?I)) = Inr sd"
    and sel: "selected_kdf_id K (pick_kdf_alg (pe_oids E) (vr_supported_kdfs v)) = Inr kid"
    and enc: "enc_pa_pk_as_rep (pe_msgs E) (DhInfo \<lparr>dri_dh_signed_data = sd, dri_server_dhnonce = Some sn, dri_kdf = kid\<rparr>) = Inr rep"
    and dk: "(case pick_kdf_alg (pe_oids E) (vr_supported_kdfs v) of
        Some kdf_oid \<Rightarrow>
          rbind (encode_principal_for_kdf (pe_kdf E) (brp_client_name pk)) (\<lambda>party_u.
          rbind (encode_principal_for_kdf (pe_kdf E) (brp_server_name pk)) (\<lambda>party_v.
            pkinit_kdf (pe_oids E) (pe_codec E) (pe_kdf E)
              \<lparr>ki_shared_secret = ss, ki_kdf_oid = kdf_oid, ki_enctype = brp_enctype pk,
               ki_party_u_info = party_u, ki_party_v_info = party_v,
               ki_as_req_der = brp_as_req_der pk, ki_pa_pk_as_rep_der = rep\<rparr> O2))
      | None \<Rightarrow> octetstring2key (ss @ (case cl_dh_nonce t of Some n \<Rightarrow> n | None \<Rightarrow> []) @ sn) (brp_enctype pk) O2) = Inr dk"
    by (auto simp: res)
  have kid: "kid = pick_kdf_alg (pe_oids E) (vr_supported_kdfs v)"
    using sel codec_okD(4)[OF ok'(2)] by (auto simp: selected_kdf_id_def lib res split: option.splits)
  have "\<exists>al bits. dec_spki (pe_msgs E) pub = Inr \<lparr>spki_algorithm = al, spki_subject_public_key = bits\<rparr> \<and>
           enc_spki (pe_msgs E) \<lparr>spki_algorithm = al, spki_subject_public_key = bits\<rparr> = Inr pub \<and>
           group_algorithm_identifier E grp = Inr al"
    and sym: "derive_shared_secret (pe_dh E) kc pub = Inr ss"
    using ok kc A(1-3) unfolding dh_exchange_ok_def by blast+
  then obtain al bs where sp: "key = \<lparr>spki_algorithm = al, spki_subject_public_key = bs\<rparr>"
    "enc_spki (pe_msgs E) key = Inr pub" "group_algorithm_identifier E grp = Inr al"
    using A(4) by auto
  have g: "dkp_group kc = grp" by (rule dh_generate_group[OF kc(1)])
  have pb: "pb = bs" using bits[OF A(5)] sp(1) by simp
  have R: "rebuild_spki E (dkp_group kc) bs = Inr pub"
    using A(5) sp pb by (simp add: rebuild_spki_identifier g asn1_def)
  from created_data_verifies[OF ok'(1-4) S(2) ch A(7)] obtain sa where
    V: "verify_signed_data (pe_crypto E) sd = Inr \<lparr>vsd_content = info_der,
      vsd_content_type = pe_oids E ID_PKINIT_DHKEY_DATA, vsd_signer_cert_der = id_cert_der ?I,
      vsd_all_certs_der = id_cert_der ?I # id_chain ?I, vsd_signer_algorithm_oid = sa\<rparr>" by blast
  have info: "dec_kdc_dh_key_info (pe_msgs E) info_der = Inr \<lparr>kdk_subject_public_key = bs,
      kdk_nonce = encode_nonce (brp_nonce pk), kdk_dh_key_expiration = None\<rparr>"
    using msgs_okD(5)[OF ok'(5) A(6)] pb by simp
  have "process_dh_rep E t \<lparr>dri_dh_signed_data = sd, dri_server_dhnonce = Some sn, dri_kdf = kid\<rparr> p O2 = Inr dk"
    using V info R sym kdc(2) st(1) dk
    by (simp add: process_dh_rep_def asn1_def par decode_encode_nonce[OF ok'(2)] dh_reply_key_def kid split: option.splits)
  with msgs_okD(3,4)[OF ok'(5) enc] show ?thesis
    by (simp add: process_as_rep_def asn1_def)
qed

end
