(* ===== verification/Runs.thy ===== *)
theory Runs
  imports Exchange
begin

text \<open>
  One exchange on the concrete libraries of \<open>Messages\<close>: a client configured for ML-KEM-768 builds
  a signed request, the KDC verifies it, encapsulates a secret and answers, and the client opens
  the reply.  The steps are evaluated one by one and put together; the properties of \<open>Client\<close> and
  \<open>Server\<close> are applied to them.
\<close>

definition demo_client :: client_state where
  "demo_client = set_kdc_identity
     (client_new demo_client_identity demo_store (client_config_default\<lparr>cc_kem_algorithm := Some MlKem768\<rparr>))
     ''krbtgt/R@R'' None"

definition demo_client_sent :: client_state where
  "demo_client_sent = demo_client\<lparr>cl_kem_key := Some \<lparr>kkp_algorithm = MlKem768, kkp_private_key = [9, 9, 9]\<rparr>,
     cl_key_exchange := Some (KexKem MlKem768)\<rparr>"

definition demo_kdc_config :: kdc_config where
  "demo_kdc_config = kdc_config_default\<lparr>kc_require_kem := True, kc_supported_kem_algorithms := [MlKem768]\<rparr>"

definition demo_kdc :: kdc_state where
  "demo_kdc = \<lparr>ks_identity = demo_kdc_identity, ks_trust_store = demo_store, ks_config = demo_kdc_config,
     ks_supported_algorithms_hint = Some [48, 3, 160, 1, 1], ks_td_ephemeral_key_params = [1]\<rparr>"

definition demo_verified :: verified_request where
  "demo_verified = \<lparr>vr_client_cert_der = demo_client_cert, vr_client_dh_public = [9, 9, 9], vr_nonce = 7,
     vr_supported_kdfs = [std_oids ID_ALG_HKDF_WITH_SHA512], vr_client_dh_nonce = None,
     vr_is_anonymous = False, vr_key_exchange = KexKem MlKem768\<rparr>"

definition demo_arp :: as_rep_params where
  "demo_arp = \<lparr>arp_nonce = 7, arp_enctype = 18, arp_as_req_der = [3], arp_pa_rep_raw = [],
     arp_client_name = ''c@R'', arp_server_name = ''krbtgt/R@R''\<rparr>"

definition demo_brp :: build_as_rep_params where
  "demo_brp = \<lparr>brp_nonce = 7, brp_enctype = 18, brp_as_req_der = [3],
     brp_client_name = ''c@R'', brp_server_name = ''krbtgt/R@R''\<rparr>"

definition demo_key :: derived_key where
  "demo_key = \<lparr>dk_enctype = 18, dk_key_data = [5, 5, 5, 5]\<rparr>"

section \<open>The client's request\<close>

lemma demo_client_config:
  "cl_config demo_client = client_config_default\<lparr>cc_kem_algorithm := Some MlKem768\<rparr>"
  "cl_identity demo_client = demo_client_identity" "cl_trust_store demo_client = demo_store"
  "cl_kdc_principal demo_client = Some ''krbtgt/R@R''" "cl_kdc_hostname demo_client = None"
  "cl_kem_floor demo_client = Some MlKem768" "cl_kem_key demo_client = None" "cl_dh_key demo_client = None"
  by (simp_all add: demo_client_def client_new_def set_kdc_identity_def client_config_default_def)

lemma demo_pk_auth:
  "build_pk_authenticator demo_penv demo_client 7 1000 0 [1] = Inr (ap_pk_authenticator demo_auth_pack)"
  by code_simp

lemma demo_finish:
  "finish_as_req demo_penv s (ap_pk_authenticator demo_auth_pack) [9, 9, 9] None True = Inr [48, 48, 160, 77]"
  if "cl_identity s = demo_client_identity"
proof -
  have "request_kdfs demo_penv True = Inr [std_oids ID_ALG_HKDF_WITH_SHA512]"
    "enc_auth_pack (pe_msgs demo_penv) demo_auth_pack = Inr [100]"
    "sign_auth_pack demo_penv demo_client_identity [100] = Inr [48, 160, 77]"
    "enc_pa_pk_as_req (pe_msgs demo_penv) \<lparr>par_signed_auth_pack = [48, 160, 77]\<rparr> = Inr [48, 48, 160, 77]"
    by code_simp+
  moreover have "\<lparr>ap_pk_authenticator = ap_pk_authenticator demo_auth_pack, ap_client_public_value = Some [9, 9, 9],
      ap_client_dhnonce = None, ap_supported_kdfs = Some [std_oids ID_ALG_HKDF_WITH_SHA512]\<rparr> = demo_auth_pack"
    by (simp add: demo_auth_pack_def)
  ultimately show ?thesis using that by (simp add: finish_as_req_def asn1_def)
qed

text \<open>The request of any client with this identity and algorithm.\<close>

lemma demo_request_any:
  assumes "cl_identity s = demo_client_identity" "cl_freshness_token s = None"
    and "cc_kem_algorithm (cl_config s) = Some MlKem768"
  shows "build_as_req demo_penv s 7 1000 0 [1] = (s\<lparr>cl_kem_key := Some \<lparr>kkp_algorithm = MlKem768, kkp_private_key = [9, 9, 9]\<rparr>,
    cl_key_exchange := Some (KexKem MlKem768)\<rparr>, Inr [48, 48, 160, 77])"
proof -
  have "element_from_der (pe_codec demo_penv) [9, 9, 9] = Inr [9, 9, 9]" by code_simp
  moreover have "kem_generate (pe_kem demo_penv) MlKem768 (pe_keygen_seed demo_penv)
      = Inr \<lparr>kkp_algorithm = MlKem768, kkp_private_key = [9, 9, 9]\<rparr>"
    "kem_public_key_spki_der (pe_kem demo_penv) \<lparr>kkp_algorithm = MlKem768, kkp_private_key = [9, 9, 9]\<rparr>
      = Inr [9, 9, 9]"
    by code_simp+
  moreover have "build_pk_authenticator demo_penv s 7 1000 0 [1] = build_pk_authenticator demo_penv demo_client 7 1000 0 [1]"
    using assms(2) by (simp add: build_pk_authenticator_def demo_client_def client_new_def set_kdc_identity_def Let_def)
  ultimately show ?thesis
    using assms by (simp add: build_as_req_def demo_pk_auth request_key_def request_dh_nonce_def demo_finish asn1_def)
qed

lemma demo_request: "build_as_req demo_penv demo_client 7 1000 0 [1] = (demo_client_sent, Inr [48, 48, 160, 77])"
  unfolding demo_client_sent_def
  by (rule demo_request_any)
    (simp_all add: demo_client_config, simp add: demo_client_def client_new_def set_kdc_identity_def Let_def)

section \<open>The KDC's reply\<close>

lemma demo_kdc_new: "kdc_new demo_penv demo_kdc_identity demo_store demo_kdc_config = Inr demo_kdc"
proof -
  have c: "effective_kdc_config demo_kdc_config = demo_kdc_config"
    by (simp add: effective_kdc_config_def demo_kdc_config_def)
  have h: "make_supported_algorithms_hint demo_penv demo_kdc_config = Inr (Some [48, 3, 160, 1, 1])"
    and t: "make_td_ephemeral_key_params demo_penv demo_kdc_config = Inr [1]"
    by code_simp+
  show ?thesis by (simp add: kdc_new_def c h t demo_kdc_def)
qed

lemma demo_open: "open_auth_pack demo_penv demo_kdc [48, 160, 77] = Inr ([100], demo_client_cert, False)"
proof -
  have "extract_unsigned_content (pe_crypto demo_penv) [48, 160, 77]
      = Inl (CmsVerifyFailed ''SignedData has signers; expected unsigned anonymous content'')"
    "\<not> is_ok (extract_bare_content (pe_crypto demo_penv) [48, 160, 77])"
    "verify_signed_data (pe_crypto demo_penv) [48, 160, 77] = Inr \<lparr>vsd_content = [100],
       vsd_content_type = std_oids ID_PKINIT_AUTH_DATA, vsd_signer_cert_der = demo_client_cert,
       vsd_all_certs_der = [demo_client_cert], vsd_signer_algorithm_oid = std_oids ID_EC_PUBLIC_KEY\<rparr>"
    "pe_oids demo_penv ID_PKINIT_AUTH_DATA = std_oids ID_PKINIT_AUTH_DATA"
    "validate_chain (pe_chain demo_penv) (ks_trust_store demo_kdc) demo_client_cert [demo_client_cert]
       (kc_require_crl_checking (ks_config demo_kdc)) = Inr ()"
    "verify_client_eku (pe_oids demo_penv) (pe_x509 demo_penv) demo_client_cert
       (kc_accept_secondary_eku (ks_config demo_kdc)) = Inr Authorized"
    by code_simp+
  then show ?thesis
    by (cases "extract_bare_content (pe_crypto demo_penv) [48, 160, 77]") (simp_all add: open_auth_pack_def)
qed

lemma demo_verify: "verify_as_req demo_penv demo_kdc [48, 48, 160, 77] (Some [1]) 300 1100 = Inr demo_verified"
proof -
  have "dec_pa_pk_as_req (pe_msgs demo_penv) [48, 48, 160, 77] = Inr \<lparr>par_signed_auth_pack = [48, 160, 77]\<rparr>"
    "dec_auth_pack (pe_msgs demo_penv) [100] = Inr demo_auth_pack"
    "time_to_unix (pe_msgs demo_penv) (pka_ctime (ap_pk_authenticator demo_auth_pack)) = 1000"
    "check_body demo_penv (ap_pk_authenticator demo_auth_pack) (Some [1]) = Inr ()"
    "element_to_der (pe_codec demo_penv) [9, 9, 9] = Inr [9, 9, 9]"
    "request_key_exchange demo_penv demo_kdc [9, 9, 9] None = Inr (KexKem MlKem768)"
    "decode_nonce (pe_codec demo_penv) 7 = Inr 7"
    "kc_require_freshness (ks_config demo_kdc) = False"
    by code_simp+
  moreover have "pka_nonce (ap_pk_authenticator demo_auth_pack) = 7"
    "ap_client_public_value demo_auth_pack = Some [9, 9, 9]" "ap_client_dhnonce demo_auth_pack = None"
    "ap_supported_kdfs demo_auth_pack = Some [std_oids ID_ALG_HKDF_WITH_SHA512]"
    by (simp_all add: demo_auth_pack_def)
  ultimately show ?thesis
    by (simp add: verify_as_req_def asn1_def demo_open demo_verified_def)
qed

lemma demo_ct_length: "length demo_ct = 1088"
  by (simp add: demo_ct_def)

lemma demo_codec_kem_info:
  "enc_kdc_kem_info (pe_codec demo_penv) demo_kem_info = Inr [200]"
  "dec_kdc_kem_info (pe_codec demo_penv) [200] = Inr demo_kem_info"
  by (simp_all add: demo_penv_def demo_crypto_def demo_pcodec_def) (simp add: demo_kem_info_def)

lemma demo_check_kem_info: "check_kem_info demo_penv MlKem768 7 demo_kem_info = Inr ()"
proof -
  have "decode_nonce (pe_codec demo_penv) 7 = Inr 7"
    "kem_oid (pe_oids demo_penv) MlKem768 = std_oids ID_ML_KEM_768"
    "pe_oids demo_penv ID_ALG_HKDF_WITH_SHA512 = std_oids ID_ALG_HKDF_WITH_SHA512"
    by code_simp+
  then show ?thesis
    by (simp add: check_kem_info_def demo_kem_info_def ciphertext_len_def demo_ct_length)
qed

lemma demo_kem_rep_any:
  assumes "ks_identity k = demo_kdc_identity"
    and "pkinit_kem_kdf (pe_codec demo_penv) (pe_kdf demo_penv) \<lparr>kki_shared_secret = [5, 5, 5, 5],
       kki_enctype = 18, kki_as_req_der = [3], kki_kem_signed_data = [48, 160, 78]\<rparr> O2 = Inr key"
  shows "build_as_rep demo_penv k demo_verified \<lparr>brp_nonce = 7, brp_enctype = 18, brp_as_req_der = [3],
      brp_client_name = c, brp_server_name = n\<rparr> O2 = Inr ([162, 4, 48, 48, 160, 78], key)"
proof -
  have "encapsulate_for_client (pe_kem demo_penv) [9, 9, 9] MlKem768 (pe_keygen_seed demo_penv) = Inr (demo_ct, [5, 5, 5, 5])"
    by (simp add: encapsulate_for_client_def demo_penv_def demo_pkem_def is_composite_def ciphertext_len_def demo_ct_length)
  moreover have "enc_kdc_kem_info (pe_codec demo_penv) demo_kem_info = Inr [200]"
    by (simp add: demo_codec_kem_info)
  moreover have "oid_new (pe_codec demo_penv) (kem_oid (pe_oids demo_penv) MlKem768) = Inr (std_oids ID_ML_KEM_768)"
    "oid_new (pe_codec demo_penv) (pe_oids demo_penv ID_ALG_HKDF_WITH_SHA512) = Inr (std_oids ID_ALG_HKDF_WITH_SHA512)"
    "kdc_sign demo_penv demo_kdc [200] ID_PKINIT_KEM_KEY_DATA = Inr [48, 160, 78]"
    "encode_kem_rep_wrapper (pe_codec demo_penv) \<lparr>kri_signed_data = [48, 160, 78]\<rparr> = Inr [162, 4, 48, 48, 160, 78]"
    "pe_oids demo_penv ID_ALG_HKDF_WITH_SHA512 = std_oids ID_ALG_HKDF_WITH_SHA512"
    by code_simp+
  moreover have "ks_identity demo_kdc = demo_kdc_identity" by (simp add: demo_kdc_def)
  then have "kdc_sign demo_penv k = kdc_sign demo_penv demo_kdc"
    using assms(1) by (simp add: kdc_sign_def fun_eq_iff)
  moreover have "\<lparr>kki_kem_algorithm = \<lparr>ai_oid = std_oids ID_ML_KEM_768, ai_params = None\<rparr>,
      kki_kemct = demo_ct, kki_kdf_algorithm = \<lparr>ai_oid = std_oids ID_ALG_HKDF_WITH_SHA512, ai_params = None\<rparr>,
      kki_nonce = Some 7, kki_server_nonce = None\<rparr> = demo_kem_info"
    by (simp add: demo_kem_info_def)
  ultimately show ?thesis
    using assms(2) by (simp add: build_as_rep_def build_kem_rep_def demo_verified_def asn1_def encode_nonce_def)
qed

lemma demo_kem_rep: "build_as_rep demo_penv demo_kdc demo_verified demo_brp demo_o2k
    = Inr ([162, 4, 48, 48, 160, 78], demo_key)"
proof -
  have "pkinit_kem_kdf (pe_codec demo_penv) (pe_kdf demo_penv) \<lparr>kki_shared_secret = [5, 5, 5, 5],
       kki_enctype = 18, kki_as_req_der = [3], kki_kem_signed_data = [48, 160, 78]\<rparr> demo_o2k = Inr demo_key"
    by code_simp
  then show ?thesis unfolding demo_brp_def by (intro demo_kem_rep_any) (simp_all add: demo_kdc_def)
qed

section \<open>The client opens the reply\<close>

lemma demo_trust: "validate_kdc_chain demo_penv demo_client_sent demo_kdc_cert [demo_kdc_cert] = Inr ()"
  by code_simp

definition demo_client_done :: client_state where
  "demo_client_done = demo_client\<lparr>cl_key_exchange := Some (KexKem MlKem768)\<rparr>"

lemma demo_open_rep: "open_kem_rep demo_penv demo_client_done \<lparr>kkp_algorithm = MlKem768, kkp_private_key = [9, 9, 9]\<rparr>
    [162, 4, 48, 48, 160, 78] demo_arp demo_o2k = Inr demo_key"
proof -
  have "decode_kem_rep_content [162, 4, 48, 48, 160, 78] = Inr [48, 48, 160, 78]"
    "dec_kem_rep_info (pe_codec demo_penv) [48, 48, 160, 78] = Inr \<lparr>kri_signed_data = [48, 160, 78]\<rparr>"
    "verify_signed_data (pe_crypto demo_penv) [48, 160, 78] = Inr \<lparr>vsd_content = [200],
       vsd_content_type = ID_PKINIT_KEM_KEY_DATA, vsd_signer_cert_der = demo_kdc_cert,
       vsd_all_certs_der = [demo_kdc_cert], vsd_signer_algorithm_oid = std_oids ID_EC_PUBLIC_KEY\<rparr>"
    "\<not> has_pq_certificate demo_penv demo_client_done"
    "validate_kdc_chain demo_penv demo_client_done demo_kdc_cert [demo_kdc_cert] = Inr ()"
    "pkinit_kem_kdf (pe_codec demo_penv) (pe_kdf demo_penv) \<lparr>kki_shared_secret = [5, 5, 5, 5],
       kki_enctype = 18, kki_as_req_der = [3], kki_kem_signed_data = [48, 160, 78]\<rparr> demo_o2k = Inr demo_key"
    by code_simp+
  moreover have "kem_decapsulate (pe_kem demo_penv) \<lparr>kkp_algorithm = MlKem768, kkp_private_key = [9, 9, 9]\<rparr> demo_ct
      = Inr [5, 5, 5, 5]"
    by (simp add: kem_decapsulate_def demo_penv_def demo_pkem_def is_composite_def ciphertext_len_def demo_ct_length)
  moreover note demo_codec_kem_info(2) demo_check_kem_info
  moreover have "kki_kemct demo_kem_info = demo_ct" by (simp add: demo_kem_info_def)
  ultimately show ?thesis
    by (simp add: open_kem_rep_def asn1_def demo_arp_def)
qed

lemma demo_reply: "process_as_rep demo_penv demo_client_sent [162, 4, 48, 48, 160, 78] demo_arp demo_o2k
    = (demo_client_done, Inr demo_key)"
proof -
  have "is_kem_rep [162, 4, 48, 48, 160, 78]" by code_simp
  moreover have "demo_client_sent\<lparr>cl_kem_key := None\<rparr> = demo_client_done"
    by (simp add: demo_client_sent_def demo_client_done_def demo_client_config client_state.equality)
  moreover have "cl_kem_key demo_client_sent = Some \<lparr>kkp_algorithm = MlKem768, kkp_private_key = [9, 9, 9]\<rparr>"
    by (simp add: demo_client_sent_def)
  ultimately show ?thesis
    by (simp add: process_as_rep_def process_kem_rep_def demo_open_rep)
qed

section \<open>The properties at work\<close>

lemma demo_client_reachable:
  "client_reachable (pe_crypto demo_penv) demo_client_identity demo_store
     (client_config_default\<lparr>cc_kem_algorithm := Some MlKem768\<rparr>) demo_client_sent"
proof -
  let ?c0 = "client_new demo_client_identity demo_store (client_config_default\<lparr>cc_kem_algorithm := Some MlKem768\<rparr>)"
  have "client_step (pe_crypto demo_penv) ?c0 demo_client"
    unfolding demo_client_def by (rule client_step.Kdc_identity)
  moreover have "client_step (pe_crypto demo_penv) demo_client demo_client_sent"
    by (rule client_step.Request[OF refl demo_request])
  ultimately show ?thesis
    unfolding client_reachable_def by (meson rtranclp.rtrancl_into_rtrancl rtranclp.rtrancl_refl)
qed

theorem require_kem_never_dh_witness:
  "(\<exists>content signed pk_auth. enc_auth_pack (pe_msgs demo_penv) \<lparr>ap_pk_authenticator = pk_auth,
       ap_client_public_value = Some [9, 9, 9], ap_client_dhnonce = None,
       ap_supported_kdfs = Some [std_oids ID_ALG_HKDF_WITH_SHA512]\<rparr> = Inr content \<and>
     sign_auth_pack demo_penv demo_client_identity content = Inr signed \<and>
     enc_pa_pk_as_req (pe_msgs demo_penv) \<lparr>par_signed_auth_pack = signed\<rparr> = Inr [48, 48, 160, 77]) \<and>
   \<not> is_ok (snd (process_as_rep demo_penv
       (set_dh_group (client_new demo_client_identity demo_store (client_config_default\<lparr>cc_require_kem := True\<rparr>)) EcP256)
       [48, 1] demo_arp demo_o2k))"
proof -
  let ?cfg = "client_config_default\<lparr>cc_require_kem := True\<rparr>"
  let ?c = "client_new demo_client_identity demo_store ?cfg"
  let ?s = "set_dh_group ?c EcP256"
  have req: "cc_require_kem ?cfg" by simp
  have c: "client_reachable (pe_crypto demo_penv) demo_client_identity demo_store ?cfg ?c"
    by (simp add: client_reachable_def)
  have "cl_identity ?c = demo_client_identity" "cl_freshness_token ?c = None"
    "cc_kem_algorithm (cl_config ?c) = Some MlKem768"
    by (simp_all add: client_new_def client_config_default_def)
  note b = demo_request_any[OF this]
  have spki: "kem_generate (pe_kem demo_penv) MlKem768 (pe_keygen_seed demo_penv)
      = Inr \<lparr>kkp_algorithm = MlKem768, kkp_private_key = [9, 9, 9]\<rparr>"
    "kem_public_key_spki_der (pe_kem demo_penv) \<lparr>kkp_algorithm = MlKem768, kkp_private_key = [9, 9, 9]\<rparr>
      = Inr [9, 9, 9]"
    "element_from_der (pe_codec demo_penv) [9, 9, 9] = Inr [9, 9, 9]"
    "oid_new (pe_codec demo_penv) (pe_oids demo_penv ID_ALG_HKDF_WITH_SHA512) = Inr (std_oids ID_ALG_HKDF_WITH_SHA512)"
    by code_simp+
  have r: "client_reachable (pe_crypto demo_penv) demo_client_identity demo_store ?cfg ?s"
    unfolding client_reachable_def by (intro r_into_rtranclp client_step.Dh_override)
  have k: "\<not> is_kem_rep [48, 1]" by code_simp
  have "\<not> is_ok (snd (process_as_rep demo_penv ?s [48, 1] demo_arp demo_o2k))"
    using require_kem_never_dh[OF r req] k by (metis is_ok_iff prod.collapse)
  moreover obtain pk_auth content signed where
    "enc_auth_pack (pe_msgs demo_penv) \<lparr>ap_pk_authenticator = pk_auth, ap_client_public_value = Some [9, 9, 9],
       ap_client_dhnonce = None, ap_supported_kdfs = Some [std_oids ID_ALG_HKDF_WITH_SHA512]\<rparr> = Inr content"
    "sign_auth_pack demo_penv demo_client_identity content = Inr signed"
    "enc_pa_pk_as_req (pe_msgs demo_penv) \<lparr>par_signed_auth_pack = signed\<rparr> = Inr [48, 48, 160, 77]"
    using require_kem_never_dh[OF c req, THEN conjunct1, rule_format, OF refl b] spki by auto
  ultimately show ?thesis by blast
qed

theorem kem_floor_never_weakened_witness:
  "accepts demo_penv demo_client_sent (OfferedKem MlKem1024) \<and> \<not> accepts demo_penv demo_client_sent (OfferedKem MlKem512)"
  using kem_floor_never_weakened[OF demo_client_reachable, of MlKem768 MlKem1024]
    kem_floor_never_weakened[OF demo_client_reachable, of MlKem768 MlKem512]
  by (simp add: strength_order_def)

definition demo_pq_client :: client_state where
  "demo_pq_client = client_new (demo_client_identity\<lparr>id_cert_der := demo_pq_cert\<rparr>) demo_store
     (client_config_default\<lparr>cc_kem_algorithm := Some MlKem768\<rparr>)"

lemma demo_hint: "process_pkinit_hint demo_penv demo_pq_client [48, 3, 160, 1, 1] = (demo_pq_client, Inr ())"
proof -
  have p: "parse_pkinit_hint (pe_codec demo_penv) [48, 3, 160, 1, 1] = Inr [(std_oids ID_ML_KEM_768, None)]"
    and r: "recognize demo_penv demo_pq_client (std_oids ID_ML_KEM_768, None) = Some (OfferedKem MlKem768)"
    and a: "accepts demo_penv demo_pq_client (OfferedKem MlKem768)"
    and c: "cc_kem_algorithm (cl_config demo_pq_client) = Some MlKem768"
    by code_simp+
  show ?thesis by (simp add: process_pkinit_hint_def p r a c List.map_filter_simps)
qed

lemma demo_retry: "handle_tryagain_typed_data demo_penv demo_pq_client [(109, [4])]
    = (set_kem_algorithm demo_pq_client MlKem1024, Inr (RetryWithKemAlgorithm MlKem1024))"
proof -
  have p: "parse_td_offered demo_penv [4] = Inr [(std_oids ID_ML_KEM_1024, None)]"
    and r: "recognize demo_penv demo_pq_client (std_oids ID_ML_KEM_1024, None) = Some (OfferedKem MlKem1024)"
    and a: "accepts demo_penv demo_pq_client (OfferedKem MlKem1024)"
    and k: "cl_key_exchange demo_pq_client = None" and t: "TD_DH_PARAMETERS (pe_msgs demo_penv) = 109"
    by code_simp+
  show ?thesis by (simp add: retry_key_parameters_def p r a k t List.map_filter_simps apply_offer_def)
qed

theorem negotiation_respects_policy_witness:
  "meets_floor demo_pq_client MlKem1024 \<and> cc_kem_algorithm (cl_config (set_kem_algorithm demo_pq_client MlKem1024)) \<noteq> None"
proof -
  have q: "has_pq_certificate demo_penv demo_pq_client" by code_simp
  have "cl_kem_floor demo_pq_client \<noteq> None" "cc_kem_algorithm (cl_config demo_pq_client) \<noteq> None"
    by (simp_all add: demo_pq_client_def client_new_def)
  with q show ?thesis
    using negotiation_respects_policy[OF demo_hint demo_retry] by simp
qed

theorem kdc_trust_sound_witness:
  "verify_kdc_san std_oids demo_x509 demo_kdc_cert ''krbtgt/R@R'' None = Inr ()"
proof -
  have "cl_kdc_principal demo_client_sent = Some ''krbtgt/R@R''" "cl_kdc_hostname demo_client_sent = None"
    by (simp_all add: demo_client_sent_def demo_client_config)
  moreover have "pe_oids demo_penv = std_oids" "pe_x509 demo_penv = demo_x509"
    by (simp_all add: demo_penv_def demo_crypto_def demo_env_def)
  ultimately show ?thesis using kdc_trust_sound[OF demo_trust] by simp
qed

theorem kem_reply_sound_witness:
  "cl_kem_key demo_client_done = None \<and>
   (\<exists>v. verify_signed_data (pe_crypto demo_penv) [48, 160, 78] = Inr v \<and> vsd_content_type v = ID_PKINIT_KEM_KEY_DATA)"
proof -
  have k: "is_kem_rep [162, 4, 48, 48, 160, 78]" by code_simp
  have c: "codec_ok (pe_codec demo_penv)" using demo_penv_ok by (simp add: env_ok_def)
  have "decode_kem_rep_content [162, 4, 48, 48, 160, 78] = Inr [48, 48, 160, 78]"
    "dec_kem_rep_info (pe_codec demo_penv) [48, 48, 160, 78] = Inr \<lparr>kri_signed_data = [48, 160, 78]\<rparr>"
    by code_simp+
  then show ?thesis using kem_reply_sound[OF demo_reply k c] by auto
qed

theorem verify_as_req_sound_witness:
  "accepts_kem demo_kdc MlKem768 \<and>
   (\<exists>c. pka_pa_checksum (ap_pk_authenticator demo_auth_pack) = Some c \<and>
      (hash_data (pe_hash demo_penv) ''sha256'' [1] = Inr c \<or> hash_data (pe_hash demo_penv) ''sha1'' [1] = Inr c))"
proof -
  have "dec_pa_pk_as_req (pe_msgs demo_penv) [48, 48, 160, 77] = Inr \<lparr>par_signed_auth_pack = [48, 160, 77]\<rparr>"
    "dec_auth_pack (pe_msgs demo_penv) [100] = Inr demo_auth_pack"
    "verify_signed_data (pe_crypto demo_penv) [48, 160, 77] = Inr \<lparr>vsd_content = [100],
       vsd_content_type = std_oids ID_PKINIT_AUTH_DATA, vsd_signer_cert_der = demo_client_cert,
       vsd_all_certs_der = [demo_client_cert], vsd_signer_algorithm_oid = std_oids ID_EC_PUBLIC_KEY\<rparr>"
    by code_simp+
  moreover have "\<not> vr_is_anonymous demo_verified" "vr_key_exchange demo_verified = KexKem MlKem768"
    by (simp_all add: demo_verified_def)
  moreover have "pka_pa_checksum (ap_pk_authenticator demo_auth_pack) \<noteq> None" by code_simp
  moreover have "hash_ok (pe_hash demo_penv)" using demo_penv_ok by (simp add: env_ok_def)
  ultimately show ?thesis using verify_as_req_sound[OF demo_verify] by auto
qed

theorem advertised_is_accepted_witness:
  "accepts_kem demo_kdc MlKem768 \<and> advertised_groups demo_kdc_config = []"
proof -
  have "kem_lists_ok demo_kdc_config" "MlKem768 \<in> set (advertised_kems (ks_config demo_kdc))"
    "kc_require_kem demo_kdc_config" "ks_config demo_kdc = demo_kdc_config"
    by (simp_all add: kem_lists_ok_def demo_kdc_config_def kdc_config_default_def is_composite_def
        demo_kdc_def advertised_kems_set)
  then show ?thesis using advertised_is_accepted[OF demo_kdc_new] by auto
qed

section \<open>The assumptions of an exchange hold\<close>

lemma demo_exchange_ok: "exchange_ok demo_penv"
proof -
  have "digest_oid_to_name (pe_hash demo_penv) (pe_oids demo_penv ID_SHA256) = Some ''sha256''"
    by code_simp
  moreover have "\<exists>key. dec_spki (pe_msgs demo_penv) p = Inr key \<and>
      spki_algorithm key = \<lparr>ai_oid = kem_oid (pe_oids demo_penv) alg, ai_params = None\<rparr>"
    if g: "kem_generate (pe_kem demo_penv) alg r = Inr kp" "kem_public_key_spki_der (pe_kem demo_penv) kp = Inr p" for alg r kp p
  proof -
    have "alg = MlKem768 \<and> p = [9, 9, 9]"
      using g by (cases alg) (auto simp: kem_generate_def kem_public_key_spki_der_def demo_penv_def demo_pkem_def
          composite_sub_arc_def parameter_set_name_def res split: if_splits)
    moreover have "dec_spki (pe_msgs demo_penv) [9, 9, 9] = Inr \<lparr>spki_algorithm =
        \<lparr>ai_oid = kem_oid (pe_oids demo_penv) MlKem768, ai_params = None\<rparr>, spki_subject_public_key = [9]\<rparr>"
      by code_simp
    ultimately show ?thesis by simp
  qed
  ultimately show ?thesis using demo_penv_ok unfolding exchange_ok_def by blast
qed

lemma demo_signers: "signer_ok demo_penv demo_client_identity" "signer_ok demo_penv demo_kdc_identity"
  by (auto simp: signer_ok_def demo_client_identity_def demo_kdc_identity_def demo_penv_def demo_crypto_def
      key_certified_def demo_env_def demo_cms_def demo_certificate_from_der_def demo_client_cert_def
      demo_kdc_cert_def demo_certificate_def)

lemma demo_client_trusted: "client_trusted demo_penv demo_kdc demo_client_identity"
proof -
  have "validate_chain (pe_chain demo_penv) (ks_trust_store demo_kdc) demo_client_cert [demo_client_cert]
       (kc_require_crl_checking (ks_config demo_kdc)) = Inr ()"
    "verify_client_eku (pe_oids demo_penv) (pe_x509 demo_penv) demo_client_cert
       (kc_accept_secondary_eku (ks_config demo_kdc)) = Inr Authorized"
    by code_simp+
  then show ?thesis by (simp add: client_trusted_def demo_client_identity_def)
qed

lemma demo_kdc_accepts: "accepts_kem demo_kdc MlKem768" "\<not> kc_require_freshness (ks_config demo_kdc)"
  by code_simp+

lemma demo_kdc_trusted: "kdc_trusted demo_penv demo_client_sent demo_kdc_identity"
proof -
  have "\<not> has_pq_certificate demo_penv demo_client_sent" by code_simp
  with demo_trust show ?thesis by (simp add: kdc_trusted_def demo_kdc_identity_def)
qed

section \<open>A Diffie-Hellman reply\<close>

text \<open>The KDC's reply over P-256, with a key pair \<open>[7]\<close> on both sides.\<close>

definition demo_dh_rep_info :: dh_rep_info where
  "demo_dh_rep_info = \<lparr>dri_dh_signed_data = [48, 160, 79], dri_server_dhnonce = Some [1, 1],
     dri_kdf = Some (std_oids ID_PKINIT_KDF_AH_SHA256)\<rparr>"

definition demo_dh_spki :: spki where
  "demo_dh_spki = \<lparr>spki_algorithm = \<lparr>ai_oid = std_oids ID_EC_PUBLIC_KEY, ai_params = Some [1]\<rparr>,
     spki_subject_public_key = [7]\<rparr>"

definition demo_dh_key_info :: kdc_dh_key_info where
  "demo_dh_key_info = \<lparr>kdk_subject_public_key = [7], kdk_nonce = 7, kdk_dh_key_expiration = None\<rparr>"

definition demo_dh_env :: pkinit_env where
  "demo_dh_env = demo_penv\<lparr>
     pe_crypto := (demo_env [(demo_sd_of [201] 2 (std_oids ID_PKINIT_DHKEY_DATA) [1] demo_kdc_cert, [79])])\<lparr>cv_codec := demo_pcodec\<rparr>,
     pe_msgs := demo_msgs\<lparr>
       enc_kdc_dh_key_info := table_enc [(demo_dh_key_info, [201])],
       dec_kdc_dh_key_info := table_dec [(demo_dh_key_info, [201])],
       enc_pa_pk_as_rep := table_enc [(DhInfo demo_dh_rep_info, [160, 1])],
       dec_pa_pk_as_rep := table_dec [(DhInfo demo_dh_rep_info, [160, 1])],
       enc_spki := table_enc [(demo_dh_spki, [7])], dec_spki := table_dec [(demo_dh_spki, [7])]\<rparr>,
     pe_dh := demo_pdh\<lparr>keygen_generate := \<lambda>_ r. if r = [7] then Inr r else Inl ''keygen''\<rparr>,
     pe_rand_bytes := (\<lambda>_. Inr [1, 1]), pe_keygen_seed := [7]\<rparr>"

definition demo_dh_client :: client_state where
  "demo_dh_client = (set_kdc_identity (client_new demo_client_identity demo_store client_config_default) ''krbtgt/R@R'' None)
     \<lparr>cl_dh_key := Some \<lparr>dkp_group = EcP256, dkp_pkey = [7]\<rparr>\<rparr>"

definition demo_dh_kdc :: kdc_state where
  "demo_dh_kdc = \<lparr>ks_identity = demo_kdc_identity, ks_trust_store = demo_store, ks_config = kdc_config_default,
     ks_supported_algorithms_hint = None, ks_td_ephemeral_key_params = [1]\<rparr>"

definition demo_dh_verified :: verified_request where
  "demo_dh_verified = \<lparr>vr_client_cert_der = demo_client_cert, vr_client_dh_public = [7], vr_nonce = 7,
     vr_supported_kdfs = [std_oids ID_PKINIT_KDF_AH_SHA256], vr_client_dh_nonce = None,
     vr_is_anonymous = False, vr_key_exchange = KexDh EcP256\<rparr>"

definition demo_dh_reply_key :: derived_key where
  "demo_dh_reply_key = \<lparr>dk_enctype = 18, dk_key_data = [83, 72, 65, 50]\<rparr>"

lemma demo_dh_rep: "build_dh_rep demo_dh_env demo_dh_kdc demo_dh_verified demo_brp demo_o2k EcP256
    = Inr ([160, 1], demo_dh_reply_key)"
  by code_simp

lemma demo_dh_generate: "dh_generate (pe_dh demo_dh_env) EcP256 r = Inr kp \<longleftrightarrow>
    r = [7] \<and> kp = \<lparr>dkp_group = EcP256, dkp_pkey = [7]\<rparr>"
  by (auto simp: dh_generate_def generate_ec_def demo_dh_env_def demo_pdh_def res)

lemma demo_dh_msgs_ok: "msgs_ok (pe_codec demo_dh_env) (pe_msgs demo_dh_env)"
proof -
  have "\<not> is_kem_rep [160, 1]" by code_simp
  moreover have "table_enc [(DhInfo demo_dh_rep_info, [160, 1])] x = Inr d \<Longrightarrow> d = [160, 1]" for x d
    by (simp add: table_enc_def split: if_splits)
  ultimately show ?thesis
    using demo_msgs_ok unfolding msgs_ok_def demo_dh_env_def
    by (auto intro!: table_roundtrip simp: demo_pcodec_def demo_codec_def)
qed

lemma demo_dh_exchange_ok: "dh_exchange_ok demo_dh_env EcP256"
proof -
  have c: "cms_ok (pe_crypto demo_dh_env)"
    unfolding demo_dh_env_def by (simp, intro cms_ok_codec demo_env_ok) simp_all
  have e: "env_ok demo_dh_env"
    using c demo_dh_msgs_ok demo_pcodec_ok demo_hash_ok std_oids_ok demo_pkem_ok
    by (simp add: env_ok_def demo_dh_env_def demo_penv_def demo_env_def)
  have s: "dec_spki (pe_msgs demo_dh_env) [7] = Inr demo_dh_spki" "enc_spki (pe_msgs demo_dh_env) demo_dh_spki = Inr [7]"
    by (simp_all add: demo_dh_env_def table_dec_def table_enc_def)
  have g: "group_algorithm_identifier demo_dh_env EcP256 = Inr (spki_algorithm demo_dh_spki)"
    by code_simp
  have k: "dh_public_key_spki_der (pe_dh demo_dh_env) \<lparr>dkp_group = EcP256, dkp_pkey = [7]\<rparr> = Inr [7]"
    by (simp add: dh_public_key_spki_der_def demo_dh_env_def demo_pdh_def)
  have b: "bit_string_new (pe_msgs demo_dh_env) x = Inr x" for x by (simp add: demo_dh_env_def demo_msgs_def)
  show ?thesis
    using e s g by (auto simp: dh_exchange_ok_def demo_dh_generate k b demo_dh_spki_def)
qed

lemma demo_dh_signer: "signer_ok demo_dh_env demo_kdc_identity"
  by (auto simp: signer_ok_def demo_kdc_identity_def demo_dh_env_def key_certified_def demo_env_def demo_cms_def
      demo_certificate_from_der_def demo_client_cert_def demo_kdc_cert_def demo_certificate_def)

lemma demo_dh_trust: "validate_kdc_chain demo_dh_env demo_dh_client demo_kdc_cert [demo_kdc_cert] = Inr ()"
  by code_simp

end
