(* ===== verification/Config.thy ===== *)
theory Config
  imports Server
begin

text \<open>
  \<open>kurbu5-pkinit/src/profile.rs\<close>: how the client's and the KDC's configuration are read from
  \<open>krb5.conf\<close>.  The profile library (\<open>kurbu5_rs::Profile\<close>) and the standard library's \<open>Debug\<close> of
  a string, whose escapes follow the Unicode tables, are the record \<open>profile_ops\<close>.  An \<open>i32\<close> is
  a 32-bit word read by \<open>sint\<close>.
\<close>

record profile_ops =
  get_string_opt :: "rstr \<Rightarrow> rstr \<Rightarrow> rstr option \<Rightarrow> rstr option ext"
  get_values :: "rstr list \<Rightarrow> rstr list ext"
  get_boolean :: "rstr \<Rightarrow> rstr \<Rightarrow> rstr option \<Rightarrow> bool \<Rightarrow> bool ext"
  get_integer :: "rstr \<Rightarrow> rstr \<Rightarrow> rstr option \<Rightarrow> u32 \<Rightarrow> u32 ext"
  debug_str :: "rstr \<Rightarrow> rstr"

datatype config_error = ConfigError rstr

type_synonym 'a cres = "config_error + 'a"

definition KEM_NAMES :: rstr where
  "KEM_NAMES = ''ML-KEM-512, ML-KEM-768, ML-KEM-1024, ML-KEM-768-X25519, '' @
     ''ML-KEM-768-ECDH-P256, ML-KEM-1024-ECDH-P384''"

definition COMPOSITE_KEM_NAMES :: rstr where
  "COMPOSITE_KEM_NAMES = ''ML-KEM-768-X25519, ML-KEM-768-ECDH-P256, ML-KEM-1024-ECDH-P384''"

definition parse_kem_algorithm :: "profile_ops \<Rightarrow> rstr \<Rightarrow> rstr \<Rightarrow> kem_algorithm cres" where
  "parse_kem_algorithm P key v =
     ok_or (kem_from_name v)
       (ConfigError (key @ '': unknown KEM algorithm '' @ debug_str P v @ '' (expected one of '' @ KEM_NAMES @ '')''))"

definition parse_composite_kem_algorithms :: "profile_ops \<Rightarrow> rstr \<Rightarrow> rstr list \<Rightarrow> kem_algorithm list cres" where
  "parse_composite_kem_algorithms P key vs =
     traverse (\<lambda>v.
       case (case kem_from_name v of
               Some alg \<Rightarrow> if is_composite alg then Some alg else None
             | None \<Rightarrow> None) of
         Some alg \<Rightarrow> Inr alg
       | None \<Rightarrow> Inl (ConfigError (key @ '': '' @ debug_str P v @
           '' is not a composite KEM algorithm (expected one of '' @ COMPOSITE_KEM_NAMES @ '')''))) vs"

section \<open>Looking a relation up\<close>

record lookup =
  lk_profile :: profile_ops
  lk_defaults :: rstr
  lk_realm :: "rstr option"

text \<open>An error of the library counts as an absent relation.\<close>

definition lookup_string :: "lookup \<Rightarrow> rstr \<Rightarrow> rstr option" where
  "lookup_string L key =
     (case (case lk_realm L of
              Some realm \<Rightarrow> (case get_string_opt (lk_profile L) ''realms'' realm (Some key) of
                 Inr (Some v) \<Rightarrow> Some v | Inr None \<Rightarrow> None | Inl _ \<Rightarrow> None)
            | None \<Rightarrow> None) of
        Some v \<Rightarrow> Some v
      | None \<Rightarrow> Option.bind (ok_opt (get_string_opt (lk_profile L) (lk_defaults L) key None)) id)"

definition lookup_values :: "lookup \<Rightarrow> rstr \<Rightarrow> rstr list option" where
  "lookup_values L key =
     (case (case lk_realm L of
              Some realm \<Rightarrow> (case get_values (lk_profile L) [''realms'', realm, key] of
                 Inr v \<Rightarrow> if v \<noteq> [] then Some v else None | Inl _ \<Rightarrow> None)
            | None \<Rightarrow> None) of
        Some v \<Rightarrow> Some v
      | None \<Rightarrow> (case ok_opt (get_values (lk_profile L) [lk_defaults L, key]) of
           Some v \<Rightarrow> if v \<noteq> [] then Some v else None | None \<Rightarrow> None))"

definition unwrap_or :: "'e + 'a \<Rightarrow> 'a \<Rightarrow> 'a" where
  "unwrap_or m d = (case m of Inr x \<Rightarrow> x | Inl _ \<Rightarrow> d)"

definition lookup_boolean :: "lookup \<Rightarrow> rstr \<Rightarrow> bool \<Rightarrow> bool" where
  "lookup_boolean L key current =
     (let v = unwrap_or (get_boolean (lk_profile L) (lk_defaults L) key None current) current
      in case lk_realm L of
           Some realm \<Rightarrow> unwrap_or (get_boolean (lk_profile L) ''realms'' realm (Some key) v) v
         | None \<Rightarrow> v)"

definition lookup_integer :: "lookup \<Rightarrow> rstr \<Rightarrow> u32 \<Rightarrow> u32" where
  "lookup_integer L key current =
     (let v = unwrap_or (get_integer (lk_profile L) (lk_defaults L) key None current) current
      in case lk_realm L of
           Some realm \<Rightarrow> unwrap_or (get_integer (lk_profile L) ''realms'' realm (Some key) v) v
         | None \<Rightarrow> v)"

section \<open>The two configurations\<close>

text \<open>The pair \<open>(require_eku, accept_secondary)\<close>; an unknown value changes nothing.\<close>

definition apply_eku_checking :: "rstr \<Rightarrow> bool \<times> bool \<Rightarrow> bool \<times> bool" where
  "apply_eku_checking v current =
     (if v = ''kpClientAuth'' then (True, False)
      else if v = ''scLogin'' then (True, True)
      else if v = ''none'' then (False, False)
      else current)"

definition eku_settings :: "lookup \<Rightarrow> bool \<times> bool \<Rightarrow> bool \<times> bool" where
  "eku_settings L current =
     (case lookup_string L ''pkinit_eku_checking'' of
        Some v \<Rightarrow> apply_eku_checking v current | None \<Rightarrow> current)"

definition dh_group_from_min_bits :: "u32 \<Rightarrow> dh_group" where
  "dh_group_from_min_bits mb =
     (if mb \<le> 256 then EcP256 else if mb \<le> 2048 then Oakley2048 else Oakley4096)"

definition or_keep :: "'a option \<Rightarrow> 'a \<Rightarrow> 'a" where
  "or_keep v current = (case v of Some x \<Rightarrow> x | None \<Rightarrow> current)"

definition clamp_timeout :: "u32 \<Rightarrow> u32" where
  "clamp_timeout n = (if sint n < 0 then 0 else n)"

text \<open>The caller's configuration is updated in place, so an error leaves what was read before it.\<close>

definition read_client_config :: "profile_ops \<Rightarrow> rstr option \<Rightarrow> client_config \<Rightarrow> client_config \<times> unit cres" where
  "read_client_config P realm c =
     (let L = \<lparr>lk_profile = P, lk_defaults = ''libdefaults'', lk_realm = realm\<rparr>;
          mb = lookup_integer L ''pkinit_dh_min_bits'' (cc_dh_min_bits c);
          eku = eku_settings L (cc_require_eku c, cc_accept_secondary_eku c);
          c = c\<lparr>
            cc_identity := (case cc_identity c of Some i \<Rightarrow> Some i | None \<Rightarrow> lookup_string L ''pkinit_identities''),
            cc_anchors := (if cc_anchors c = [] then or_keep (lookup_values L ''pkinit_anchors'') (cc_anchors c)
                           else cc_anchors c),
            cc_intermediates := or_keep (lookup_values L ''pkinit_pool'') (cc_intermediates c),
            cc_crls := or_keep (lookup_values L ''pkinit_revoke'') (cc_crls c),
            cc_require_crl_checking := lookup_boolean L ''pkinit_require_crl_checking'' (cc_require_crl_checking c),
            cc_dh_min_bits := mb,
            cc_require_eku := fst eku, cc_accept_secondary_eku := snd eku,
            cc_require_freshness := lookup_boolean L ''pkinit_require_freshness_token'' (cc_require_freshness c)\<rparr>
      in case (case lookup_string L ''pkinit_pqc_min_algorithm'' of
                 Some v \<Rightarrow> rbind (parse_kem_algorithm P ''pkinit_pqc_min_algorithm'' v) (\<lambda>a. Inr (Some a))
               | None \<Rightarrow> Inr (cc_kem_algorithm c)) of
           Inl e \<Rightarrow> (c, Inl e)
         | Inr kem \<Rightarrow>
             (c\<lparr>
               cc_kem_algorithm := kem,
               cc_require_kem := lookup_boolean L ''pkinit_require_kem'' (cc_require_kem c),
               cc_kdc_trust_tofu := lookup_boolean L ''pkinit_kdc_trust_tofu'' (cc_kdc_trust_tofu c),
               cc_kdc_trust_broker := (case lookup_string L ''pkinit_kdc_trust_broker'' of
                  Some v \<Rightarrow> Some v | None \<Rightarrow> cc_kdc_trust_broker c),
               cc_kdc_trust_timeout :=
                 clamp_timeout (lookup_integer L ''pkinit_kdc_trust_timeout'' (cc_kdc_trust_timeout c)),
               cc_dh_group := dh_group_from_min_bits mb\<rparr>, Inr ()))"

definition read_kdc_config :: "profile_ops \<Rightarrow> rstr \<Rightarrow> kdc_config cres" where
  "read_kdc_config P realm =
     (let c = kdc_config_default;
          L = \<lparr>lk_profile = P, lk_defaults = ''kdcdefaults'', lk_realm = Some realm\<rparr>;
          eku = eku_settings L (kc_require_eku c, kc_accept_secondary_eku c) in
      rbind (case lookup_string L ''pkinit_pqc_min_algorithm'' of
               Some v \<Rightarrow> rbind (parse_kem_algorithm P ''pkinit_pqc_min_algorithm'' v)
                 (\<lambda>a. Inr (algorithms_at_or_above a))
             | None \<Rightarrow> Inr (kc_supported_kem_algorithms c)) (\<lambda>kems.
      rbind (case lookup_values L ''pkinit_pqc_composite_algorithms'' of
               Some names \<Rightarrow> parse_composite_kem_algorithms P ''pkinit_pqc_composite_algorithms'' names
             | None \<Rightarrow> Inr (kc_supported_composite_kem_algorithms c)) (\<lambda>composites.
      Inr (c\<lparr>
        kc_identity := (case lookup_string L ''pkinit_identity'' of Some v \<Rightarrow> Some v | None \<Rightarrow> kc_identity c),
        kc_anchors := or_keep (lookup_values L ''pkinit_anchors'') (kc_anchors c),
        kc_intermediates := or_keep (lookup_values L ''pkinit_pool'') (kc_intermediates c),
        kc_crls := or_keep (lookup_values L ''pkinit_revoke'') (kc_crls c),
        kc_require_crl_checking := lookup_boolean L ''pkinit_require_crl_checking'' (kc_require_crl_checking c),
        kc_dh_min_bits := lookup_integer L ''pkinit_dh_min_bits'' (kc_dh_min_bits c),
        kc_allow_upn := lookup_boolean L ''pkinit_allow_upn'' (kc_allow_upn c),
        kc_require_eku := fst eku, kc_accept_secondary_eku := snd eku,
        kc_require_freshness := lookup_boolean L ''pkinit_require_freshness_token'' (kc_require_freshness c),
        kc_auth_indicators := or_keep (lookup_values L ''pkinit_indicator'') (kc_auth_indicators c),
        kc_supported_kem_algorithms := kems,
        kc_supported_composite_kem_algorithms := composites,
        kc_require_kem := lookup_boolean L ''pkinit_require_kem'' (kc_require_kem c)\<rparr>))))"

section \<open>What the profile library promises\<close>

text \<open>
  A profile is a table from paths to lists of values with a reader for booleans and one for
  integers.  A getter of a single value reads the first one; a boolean or integer getter gives
  its default for an absent relation and an error for a value it cannot read.
\<close>

record relations =
  rel_values :: "rstr list \<Rightarrow> rstr list"
  rel_bool :: "rstr \<Rightarrow> bool option"
  rel_int :: "rstr \<Rightarrow> u32 option"

definition path_of :: "rstr \<Rightarrow> rstr \<Rightarrow> rstr option \<Rightarrow> rstr list" where
  "path_of section n sub = (case sub of None \<Rightarrow> [section, n] | Some s \<Rightarrow> [section, n, s])"

definition first_value :: "'a list \<Rightarrow> 'a option" where
  "first_value xs = (case xs of [] \<Rightarrow> None | x # _ \<Rightarrow> Some x)"

definition typed_value :: "(rstr \<Rightarrow> 'a option) \<Rightarrow> rstr list \<Rightarrow> 'a \<Rightarrow> 'a option" where
  "typed_value rd vs d = (case vs of [] \<Rightarrow> Some d | v # _ \<Rightarrow> rd v)"

definition profile_ok :: "profile_ops \<Rightarrow> relations \<Rightarrow> bool" where
  "profile_ok P R \<longleftrightarrow>
     (\<forall>s n b. get_string_opt P s n b = Inr (first_value (rel_values R (path_of s n b)))) \<and>
     (\<forall>p. get_values P p = Inr (rel_values R p)) \<and>
     (\<forall>s n b d. ok_opt (get_boolean P s n b d) = typed_value (rel_bool R) (rel_values R (path_of s n b)) d) \<and>
     (\<forall>s n b d. ok_opt (get_integer P s n b d) = typed_value (rel_int R) (rel_values R (path_of s n b)) d)"

section \<open>The reference: one list of places to look\<close>

text \<open>
  The values a relation has: the realm's where it has some, else the defaults section's.  A
  boolean or an integer is the first readable one of the realm's value, the default section's
  value and the current value.
\<close>

definition places :: "rstr \<Rightarrow> rstr option \<Rightarrow> rstr \<Rightarrow> rstr list list" where
  "places defaults realm key = (case realm of Some r \<Rightarrow> [[''realms'', r, key]] | None \<Rightarrow> []) @ [[defaults, key]]"

definition effective :: "relations \<Rightarrow> rstr \<Rightarrow> rstr option \<Rightarrow> rstr \<Rightarrow> rstr list" where
  "effective R defaults realm key =
     (case List.find (\<lambda>vs. vs \<noteq> []) (map (rel_values R) (places defaults realm key)) of
        Some vs \<Rightarrow> vs | None \<Rightarrow> [])"

definition effective_typed :: "(rstr \<Rightarrow> 'a option) \<Rightarrow> relations \<Rightarrow> rstr \<Rightarrow> rstr option \<Rightarrow> rstr \<Rightarrow> 'a \<Rightarrow> 'a" where
  "effective_typed rd R defaults realm key current =
     (case List.map_filter (\<lambda>p. Option.bind (first_value (rel_values R p)) rd) (places defaults realm key) of
        v # _ \<Rightarrow> v | [] \<Rightarrow> current)"

lemma unwrap_or_ok_opt: "unwrap_or m d = or_keep (ok_opt m) d"
  by (simp add: unwrap_or_def or_keep_def ok_opt_def split: sum.splits)

lemma lookup_string_effective:
  "profile_ok P R \<Longrightarrow> lookup_string \<lparr>lk_profile = P, lk_defaults = d, lk_realm = r\<rparr> key
     = first_value (effective R d r key)"
  by (cases r) (auto simp: lookup_string_def profile_ok_def effective_def places_def path_of_def first_value_def
      split: list.splits)

lemma lookup_values_effective:
  "profile_ok P R \<Longrightarrow> lookup_values \<lparr>lk_profile = P, lk_defaults = d, lk_realm = r\<rparr> key
     = (if effective R d r key = [] then None else Some (effective R d r key))"
  by (cases r) (auto simp: lookup_values_def profile_ok_def effective_def places_def)

lemma lookup_boolean_effective:
  "profile_ok P R \<Longrightarrow> lookup_boolean \<lparr>lk_profile = P, lk_defaults = d, lk_realm = r\<rparr> key cur
     = effective_typed (rel_bool R) R d r key cur"
  by (cases r) (auto simp: lookup_boolean_def profile_ok_def effective_typed_def places_def path_of_def Let_def
      first_value_def typed_value_def unwrap_or_ok_opt or_keep_def List.map_filter_simps split: list.splits option.splits)

lemma lookup_integer_effective:
  "profile_ok P R \<Longrightarrow> lookup_integer \<lparr>lk_profile = P, lk_defaults = d, lk_realm = r\<rparr> key cur
     = effective_typed (rel_int R) R d r key cur"
  by (cases r) (auto simp: lookup_integer_def profile_ok_def effective_typed_def places_def path_of_def Let_def
      first_value_def typed_value_def unwrap_or_ok_opt or_keep_def List.map_filter_simps split: list.splits option.splits)

lemmas lookups_effective = lookup_string_effective lookup_values_effective lookup_boolean_effective
  lookup_integer_effective

lemma or_keep_values: "or_keep (if xs = [] then None else Some xs) ys = (if xs = [] then ys else xs)"
  by (simp add: or_keep_def)

lemma first_value_eq: "first_value xs = Some v \<longleftrightarrow> (\<exists>vs. xs = v # vs)" "first_value xs = None \<longleftrightarrow> xs = []"
  by (auto simp: first_value_def split: list.splits)

lemma parse_kem_algorithm_Inr: "parse_kem_algorithm P key v = Inr a \<longleftrightarrow> kem_from_name v = Some a"
  by (simp add: parse_kem_algorithm_def ok_or_eq)

lemma parse_composites_Inr:
  "parse_composite_kem_algorithms P key vs = Inr as \<Longrightarrow>
   list_all2 (\<lambda>v a. kem_from_name v = Some a \<and> is_composite a) vs as"
  by (induction vs arbitrary: as)
    (auto simp: parse_composite_kem_algorithms_def res split: option.splits if_splits)

lemma list_all2_right: "list_all2 Q xs ys \<Longrightarrow> y \<in> set ys \<Longrightarrow> \<exists>x\<in>set xs. Q x y"
  by (induction rule: list_all2_induct) auto

lemma clamp_timeout_range: "0 \<le> sint (clamp_timeout n)"
  by (simp add: clamp_timeout_def)

lemma dh_group_big_enough: "mb \<le> 4096 \<Longrightarrow> mb \<le> min_bits (dh_group_from_min_bits mb)"
  by (auto simp: dh_group_from_min_bits_def min_bits_def)

text \<open>What a successful reading of the client's relations produces.\<close>

definition client_fields :: "profile_ops \<Rightarrow> lookup \<Rightarrow> client_config \<Rightarrow> kem_algorithm option \<Rightarrow> client_config" where
  "client_fields P L c kem =
     (let mb = lookup_integer L ''pkinit_dh_min_bits'' (cc_dh_min_bits c);
          eku = eku_settings L (cc_require_eku c, cc_accept_secondary_eku c) in
      c\<lparr>cc_identity := (case cc_identity c of Some i \<Rightarrow> Some i | None \<Rightarrow> lookup_string L ''pkinit_identities''),
        cc_anchors := (if cc_anchors c = [] then or_keep (lookup_values L ''pkinit_anchors'') [] else cc_anchors c),
        cc_intermediates := or_keep (lookup_values L ''pkinit_pool'') (cc_intermediates c),
        cc_crls := or_keep (lookup_values L ''pkinit_revoke'') (cc_crls c),
        cc_require_crl_checking := lookup_boolean L ''pkinit_require_crl_checking'' (cc_require_crl_checking c),
        cc_dh_min_bits := mb, cc_require_eku := fst eku, cc_accept_secondary_eku := snd eku,
        cc_require_freshness := lookup_boolean L ''pkinit_require_freshness_token'' (cc_require_freshness c),
        cc_kem_algorithm := kem,
        cc_require_kem := lookup_boolean L ''pkinit_require_kem'' (cc_require_kem c),
        cc_kdc_trust_tofu := lookup_boolean L ''pkinit_kdc_trust_tofu'' (cc_kdc_trust_tofu c),
        cc_kdc_trust_broker := (case lookup_string L ''pkinit_kdc_trust_broker'' of
           Some v \<Rightarrow> Some v | None \<Rightarrow> cc_kdc_trust_broker c),
        cc_kdc_trust_timeout := clamp_timeout (lookup_integer L ''pkinit_kdc_trust_timeout'' (cc_kdc_trust_timeout c)),
        cc_dh_group := dh_group_from_min_bits mb\<rparr>)"

lemma read_client_config_Inr:
  assumes "read_client_config P realm c = (c', Inr ())"
  shows "\<exists>kem. c' = client_fields P \<lparr>lk_profile = P, lk_defaults = ''libdefaults'', lk_realm = realm\<rparr> c kem \<and>
    (case lookup_string \<lparr>lk_profile = P, lk_defaults = ''libdefaults'', lk_realm = realm\<rparr> ''pkinit_pqc_min_algorithm'' of
       Some v \<Rightarrow> kem = kem_from_name v \<and> kem_from_name v \<noteq> None | None \<Rightarrow> kem = cc_kem_algorithm c)"
proof -
  let ?L = "\<lparr>lk_profile = P, lk_defaults = ''libdefaults'', lk_realm = realm\<rparr>"
  show ?thesis
  proof (cases "lookup_string ?L ''pkinit_pqc_min_algorithm''")
    case None
    have "fst (read_client_config P realm c) = client_fields P ?L c (cc_kem_algorithm c)"
      by (rule client_config.equality) (simp_all add: read_client_config_def client_fields_def Let_def None split: option.split)
    with assms None show ?thesis by (intro exI[of _ "cc_kem_algorithm c"]) simp
  next
    case (Some v)
    with assms obtain a where a: "parse_kem_algorithm P ''pkinit_pqc_min_algorithm'' v = Inr a"
      by (cases "parse_kem_algorithm P ''pkinit_pqc_min_algorithm'' v") (simp_all add: read_client_config_def Let_def)
    have "fst (read_client_config P realm c) = client_fields P ?L c (Some a)"
      by (rule client_config.equality) (simp_all add: read_client_config_def client_fields_def Let_def Some a split: option.split)
    with assms Some a show ?thesis by (intro exI[of _ "Some a"]) (simp add: parse_kem_algorithm_Inr)
  qed
qed

lemma read_kdc_config_policy:
  assumes "profile_ok P R" "read_kdc_config P realm = Inr k"
  shows "kc_require_kem k = effective_typed (rel_bool R) R ''kdcdefaults'' (Some realm) ''pkinit_require_kem'' False"
    and "effective R ''kdcdefaults'' (Some realm) ''pkinit_pqc_min_algorithm'' = v # vs \<Longrightarrow>
      \<exists>a. kem_from_name v = Some a \<and> kc_supported_kem_algorithms k = algorithms_at_or_above a"
    and "effective R ''kdcdefaults'' (Some realm) ''pkinit_pqc_min_algorithm'' = [] \<Longrightarrow>
      kc_supported_kem_algorithms k = []"
    and "list_all2 (\<lambda>v a. kem_from_name v = Some a \<and> is_composite a)
      (effective R ''kdcdefaults'' (Some realm) ''pkinit_pqc_composite_algorithms'')
      (kc_supported_composite_kem_algorithms k)"
proof -
  note read = assms(2)[unfolded read_kdc_config_def Let_def lookups_effective[OF assms(1)]]
  show "kc_require_kem k = effective_typed (rel_bool R) R ''kdcdefaults'' (Some realm) ''pkinit_require_kem'' False"
    using read by (auto simp: kdc_config_default_def res)
  show "\<exists>a. kem_from_name v = Some a \<and> kc_supported_kem_algorithms k = algorithms_at_or_above a"
    if "effective R ''kdcdefaults'' (Some realm) ''pkinit_pqc_min_algorithm'' = v # vs"
    using read that by (auto simp: first_value_def parse_kem_algorithm_Inr res)
  show "kc_supported_kem_algorithms k = []"
    if "effective R ''kdcdefaults'' (Some realm) ''pkinit_pqc_min_algorithm'' = []"
    using read that by (auto simp: first_value_def kdc_config_default_def res)
  show "list_all2 (\<lambda>v a. kem_from_name v = Some a \<and> is_composite a)
      (effective R ''kdcdefaults'' (Some realm) ''pkinit_pqc_composite_algorithms'')
      (kc_supported_composite_kem_algorithms k)"
    using read by (auto simp: kdc_config_default_def res dest: parse_composites_Inr split: if_splits)
qed

lemma algorithms_at_or_above_pure:
  "algorithms_at_or_above a \<noteq> [] \<and>
   (\<forall>b\<in>set (algorithms_at_or_above a). \<not> is_composite b \<and> strength_order a \<le> strength_order b)"
  by (cases a) (auto simp: algorithms_at_or_above_def strength_order_def is_composite_def)

lemma read_kdc_config_lists:
  assumes "profile_ok P R" "read_kdc_config P realm = Inr k"
  shows "kem_lists_ok k"
proof -
  have "\<forall>b\<in>set (kc_supported_kem_algorithms k). \<not> is_composite b"
    using read_kdc_config_policy(2,3)[OF assms] algorithms_at_or_above_pure
    by (cases "effective R ''kdcdefaults'' (Some realm) ''pkinit_pqc_min_algorithm''") fastforce+
  with list_all2_right[OF read_kdc_config_policy(4)[OF assms]] show ?thesis
    by (auto simp: kem_lists_ok_def list_all_iff)
qed

section \<open>Properties\<close>

text \<open>C20: The client's configuration is read as in MIT krb5, a relation of the realm winning over the
  same relation of the defaults section and an absent one leaving the caller's value: that
  holds for every kind of relation, an identity or anchors the caller has set win over both, the
  trust broker's timeout is never negative, and the group the client starts with has at least
  the configured number of bits (up to 4096).\<close>
theorem client_config_effective:
  assumes "profile_ok P R" "read_client_config P realm c = (c', Inr ())"
  shows "cc_identity c' = (case cc_identity c of Some i \<Rightarrow> Some i
      | None \<Rightarrow> first_value (effective R ''libdefaults'' realm ''pkinit_identities'')) \<and>
    cc_anchors c' = (if cc_anchors c = [] then effective R ''libdefaults'' realm ''pkinit_anchors'' else cc_anchors c) \<and>
    cc_require_kem c' = effective_typed (rel_bool R) R ''libdefaults'' realm ''pkinit_require_kem'' (cc_require_kem c) \<and>
    cc_require_crl_checking c' = effective_typed (rel_bool R) R ''libdefaults'' realm
      ''pkinit_require_crl_checking'' (cc_require_crl_checking c) \<and>
    cc_kdc_trust_tofu c' = effective_typed (rel_bool R) R ''libdefaults'' realm ''pkinit_kdc_trust_tofu''
      (cc_kdc_trust_tofu c) \<and>
    cc_dh_min_bits c' = effective_typed (rel_int R) R ''libdefaults'' realm ''pkinit_dh_min_bits'' (cc_dh_min_bits c) \<and>
    0 \<le> sint (cc_kdc_trust_timeout c') \<and>
    (cc_dh_min_bits c' \<le> 4096 \<longrightarrow> cc_dh_min_bits c' \<le> min_bits (cc_dh_group c'))"
proof -
  from read_client_config_Inr[OF assms(2)] obtain kem where
    c': "c' = client_fields P \<lparr>lk_profile = P, lk_defaults = ''libdefaults'', lk_realm = realm\<rparr> c kem" by blast
  show ?thesis
    by (simp add: c' client_fields_def Let_def lookups_effective[OF assms(1)] or_keep_values
        clamp_timeout_range dh_group_big_enough split: option.split)
qed

text \<open>A configured KEM is never ignored: when \<open>pkinit_pqc_min_algorithm\<close> is set, a configuration
  is only produced if its value names an algorithm, which is then the client's algorithm and
  the KDC's floor, and every composite algorithm the KDC accepts is one the administrator
  named; so the KDC's lists hold what their names say.\<close>
theorem configured_kem_enforced:
  assumes "profile_ok P R" "read_client_config P crealm c = (c', Inr ())" "read_kdc_config P krealm = Inr k"
  shows "(\<forall>v vs. effective R ''libdefaults'' crealm ''pkinit_pqc_min_algorithm'' = v # vs \<longrightarrow>
      kem_from_name v \<noteq> None \<and> cc_kem_algorithm c' = kem_from_name v) \<and>
    (\<forall>v vs. effective R ''kdcdefaults'' (Some krealm) ''pkinit_pqc_min_algorithm'' = v # vs \<longrightarrow>
      (\<exists>a. kem_from_name v = Some a \<and> kc_supported_kem_algorithms k \<noteq> [] \<and>
         (\<forall>b\<in>set (kc_supported_kem_algorithms k). strength_order a \<le> strength_order b))) \<and>
    (\<forall>b\<in>set (kc_supported_composite_kem_algorithms k).
      \<exists>v\<in>set (effective R ''kdcdefaults'' (Some krealm) ''pkinit_pqc_composite_algorithms''). kem_from_name v = Some b) \<and>
    kem_lists_ok k"
proof -
  have c: "kem_from_name v \<noteq> None \<and> cc_kem_algorithm c' = kem_from_name v"
    if "effective R ''libdefaults'' crealm ''pkinit_pqc_min_algorithm'' = v # vs" for v vs
    using read_client_config_Inr[OF assms(2)] that
    by (auto simp: lookups_effective[OF assms(1)] first_value_def client_fields_def Let_def)
  note kdc = read_kdc_config_policy[OF assms(1,3)]
  have "\<forall>b\<in>set (kc_supported_composite_kem_algorithms k).
      \<exists>v\<in>set (effective R ''kdcdefaults'' (Some krealm) ''pkinit_pqc_composite_algorithms''). kem_from_name v = Some b"
    using list_all2_right[OF kdc(4)] by blast
  with c kdc(2) read_kdc_config_lists[OF assms(1,3)] algorithms_at_or_above_pure show ?thesis by fastforce
qed

section \<open>A concrete profile\<close>

text \<open>
  \<open>EXAMPLE.COM\<close> requires ML-KEM-1024 and anchors of its own; the client's defaults name
  ML-KEM-768; the KDC accepts one composite.
\<close>

definition demo_relations :: relations where
  "demo_relations = \<lparr>
     rel_values = (\<lambda>p.
       if p = [''realms'', ''EXAMPLE.COM'', ''pkinit_pqc_min_algorithm''] then [''ML-KEM-1024'']
       else if p = [''libdefaults'', ''pkinit_pqc_min_algorithm''] then [''ML-KEM-768'']
       else if p = [''libdefaults'', ''pkinit_anchors''] then [''FILE:d.pem'']
       else if p = [''kdcdefaults'', ''pkinit_pqc_composite_algorithms''] then [''ML-KEM-768-X25519'']
       else []),
     rel_bool = (\<lambda>v. if v = ''true'' then Some True else if v = ''false'' then Some False else None),
     rel_int = (\<lambda>v. map_option word_of_nat (parse_unsigned 10 32 v))\<rparr>"

definition typed_ext :: "'a option \<Rightarrow> 'a ext" where
  "typed_ext v = (case v of Some x \<Rightarrow> Inr x | None \<Rightarrow> Inl ''bad value'')"

text \<open>A profile library that holds the relations \<open>R\<close>.\<close>

definition profile_of :: "relations \<Rightarrow> profile_ops" where
  "profile_of R = \<lparr>
     get_string_opt = (\<lambda>s n b. Inr (first_value (rel_values R (path_of s n b)))),
     get_values = (\<lambda>p. Inr (rel_values R p)),
     get_boolean = (\<lambda>s n b d. typed_ext (typed_value (rel_bool R) (rel_values R (path_of s n b)) d)),
     get_integer = (\<lambda>s n b d. typed_ext (typed_value (rel_int R) (rel_values R (path_of s n b)) d)),
     debug_str = (\<lambda>v. [CHR 0x22] @ v @ [CHR 0x22])\<rparr>"

lemma profile_of_ok: "profile_ok (profile_of R) R"
  by (simp add: profile_ok_def profile_of_def typed_ext_def ok_opt_def split: option.splits)

definition demo_profile :: profile_ops where
  "demo_profile = profile_of demo_relations"

lemma demo_profile_ok: "profile_ok demo_profile demo_relations"
  by (simp add: demo_profile_def profile_of_ok)

lemma demo_kem_names: "kem_from_name ''ML-KEM-1024'' = Some MlKem1024"
  "kem_from_name ''ML-KEM-768-X25519'' = Some MlKem768X25519"
  by code_simp+

lemma demo_read_client:
  "snd (read_client_config demo_profile (Some ''EXAMPLE.COM'') client_config_default) = Inr ()"
  by (simp add: read_client_config_def Let_def lookups_effective[OF demo_profile_ok] effective_def places_def
      demo_relations_def first_value_def parse_kem_algorithm_def demo_kem_names)

lemma demo_read_kdc: "\<exists>k. read_kdc_config demo_profile ''EXAMPLE.COM'' = Inr k"
  by (simp add: read_kdc_config_def Let_def lookups_effective[OF demo_profile_ok] effective_def places_def
      demo_relations_def first_value_def parse_kem_algorithm_def demo_kem_names
      parse_composite_kem_algorithms_def is_composite_def kdc_config_default_def)

theorem client_config_effective_witness:
  "cc_anchors (fst (read_client_config demo_profile (Some ''EXAMPLE.COM'') client_config_default)) = [''FILE:d.pem'']"
proof -
  have "read_client_config demo_profile (Some ''EXAMPLE.COM'') client_config_default
      = (fst (read_client_config demo_profile (Some ''EXAMPLE.COM'') client_config_default), Inr ())"
    using demo_read_client by (metis prod.collapse)
  from client_config_effective[OF demo_profile_ok this] show ?thesis
    by (simp add: effective_def places_def demo_relations_def client_config_default_def)
qed

theorem configured_kem_enforced_witness:
  "\<exists>k. read_kdc_config demo_profile ''EXAMPLE.COM'' = Inr k \<and> kem_lists_ok k \<and>
     cc_kem_algorithm (fst (read_client_config demo_profile (Some ''EXAMPLE.COM'') client_config_default)) = Some MlKem1024"
proof -
  obtain k where k: "read_kdc_config demo_profile ''EXAMPLE.COM'' = Inr k" using demo_read_kdc by blast
  have "read_client_config demo_profile (Some ''EXAMPLE.COM'') client_config_default
      = (fst (read_client_config demo_profile (Some ''EXAMPLE.COM'') client_config_default), Inr ())"
    using demo_read_client by (metis prod.collapse)
  from configured_kem_enforced[OF demo_profile_ok this k] k show ?thesis
    by (simp add: effective_def places_def demo_relations_def demo_kem_names)
qed

end
