(* ===== verification/Pin_Store.thy ===== *)
theory Pin_Store
  imports Trust_Store Checksum
begin

text \<open>
  \<open>pkinit-trust-brokerd/src/store.rs\<close>: the broker's pins, one certificate authority per realm
  (trust on first use), the decision on a request, and the text that reaches a prompt.

  A \<open>HashMap\<close> is a map; the order it is iterated in is the argument \<open>map_keys\<close>.  \<open>decide\<close> also
  returns the file it writes, whose failure the code only reports.  Base64, JSON, the Unicode
  tables and the certificate libraries are the record \<open>broker_ops\<close>.
\<close>

type_synonym u64 = "64 word"

record pin =
  pin_ca_b64 :: rstr
  pin_fingerprint :: rstr
  pin_expires_at :: "u64 option"

record pin_store =
  ps_path :: "rstr option"
  ps_pins :: "rstr \<rightharpoonup> pin"

datatype grant_ttl = Forever | For u64

datatype decision = DTrusted | DDenied | DUnknown

record trust_reply =
  rp_decision :: decision
  rp_anchors :: "rstr list"
  rp_reason :: "rstr option"

record trusted_realm =
  rlm_realm :: rstr
  rlm_ca_der :: rstr
  rlm_fingerprint :: rstr
  rlm_expires_at :: "u64 option"

record trust_request =
  req_realm :: rstr
  req_kdc_principal :: rstr
  req_ca_subject :: rstr
  req_fingerprint :: rstr
  req_client_pid :: "int option"

type_synonym prompter = "trust_request \<Rightarrow> grant_ttl option"

record broker_ops =
  bo_chain :: chain_ops
  bo_hash :: hash_ops
  b64_encode :: "bytes \<Rightarrow> rstr"
  b64_decode :: "rstr \<Rightarrow> bytes ext"
  format_dn :: "bytes \<Rightarrow> rstr"
  is_format_char :: "rstr \<Rightarrow> bool"
  pins_to_json :: "(rstr \<rightharpoonup> pin) \<Rightarrow> bytes ext"
  pins_from_json :: "bytes \<Rightarrow> (rstr \<rightharpoonup> pin) ext"
  fs_exists :: "rstr \<Rightarrow> bool"
  map_keys :: "(rstr \<rightharpoonup> pin) \<Rightarrow> rstr list"

section \<open>Time\<close>

definition now_secs :: "broker_ops \<Rightarrow> u64" where
  "now_secs B = (case time_since_epoch (bo_chain B) of Inr t \<Rightarrow> of_nat t | Inl _ \<Rightarrow> 0)"

definition saturating_add :: "u64 \<Rightarrow> u64 \<Rightarrow> u64" where
  "saturating_add a b = (if uint a + uint b < 2 ^ 64 then a + b else - 1)"

definition expires_at_epoch_secs :: "grant_ttl \<Rightarrow> u64 \<Rightarrow> u64 option" where
  "expires_at_epoch_secs g now = (case g of Forever \<Rightarrow> None | For d \<Rightarrow> Some (saturating_add now d))"

definition GRANT_PRESETS :: "(rstr \<times> grant_ttl) list" where
  "GRANT_PRESETS = [(''15 minutes'', For (15 * 60)), (''1 hour'', For (60 * 60)),
     (''1 day'', For (24 * 60 * 60)), (''1 week'', For (7 * 24 * 60 * 60)), (''forever'', Forever)]"

definition PROMPT_TIMEOUT :: u64 where "PROMPT_TIMEOUT = 300"

definition expired :: "pin \<Rightarrow> u64 \<Rightarrow> bool" where
  "expired p now = (case pin_expires_at p of Some e \<Rightarrow> e \<le> now | None \<Rightarrow> False)"

definition auto_prompter :: "bool \<Rightarrow> prompter" where
  "auto_prompter approve req = (if approve then Some Forever else None)"

section \<open>Text that is shown\<close>

text \<open>
  The characters of a UTF-8 string: a byte and the continuation bytes that follow it.  The
  control characters are U+0000 to U+001F, U+007F and U+0080 to U+009F.
\<close>

definition continuation :: "char \<Rightarrow> bool" where
  "continuation c \<longleftrightarrow> (of_char c :: nat) div 64 = 2"

fun utf8_chars :: "rstr \<Rightarrow> rstr list" where
  "utf8_chars [] = []"
| "utf8_chars (c # s) =
     (case utf8_chars s of
        [] \<Rightarrow> [[c]]
      | ch # chs \<Rightarrow>
          if ch \<noteq> [] \<and> continuation (hd ch) then (c # ch) # chs else [c] # ch # chs)"

definition is_control :: "rstr \<Rightarrow> bool" where
  "is_control ch \<longleftrightarrow>
     (case map (of_char :: char \<Rightarrow> nat) ch of
        [b] \<Rightarrow> b < 32 \<or> b = 127
      | [b, c] \<Rightarrow> b = 194 \<and> 128 \<le> c \<and> c < 160
      | _ \<Rightarrow> False)"

definition is_unsafe_for_display :: "broker_ops \<Rightarrow> rstr \<Rightarrow> bool" where
  "is_unsafe_for_display B ch \<longleftrightarrow> is_control ch \<or> is_format_char B ch"

definition sanitize_for_display :: "broker_ops \<Rightarrow> rstr \<Rightarrow> rstr" where
  "sanitize_for_display B s = concat (filter (\<lambda>ch. \<not> is_unsafe_for_display B ch) (utf8_chars s))"

definition subject_dn :: "broker_ops \<Rightarrow> bytes \<Rightarrow> rstr option" where
  "subject_dn B der = map_option (\<lambda>c. format_dn B (crt_subject c)) (ok_opt (chain_cert_decode (bo_chain B) der))"

definition hex2 :: "byte \<Rightarrow> rstr" where
  "hex2 b = (let n = unat b in [''0123456789abcdef'' ! (n div 16), ''0123456789abcdef'' ! (n mod 16)])"

section \<open>Choosing the authority\<close>

text \<open>
  The store of one anchor is the store of that certificate; the presented certificates that
  are neither the signer's nor the anchor must all be readable.
\<close>

definition anchor_policy :: "u64 \<Rightarrow> policy" where
  "anchor_policy now = (client_policy now)\<lparr>pol_ca_extensions := DefaultWebPkiCa\<rparr>"

definition validates_as_anchor :: "broker_ops \<Rightarrow> bytes \<Rightarrow> bytes \<Rightarrow> bytes list \<Rightarrow> bool" where
  "validates_as_anchor B anchor_der signer_der presented_der =
     (let K = bo_chain B;
          others = filter (\<lambda>d. \<not> (d = signer_der \<or> d = anchor_der)) presented_der in
      is_ok (owned_store_try_new K [anchor_der]) \<and>
      is_ok (chain_cert_decode K signer_der) \<and>
      list_all (\<lambda>d. is_ok (chain_cert_decode K d)) others \<and>
      is_ok (chain_verify_roots K [anchor_der] signer_der others (anchor_policy (unix_now K))))"

definition select_ca :: "broker_ops \<Rightarrow> bytes \<Rightarrow> bytes list \<Rightarrow> bytes option" where
  "select_ca B signer_der presented_der =
     List.find (\<lambda>der. der \<noteq> signer_der \<and> validates_as_anchor B der signer_der presented_der)
       (rev presented_der)"

definition sha256_hex :: "broker_ops \<Rightarrow> bytes \<Rightarrow> rstr option" where
  "sha256_hex B der = map_option (\<lambda>d. concat (map hex2 d)) (ok_opt (hash_data (bo_hash B) ''sha256'' der))"

section \<open>The store\<close>

definition in_memory :: pin_store where
  "in_memory = \<lparr>ps_path = None, ps_pins = Map.empty\<rparr>"

definition open_store :: "broker_ops \<Rightarrow> os_ops \<Rightarrow> rstr \<Rightarrow> pin_store ext" where
  "open_store B F path =
     rbind (if fs_exists B path then
              rbind (fs_read F path) (\<lambda>data.
                case pins_from_json B data of
                  Inr pins \<Rightarrow> Inr pins
                | Inl e \<Rightarrow> Inr Map.empty)
            else Inr Map.empty) (\<lambda>pins.
       Inr \<lparr>ps_path = Some path, ps_pins = pins\<rparr>)"

text \<open>The file that is written and its contents; \<open>unwrap_or_default\<close> writes an empty file.\<close>

definition persist :: "broker_ops \<Rightarrow> pin_store \<Rightarrow> (rstr \<times> bytes) option" where
  "persist B s = map_option (\<lambda>path.
     (path, case pins_to_json B (ps_pins s) of Inr json \<Rightarrow> json | Inl _ \<Rightarrow> [])) (ps_path s)"

definition reply_denied :: "rstr \<Rightarrow> trust_reply" where
  "reply_denied reason = \<lparr>rp_decision = DDenied, rp_anchors = [], rp_reason = Some reason\<rparr>"

definition reply_trusted :: "rstr \<Rightarrow> trust_reply" where
  "reply_trusted anchor = \<lparr>rp_decision = DTrusted, rp_anchors = [anchor], rp_reason = None\<rparr>"

definition reply_unknown :: trust_reply where
  "reply_unknown = \<lparr>rp_decision = DUnknown, rp_anchors = [], rp_reason = None\<rparr>"

text \<open>What the prompter is asked.\<close>

definition prompt_for :: "broker_ops \<Rightarrow> rstr \<Rightarrow> rstr \<Rightarrow> int option \<Rightarrow> bytes \<Rightarrow> rstr \<Rightarrow> trust_request" where
  "prompt_for B realm kdc_principal client_pid ca fp =
     (let realm_display = sanitize_for_display B realm in
      \<lparr>req_realm = realm_display, req_kdc_principal = sanitize_for_display B kdc_principal,
       req_ca_subject = sanitize_for_display B
         (case subject_dn B ca of Some dn \<Rightarrow> dn | None \<Rightarrow> ''(CA for '' @ realm_display @ '')''),
       req_fingerprint = fp, req_client_pid = client_pid\<rparr>)"

definition decide ::
    "broker_ops \<Rightarrow> pin_store \<Rightarrow> rstr \<Rightarrow> rstr \<Rightarrow> int option \<Rightarrow> bytes \<Rightarrow> bytes list \<Rightarrow> bool \<Rightarrow> prompter \<Rightarrow>
     pin_store \<times> trust_reply \<times> (rstr \<times> bytes) option" where
  "decide B s realm kdc_principal client_pid signer_der presented_der interactive prompter =
     (case select_ca B signer_der presented_der of
        None \<Rightarrow> (s, reply_denied ''presented chain contains no valid CA certificate'', None)
      | Some ca \<Rightarrow>
          (case sha256_hex B ca of
             None \<Rightarrow> (s, reply_denied ''failed to compute CA fingerprint'', None)
           | Some fp \<Rightarrow>
               let ca_b64 = b64_encode B ca;
                   now = now_secs B;
                   live = (case ps_pins s realm of
                      Some existing \<Rightarrow> if \<not> expired existing now then Some existing else None
                    | None \<Rightarrow> None)
               in (case live of
                     Some existing \<Rightarrow>
                       (s, if pin_fingerprint existing = fp then reply_trusted (pin_ca_b64 existing)
                           else reply_denied ''KDC CA changed for a known realm'', None)
                   | None \<Rightarrow>
                       let s = s\<lparr>ps_pins := (ps_pins s)(realm := None)\<rparr> in
                       if \<not> interactive then (s, reply_unknown, None)
                       else
                         (case prompter (prompt_for B realm kdc_principal client_pid ca fp) of
                            Some ttl \<Rightarrow>
                              let s = s\<lparr>ps_pins := (ps_pins s)(realm \<mapsto>
                                    \<lparr>pin_ca_b64 = ca_b64, pin_fingerprint = fp,
                                     pin_expires_at = expires_at_epoch_secs ttl now\<rparr>)\<rparr>
                              in (s, reply_trusted ca_b64, persist B s)
                          | None \<Rightarrow> (s, reply_denied ''user declined'', None)))))"

definition trusted_realms :: "broker_ops \<Rightarrow> pin_store \<Rightarrow> trusted_realm list" where
  "trusted_realms B s =
     (let now = now_secs B in
      List.map_filter (\<lambda>realm. case ps_pins s realm of
          None \<Rightarrow> None
        | Some p \<Rightarrow>
            if \<not> expired p now then
              Some \<lparr>rlm_realm = realm, rlm_ca_der = pin_ca_b64 p, rlm_fingerprint = pin_fingerprint p,
                    rlm_expires_at = pin_expires_at p\<rparr>
            else None) (map_keys B (ps_pins s)))"

section \<open>Facts about one decision\<close>

text \<open>The authority a request shows, with its fingerprint.\<close>

definition shown_ca :: "broker_ops \<Rightarrow> bytes \<Rightarrow> bytes list \<Rightarrow> (bytes \<times> rstr) option" where
  "shown_ca B signer presented =
     Option.bind (select_ca B signer presented) (\<lambda>ca. map_option (\<lambda>fp. (ca, fp)) (sha256_hex B ca))"

definition live_pin :: "pin_store \<Rightarrow> rstr \<Rightarrow> u64 \<Rightarrow> pin option" where
  "live_pin s realm now =
     Option.bind (ps_pins s realm) (\<lambda>p. if expired p now then None else Some p)"

lemma live_pin_Some: "live_pin s realm now = Some p \<longleftrightarrow> ps_pins s realm = Some p \<and> \<not> expired p now"
  by (auto simp: live_pin_def bind_eq_Some_conv split: if_splits)

lemma select_ca_Some:
  "select_ca B signer presented = Some ca \<Longrightarrow>
   ca \<in> set presented \<and> ca \<noteq> signer \<and> validates_as_anchor B ca signer presented"
  by (auto simp: select_ca_def dest: find_SomeD)

lemma decide_cases:
  assumes "decide B s realm kp pid signer presented ask pr = (s', r, w)"
  shows "shown_ca B signer presented = None \<and> s' = s \<and> w = None \<and> rp_decision r = DDenied \<or>
    (\<exists>ca fp. shown_ca B signer presented = Some (ca, fp) \<and>
      ((\<exists>p. live_pin s realm (now_secs B) = Some p \<and> s' = s \<and> w = None \<and>
          r = (if pin_fingerprint p = fp then reply_trusted (pin_ca_b64 p)
               else reply_denied ''KDC CA changed for a known realm'')) \<or>
       live_pin s realm (now_secs B) = None \<and>
         (\<not> ask \<and> r = reply_unknown \<and> s' = s\<lparr>ps_pins := (ps_pins s)(realm := None)\<rparr> \<and> w = None \<or>
          ask \<and> pr (prompt_for B realm kp pid ca fp) = None \<and> r = reply_denied ''user declined'' \<and>
            s' = s\<lparr>ps_pins := (ps_pins s)(realm := None)\<rparr> \<and> w = None \<or>
          ask \<and> (\<exists>ttl. pr (prompt_for B realm kp pid ca fp) = Some ttl \<and> r = reply_trusted (b64_encode B ca) \<and>
            s' = s\<lparr>ps_pins := (ps_pins s)(realm \<mapsto> \<lparr>pin_ca_b64 = b64_encode B ca, pin_fingerprint = fp,
              pin_expires_at = expires_at_epoch_secs ttl (now_secs B)\<rparr>)\<rparr> \<and> w = persist B s'))))"
proof (cases "select_ca B signer presented")
  case None
  with assms show ?thesis by (auto simp: decide_def shown_ca_def reply_denied_def)
next
  case ca: (Some ca)
  show ?thesis
  proof (cases "sha256_hex B ca")
    case None
    with ca assms show ?thesis by (auto simp: decide_def shown_ca_def reply_denied_def)
  next
    case fp: (Some fp)
    have l: "(case ps_pins s realm of
          Some existing \<Rightarrow> if \<not> expired existing (now_secs B) then Some existing else None
        | None \<Rightarrow> None) = live_pin s realm (now_secs B)"
      by (simp add: live_pin_def split: option.splits)
    from assms show ?thesis
      by (cases "live_pin s realm (now_secs B)")
        (auto simp: decide_def ca fp shown_ca_def Let_def l split: if_splits option.splits)
  qed
qed

lemma decide_other_realms:
  "decide B s realm kp pid signer presented ask pr = (s', r, w) \<Longrightarrow> k \<noteq> realm \<Longrightarrow> ps_pins s' k = ps_pins s k"
  by (elim decide_cases[THEN disjE]) auto

lemma replies [simp]:
  "rp_decision (reply_denied t) = DDenied" "rp_decision (reply_trusted a) = DTrusted"
  "rp_decision reply_unknown = DUnknown" "rp_anchors (reply_trusted a) = [a]"
  by (simp_all add: reply_denied_def reply_trusted_def reply_unknown_def)

lemma reply_kinds [simp]:
  "reply_denied t \<noteq> reply_trusted a" "reply_trusted a \<noteq> reply_denied t" "reply_trusted a = reply_trusted b \<longleftrightarrow> a = b"
  by (auto simp: reply_denied_def reply_trusted_def)

section \<open>Trust on first use, as a contract\<close>

text \<open>
  A server of trust requests that keeps one pin per realm: it changes no realm but the one it is
  asked about, and while that realm's pin is live it keeps it and trusts only its authority.
\<close>

fun serve_all :: "('s \<Rightarrow> 'q \<Rightarrow> 's \<times> 'r) \<Rightarrow> 's \<Rightarrow> 'q list \<Rightarrow> 's \<times> 'r list" where
  "serve_all serve s [] = (s, [])"
| "serve_all serve s (q # qs) =
     (case serve s q of (s1, r) \<Rightarrow> (case serve_all serve s1 qs of (s2, rs) \<Rightarrow> (s2, r # rs)))"

locale tofu =
  fixes serve :: "'s \<Rightarrow> 'q \<Rightarrow> 's \<times> trust_reply"
    and pin_at :: "'s \<Rightarrow> rstr \<Rightarrow> pin option"
    and realm_of :: "'q \<Rightarrow> rstr"
    and clock :: "'q \<Rightarrow> u64"
    and shown :: "'q \<Rightarrow> rstr option"
  assumes other_realms: "serve s q = (s', r) \<Longrightarrow> k \<noteq> realm_of q \<Longrightarrow> pin_at s' k = pin_at s k"
    and live_kept: "serve s q = (s', r) \<Longrightarrow> pin_at s (realm_of q) = Some p \<Longrightarrow> \<not> expired p (clock q) \<Longrightarrow>
      pin_at s' (realm_of q) = Some p \<and>
      (rp_decision r = DTrusted \<longrightarrow> shown q = Some (pin_fingerprint p) \<and> rp_anchors r = [pin_ca_b64 p])"
begin

lemma step_keeps:
  "serve s q = (s', r) \<Longrightarrow> pin_at s k = Some p \<Longrightarrow> \<not> expired p (clock q) \<Longrightarrow> pin_at s' k = Some p"
  using other_realms live_kept by metis

lemma sticky:
  assumes "pin_at s k = Some p" "\<forall>q\<in>set qs. \<not> expired p (clock q)" "serve_all serve s qs = (s', rs)"
  shows "pin_at s' k = Some p \<and> length rs = length qs \<and>
    (\<forall>i<length qs. realm_of (qs ! i) = k \<longrightarrow> rp_decision (rs ! i) = DTrusted \<longrightarrow>
       shown (qs ! i) = Some (pin_fingerprint p) \<and> rp_anchors (rs ! i) = [pin_ca_b64 p])"
  using assms
proof (induction qs arbitrary: s rs)
  case Nil
  then show ?case by simp
next
  case (Cons q qs)
  obtain s1 r where 1: "serve s q = (s1, r)" by force
  obtain rs1 where 2: "serve_all serve s1 qs = (s', rs1)" and rs: "rs = r # rs1"
    using Cons.prems(3) 1 by (auto split: prod.splits)
  have p1: "pin_at s1 k = Some p" using step_keeps[OF 1 Cons.prems(1)] Cons.prems(2) by simp
  have IH: "pin_at s' k = Some p \<and> length rs1 = length qs \<and>
    (\<forall>i<length qs. realm_of (qs ! i) = k \<longrightarrow> rp_decision (rs1 ! i) = DTrusted \<longrightarrow>
       shown (qs ! i) = Some (pin_fingerprint p) \<and> rp_anchors (rs1 ! i) = [pin_ca_b64 p])"
    using Cons.IH[OF p1 _ 2] Cons.prems(2) by simp
  have "realm_of q = k \<Longrightarrow> rp_decision r = DTrusted \<Longrightarrow> shown q = Some (pin_fingerprint p) \<and> rp_anchors r = [pin_ca_b64 p]"
    using live_kept[OF 1] Cons.prems(1,2) by auto
  with IH rs show ?case by (auto simp: nth_Cons split: nat.splits)
qed

end

text \<open>A request with the clock and the libraries of its time.\<close>

record pin_query =
  pq_env :: broker_ops
  pq_realm :: rstr
  pq_principal :: rstr
  pq_pid :: "int option"
  pq_signer :: bytes
  pq_presented :: "bytes list"
  pq_interactive :: bool
  pq_prompter :: prompter

definition serve_query :: "pin_store \<Rightarrow> pin_query \<Rightarrow> pin_store \<times> trust_reply" where
  "serve_query s q =
     (case decide (pq_env q) s (pq_realm q) (pq_principal q) (pq_pid q) (pq_signer q) (pq_presented q)
        (pq_interactive q) (pq_prompter q) of (s', r, w) \<Rightarrow> (s', r))"

definition query_fingerprint :: "pin_query \<Rightarrow> rstr option" where
  "query_fingerprint q = map_option snd (shown_ca (pq_env q) (pq_signer q) (pq_presented q))"

definition query_time :: "pin_query \<Rightarrow> u64" where
  "query_time q = now_secs (pq_env q)"

interpretation pins: tofu serve_query ps_pins pq_realm query_time query_fingerprint
proof unfold_locales
  fix s q s' r k
  assume "serve_query s q = (s', r)" "k \<noteq> pq_realm q"
  then show "ps_pins s' k = ps_pins s k"
    by (auto simp: serve_query_def split: prod.splits dest: decide_other_realms)
next
  fix s q s' r p
  assume "serve_query s q = (s', r)" "ps_pins s (pq_realm q) = Some p" "\<not> expired p (query_time q)"
  then show "ps_pins s' (pq_realm q) = Some p \<and>
      (rp_decision r = DTrusted \<longrightarrow> query_fingerprint q = Some (pin_fingerprint p) \<and> rp_anchors r = [pin_ca_b64 p])"
    by (auto simp: serve_query_def query_time_def query_fingerprint_def live_pin_def
        split: prod.splits if_splits dest!: decide_cases)
qed

section \<open>Trust on first use, as a specification\<close>

text \<open>
  The grants in force: the fingerprint a realm is bound to and the end of the grant.  The
  specification forgets what has lapsed at once, the store only when the realm is asked about.
\<close>

type_synonym grants = "rstr \<rightharpoonup> rstr \<times> u64 option"

definition ended :: "u64 \<Rightarrow> u64 option \<Rightarrow> bool" where
  "ended now e = (case e of Some e \<Rightarrow> e \<le> now | None \<Rightarrow> False)"

definition lapse :: "u64 \<Rightarrow> grants \<Rightarrow> grants" where
  "lapse now G = (\<lambda>realm. case G realm of
      Some (fp, e) \<Rightarrow> if ended now e then None else Some (fp, e)
    | None \<Rightarrow> None)"

definition tofu_spec ::
    "grants \<Rightarrow> rstr \<Rightarrow> u64 \<Rightarrow> rstr option \<Rightarrow> bool \<Rightarrow> grant_ttl option \<Rightarrow> grants \<times> decision" where
  "tofu_spec G realm now fingerprint interactive answer =
     (case (fingerprint, lapse now G realm) of
        (None, _) \<Rightarrow> (lapse now G, DDenied)
      | (Some fp, Some (bound, _)) \<Rightarrow> (lapse now G, if bound = fp then DTrusted else DDenied)
      | (Some fp, None) \<Rightarrow>
          if \<not> interactive then (lapse now G, DUnknown)
          else (case answer of
              None \<Rightarrow> (lapse now G, DDenied)
            | Some ttl \<Rightarrow> ((lapse now G)(realm \<mapsto> (fp, expires_at_epoch_secs ttl now)), DTrusted)))"

definition grants_of :: "pin_store \<Rightarrow> grants" where
  "grants_of s = (\<lambda>realm. map_option (\<lambda>p. (pin_fingerprint p, pin_expires_at p)) (ps_pins s realm))"

text \<open>What the user says when asked about a request.\<close>

definition query_answer :: "pin_query \<Rightarrow> grant_ttl option" where
  "query_answer q =
     Option.bind (shown_ca (pq_env q) (pq_signer q) (pq_presented q)) (\<lambda>(ca, fp).
       pq_prompter q (prompt_for (pq_env q) (pq_realm q) (pq_principal q) (pq_pid q) ca fp))"

definition spec_query :: "grants \<Rightarrow> pin_query \<Rightarrow> grants \<times> decision" where
  "spec_query G q =
     tofu_spec G (pq_realm q) (query_time q) (query_fingerprint q) (pq_interactive q) (query_answer q)"

locale timed_refinement =
  fixes step :: "'s \<Rightarrow> 'q \<Rightarrow> 's \<times> 'r"
    and spec :: "'a \<Rightarrow> 'q \<Rightarrow> 'a \<times> 'd"
    and rel :: "u64 \<Rightarrow> 's \<Rightarrow> 'a \<Rightarrow> bool"
    and time :: "'q \<Rightarrow> u64"
    and view :: "'r \<Rightarrow> 'd"
  assumes later: "rel t s a \<Longrightarrow> t \<le> t' \<Longrightarrow> rel t' s a"
    and simulates: "rel (time q) s a \<Longrightarrow> step s q = (s', r) \<Longrightarrow> spec a q = (a', d) \<Longrightarrow>
      rel (time q) s' a' \<and> d = view r"
begin

lemma run:
  assumes "rel t s a" "sorted (t # map time qs)" "serve_all step s qs = (s', rs)" "serve_all spec a qs = (a', ds)"
  shows "rel (last (t # map time qs)) s' a' \<and> ds = map view rs"
  using assms
proof (induction qs arbitrary: t s a rs ds)
  case (Cons q qs)
  obtain s1 r a1 d where 1: "step s q = (s1, r)" "spec a q = (a1, d)" by force
  obtain rs1 ds1 where 2: "serve_all step s1 qs = (s', rs1)" "serve_all spec a1 qs = (a', ds1)"
    and rs: "rs = r # rs1" "ds = d # ds1"
    using Cons.prems(3,4) 1 by (auto split: prod.splits)
  have "rel (time q) s a" using later[OF Cons.prems(1)] Cons.prems(2) by simp
  from simulates[OF this 1] have 3: "rel (time q) s1 a1" "d = view r" by simp_all
  have "sorted (time q # map time qs)" using Cons.prems(2) by simp
  from Cons.IH[OF 3(1) this 2] 3(2) rs show ?case by simp
qed simp

end

lemma lapse_lapse: "t \<le> t' \<Longrightarrow> lapse t' (lapse t G) = lapse t' G"
  by (auto simp: lapse_def ended_def fun_eq_iff split: option.splits)

lemma lapse_upd: "lapse t (G(k \<mapsto> (fp, e))) = (lapse t G)(k := if ended t e then None else Some (fp, e))"
  by (auto simp: lapse_def fun_eq_iff)

lemma lapse_del: "lapse t (G(k := None)) = (lapse t G)(k := None)"
  by (auto simp: lapse_def fun_eq_iff)

lemma lapse_idem [simp]: "lapse t (lapse t G) = lapse t G"
  by (simp add: lapse_lapse)

lemma lapse_grants_of: "lapse t (grants_of s) realm =
    map_option (\<lambda>p. (pin_fingerprint p, pin_expires_at p)) (live_pin s realm t)"
  by (auto simp: lapse_def grants_of_def live_pin_def expired_def ended_def split: option.splits)

lemma grants_of_upd:
  "grants_of (s\<lparr>ps_pins := (ps_pins s)(k := x)\<rparr>) =
   (grants_of s)(k := map_option (\<lambda>p. (pin_fingerprint p, pin_expires_at p)) x)"
  by (auto simp: grants_of_def fun_eq_iff)

lemma serve_query_simulates:
  assumes rel: "lapse (query_time q) G = lapse (query_time q) (grants_of s)"
    and step: "serve_query s q = (s', r)" and spec: "spec_query G q = (G', d)"
  shows "lapse (query_time q) G' = lapse (query_time q) (grants_of s') \<and> d = rp_decision r"
proof -
  obtain w where D: "decide (pq_env q) s (pq_realm q) (pq_principal q) (pq_pid q) (pq_signer q) (pq_presented q)
        (pq_interactive q) (pq_prompter q) = (s', r, w)"
    using step by (auto simp: serve_query_def split: prod.splits)
  let ?t = "query_time q" and ?r = "pq_realm q"
  have L: "lapse ?t G ?r = map_option (\<lambda>p. (pin_fingerprint p, pin_expires_at p)) (live_pin s ?r ?t)"
    by (simp add: rel lapse_grants_of)
  have gone: "(lapse ?t (grants_of s))(?r := None) = lapse ?t (grants_of s)" if "live_pin s ?r ?t = None"
    using that lapse_grants_of[of ?t s ?r] by (auto simp: fun_eq_iff)
  note unf = spec[unfolded spec_query_def tofu_spec_def query_fingerprint_def query_answer_def]
  from decide_cases[OF D] show ?thesis
  proof (elim disjE exE conjE, goal_cases)
    case 1
    with unf rel show ?thesis by auto
  next
    case (2 ca fp p)
    with unf rel L show ?thesis by (auto simp: query_time_def)
  next
    case (3 ca fp)
    with unf rel L gone show ?thesis by (auto simp: query_time_def grants_of_upd lapse_del reply_unknown_def)
  next
    case (4 ca fp)
    with unf rel L gone show ?thesis by (auto simp: query_time_def grants_of_upd lapse_del)
  next
    case (5 ca fp ttl)
    with unf rel L gone show ?thesis by (auto simp: query_time_def grants_of_upd lapse_upd)
  qed
qed

interpretation tofu_impl: timed_refinement serve_query spec_query
  "\<lambda>t s G. lapse t G = lapse t (grants_of s)" query_time rp_decision
  by unfold_locales (metis lapse_lapse, rule serve_query_simulates)

section \<open>Facts about text\<close>

lemma concat_utf8_chars: "concat (utf8_chars s) = s"
  by (induction s) (auto split: list.splits)

lemma list_all_hd_tl: "xs \<noteq> [] \<Longrightarrow> list_all Q xs \<longleftrightarrow> Q (hd xs) \<and> list_all Q (tl xs)"
  by (cases xs) auto

lemma utf8_chars_shape: "ch \<in> set (utf8_chars s) \<Longrightarrow> ch \<noteq> [] \<and> list_all continuation (tl ch)"
  by (induction s arbitrary: ch) (auto simp: list_all_hd_tl split: list.splits if_splits)

definition utf8_ok :: "rstr \<Rightarrow> bool" where
  "utf8_ok s \<longleftrightarrow> list_all (\<lambda>ch. \<not> continuation (hd ch)) (utf8_chars s)"

lemma utf8_chars_char:
  assumes "ch \<noteq> []" "list_all continuation (tl ch)" "utf8_chars s = chs" "chs = [] \<or> \<not> continuation (hd (hd chs))"
    "[] \<notin> set chs"
  shows "utf8_chars (ch @ s) = ch # chs"
  using assms
proof (induction ch)
  case (Cons c ch)
  then show ?case by (cases ch; cases chs) auto
qed simp

lemma utf8_chars_concat:
  "\<forall>ch\<in>set chs. ch \<noteq> [] \<and> list_all continuation (tl ch) \<and> \<not> continuation (hd ch) \<Longrightarrow> utf8_chars (concat chs) = chs"
proof (induction chs)
  case (Cons ch chs)
  then show ?case
    using utf8_chars_char[of ch "concat chs" chs] by (cases chs) auto
qed simp

lemma sanitized_chars:
  "utf8_ok s \<Longrightarrow> utf8_chars (sanitize_for_display B s) = filter (\<lambda>ch. \<not> is_unsafe_for_display B ch) (utf8_chars s)"
  unfolding sanitize_for_display_def
  by (rule utf8_chars_concat) (auto simp: utf8_ok_def list_all_iff dest: utf8_chars_shape)

section \<open>Facts about time\<close>

lemma uint_saturating_add: "uint (saturating_add a b) = min (uint a + uint b) (2 ^ 64 - 1)"
proof (cases "uint a + uint b < 2 ^ 64")
  case True
  then have "uint (a + b) = uint a + uint b" by (simp add: uint_plus_if')
  with True show ?thesis by (simp add: saturating_add_def)
next
  case False
  have "uint (- 1 :: 64 word) = 2 ^ 64 - 1" by (simp add: unsigned_minus_1_eq_mask mask_eq_exp_minus_1)
  with False show ?thesis by (simp add: saturating_add_def)
qed

lemma expired_grant:
  "expired \<lparr>pin_ca_b64 = c, pin_fingerprint = f, pin_expires_at = expires_at_epoch_secs g now\<rparr> t \<longleftrightarrow>
   (case g of Forever \<Rightarrow> False | For d \<Rightarrow> min (uint now + uint d) (2 ^ 64 - 1) \<le> uint t)"
  by (simp add: expired_def expires_at_epoch_secs_def word_le_def uint_saturating_add split: grant_ttl.split)

section \<open>Properties\<close>

text \<open>C21: The broker trusts only a certificate authority of the presented chain that is not the signer's
  certificate and that validates the signer's chain, and only for one of two reasons: a live pin
  of the realm has its fingerprint, in which case nothing changes and the pinned certificate is
  the anchor; or the exchange is interactive and the user, shown that fingerprint, approved,
  in which case it is pinned for the granted time and the store is written.  Without
  interaction no pin is ever made or changed; an answer that is not trusted has no anchors.\<close>
theorem trust_reply_sound:
  assumes "decide B s realm kp pid signer presented ask pr = (s', r, w)"
  shows "(rp_decision r = DTrusted \<longrightarrow> (\<exists>ca fp. ca \<in> set presented \<and> ca \<noteq> signer \<and>
      validates_as_anchor B ca signer presented \<and> sha256_hex B ca = Some fp \<and>
      ((\<exists>p. ps_pins s realm = Some p \<and> \<not> expired p (now_secs B) \<and> pin_fingerprint p = fp \<and>
          rp_anchors r = [pin_ca_b64 p] \<and> s' = s \<and> w = None) \<or>
       (ask \<and> (\<exists>ttl. pr (prompt_for B realm kp pid ca fp) = Some ttl \<and> rp_anchors r = [b64_encode B ca] \<and>
          ps_pins s' realm = Some \<lparr>pin_ca_b64 = b64_encode B ca, pin_fingerprint = fp,
            pin_expires_at = expires_at_epoch_secs ttl (now_secs B)\<rparr> \<and> w = persist B s'))))) \<and>
    (\<not> ask \<longrightarrow> ps_pins s' \<subseteq>\<^sub>m ps_pins s \<and> w = None) \<and>
    (rp_decision r \<noteq> DTrusted \<longrightarrow> rp_anchors r = [] \<and> w = None)"
proof -
  have ca: "sha256_hex B ca = Some fp \<and> ca \<in> set presented \<and> ca \<noteq> signer \<and> validates_as_anchor B ca signer presented"
    if "shown_ca B signer presented = Some (ca, fp)" for ca fp
    using that by (auto simp: shown_ca_def bind_eq_Some_conv dest: select_ca_Some)
  have none: "rp_anchors r = []" if "rp_decision r \<noteq> DTrusted"
    using assms that by (auto simp: decide_def reply_denied_def reply_unknown_def Let_def
        split: option.splits if_splits)
  have sub: "(ps_pins s)(realm := None) \<subseteq>\<^sub>m ps_pins s" by (simp add: map_le_def)
  from decide_cases[OF assms] ca show ?thesis
    by (elim disjE exE conjE) (use none sub in \<open>auto simp: live_pin_Some split: if_splits\<close>)
qed

text \<open>C22: A pin holds until it lapses: over any sequence of requests, for this and other realms, with
  any chains, prompters and approvals, as long as the clock has not reached the pin's end the
  pin is unchanged at the end of the run, and the realm is trusted only for the pinned
  certificate, on a chain whose authority has the pinned fingerprint.\<close>
theorem pin_sticky_over_runs:
  assumes "ps_pins s k = Some p" "\<forall>q\<in>set qs. \<not> expired p (now_secs (pq_env q))"
    and "serve_all serve_query s qs = (s', rs)"
  shows "ps_pins s' k = Some p \<and> length rs = length qs \<and>
    (\<forall>i<length qs. pq_realm (qs ! i) = k \<longrightarrow> rp_decision (rs ! i) = DTrusted \<longrightarrow>
       query_fingerprint (qs ! i) = Some (pin_fingerprint p) \<and> rp_anchors (rs ! i) = [pin_ca_b64 p])"
  using pins.sticky[OF assms(1) _ assms(3)] assms(2) by (simp add: query_time_def)

text \<open>C23: The pin store is an implementation of trust on first use: while time does not run backwards,
  its answers to any sequence of requests are those of the specification that binds a realm to
  the first fingerprint the user grants, forgets the bond the second it ends and asks again, and
  the grants in force at the end are the same; that the store only looks at a lapsed pin, and
  only removes it, when its realm is asked about again makes no difference.\<close>
theorem pin_store_refines_tofu:
  assumes "sorted (t # map query_time qs)" "serve_all serve_query s qs = (s', rs)"
    and "serve_all spec_query (grants_of s) qs = (G, ds)"
  shows "map rp_decision rs = ds \<and>
    lapse (last (t # map query_time qs)) (grants_of s') = lapse (last (t # map query_time qs)) G"
  using tofu_impl.run[OF _ assms] by simp

text \<open>C24: A grant lapses when it should: a pin granted for a duration is dead from the second the
  duration has passed (or, past the end of the clock, from its last second) and not before, one
  granted forever never is, and the realms reported as trusted are exactly those with a live
  pin, with its certificate and fingerprint.\<close>
theorem grants_lapse_on_time:
  assumes "set (map_keys B (ps_pins s)) = dom (ps_pins s)"
    and "ps_pins s realm = Some \<lparr>pin_ca_b64 = c, pin_fingerprint = f, pin_expires_at = expires_at_epoch_secs g granted\<rparr>"
  shows "((realm \<in> rlm_realm ` set (trusted_realms B s)) \<longleftrightarrow>
      (case g of Forever \<Rightarrow> True | For d \<Rightarrow> uint (now_secs B) < min (uint granted + uint d) (2 ^ 64 - 1))) \<and>
    (t \<in> set (trusted_realms B s) \<longleftrightarrow> (\<exists>p. ps_pins s (rlm_realm t) = Some p \<and> \<not> expired p (now_secs B) \<and>
      t = \<lparr>rlm_realm = rlm_realm t, rlm_ca_der = pin_ca_b64 p, rlm_fingerprint = pin_fingerprint p,
        rlm_expires_at = pin_expires_at p\<rparr>))"
proof -
  have t: "t \<in> set (trusted_realms B s) \<longleftrightarrow> (\<exists>p. ps_pins s (rlm_realm t) = Some p \<and> \<not> expired p (now_secs B) \<and>
      t = \<lparr>rlm_realm = rlm_realm t, rlm_ca_der = pin_ca_b64 p, rlm_fingerprint = pin_fingerprint p,
        rlm_expires_at = pin_expires_at p\<rparr>)" for t
    using assms(1)
    by (cases t) (auto simp: trusted_realms_def Let_def List.map_filter_def image_iff split: option.splits if_splits)
  have "realm \<in> rlm_realm ` set (trusted_realms B s) \<longleftrightarrow>
      (\<exists>p. ps_pins s realm = Some p \<and> \<not> expired p (now_secs B))"
    by (force simp: t image_iff)
  then have "(realm \<in> rlm_realm ` set (trusted_realms B s)) \<longleftrightarrow>
      (case g of Forever \<Rightarrow> True | For d \<Rightarrow> uint (now_secs B) < min (uint granted + uint d) (2 ^ 64 - 1))"
    by (simp add: assms(2) expired_grant not_le split: grant_ttl.split)
  with t show ?thesis by blast
qed

text \<open>C25: An approval survives a restart: opening the file that an approving decision wrote gives the
  store the decision left, and the next request that shows the same authority while the grant
  lasts is trusted without asking.\<close>
theorem approval_survives_restart:
  assumes "decide B s realm kp pid signer presented ask pr = (s', r, Some (path, data))"
    and "\<forall>m d. pins_to_json B m = Inr d \<longrightarrow> pins_from_json B d = Inr m" "pins_to_json B (ps_pins s') = Inr json"
    and "fs_exists B2 path" "fs_read F path = Inr data" "pins_from_json B2 = pins_from_json B"
    and "shown_ca B2 signer2 presented2 = Some (ca2, fp)" "sha256_hex B ca = Some fp"
      "select_ca B signer presented = Some ca" "\<forall>p. ps_pins s' realm = Some p \<longrightarrow> \<not> expired p (now_secs B2)"
  shows "open_store B2 F path = Inr s' \<and>
    decide B2 s' realm kp2 pid2 signer2 presented2 False pr2 = (s', reply_trusted (b64_encode B ca), None)"
proof -
  have sh: "shown_ca B signer presented = Some (ca, fp)" using assms(8,9) by (simp add: shown_ca_def)
  from decide_cases[OF assms(1)] sh obtain ttl where
    w: "Some (path, data) = persist B s'" and
    p: "ps_pins s' realm = Some \<lparr>pin_ca_b64 = b64_encode B ca, pin_fingerprint = fp,
      pin_expires_at = expires_at_epoch_secs ttl (now_secs B)\<rparr>"
    by auto
  from w assms(3) have "ps_path s' = Some path" "data = json"
    by (cases "ps_path s'"; auto simp: persist_def)+
  moreover from this assms(2,3) have "pins_from_json B2 data = Inr (ps_pins s')" using assms(6) by simp
  ultimately have o: "open_store B2 F path = Inr s'"
    using assms(4,5) by (cases s') (simp add: open_store_def)
  have l: "live_pin s' realm (now_secs B2) = Some \<lparr>pin_ca_b64 = b64_encode B ca, pin_fingerprint = fp,
      pin_expires_at = expires_at_epoch_secs ttl (now_secs B)\<rparr>"
    using p assms(10) by (simp add: live_pin_Some)
  obtain s2 r2 w2 where d: "decide B2 s' realm kp2 pid2 signer2 presented2 False pr2 = (s2, r2, w2)"
    by (metis prod_cases3)
  from decide_cases[OF d] l assms(7) d o show ?thesis by auto
qed

text \<open>C26: Nothing a stranger sends can control the prompt: of the realm, the KDC's principal and the
  authority's subject that a prompt shows, every character is one of the original text and none
  is a control or a format character, so no escape sequence and no bidirectional override
  reaches the terminal.\<close>
theorem prompt_text_safe:
  assumes "utf8_ok realm" "utf8_ok kp" "subject_dn B ca = Some dn" "utf8_ok dn"
    and "t \<in> {(req_realm (prompt_for B realm kp pid ca fp), realm),
              (req_kdc_principal (prompt_for B realm kp pid ca fp), kp),
              (req_ca_subject (prompt_for B realm kp pid ca fp), dn)}"
    and "ch \<in> set (utf8_chars (fst t))"
  shows "ch \<in> set (utf8_chars (snd t)) \<and> \<not> is_control ch \<and> \<not> is_format_char B ch"
  using assms by (auto simp: prompt_for_def Let_def sanitized_chars is_unsafe_for_display_def)

section \<open>A concrete broker\<close>

text \<open>
  The authority is the KDC's certificate of \<open>Cms\<close>, the signer the client's; one realm \<open>R\<close>, and
  the only store that can be written has it pinned forever.
\<close>

definition demo_pin :: pin where
  "demo_pin = \<lparr>pin_ca_b64 = bytes_str demo_kdc_cert,
     pin_fingerprint = concat (map hex2 (demo_kdc_cert @ replicate 29 1)), pin_expires_at = None\<rparr>"

definition demo_ops :: broker_ops where
  "demo_ops = \<lparr>bo_chain = demo_chain, bo_hash = demo_hash, b64_encode = bytes_str,
     b64_decode = (\<lambda>t. Inr (str_bytes t)), format_dn = (\<lambda>_. ''CN=CA''), is_format_char = (\<lambda>_. False),
     pins_to_json = (\<lambda>_. Inl ''json''), pins_from_json = (\<lambda>_. Inl ''json''), fs_exists = (\<lambda>_. True),
     map_keys = (\<lambda>m. case m ''R'' of Some _ \<Rightarrow> [''R''] | None \<Rightarrow> [])\<rparr>"

definition demo_broker :: broker_ops where
  "demo_broker = demo_ops\<lparr>pins_to_json := (\<lambda>m. if m = [''R'' \<mapsto> demo_pin] then Inr [1] else Inl ''json''),
     pins_from_json := (\<lambda>d. if d = [1] then Inr [''R'' \<mapsto> demo_pin] else Inl ''json'')\<rparr>"

definition demo_pins :: pin_store where
  "demo_pins = \<lparr>ps_path = Some ''pins'', ps_pins = [''R'' \<mapsto> demo_pin]\<rparr>"

definition demo_certs :: "bytes list" where
  "demo_certs = [demo_client_cert, demo_kdc_cert]"

lemma demo_select_ops: "select_ca demo_ops demo_client_cert demo_certs = Some demo_kdc_cert"
  by code_simp

lemma demo_select: "select_ca demo_broker demo_client_cert demo_certs = Some demo_kdc_cert"
  using demo_select_ops by (simp add: select_ca_def validates_as_anchor_def anchor_policy_def demo_broker_def)

lemma demo_fingerprint_ops: "sha256_hex demo_ops demo_kdc_cert = Some (pin_fingerprint demo_pin)"
  by code_simp

lemma demo_fingerprint: "sha256_hex demo_broker demo_kdc_cert = Some (pin_fingerprint demo_pin)"
  using demo_fingerprint_ops by (simp add: sha256_hex_def demo_broker_def)

lemma demo_shown: "shown_ca demo_broker demo_client_cert demo_certs = Some (demo_kdc_cert, pin_fingerprint demo_pin)"
  by (simp add: shown_ca_def demo_select demo_fingerprint)

lemma demo_approve:
  "decide demo_broker (in_memory\<lparr>ps_path := Some ''pins''\<rparr>) ''R'' ''krbtgt/R@R'' None demo_client_cert demo_certs
     True (auto_prompter True) = (demo_pins, reply_trusted (bytes_str demo_kdc_cert), Some (''pins'', [1]))"
  by (simp add: decide_def demo_select demo_fingerprint in_memory_def auto_prompter_def expires_at_epoch_secs_def
      demo_pins_def persist_def) (simp add: demo_broker_def demo_ops_def demo_pin_def Let_def)

lemma demo_again:
  "decide demo_broker demo_pins ''R'' ''krbtgt/R@R'' None demo_client_cert demo_certs False (auto_prompter False)
     = (demo_pins, reply_trusted (bytes_str demo_kdc_cert), None)"
  by (simp add: decide_def demo_select demo_fingerprint demo_pins_def expired_def) (simp add: demo_broker_def demo_ops_def demo_pin_def)

theorem trust_reply_sound_witness:
  "validates_as_anchor demo_broker demo_kdc_cert demo_client_cert demo_certs \<and> demo_kdc_cert \<in> set demo_certs"
  using trust_reply_sound[OF demo_again] demo_select select_ca_Some[OF demo_select] by auto

theorem pin_sticky_over_runs_witness:
  "ps_pins (fst (serve_all serve_query demo_pins
     [\<lparr>pq_env = demo_broker, pq_realm = ''R'', pq_principal = ''krbtgt/R@R'', pq_pid = None,
       pq_signer = demo_client_cert, pq_presented = demo_certs, pq_interactive = True,
       pq_prompter = auto_prompter True\<rparr>])) ''R'' = Some demo_pin"
proof -
  let ?q = "\<lparr>pq_env = demo_broker, pq_realm = ''R'', pq_principal = ''krbtgt/R@R'', pq_pid = None,
       pq_signer = demo_client_cert, pq_presented = demo_certs, pq_interactive = True,
       pq_prompter = auto_prompter True\<rparr>"
  have p: "ps_pins demo_pins ''R'' = Some demo_pin" by (simp add: demo_pins_def)
  have l: "\<forall>q\<in>set [?q]. \<not> expired demo_pin (now_secs (pq_env q))" by (simp add: expired_def demo_pin_def)
  have "serve_all serve_query demo_pins [?q]
      = (fst (serve_all serve_query demo_pins [?q]), snd (serve_all serve_query demo_pins [?q]))" by simp
  from pin_sticky_over_runs[OF p l this] show ?thesis by simp
qed

theorem grants_lapse_on_time_witness:
  "''R'' \<in> rlm_realm ` set (trusted_realms demo_broker demo_pins)"
proof -
  have k: "set (map_keys demo_broker (ps_pins demo_pins)) = dom (ps_pins demo_pins)"
    by (simp add: demo_broker_def demo_ops_def demo_pins_def)
  have p: "ps_pins demo_pins ''R'' = Some \<lparr>pin_ca_b64 = pin_ca_b64 demo_pin, pin_fingerprint = pin_fingerprint demo_pin,
      pin_expires_at = expires_at_epoch_secs Forever 0\<rparr>"
    by (simp add: demo_pins_def demo_pin_def expires_at_epoch_secs_def)
  show ?thesis using grants_lapse_on_time[OF k p] by simp
qed

theorem approval_survives_restart_witness:
  "open_store demo_broker (demo_os\<lparr>fs_read := \<lambda>_. Inr [1]\<rparr>) ''pins'' = Inr demo_pins"
proof -
  have a: "\<forall>m d. pins_to_json demo_broker m = Inr d \<longrightarrow> pins_from_json demo_broker d = Inr m"
    by (simp add: demo_broker_def)
  have b: "pins_to_json demo_broker (ps_pins demo_pins) = Inr [1]" by (simp add: demo_broker_def demo_ops_def demo_pins_def)
  have c: "fs_exists demo_broker ''pins''" "fs_read (demo_os\<lparr>fs_read := \<lambda>_. Inr [1]\<rparr>) ''pins'' = Inr [1]"
    by (simp_all add: demo_broker_def demo_ops_def)
  have l: "\<forall>p. ps_pins demo_pins ''R'' = Some p \<longrightarrow> \<not> expired p (now_secs demo_broker)"
    by (simp add: demo_pins_def demo_pin_def expired_def)
  show ?thesis
    using approval_survives_restart[OF demo_approve a b c refl demo_shown demo_fingerprint demo_select l] by blast
qed

theorem prompt_text_safe_witness:
  "\<not> is_control ''R'' \<and> ''R'' \<in> set (utf8_chars ''R'')"
proof -
  have u: "utf8_ok ''R''" "utf8_ok ''k''" "utf8_ok ''CN=CA''"
    and d: "subject_dn demo_ops demo_kdc_cert = Some ''CN=CA''"
    and c: "''R'' \<in> set (utf8_chars (fst (req_realm (prompt_for demo_ops ''R'' ''k'' None demo_kdc_cert ''f''), ''R'')))"
    by code_simp+
  have m: "(req_realm (prompt_for demo_ops ''R'' ''k'' None demo_kdc_cert ''f''), ''R'')
      \<in> {(req_realm (prompt_for demo_ops ''R'' ''k'' None demo_kdc_cert ''f''), ''R''),
         (req_kdc_principal (prompt_for demo_ops ''R'' ''k'' None demo_kdc_cert ''f''), ''k''),
         (req_ca_subject (prompt_for demo_ops ''R'' ''k'' None demo_kdc_cert ''f''), ''CN=CA'')}" by simp
  from prompt_text_safe[OF u(1,2) d u(3) m c] show ?thesis by simp
qed

text \<open>A first request that the user approves and a later one that nobody is asked about.\<close>

definition demo_query :: "bool \<Rightarrow> pin_query" where
  "demo_query first = \<lparr>pq_env = demo_broker, pq_realm = ''R'', pq_principal = ''krbtgt/R@R'', pq_pid = None,
     pq_signer = demo_client_cert, pq_presented = demo_certs, pq_interactive = first, pq_prompter = auto_prompter first\<rparr>"

theorem pin_store_refines_tofu_witness:
  "snd (serve_all spec_query (grants_of (in_memory\<lparr>ps_path := Some ''pins''\<rparr>)) [demo_query True, demo_query False])
     = [DTrusted, DTrusted]"
proof -
  let ?s = "in_memory\<lparr>ps_path := Some ''pins''\<rparr>" and ?qs = "[demo_query True, demo_query False]"
  have run: "serve_all serve_query ?s ?qs =
      (demo_pins, [reply_trusted (bytes_str demo_kdc_cert), reply_trusted (bytes_str demo_kdc_cert)])"
    by (simp add: serve_query_def demo_query_def demo_approve demo_again)
  have "sorted (now_secs demo_broker # map query_time ?qs)" by (simp add: query_time_def demo_query_def)
  from pin_store_refines_tofu[OF this run, of "fst (serve_all spec_query (grants_of ?s) ?qs)"
      "snd (serve_all spec_query (grants_of ?s) ?qs)"]
  show ?thesis by simp
qed

end
