(* ===== verification/Broker.thy ===== *)
theory Broker
  imports Pin_Store Client
begin

text \<open>
  \<open>pkinit-trust-brokerd/src/lib.rs\<close>, the broker's varlink service over its pin store, and
  \<open>kurbu5-pkinit/src/trust_broker_client.rs\<close>, the client's side of the same interface, with the
  error type of \<open>pkinit-trust-proto\<close>.  Certificates travel as base64.  The transport (socket,
  JSON, the race with the timer) is \<open>varlink_ops\<close>: what one call comes to.
\<close>

section \<open>The service\<close>

datatype kdc_trust_error = InvalidRequest rstr | Internal rstr

record wire_request =
  wq_realm :: rstr
  wq_kdc_principal :: rstr
  wq_signer_cert :: rstr
  wq_presented_certs :: "rstr list"
  wq_interactive :: bool

record broker =
  bk_store :: pin_store
  bk_prompter :: prompter

definition broker_new :: "pin_store \<Rightarrow> prompter \<Rightarrow> broker" where
  "broker_new store prompter = \<lparr>bk_store = store, bk_prompter = prompter\<rparr>"

definition decode_all :: "broker_ops \<Rightarrow> rstr list \<Rightarrow> bytes list option" where
  "decode_all B items = ok_opt (traverse (b64_decode B) items)"

text \<open>The broker afterwards, the reply and the file that was written; \<open>client_pid\<close> is what the
  socket's peer credentials gave.\<close>

definition request_trust ::
    "broker_ops \<Rightarrow> broker \<Rightarrow> int option \<Rightarrow> wire_request \<Rightarrow>
     broker \<times> (kdc_trust_error + trust_reply) \<times> (rstr \<times> bytes) option" where
  "request_trust B bk client_pid rq =
     (case b64_decode B (wq_signer_cert rq) of
        Inl _ \<Rightarrow> (bk, Inl (InvalidRequest ''signer_cert not base64''), None)
      | Inr signer \<Rightarrow>
          (case decode_all B (wq_presented_certs rq) of
             None \<Rightarrow> (bk, Inl (InvalidRequest ''presented_certs not base64''), None)
           | Some presented \<Rightarrow>
               (case decide B (bk_store bk) (wq_realm rq) (wq_kdc_principal rq) client_pid signer presented
                       (wq_interactive rq) (bk_prompter bk) of
                  (store, reply, written) \<Rightarrow> (bk\<lparr>bk_store := store\<rparr>, Inr reply, written))))"

definition list_trusted_realms :: "broker_ops \<Rightarrow> broker \<Rightarrow> trusted_realm list" where
  "list_trusted_realms B bk = trusted_realms B (bk_store bk)"

section \<open>The client's side\<close>

datatype varlink_outcome =
    ConnectFailed rstr
  | CallFailed rstr
  | ErrorReply kdc_trust_error
  | Replied trust_reply
  | TimedOut

record varlink_ops =
  vl_b64_encode :: "bytes \<Rightarrow> rstr"
  vl_b64_decode :: "rstr \<Rightarrow> bytes ext"
  vl_call :: "rstr \<Rightarrow> u32 \<Rightarrow> wire_request \<Rightarrow> varlink_outcome"
  vl_debug_error :: "kdc_trust_error \<Rightarrow> rstr"

definition wire_of :: "varlink_ops \<Rightarrow> kdc_trust_request \<Rightarrow> wire_request" where
  "wire_of W req = \<lparr>wq_realm = tr_realm req, wq_kdc_principal = tr_kdc_principal req,
     wq_signer_cert = vl_b64_encode W (tr_signer_cert_der req),
     wq_presented_certs = map (vl_b64_encode W) (tr_presented_certs_der req),
     wq_interactive = tr_interactive req\<rparr>"

definition varlink_reply :: "varlink_outcome \<Rightarrow> (kdc_trust_error \<Rightarrow> rstr) \<Rightarrow> trust_reply res" where
  "varlink_reply out debug =
     (case out of
        ConnectFailed e \<Rightarrow> Inl (Config (''trust broker connect: '' @ e))
      | CallFailed e \<Rightarrow> Inl (Config (''trust broker call: '' @ e))
      | ErrorReply e \<Rightarrow> Inl (Config (''trust broker error: '' @ debug e))
      | TimedOut \<Rightarrow> Inl (Config ''trust broker timeout'')
      | Replied reply \<Rightarrow> Inr reply)"

text \<open>\<open>VarlinkTrustBroker::request_trust\<close>; a broker object is its socket path and its timeout.\<close>

definition varlink_broker :: "varlink_ops \<Rightarrow> rstr \<Rightarrow> u32 \<Rightarrow> trust_broker" where
  "varlink_broker W socket_path timeout req =
     rbind (varlink_reply (vl_call W socket_path timeout (wire_of W req)) (vl_debug_error W)) (\<lambda>reply.
       case rp_decision reply of
         DTrusted \<Rightarrow>
           rbind (traverse (\<lambda>a. with_err Config ''trust broker anchor b64'' (vl_b64_decode W a)) (rp_anchors reply))
             (\<lambda>anchors. Inr (Trusted anchors))
       | DDenied \<Rightarrow> Inr (Denied (case rp_reason reply of Some r \<Rightarrow> r | None \<Rightarrow> ''denied''))
       | DUnknown \<Rightarrow> Inr Unknown)"

section \<open>Facts\<close>

text \<open>
  The two ends of the socket: the call reaches the daemon \<open>bk\<close>, whose reply comes back in time,
  and base64 on one side reads what the other wrote.
\<close>

definition connected :: "varlink_ops \<Rightarrow> broker_ops \<Rightarrow> broker \<Rightarrow> int option \<Rightarrow> rstr \<Rightarrow> u32 \<Rightarrow> bool" where
  "connected W B bk pid path timeout \<longleftrightarrow>
     (\<forall>rq. vl_call W path timeout rq = (case fst (snd (request_trust B bk pid rq)) of
        Inl e \<Rightarrow> ErrorReply e | Inr reply \<Rightarrow> Replied reply)) \<and>
     (\<forall>d. b64_decode B (vl_b64_encode W d) = Inr d) \<and>
     (\<forall>d. vl_b64_decode W (b64_encode B d) = Inr d)"

lemma decode_all_encoded:
  "\<forall>d. b64_decode B (f d) = Inr d \<Longrightarrow> decode_all B (map f ds) = Some ds"
  by (induction ds) (simp_all add: decode_all_def ok_opt_eq res)

lemma decode_all_None: "decode_all B ds = None \<longleftrightarrow> (\<exists>d\<in>set ds. \<not> is_ok (b64_decode B d))"
proof (induction ds)
  case (Cons a ds)
  then show ?case
    by (cases "b64_decode B a"; cases "traverse (b64_decode B) ds") (auto simp: decode_all_def)
qed (simp add: decode_all_def)

lemma request_trust_wire:
  assumes "connected W B bk pid path timeout"
  shows "request_trust B bk pid (wire_of W req) =
    (case decide B (bk_store bk) (tr_realm req) (tr_kdc_principal req) pid (tr_signer_cert_der req)
            (tr_presented_certs_der req) (tr_interactive req) (bk_prompter bk) of
       (store, reply, written) \<Rightarrow> (bk\<lparr>bk_store := store\<rparr>, Inr reply, written))"
  using assms decode_all_encoded[of B "vl_b64_encode W"]
  by (simp add: connected_def request_trust_def wire_of_def)

lemma varlink_broker_connected:
  assumes "connected W B bk pid path timeout"
    and "decide B (bk_store bk) (tr_realm req) (tr_kdc_principal req) pid (tr_signer_cert_der req)
      (tr_presented_certs_der req) (tr_interactive req) (bk_prompter bk) = (store, reply, written)"
  shows "varlink_broker W path timeout req =
    (case rp_decision reply of
       DTrusted \<Rightarrow>
         rbind (traverse (\<lambda>a. with_err Config ''trust broker anchor b64'' (vl_b64_decode W a)) (rp_anchors reply))
           (\<lambda>anchors. Inr (Trusted anchors))
     | DDenied \<Rightarrow> Inr (Denied (case rp_reason reply of Some r \<Rightarrow> r | None \<Rightarrow> ''denied''))
     | DUnknown \<Rightarrow> Inr Unknown)"
proof -
  have "vl_call W path timeout (wire_of W req) = Replied reply"
    using assms request_trust_wire[OF assms(1), of req] by (simp add: connected_def)
  then show ?thesis by (simp add: varlink_broker_def varlink_reply_def)
qed

lemma shown_ca_Some:
  "shown_ca B signer presented = Some (ca, fp) \<Longrightarrow>
   sha256_hex B ca = Some fp \<and> ca \<in> set presented \<and> ca \<noteq> signer \<and> validates_as_anchor B ca signer presented"
  by (auto simp: shown_ca_def bind_eq_Some_conv dest: select_ca_Some)

lemma decide_trusted:
  assumes "decide B s realm kp pid signer presented ask pr = (s', r, w)" "rp_decision r = DTrusted"
  shows "\<exists>ca fp. shown_ca B signer presented = Some (ca, fp) \<and>
    ((\<exists>p. live_pin s realm (now_secs B) = Some p \<and> pin_fingerprint p = fp \<and> rp_anchors r = [pin_ca_b64 p]) \<or>
     ask \<and> (\<exists>ttl. pr (prompt_for B realm kp pid ca fp) = Some ttl) \<and> rp_anchors r = [b64_encode B ca])"
  using decide_cases[OF assms(1)] assms(2) by (elim disjE exE conjE) (auto split: if_splits)

section \<open>Properties\<close>

text \<open>C27: What trust on first use comes to, from the client's check to the user's answer: when a
  client accepts a KDC that its configured anchors do not, through the broker at the other end
  of the socket, then the KDC presented a certificate authority (not its own certificate) that
  validates its chain, and either the broker already had a live pin of the realm with exactly
  that authority's fingerprint, whose certificate is the anchor, or the exchange was anonymous
  and the user, shown the fingerprint, approved that authority, which is the anchor; the client
  itself validated the chain against that one anchor, and the KDC's key purpose and name.\<close>
theorem first_use_trust_end_to_end:
  assumes "cl_broker s = Some (varlink_broker W path timeout)" "connected W B bk pid path timeout"
    and "validate_kdc_chain E s c cs = Inr ()"
    and "validate_chain (pe_chain E) (cl_trust_store s) c cs False \<noteq> Inr ()"
  shows "\<exists>kp realm ca fp anchor. cl_kdc_principal s = Some kp \<and> nth_opt 1 (split_on CHR ''@'' kp) = Some realm \<and>
    ca \<in> set cs \<and> ca \<noteq> c \<and> validates_as_anchor B ca c cs \<and> sha256_hex B ca = Some fp \<and>
    ((\<exists>p. ps_pins (bk_store bk) realm = Some p \<and> \<not> expired p (now_secs B) \<and> pin_fingerprint p = fp \<and>
        vl_b64_decode W (pin_ca_b64 p) = Inr anchor) \<or>
     cl_is_anonymous s \<and> anchor = ca \<and> (\<exists>ttl. bk_prompter bk (prompt_for B realm kp pid ca fp) = Some ttl)) \<and>
    chain_verify_roots (pe_chain E) [anchor] c cs (broker_policy (unix_now (pe_chain E))) = Inr () \<and>
    verify_kdc_eku (pe_oids E) (pe_x509 E) c = Inr () \<and>
    verify_kdc_san (pe_oids E) (pe_x509 E) c kp (cl_kdc_hostname s) = Inr ()"
proof -
  from assms(3,4) obtain e where "consult_broker E s c cs e = Inr ()"
    and id: "verify_kdc_eku (pe_oids E) (pe_x509 E) c = Inr ()"
      "\<And>p. cl_kdc_principal s = Some p \<Longrightarrow> verify_kdc_san (pe_oids E) (pe_x509 E) c p (cl_kdc_hostname s) = Inr ()"
    unfolding verify_kdc_chain_Inr by blast
  from consult_broker_Inr[OF this(1)] assms(1) obtain kp realm anchors where
    K: "cl_kdc_principal s = Some kp" "nth_opt 1 (split_on CHR ''@'' kp) = Some realm"
    and T: "varlink_broker W path timeout \<lparr>tr_realm = realm, tr_kdc_principal = kp, tr_signer_cert_der = c,
      tr_presented_certs_der = cs, tr_interactive = cl_is_anonymous s\<rparr> = Inr (Trusted anchors)"
    and V: "validate_broker_anchors (pe_chain E) anchors c cs = Inr ()" by auto
  obtain store reply written where
    D: "decide B (bk_store bk) realm kp pid c cs (cl_is_anonymous s) (bk_prompter bk) = (store, reply, written)"
    by (metis prod_cases3)
  have R: "rp_decision reply = DTrusted \<and>
      traverse (\<lambda>a. with_err Config ''trust broker anchor b64'' (vl_b64_decode W a)) (rp_anchors reply) = Inr anchors"
    using T varlink_broker_connected[OF assms(2), where req = "\<lparr>tr_realm = realm, tr_kdc_principal = kp, tr_signer_cert_der = c,
      tr_presented_certs_der = cs, tr_interactive = cl_is_anonymous s\<rparr>"] D
    by (cases "rp_decision reply") (auto simp: res)
  have b64: "vl_b64_decode W (b64_encode B d) = Inr d" for d using assms(2) by (simp add: connected_def)
  from decide_trusted[OF D] R obtain ca fp where ca: "shown_ca B c cs = Some (ca, fp)" and
    P: "(\<exists>p. live_pin (bk_store bk) realm (now_secs B) = Some p \<and> pin_fingerprint p = fp \<and> rp_anchors reply = [pin_ca_b64 p]) \<or>
      cl_is_anonymous s \<and> (\<exists>ttl. bk_prompter bk (prompt_for B realm kp pid ca fp) = Some ttl) \<and>
      rp_anchors reply = [b64_encode B ca]" by blast
  from P R obtain anchor where "anchors = [anchor]" and
    "(\<exists>p. ps_pins (bk_store bk) realm = Some p \<and> \<not> expired p (now_secs B) \<and> pin_fingerprint p = fp \<and>
        vl_b64_decode W (pin_ca_b64 p) = Inr anchor) \<or>
     cl_is_anonymous s \<and> anchor = ca \<and> (\<exists>ttl. bk_prompter bk (prompt_for B realm kp pid ca fp) = Some ttl)"
    by (auto simp: live_pin_Some res b64)
  with K shown_ca_Some[OF ca] validate_broker_anchors_Inr[OF V] id show ?thesis by blast
qed

text \<open>C28: The broker's service never trusts what it cannot read, and a failure of the service is
  never trust: a request whose certificate or any of whose presented certificates is not base64
  is answered with the invalid-request error that says which, and changes nothing, neither the
  broker nor its file; every other request gets a reply and no error; a request that is not
  interactive adds no pin and writes nothing; and a call that does not come back with a reply is
  an error for the client.\<close>
theorem broker_failure_is_not_trust:
  assumes "request_trust B bk pid rq = (bk', out, written)"
  shows "(\<not> is_ok (b64_decode B (wq_signer_cert rq)) \<longrightarrow>
      bk' = bk \<and> written = None \<and> out = Inl (InvalidRequest ''signer_cert not base64'')) \<and>
    (is_ok (b64_decode B (wq_signer_cert rq)) \<and> (\<exists>d\<in>set (wq_presented_certs rq). \<not> is_ok (b64_decode B d)) \<longrightarrow>
      bk' = bk \<and> written = None \<and> out = Inl (InvalidRequest ''presented_certs not base64'')) \<and>
    (is_ok (b64_decode B (wq_signer_cert rq)) \<and> (\<forall>d\<in>set (wq_presented_certs rq). is_ok (b64_decode B d)) \<longrightarrow>
      is_ok out) \<and>
    (\<not> wq_interactive rq \<longrightarrow> ps_pins (bk_store bk') \<subseteq>\<^sub>m ps_pins (bk_store bk) \<and> written = None) \<and>
    ((\<forall>reply. vl_call W path timeout (wire_of W req) \<noteq> Replied reply) \<longrightarrow>
       (\<exists>t. varlink_broker W path timeout req = Inl (Config t)))"
proof (intro conjI)
  have n: "decode_all B ds = None \<longleftrightarrow> (\<exists>d\<in>set ds. \<not> is_ok (b64_decode B d))" for ds
    by (rule decode_all_None)
  show "\<not> is_ok (b64_decode B (wq_signer_cert rq)) \<longrightarrow>
      bk' = bk \<and> written = None \<and> out = Inl (InvalidRequest ''signer_cert not base64'')"
    using assms by (cases "b64_decode B (wq_signer_cert rq)") (auto simp: request_trust_def)
  show "is_ok (b64_decode B (wq_signer_cert rq)) \<and> (\<exists>d\<in>set (wq_presented_certs rq). \<not> is_ok (b64_decode B d)) \<longrightarrow>
      bk' = bk \<and> written = None \<and> out = Inl (InvalidRequest ''presented_certs not base64'')"
    using assms unfolding n[symmetric] by (auto simp: request_trust_def is_ok_iff)
  show "is_ok (b64_decode B (wq_signer_cert rq)) \<and> (\<forall>d\<in>set (wq_presented_certs rq). is_ok (b64_decode B d)) \<longrightarrow>
      is_ok out"
  proof (rule impI)
    assume ok: "is_ok (b64_decode B (wq_signer_cert rq)) \<and> (\<forall>d\<in>set (wq_presented_certs rq). is_ok (b64_decode B d))"
    then obtain ds where "decode_all B (wq_presented_certs rq) = Some ds" using n by blast
    with ok assms show "is_ok out" by (auto simp: request_trust_def is_ok_iff split: prod.splits)
  qed
  have sub: "(ps_pins s)(realm := None) \<subseteq>\<^sub>m ps_pins s" for s realm by (simp add: map_le_def)
  show "\<not> wq_interactive rq \<longrightarrow> ps_pins (bk_store bk') \<subseteq>\<^sub>m ps_pins (bk_store bk) \<and> written = None"
    using assms sub unfolding request_trust_def
    by (auto split: sum.splits option.splits prod.splits dest!: decide_cases)
  show "(\<forall>reply. vl_call W path timeout (wire_of W req) \<noteq> Replied reply) \<longrightarrow>
       (\<exists>t. varlink_broker W path timeout req = Inl (Config t))"
    by (cases "vl_call W path timeout (wire_of W req)") (auto simp: varlink_broker_def varlink_reply_def)
qed

section \<open>A concrete daemon\<close>

text \<open>An anonymous client with no configured anchors and a daemon that approves; the authority of
  the KDC's chain is the second certificate.\<close>

definition demo_first_ops :: broker_ops where
  "demo_first_ops = demo_ops\<lparr>bo_chain := demo_chain\<lparr>chain_verify_roots :=
     (\<lambda>roots leaf ints pol. if demo_client_cert \<in> set roots then Inr () else Inl ''no path'')\<rparr>\<rparr>"

definition demo_daemon :: broker where
  "demo_daemon = broker_new in_memory (auto_prompter True)"

definition demo_wire :: varlink_ops where
  "demo_wire = \<lparr>vl_b64_encode = bytes_str, vl_b64_decode = (\<lambda>t. Inr (str_bytes t)),
     vl_call = (\<lambda>p t rq. case fst (snd (request_trust demo_first_ops demo_daemon None rq)) of
        Inl e \<Rightarrow> ErrorReply e | Inr reply \<Rightarrow> Replied reply),
     vl_debug_error = (\<lambda>_. ''error'')\<rparr>"

definition demo_first_env :: pkinit_env where
  "demo_first_env = demo_penv\<lparr>pe_chain := bo_chain demo_first_ops\<rparr>"

definition demo_first_client :: client_state where
  "demo_first_client = set_trust_broker (set_is_anonymous (set_kdc_identity
     (client_new demo_client_identity trust_store_new client_config_default) ''krbtgt/R@R'' None) True)
     (varlink_broker demo_wire ''sock'' 300)"

lemma str_bytes_str: "str_bytes (bytes_str d) = d"
proof -
  have "of_nat (of_char (char_of (unat x) :: char)) = x" for x :: byte
    using unat_byte_lt[of x] by (simp add: of_char_of)
  then show ?thesis by (simp add: str_bytes_def bytes_str_def o_def)
qed

lemma demo_connected: "connected demo_wire demo_first_ops demo_daemon None path timeout"
  by (simp add: connected_def demo_wire_def demo_first_ops_def demo_ops_def str_bytes_str)

lemma demo_first_use:
  "validate_kdc_chain demo_first_env demo_first_client demo_kdc_cert [demo_kdc_cert, demo_client_cert] = Inr ()"
  "validate_chain (pe_chain demo_first_env) (cl_trust_store demo_first_client) demo_kdc_cert
     [demo_kdc_cert, demo_client_cert] False \<noteq> Inr ()"
  by code_simp+

theorem first_use_trust_end_to_end_witness:
  "\<exists>ca fp. ca \<in> set [demo_kdc_cert, demo_client_cert] \<and> sha256_hex demo_first_ops ca = Some fp \<and>
     validates_as_anchor demo_first_ops ca demo_kdc_cert [demo_kdc_cert, demo_client_cert]"
proof -
  have b: "cl_broker demo_first_client = Some (varlink_broker demo_wire ''sock'' 300)"
    by (simp add: demo_first_client_def set_trust_broker_def)
  show ?thesis
    using first_use_trust_end_to_end[OF b demo_connected demo_first_use] by blast
qed

text \<open>A daemon that decodes nothing, asked through a socket that does not answer.\<close>

theorem broker_failure_is_not_trust_witness:
  "(\<exists>t. varlink_broker (demo_wire\<lparr>vl_call := \<lambda>_ _ _. TimedOut\<rparr>) ''sock'' 300 \<lparr>tr_realm = ''R'', tr_kdc_principal = ''k'',
     tr_signer_cert_der = [], tr_presented_certs_der = [], tr_interactive = True\<rparr> = Inl (Config t)) \<and>
   request_trust (demo_first_ops\<lparr>b64_decode := \<lambda>t. if t = ''!'' then Inl ''base64'' else Inr []\<rparr>) demo_daemon None
     \<lparr>wq_realm = ''R'', wq_kdc_principal = ''k'', wq_signer_cert = ''AA'', wq_presented_certs = [''AA'', ''!''],
      wq_interactive = True\<rparr> = (demo_daemon, Inl (InvalidRequest ''presented_certs not base64''), None)"
proof -
  let ?W = "demo_wire\<lparr>vl_call := \<lambda>_ _ _. TimedOut\<rparr>"
  let ?r = "\<lparr>tr_realm = ''R'', tr_kdc_principal = ''k'', tr_signer_cert_der = [], tr_presented_certs_der = [],
    tr_interactive = True\<rparr>"
  let ?B = "demo_first_ops\<lparr>b64_decode := \<lambda>t. if t = ''!'' then Inl ''base64'' else Inr []\<rparr>"
  let ?q = "\<lparr>wq_realm = ''R'', wq_kdc_principal = ''k'', wq_signer_cert = ''AA'', wq_presented_certs = [''AA'', ''!''],
      wq_interactive = True\<rparr>"
  obtain bk out w where q: "request_trust ?B demo_daemon None ?q = (bk, out, w)" by (metis prod_cases3)
  have "\<forall>reply. vl_call ?W ''sock'' 300 (wire_of ?W ?r) \<noteq> Replied reply" by simp
  then show ?thesis
    using broker_failure_is_not_trust[OF q, of ?W "''sock''" 300 ?r] q by simp
qed

end
