(* ===== verification/Plugin.thy ===== *)
theory Plugin
  imports Config Pin_Store
begin

text \<open>
  What the three MIT krb5 plugins of \<open>kurbu5-pkinit\<close> share: \<open>principal.rs\<close>, the loading of the
  trust anchors, the default socket of \<open>pkinit-trust-proto\<close>, and the parts of libkrb5 and of
  the \<open>kurbu5_rs\<close> bindings the plugins rely on, as the record \<open>plugin_ctx\<close>.  An error code of
  libkrb5 or the C library is an integer of that record, except the one the code defines itself.
\<close>

datatype krb5_error = NoHandle | Custom int | LibraryError rstr

type_synonym 'a kres = "krb5_error + 'a"

record principal =
  pr_realm :: rstr
  pr_components :: "rstr list"

record pa_data =
  pa_type :: int
  pa_contents :: bytes

record keyblock =
  kb_enctype :: int
  kb_contents :: bytes

record plugin_ctx =
  px_profile :: "profile_ops kres"
  px_realm :: "rstr option"
  px_unparse :: "principal \<Rightarrow> rstr kres"
  px_krb5 :: krb5_ops
  px_fx_cf2_simple :: "keyblock \<Rightarrow> rstr \<Rightarrow> keyblock \<Rightarrow> rstr \<Rightarrow> keyblock kres"
  px_encrypt :: "keyblock \<Rightarrow> int \<Rightarrow> bytes \<Rightarrow> (int \<times> bytes) kres"
  px_enc_encryption_key :: "int \<Rightarrow> bytes \<Rightarrow> bytes ext"
  px_enc_encrypted_data :: "int \<Rightarrow> bytes \<Rightarrow> bytes ext"
  px_malloc :: "nat \<Rightarrow> bool"
  px_var_os :: "rstr \<Rightarrow> rstr option"
  px_path_join :: "rstr \<Rightarrow> rstr \<Rightarrow> rstr"
  px_EINVAL :: int
  px_ENOMEM :: int
  px_PREAUTH_FAILED :: int
  px_CLIENT_NAME_MISMATCH :: int
  px_NO_ACCEPTABLE_KDF :: int
  px_INVALID_SIG :: int
  px_CLIENT_NOT_TRUSTED :: int
  px_INCONSISTENT_KEY_PURPOSE :: int

abbreviation einval :: "plugin_ctx \<Rightarrow> krb5_error" where
  "einval C \<equiv> Custom (px_EINVAL C)"

text \<open>\<open>map_err(|_| Krb5Error::Custom(libc::EINVAL))\<close>, the plugins' way with an error of the core.\<close>

definition or_einval :: "plugin_ctx \<Rightarrow> 'e + 'a \<Rightarrow> 'a kres" where
  "or_einval C m = map_err (\<lambda>_. einval C) m"

lemma or_einval_eq [res]:
  "or_einval C m = Inr x \<longleftrightarrow> m = Inr x"
  "or_einval C m = Inl e \<longleftrightarrow> (\<exists>f. m = Inl f) \<and> e = einval C"
  by (auto simp: or_einval_def res)

lemma or_einval_simps [simp]: "or_einval C (Inr x) = Inr x" "or_einval C (Inl f) = Inl (einval C)"
  by (simp_all add: or_einval_def)

text \<open>Only the components count, not the realm.\<close>

definition is_anonymous :: "principal \<Rightarrow> bool" where
  "is_anonymous p \<longleftrightarrow> pr_components p = [''WELLKNOWN'', ''ANONYMOUS'']"

definition DEFAULT_SOCKET_NAME :: rstr where
  "DEFAULT_SOCKET_NAME = ''pkinit-kdc-trust.sock''"

definition default_socket_path :: "plugin_ctx \<Rightarrow> rstr" where
  "default_socket_path C =
     px_path_join C (case px_var_os C ''XDG_RUNTIME_DIR'' of Some dir \<Rightarrow> dir | None \<Rightarrow> ''/tmp'')
       DEFAULT_SOCKET_NAME"

text \<open>The loop over the configured anchors, which stops at the first that cannot be loaded.\<close>

fun load_anchors :: "os_ops \<Rightarrow> pki_ops \<Rightarrow> trust_store \<Rightarrow> rstr list \<Rightarrow> trust_store res" where
  "load_anchors F P s [] = Inr s"
| "load_anchors F P s (anchor # anchors) =
     (case load_from_path F P s anchor of
        (s, Inr _) \<Rightarrow> load_anchors F P s anchors
      | (s, Inl e) \<Rightarrow> Inl e)"

lemma load_anchors_origin:
  "load_anchors F P s as = Inr t \<Longrightarrow>
   grows s t \<and> (\<forall>a \<in> set (ts_anchors t) - set (ts_anchors s). read_block F P ''CERTIFICATE'' a)"
proof (induction as arbitrary: s)
  case (Cons a as)
  then obtain s' where s': "load_from_path F P s a = (s', Inr ())" "load_anchors F P s' as = Inr t"
    by (auto split: prod.splits sum.splits)
  with Cons.IH load_from_path_grows[OF s'(1)] show ?case by (blast intro: grows_trans)
qed simp


section \<open>A concrete libkrb5\<close>

definition demo_ctx :: plugin_ctx where
  "demo_ctx = \<lparr>
     px_profile = Inr demo_profile, px_realm = Some ''EXAMPLE.COM'',
     px_unparse = (\<lambda>p. Inr (concat (pr_components p) @ ''@'' @ pr_realm p)), px_krb5 = demo_krb5,
     px_fx_cf2_simple = (\<lambda>k1 p1 k2 p2. Inr \<lparr>kb_enctype = kb_enctype k1, kb_contents = kb_contents k1 @ kb_contents k2\<rparr>),
     px_encrypt = (\<lambda>k usage d. Inr (kb_enctype k, kb_contents k @ d)),
     px_enc_encryption_key = (\<lambda>e d. Inr (0x30 # d)), px_enc_encrypted_data = (\<lambda>e d. Inr (0x30 # d)),
     px_malloc = (\<lambda>_. True), px_var_os = (\<lambda>_. None), px_path_join = (\<lambda>a b. a @ ''/'' @ b),
     px_EINVAL = 22, px_ENOMEM = 12, px_PREAUTH_FAILED = -1765328360, px_CLIENT_NAME_MISMATCH = -1765328309,
     px_NO_ACCEPTABLE_KDF = -1765328284, px_INVALID_SIG = -1765328320, px_CLIENT_NOT_TRUSTED = -1765328322,
     px_INCONSISTENT_KEY_PURPOSE = -1765328307\<rparr>"

end
