(* ===== verification/Kdc_Plugin.thy ===== *)
theory Kdc_Plugin
  imports Plugin
begin

text \<open>
  \<open>kurbu5-pkinit/src/kdc_plugin.rs\<close>: the kdcpreauth module (start-up for a realm, the hint,
  the verification of a request with the authorization of the client principal, the reply and
  the anonymous session key) and the certauth module.

  A callback is a field of \<open>kdc_callbacks\<close>; what the plugin does to the KDC through callbacks
  (auth indicators, the reply key, the session key of the ticket) is part of the result.
\<close>

section \<open>What the KDC supplies\<close>

record kdc_callbacks =
  cb_max_time_skew :: int
  cb_time_since_epoch :: "nat ext"
  cb_client_name_principal :: "principal option"
  cb_client_name_string :: "rstr option"
  cb_fast_armor :: "keyblock option"
  cb_replace_reply_key :: "keyblock \<Rightarrow> unit kres"

text \<open>The pointers of the reply that lead to the session key; a null pointer is \<open>None\<close>.\<close>

record session_key =
  sk_enctype :: int
  sk_length :: nat
  sk_contents :: "bytes option"

record enc_tkt_part =
  etp_session :: "session_key option"

record ticket =
  tk_enc_part2 :: "enc_tkt_part option"

record kdc_reply =
  krp_ticket :: "ticket option"

record return_request =
  rq_padata_type :: "int option"
  rq_modreq :: "verified_request option"
  rq_request_packet :: bytes
  rq_server :: "principal option option"
  rq_encrypting_key :: "keyblock option"
  rq_reply :: "kdc_reply option"

datatype verify_response = VErr int | VErrEdata int "pa_data list" | VOk verified_request

record kdc_plugin =
  kp_state :: kdc_state
  kp_config :: kdc_config

definition KRB5KDC_ERR_EPHEMERAL_KEY_PARAMS_NOT_ACCEPTED :: int where
  "KRB5KDC_ERR_EPHEMERAL_KEY_PARAMS_NOT_ACCEPTED = -1765328319"

definition kdc_pa_type_list :: "int list" where
  "kdc_pa_type_list = [PA_PK_AS_REQ, PA_PKINIT_KX, 0]"

text \<open>The four flags are libkrb5's.\<close>

definition flags_for_type :: "32 word \<Rightarrow> 32 word \<Rightarrow> 32 word \<Rightarrow> 32 word \<Rightarrow> int \<Rightarrow> 32 word" where
  "flags_for_type PA_SUFFICIENT PA_REPLACES_KEY PA_TYPED_E_DATA PA_HARDWARE t =
     (if t = PA_PKINIT_KX then 0
      else or (or (or PA_SUFFICIENT PA_REPLACES_KEY) PA_TYPED_E_DATA) PA_HARDWARE)"

section \<open>Start-up\<close>

definition kdc_init_module ::
    "plugin_ctx \<Rightarrow> os_ops \<Rightarrow> pki_ops \<Rightarrow> pkinit_env \<Rightarrow> rstr list \<Rightarrow> kdc_plugin kres" where
  "kdc_init_module C F P E realmnames =
     rbind (case realmnames of [] \<Rightarrow> Inl (einval C) | r # _ \<Rightarrow> Inr r) (\<lambda>realm.
     rbind (px_profile C) (\<lambda>profile.
     rbind (or_einval C (read_kdc_config profile realm)) (\<lambda>config.
     rbind (ok_or (kc_identity config) NoHandle) (\<lambda>identity_str.
     rbind (or_einval C (identity_source_parse identity_str)) (\<lambda>source.
     rbind (or_einval C (identity_load F P source)) (\<lambda>ident.
     rbind (or_einval C (load_anchors F P trust_store_new (kc_anchors config))) (\<lambda>store.
     rbind (or_einval C (kdc_new E ident store config)) (\<lambda>state.
       Inr \<lparr>kp_state = state, kp_config = config\<rparr>))))))))"

text \<open>Whether a freshness token is sent, and the pre-authentication data of the hint.\<close>

definition kdc_get_edata :: "kdc_plugin \<Rightarrow> bool \<times> pa_data option" where
  "kdc_get_edata k =
     (True, map_option (\<lambda>hint_der. \<lparr>pa_type = PA_PK_AS_REQ, pa_contents = hint_der\<rparr>)
        (build_supported_algorithms_hint (kp_state k)))"

section \<open>Verifying a request\<close>

definition authorize_client ::
    "plugin_ctx \<Rightarrow> pkinit_env \<Rightarrow> kdc_plugin \<Rightarrow> verified_request \<Rightarrow> kdc_callbacks \<Rightarrow> int + unit" where
  "authorize_client C E k verified cb =
     (case cb_client_name_principal cb of
        None \<Rightarrow> Inl (px_PREAUTH_FAILED C)
      | Some client \<Rightarrow>
          if vr_is_anonymous verified then
            (if is_anonymous client then Inr () else Inl (px_PREAUTH_FAILED C))
          else
            rbind (map_err (\<lambda>_. px_PREAUTH_FAILED C) (px_unparse C client)) (\<lambda>client_name.
              case verify_client_san (pe_oids E) (pe_x509 E) (vr_client_cert_der verified) client_name
                     (kc_allow_upn (kp_config k)) of
                Inr Authorized \<Rightarrow> Inr ()
              | Inr (Rejected _) \<Rightarrow> Inl (px_CLIENT_NAME_MISMATCH C)
              | Inl _ \<Rightarrow> Inl (px_CLIENT_NAME_MISMATCH C)))"

definition error_response :: "plugin_ctx \<Rightarrow> pkinit_env \<Rightarrow> kdc_plugin \<Rightarrow> pkinit_error \<Rightarrow> verify_response" where
  "error_response C E k e =
     (case error_class e of
        EphemeralKeyParamsNotAccepted \<Rightarrow>
          VErrEdata KRB5KDC_ERR_EPHEMERAL_KEY_PARAMS_NOT_ACCEPTED
            [\<lparr>pa_type = TD_DH_PARAMETERS (pe_msgs E), pa_contents = build_td_ephemeral_key_params (kp_state k)\<rparr>]
      | NoAcceptableKdfClass \<Rightarrow> VErr (px_NO_ACCEPTABLE_KDF C)
      | PreauthFailed \<Rightarrow> VErr (px_PREAUTH_FAILED C)
      | InvalidSignature \<Rightarrow> VErr (px_INVALID_SIG C)
      | ClientNotTrusted \<Rightarrow> VErr (px_CLIENT_NOT_TRUSTED C)
      | InconsistentKeyPurpose \<Rightarrow> VErr (px_INCONSISTENT_KEY_PURPOSE C)
      | OtherClass \<Rightarrow> VErr (px_EINVAL C))"

text \<open>\<open>as_secs() as i64\<close> reads a 64-bit word as signed.\<close>

definition current_time :: "kdc_callbacks \<Rightarrow> int" where
  "current_time cb = (case cb_time_since_epoch cb of Inr n \<Rightarrow> sint (of_nat n :: 64 word) | Inl _ \<Rightarrow> 0)"

text \<open>The auth indicators added to the ticket, and the answer.\<close>

definition kdc_verify ::
    "plugin_ctx \<Rightarrow> pkinit_env \<Rightarrow> kdc_plugin \<Rightarrow> pa_data \<Rightarrow> kdc_callbacks \<Rightarrow> rstr list \<times> verify_response" where
  "kdc_verify C E k pa cb =
     (if pa_contents pa = [] then ([], VErr (px_EINVAL C))
      else
        (case verify_as_req E (kp_state k) (pa_contents pa) None (cb_max_time_skew cb) (current_time cb) of
           Inl e \<Rightarrow> ([], error_response C E k e)
         | Inr verified \<Rightarrow>
             (case authorize_client C E k verified cb of
                Inl code \<Rightarrow> ([], VErr code)
              | Inr _ \<Rightarrow>
                  (if vr_is_anonymous verified then [] else kc_auth_indicators (kp_config k), VOk verified))))"

section \<open>The reply\<close>

text \<open>The new reply key, if it was replaced, and the outcome.\<close>

definition return_pkinit_dh ::
    "plugin_ctx \<Rightarrow> pkinit_env \<Rightarrow> kdc_plugin \<Rightarrow> return_request \<Rightarrow> kdc_callbacks \<Rightarrow>
     keyblock option \<times> pa_data option kres" where
  "return_pkinit_dh C E k req cb =
     (case (rbind (ok_or (rq_modreq req) (einval C)) (\<lambda>verified.
            rbind (ok_or (cb_client_name_string cb) (einval C)) (\<lambda>client_name.
            rbind (ok_or (rq_server req) (einval C)) (\<lambda>server_ptr.
            rbind (ok_or server_ptr (einval C)) (\<lambda>server.
            rbind (px_unparse C server) (\<lambda>server_name.
              or_einval C (build_as_rep E (kp_state k) verified
                \<lparr>brp_nonce = vr_nonce verified,
                 brp_enctype = (case cb_fast_armor cb of Some a \<Rightarrow> kb_enctype a
                                | None \<Rightarrow> ENCTYPE_AES256_CTS_HMAC_SHA1_96),
                 brp_as_req_der = rq_request_packet req, brp_client_name = client_name,
                 brp_server_name = server_name\<rparr> (krb5_o2k (px_krb5 C))))))))) of
        Inl e \<Rightarrow> (None, Inl e)
      | Inr (pa_rep_der, derived) \<Rightarrow>
          let key = \<lparr>kb_enctype = dk_enctype derived, kb_contents = dk_key_data derived\<rparr> in
          (case cb_replace_reply_key cb key of
             Inl e \<Rightarrow> (None, Inl e)
           | Inr _ \<Rightarrow> (Some key, Inr (Some \<lparr>pa_type = PA_PK_AS_REP, pa_contents = pa_rep_der\<rparr>))))"

definition reply_session :: "kdc_reply \<Rightarrow> (session_key \<times> bytes) option" where
  "reply_session reply =
     Option.bind (krp_ticket reply) (\<lambda>t.
     Option.bind (tk_enc_part2 t) (\<lambda>enc_tkt.
     Option.bind (etp_session enc_tkt) (\<lambda>session.
     map_option (\<lambda>contents. (session, take (sk_length session) contents)) (sk_contents session))))"

text \<open>The combined key and the encoded PA-PKINIT-KX, computed before the ticket is touched.\<close>

definition kx_message ::
    "plugin_ctx \<Rightarrow> keyblock \<Rightarrow> int \<Rightarrow> bytes \<Rightarrow> (keyblock \<times> bytes) kres" where
  "kx_message C encrypting_key session_enctype key_data =
     rbind (px_fx_cf2_simple C \<lparr>kb_enctype = session_enctype, kb_contents = key_data\<rparr> ''PKINIT''
              encrypting_key ''KEYEXCHANGE'') (\<lambda>ns.
     rbind (or_einval C (px_enc_encryption_key C session_enctype key_data)) (\<lambda>key_der.
     rbind (px_encrypt C encrypting_key KRB5_KEYUSAGE_PA_PKINIT_KX key_der) (\<lambda>(etype, cipher).
     rbind (or_einval C (px_enc_encrypted_data C etype cipher)) (\<lambda>enc_data_der.
       Inr (ns, enc_data_der)))))"

text \<open>
  What the session key of the ticket becomes, if it changes, and the outcome.  The old contents
  are freed before the new ones are allocated, so a failed allocation leaves a key without
  contents.
\<close>

definition return_pkinit_kx ::
    "plugin_ctx \<Rightarrow> return_request \<Rightarrow> kdc_callbacks \<Rightarrow> session_key option \<times> pa_data option kres" where
  "return_pkinit_kx C req cb =
     (if \<not> (case cb_client_name_principal cb of Some p \<Rightarrow> is_anonymous p | None \<Rightarrow> False) then (None, Inr None)
      else
        (case (rq_reply req, rq_encrypting_key req) of
           (Some reply, Some encrypting_key) \<Rightarrow>
             (case reply_session reply of
                None \<Rightarrow> (None, Inl (einval C))
              | Some (session, key_data) \<Rightarrow>
                  (case kx_message C encrypting_key (sk_enctype session) key_data of
                     Inl e \<Rightarrow> (None, Inl e)
                   | Inr (ns, enc_data_der) \<Rightarrow>
                       let len = length (kb_contents ns);
                           freed = \<lparr>sk_enctype = kb_enctype ns, sk_length = len, sk_contents = None\<rparr> in
                       if \<not> px_malloc C len then (Some freed, Inl (Custom (px_ENOMEM C)))
                       else (Some (freed\<lparr>sk_contents := Some (kb_contents ns)\<rparr>),
                             Inr (Some \<lparr>pa_type = PA_PKINIT_KX, pa_contents = enc_data_der\<rparr>))))
         | _ \<Rightarrow> (None, Inl (einval C))))"

record return_effects =
  re_reply_key :: "keyblock option"
  re_session :: "session_key option"

definition return_padata ::
    "plugin_ctx \<Rightarrow> pkinit_env \<Rightarrow> kdc_plugin \<Rightarrow> return_request \<Rightarrow> kdc_callbacks \<Rightarrow>
     return_effects \<times> pa_data option kres" where
  "return_padata C E k req cb =
     (let t = (case rq_padata_type req of Some t \<Rightarrow> t | None \<Rightarrow> 0) in
      if t = PA_PK_AS_REQ then
        (case return_pkinit_dh C E k req cb of (key, r) \<Rightarrow> (\<lparr>re_reply_key = key, re_session = None\<rparr>, r))
      else if t = PA_PKINIT_KX then
        (case return_pkinit_kx C req cb of (s, r) \<Rightarrow> (\<lparr>re_reply_key = None, re_session = s\<rparr>, r))
      else (\<lparr>re_reply_key = None, re_session = None\<rparr>, Inr None))"

section \<open>The certauth module\<close>

datatype certauth_decision = CertAuthorized | NoOpinion

definition certauth_init_module :: bool where
  "certauth_init_module = False"

text \<open>The result is the module's only state, \<open>allow_upn\<close>.\<close>

definition certauth_init_module_ex :: "plugin_ctx \<Rightarrow> rstr list \<Rightarrow> bool kres" where
  "certauth_init_module_ex C realms =
     (case realms of
        realm # _ \<Rightarrow>
          rbind (px_profile C) (\<lambda>prof.
          rbind (or_einval C (read_kdc_config prof realm)) (\<lambda>config.
            Inr (kc_allow_upn config)))
      | [] \<Rightarrow> Inr False)"

definition certauth_authorize ::
    "plugin_ctx \<Rightarrow> pkinit_env \<Rightarrow> bool \<Rightarrow> bytes \<Rightarrow> principal \<Rightarrow> certauth_decision kres" where
  "certauth_authorize C E allow_upn cert_der princ =
     rbind (px_unparse C princ) (\<lambda>princ_str.
     rbind (or_einval C (verify_client_san (pe_oids E) (pe_x509 E) cert_der princ_str allow_upn))
       (\<lambda>result. Inr (case result of Authorized \<Rightarrow> CertAuthorized | Rejected _ \<Rightarrow> NoOpinion)))"

section \<open>Facts\<close>

lemma san_verdict:
  "(case m of Inr Authorized \<Rightarrow> Inr () | Inr (Rejected _) \<Rightarrow> Inl a | Inl _ \<Rightarrow> Inl b) = Inr () \<longleftrightarrow> m = Inr Authorized"
  by (auto split: sum.splits certauth_result.splits)

lemma authorize_client_Inr:
  "authorize_client C E k v cb = Inr () \<longleftrightarrow> (\<exists>client. cb_client_name_principal cb = Some client \<and>
     (if vr_is_anonymous v then is_anonymous client
      else \<exists>n. px_unparse C client = Inr n \<and>
        verify_client_san (pe_oids E) (pe_x509 E) (vr_client_cert_der v) n (kc_allow_upn (kp_config k)) = Inr Authorized))"
  by (cases "cb_client_name_principal cb") (simp_all add: authorize_client_def res san_verdict)

lemma kdc_verify_ok:
  "kdc_verify C E k pa cb = (inds, VOk v) \<longleftrightarrow> pa_contents pa \<noteq> [] \<and>
     verify_as_req E (kp_state k) (pa_contents pa) None (cb_max_time_skew cb) (current_time cb) = Inr v \<and>
     authorize_client C E k v cb = Inr () \<and>
     inds = (if vr_is_anonymous v then [] else kc_auth_indicators (kp_config k))"
  by (auto simp: kdc_verify_def error_response_def split: sum.splits kem_error_class.splits)

lemma client_san_authorized:
  "verify_client_san T X cert n upn = Inr Authorized \<longleftrightarrow> (\<exists>sans. extract_pkinit_sans T X cert = Inr sans \<and>
     (n \<in> set sans \<or> upn \<and> (\<exists>us. extract_upn_sans T X cert = Inr us \<and> (\<exists>u\<in>set us. eq_ignore_ascii_case u n))))"
  by (auto simp: verify_client_san_def res list_ex_iff)

lemma verified_signer:
  assumes "verify_as_req E k d body skew now = Inr v" "\<not> vr_is_anonymous v"
  shows "\<exists>rq sd. dec_pa_pk_as_req (pe_msgs E) d = Inr rq \<and>
    verify_signed_data (pe_crypto E) (par_signed_auth_pack rq) = Inr sd \<and>
    vsd_signer_cert_der sd = vr_client_cert_der v \<and>
    validate_chain (pe_chain E) (ks_trust_store k) (vr_client_cert_der v) (vsd_all_certs_der sd)
      (kc_require_crl_checking (ks_config k)) = Inr () \<and>
    (kc_require_eku (ks_config k) \<longrightarrow> verify_client_eku (pe_oids E) (pe_x509 E) (vr_client_cert_der v)
       (kc_accept_secondary_eku (ks_config k)) = Inr Authorized)"
proof -
  from assms obtain rq content where "dec_pa_pk_as_req (pe_msgs E) d = Inr rq"
    "open_auth_pack E k (par_signed_auth_pack rq) = Inr (content, vr_client_cert_der v, False)"
    by (auto simp: verify_as_req_def Let_def res)
  with open_auth_pack_signed[OF this(2)] show ?thesis by auto
qed

lemma verified_key_exchange:
  "verify_as_req E k d body skew now = Inr v \<Longrightarrow>
   \<exists>dhn. request_key_exchange E k (vr_client_dh_public v) dhn = Inr (vr_key_exchange v)"
  by (auto simp: verify_as_req_def Let_def res)

lemma kdc_init_Inr:
  assumes "kdc_init_module C F P E realms = Inr k"
  shows "\<exists>realm profile ident store. realms \<noteq> [] \<and> realm = hd realms \<and> px_profile C = Inr profile \<and>
    read_kdc_config profile realm = Inr (kp_config k) \<and> kc_identity (kp_config k) \<noteq> None \<and>
    load_anchors F P trust_store_new (kc_anchors (kp_config k)) = Inr store \<and>
    kdc_new E ident store (kp_config k) = Inr (kp_state k)"
  using assms by (auto simp: kdc_init_module_def res split: list.splits)

lemma kdc_new_store: "kdc_new E ident store cfg = Inr k \<Longrightarrow> ks_trust_store k = store \<and> ks_identity k = ident"
  by (auto simp: kdc_new_def Let_def res)

section \<open>Properties\<close>

text \<open>C29: The KDC issues a ticket on this pre-authentication only to the principal the certificate
  names: if the plugin accepts a request, then either nobody signed it, the client principal is
  the anonymous one and no auth indicator is asserted; or it was signed with the key of a
  certificate whose chain validated (with the key purpose the configuration asks for) and one
  of whose PKINIT names is exactly the client principal (or, where allowed, whose UPN is it up
  to case), and the configured indicators are asserted.\<close>
theorem ticket_only_for_named_principal:
  assumes "kdc_verify C E k pa cb = (inds, VOk v)"
  shows "\<exists>client. cb_client_name_principal cb = Some client \<and>
    (if vr_is_anonymous v then is_anonymous client \<and> inds = []
     else inds = kc_auth_indicators (kp_config k) \<and>
       (\<exists>n sans rq sd. px_unparse C client = Inr n \<and>
          extract_pkinit_sans (pe_oids E) (pe_x509 E) (vr_client_cert_der v) = Inr sans \<and>
          (n \<in> set sans \<or> kc_allow_upn (kp_config k) \<and>
             (\<exists>us. extract_upn_sans (pe_oids E) (pe_x509 E) (vr_client_cert_der v) = Inr us \<and>
                (\<exists>u\<in>set us. eq_ignore_ascii_case u n))) \<and>
          dec_pa_pk_as_req (pe_msgs E) (pa_contents pa) = Inr rq \<and>
          verify_signed_data (pe_crypto E) (par_signed_auth_pack rq) = Inr sd \<and>
          vsd_signer_cert_der sd = vr_client_cert_der v \<and>
          validate_chain (pe_chain E) (ks_trust_store (kp_state k)) (vr_client_cert_der v) (vsd_all_certs_der sd)
            (kc_require_crl_checking (ks_config (kp_state k))) = Inr () \<and>
          (kc_require_eku (ks_config (kp_state k)) \<longrightarrow>
             verify_client_eku (pe_oids E) (pe_x509 E) (vr_client_cert_der v)
               (kc_accept_secondary_eku (ks_config (kp_state k))) = Inr Authorized)))"
proof (cases "vr_is_anonymous v")
  case True
  with assms show ?thesis by (auto simp: kdc_verify_ok authorize_client_Inr)
next
  case False
  with assms verified_signer[of E "kp_state k" "pa_contents pa" None _ _ v] show ?thesis
    by (fastforce simp: kdc_verify_ok authorize_client_Inr client_san_authorized)
qed

text \<open>C30: The administrator's post-quantum policy in \<open>krb5.conf\<close> binds every accepted request: in a
  KDC started for a realm whose effective \<open>pkinit_require_kem\<close> is set, an accepted request uses a
  KEM; it is a pure one of the configured floor or above, when a floor is configured, or a
  composite that \<open>pkinit_pqc_composite_algorithms\<close> names.  The anchors are certificates of files
  that were read.\<close>
theorem profile_policy_binds_kdc:
  assumes "kdc_init_module C F P E (realm # realms) = Inr k" "px_profile C = Inr profile" "profile_ok profile R"
    and "effective_typed (rel_bool R) R ''kdcdefaults'' (Some realm) ''pkinit_require_kem'' False"
    and "kdc_verify C E k pa cb = (inds, VOk v)"
  shows "(\<exists>alg. vr_key_exchange v = KexKem alg \<and>
      (if is_composite alg then
         \<exists>n\<in>set (effective R ''kdcdefaults'' (Some realm) ''pkinit_pqc_composite_algorithms''). kem_from_name n = Some alg
       else \<forall>n ns flr. effective R ''kdcdefaults'' (Some realm) ''pkinit_pqc_min_algorithm'' = n # ns \<longrightarrow>
         kem_from_name n = Some flr \<longrightarrow> strength_order flr \<le> strength_order alg)) \<and>
    (\<forall>a\<in>set (ts_anchors (ks_trust_store (kp_state k))). read_block F P ''CERTIFICATE'' a)"
proof -
  from kdc_init_Inr[OF assms(1)] assms(2) obtain ident store where
    I: "read_kdc_config profile realm = Inr (kp_config k)" "load_anchors F P trust_store_new (kc_anchors (kp_config k)) = Inr store"
      "kdc_new E ident store (kp_config k) = Inr (kp_state k)" by auto
  note cfg = read_kdc_config_policy[OF assms(3) I(1)]
  have eff: "ks_config (kp_state k) = effective_kdc_config (kp_config k)" by (rule kdc_new_config[OF I(3)])
  have "kc_require_kem (kp_config k)" using cfg assms(4) by blast
  then have rk: "kc_require_kem (ks_config (kp_state k))" by (simp add: eff effective_kdc_config_def)
  from assms(5) verified_key_exchange obtain dhn where
    "request_key_exchange E (kp_state k) (vr_client_dh_public v) dhn = Inr (vr_key_exchange v)"
    by (fastforce simp: kdc_verify_ok)
  with rk obtain alg where alg: "vr_key_exchange v = KexKem alg" "accepts_kem (kp_state k) alg"
    by (cases "vr_key_exchange v") (auto dest: request_key_exchange_kem request_key_exchange_dh)
  have comp: "\<exists>n\<in>set (effective R ''kdcdefaults'' (Some realm) ''pkinit_pqc_composite_algorithms''). kem_from_name n = Some alg"
    if "is_composite alg"
    using that alg(2) list_all2_right[OF cfg(4)] by (auto simp: accepts_kem_def eff effective_kdc_config_def split: if_splits)
  have pure: "strength_order flr \<le> strength_order alg"
    if "\<not> is_composite alg" "effective R ''kdcdefaults'' (Some realm) ''pkinit_pqc_min_algorithm'' = n # ns"
      "kem_from_name n = Some flr" for n ns flr
  proof -
    have l: "kc_supported_kem_algorithms (kp_config k) = algorithms_at_or_above flr" using cfg(2)[OF that(2)] that(3) by auto
    then have "effective_kdc_config (kp_config k) = kp_config k"
      using algorithms_at_or_above_pure[of flr] by (simp add: effective_kdc_config_def)
    with alg(2) that(1) l algorithms_at_or_above_pure[of flr] show ?thesis by (auto simp: accepts_kem_def eff)
  qed
  have "ks_trust_store (kp_state k) = store" using kdc_new_store[OF I(3)] by simp
  then show ?thesis using alg(1) comp pure load_anchors_origin[OF I(2)] by (auto simp: trust_store_new_def)
qed

text \<open>C31: The anonymous session key is bound to the reply key (RFC 6112): only for the anonymous
  principal is anything returned or changed; then the reply carries the ticket's old session
  key encrypted under the reply key with the PKINIT usage, and the ticket's session key becomes
  the combination of both; every failure leaves the ticket's key as it was, but for the failed
  allocation, after which it has no contents.\<close>
theorem anonymous_session_key_bound:
  assumes "rq_padata_type req = Some PA_PKINIT_KX" "return_padata C E k req cb = (eff, r)"
  shows "re_reply_key eff = None \<and>
    (if (\<exists>p. cb_client_name_principal cb = Some p \<and> is_anonymous p) then
       (case r of
          Inr out \<Rightarrow> \<exists>pa session old ekey ns key_der etype cipher.
            out = Some pa \<and> pa_type pa = PA_PKINIT_KX \<and>
            (\<exists>reply. rq_reply req = Some reply \<and> reply_session reply = Some (session, old)) \<and>
            rq_encrypting_key req = Some ekey \<and>
            px_fx_cf2_simple C \<lparr>kb_enctype = sk_enctype session, kb_contents = old\<rparr> ''PKINIT'' ekey ''KEYEXCHANGE'' = Inr ns \<and>
            px_enc_encryption_key C (sk_enctype session) old = Inr key_der \<and>
            px_encrypt C ekey 44 key_der = Inr (etype, cipher) \<and>
            px_enc_encrypted_data C etype cipher = Inr (pa_contents pa) \<and>
            re_session eff = Some \<lparr>sk_enctype = kb_enctype ns, sk_length = length (kb_contents ns),
              sk_contents = Some (kb_contents ns)\<rparr>
        | Inl e \<Rightarrow> re_session eff = None \<or>
            e = Custom (px_ENOMEM C) \<and> (\<exists>s. re_session eff = Some s \<and> sk_contents s = None))
     else r = Inr None \<and> re_session eff = None)"
proof -
  from assms have eff: "return_pkinit_kx C req cb = (re_session eff, r)" "re_reply_key eff = None"
    by (auto simp: return_padata_def Let_def PA_PK_AS_REQ_def PA_PKINIT_KX_def split: prod.splits)
  show ?thesis
    using eff
    by (auto simp: return_pkinit_kx_def kx_message_def Let_def res KRB5_KEYUSAGE_PA_PKINIT_KX_def
        split: option.splits sum.splits prod.splits if_splits) 
qed

end
