(* ===== verification/Client_Plugin.thy ===== *)
theory Client_Plugin
  imports Plugin Broker
begin

text \<open>
  \<open>kurbu5-pkinit/src/client_plugin.rs\<close>: the clpreauth module.  Its state is the core's client
  (once an identity is loaded), the configuration, which the command line and then the profile
  fill in, and a PKCS#12 file that waits for its password.  What the module does to the caller
  (the question it asks, the key it installs) is part of a result.
\<close>

section \<open>What libkrb5 supplies\<close>

record kdc_request =
  kr_client :: "principal option"
  kr_server :: "principal option"
  kr_nonce :: u32

text \<open>A \<open>krb5_pa_data\<close>; a null pointer is \<open>None\<close>.\<close>

record raw_pa_data =
  rpa_type :: int
  rpa_length :: nat
  rpa_contents :: "bytes option"

record clpreauth_callbacks =
  lb_ask_responder_question :: "rstr \<Rightarrow> rstr \<Rightarrow> unit kres"
  lb_get_responder_answer :: "rstr \<Rightarrow> rstr option"
  lb_get_preauth_time :: "(int \<times> int) kres"
  lb_get_etype :: int
  lb_set_as_key :: "keyblock \<Rightarrow> unit kres"

record process_request =
  pq_request :: kdc_request
  pq_pa_data :: raw_pa_data
  pq_encoded_request_body :: "bytes option"
  pq_encoded_previous_request :: "bytes option"

record tryagain_request =
  tq_request :: kdc_request
  tq_error_padata :: "raw_pa_data list option"
  tq_encoded_request_body :: "bytes option"

section \<open>The module\<close>

record pending_pkcs12 =
  pp_path :: rstr
  pp_trust_store :: trust_store
  pp_server_principal :: "rstr option"

record client_plugin =
  cp_state :: "client_state option"
  cp_config :: client_config
  cp_pending :: "pending_pkcs12 option"

definition PKCS12_PASSWORD_QUESTION :: rstr where
  "PKCS12_PASSWORD_QUESTION = ''pkinit_pkcs12_password''"

definition client_pa_type_list :: "int list" where
  "client_pa_type_list = [PA_PK_AS_REP, PA_PK_AS_REQ, PA_PKINIT_KX, PA_AS_FRESHNESS, 0]"

text \<open>The two flags are libkrb5's.\<close>

definition client_flags :: "int \<Rightarrow> int \<Rightarrow> int \<Rightarrow> int" where
  "client_flags PA_REAL PA_INFO t =
     (if t = PA_PK_AS_REQ \<or> t = PA_PK_AS_REP then PA_REAL
      else if t = PA_PKINIT_KX \<or> t = PA_AS_FRESHNESS then PA_INFO else 0)"

definition client_init_module :: client_plugin where
  "client_init_module = \<lparr>cp_state = None, cp_config = client_config_default, cp_pending = None\<rparr>"

definition pa_data_contents :: "raw_pa_data \<Rightarrow> bytes" where
  "pa_data_contents pa =
     (case rpa_contents pa of
        None \<Rightarrow> []
      | Some c \<Rightarrow> if rpa_length pa = 0 then [] else take (rpa_length pa) c)"

definition build_client ::
    "plugin_ctx \<Rightarrow> varlink_ops \<Rightarrow> pkinit_identity \<Rightarrow> trust_store \<Rightarrow> client_config \<Rightarrow> rstr option \<Rightarrow> bool \<Rightarrow> client_state" where
  "build_client C W ident store config server_principal is_anon =
     (let client = client_new ident store config;
          client = (case server_principal of Some p \<Rightarrow> set_kdc_identity client p None | None \<Rightarrow> client);
          client = set_is_anonymous client is_anon
      in if cc_kdc_trust_tofu config then
           set_trust_broker client (varlink_broker W
             (case cc_kdc_trust_broker config of Some path \<Rightarrow> path | None \<Rightarrow> default_socket_path C)
             (cc_kdc_trust_timeout config))
         else client)"

section \<open>Loading an identity\<close>

definition anonymous_identity :: pkinit_identity where
  "anonymous_identity = \<lparr>id_cert_der = [], id_signing_key = None, id_chain = []\<rparr>"

text \<open>The part after the trust store is loaded: the module, the question asked, and the outcome.\<close>

definition load_configured_identity ::
    "plugin_ctx \<Rightarrow> os_ops \<Rightarrow> pki_ops \<Rightarrow> varlink_ops \<Rightarrow> clpreauth_callbacks \<Rightarrow> client_plugin \<Rightarrow> trust_store \<Rightarrow>
     rstr option \<Rightarrow> rstr \<Rightarrow> client_plugin \<times> (rstr \<times> rstr) option \<times> unit kres" where
  "load_configured_identity C F P W cb cp store server_principal identity_str =
     (case identity_source_parse identity_str of
        Inl _ \<Rightarrow> (cp, None, Inl (einval C))
      | Inr source \<Rightarrow>
          (case identity_load F P source of
             Inr ident \<Rightarrow>
               (cp\<lparr>cp_state := Some (build_client C W ident store (cp_config cp) server_principal False),
                   cp_pending := None\<rparr>, None, Inr ())
           | Inl Pkcs12PasswordRequired \<Rightarrow>
               (case source of
                  Pkcs12Id path \<Rightarrow>
                    (case lb_ask_responder_question cb PKCS12_PASSWORD_QUESTION path of
                       Inl _ \<Rightarrow> (cp, Some (PKCS12_PASSWORD_QUESTION, path), Inl (einval C))
                     | Inr _ \<Rightarrow>
                         (cp\<lparr>cp_pending := Some \<lparr>pp_path = path, pp_trust_store = store,
                            pp_server_principal = server_principal\<rparr>\<rparr>,
                          Some (PKCS12_PASSWORD_QUESTION, path), Inr ()))
                | _ \<Rightarrow> (cp, None, Inl (einval C)))
           | Inl _ \<Rightarrow> (cp, None, Inl (einval C))))"

definition init_etype_info ::
    "plugin_ctx \<Rightarrow> os_ops \<Rightarrow> pki_ops \<Rightarrow> varlink_ops \<Rightarrow> clpreauth_callbacks \<Rightarrow> client_plugin \<Rightarrow> kdc_request \<Rightarrow>
     client_plugin \<times> (rstr \<times> rstr) option \<times> unit kres" where
  "init_etype_info C F P W cb cp rq =
     (if (case cp_state cp of Some s \<Rightarrow> has_dh_key s \<or> has_kem_key s | None \<Rightarrow> False) then (cp, None, Inr ())
      else
        let is_anon = (case kr_client rq of Some p \<Rightarrow> is_anonymous p | None \<Rightarrow> False) in
        (case px_profile C of
           Inl e \<Rightarrow> (cp, None, Inl e)
         | Inr profile \<Rightarrow>
             (case read_client_config profile (px_realm C) (cp_config cp) of
                (config, Inl _) \<Rightarrow> (cp\<lparr>cp_config := config\<rparr>, None, Inl (einval C))
              | (config, Inr _) \<Rightarrow>
                  let cp = cp\<lparr>cp_config := config\<rparr> in
                  if \<not> is_anon \<and> cc_identity config = None then (cp, None, Inr ())
                  else
                    (case load_anchors F P trust_store_new (cc_anchors config) of
                       Inl _ \<Rightarrow> (cp, None, Inl (einval C))
                     | Inr store \<Rightarrow>
                         let server_principal = Option.bind (kr_server rq) (\<lambda>p. ok_opt (px_unparse C p)) in
                         if is_anon then
                           (cp\<lparr>cp_state := Some (build_client C W anonymous_identity store config
                              server_principal True)\<rparr>, None, Inr ())
                         else
                           load_configured_identity C F P W cb cp store server_principal
                             (the (cc_identity config))))))"

definition finish_pending_pkcs12 ::
    "plugin_ctx \<Rightarrow> os_ops \<Rightarrow> pki_ops \<Rightarrow> varlink_ops \<Rightarrow> clpreauth_callbacks \<Rightarrow> client_plugin \<Rightarrow> client_plugin \<times> unit kres" where
  "finish_pending_pkcs12 C F P W cb cp =
     (case cp_pending cp of
        None \<Rightarrow> (cp, Inr ())
      | Some pending \<Rightarrow>
          let cp = cp\<lparr>cp_pending := None\<rparr> in
          (case lb_get_responder_answer cb PKCS12_PASSWORD_QUESTION of
             None \<Rightarrow> (cp, Inl (einval C))
           | Some password \<Rightarrow>
               (case load_pkcs12 F P (pp_path pending) (str_bytes password) of
                  Inl _ \<Rightarrow> (cp, Inl (einval C))
                | Inr ident \<Rightarrow>
                    (cp\<lparr>cp_state := Some (build_client C W ident (pp_trust_store pending) (cp_config cp)
                       (pp_server_principal pending) False)\<rparr>, Inr ()))))"

section \<open>Requests and replies\<close>

definition build_pa_pk_as_req ::
    "plugin_ctx \<Rightarrow> pkinit_env \<Rightarrow> clpreauth_callbacks \<Rightarrow> client_state \<Rightarrow> u32 \<Rightarrow> bytes option \<Rightarrow>
     client_state \<times> pa_data list kres" where
  "build_pa_pk_as_req C E cb state nonce encoded_request_body =
     (case lb_get_preauth_time cb of
        Inl e \<Rightarrow> (state, Inl e)
      | Inr (ctime, cusec) \<Rightarrow>
          (case encoded_request_body of
             None \<Rightarrow> (state, Inl (einval C))
           | Some body \<Rightarrow>
               (case build_as_req E state nonce ctime cusec body of
                  (state, Inl _) \<Rightarrow> (state, Inl (einval C))
                | (state, Inr der) \<Rightarrow> (state, Inr [\<lparr>pa_type = PA_PK_AS_REQ, pa_contents = der\<rparr>]))))"

definition process_pk_as_req ::
    "plugin_ctx \<Rightarrow> pkinit_env \<Rightarrow> clpreauth_callbacks \<Rightarrow> client_state \<Rightarrow> process_request \<Rightarrow>
     client_state \<times> pa_data list kres" where
  "process_pk_as_req C E cb state rq =
     (let hint = pa_data_contents (pq_pa_data rq);
          build = (\<lambda>state. build_pa_pk_as_req C E cb state (kr_nonce (pq_request rq)) (pq_encoded_request_body rq))
      in if hint = [] then build state
         else
           (case process_pkinit_hint E state hint of
              (state, Inr _) \<Rightarrow> build state
            | (state, Inl (Asn1 _)) \<Rightarrow> build state
            | (state, Inl _) \<Rightarrow> (state, Inl (einval C))))"

text \<open>The client, the key installed (if libkrb5 took it), and the outcome.\<close>

definition process_pk_as_rep ::
    "plugin_ctx \<Rightarrow> pkinit_env \<Rightarrow> clpreauth_callbacks \<Rightarrow> client_state \<Rightarrow> process_request \<Rightarrow>
     client_state \<times> keyblock option \<times> pa_data list kres" where
  "process_pk_as_rep C E cb state rq =
     (let contents = pa_data_contents (pq_pa_data rq);
          name = (\<lambda>p. rbind (ok_or p (einval C)) (px_unparse C))
      in if contents = [] then (state, None, Inl (einval C))
         else
           (case (rbind (name (kr_client (pq_request rq))) (\<lambda>client.
                  rbind (name (kr_server (pq_request rq))) (\<lambda>server. Inr (client, server)))) of
              Inl e \<Rightarrow> (state, None, Inl e)
            | Inr (client_name, server_name) \<Rightarrow>
                (case process_as_rep E state contents
                        \<lparr>arp_nonce = kr_nonce (pq_request rq), arp_enctype = lb_get_etype cb,
                         arp_as_req_der = (case pq_encoded_previous_request rq of Some d \<Rightarrow> d | None \<Rightarrow> []),
                         arp_pa_rep_raw = contents, arp_client_name = client_name,
                         arp_server_name = server_name\<rparr> (krb5_o2k (px_krb5 C)) of
                   (state, Inl _) \<Rightarrow> (state, None, Inl (einval C))
                 | (state, Inr derived) \<Rightarrow>
                     let key = \<lparr>kb_enctype = dk_enctype derived, kb_contents = dk_key_data derived\<rparr> in
                     (case lb_set_as_key cb key of
                        Inl e \<Rightarrow> (state, None, Inl e)
                      | Inr _ \<Rightarrow> (state, Some key, Inr [])))))"

definition process ::
    "plugin_ctx \<Rightarrow> os_ops \<Rightarrow> pki_ops \<Rightarrow> pkinit_env \<Rightarrow> varlink_ops \<Rightarrow> clpreauth_callbacks \<Rightarrow> client_plugin \<Rightarrow>
     process_request \<Rightarrow> client_plugin \<times> keyblock option \<times> pa_data list kres" where
  "process C F P E W cb cp rq =
     (case finish_pending_pkcs12 C F P W cb cp of
        (cp, Inl e) \<Rightarrow> (cp, None, Inl e)
      | (cp, Inr _) \<Rightarrow>
          let t = rpa_type (pq_pa_data rq) in
          if t = PA_PKINIT_KX then (cp, None, Inr [])
          else if t = PA_AS_FRESHNESS then
            (cp\<lparr>cp_state := map_option (\<lambda>s. set_freshness_token s (pa_data_contents (pq_pa_data rq))) (cp_state cp)\<rparr>,
             None, Inr [])
          else if t = PA_PK_AS_REQ then
            (case cp_state cp of
               None \<Rightarrow> (cp, None, Inl NoHandle)
             | Some s \<Rightarrow> (case process_pk_as_req C E cb s rq of (s, r) \<Rightarrow> (cp\<lparr>cp_state := Some s\<rparr>, None, r)))
          else if t = PA_PK_AS_REP then
            (case cp_state cp of
               None \<Rightarrow> (cp, None, Inl NoHandle)
             | Some s \<Rightarrow> (case process_pk_as_rep C E cb s rq of (s, key, r) \<Rightarrow> (cp\<lparr>cp_state := Some s\<rparr>, key, r)))
          else (cp, None, Inl NoHandle))"

section \<open>Options and retries\<close>

definition supply_gic_opts :: "client_plugin \<Rightarrow> rstr \<Rightarrow> rstr \<Rightarrow> client_plugin \<times> unit kres" where
  "supply_gic_opts cp attr val =
     (let c = cp_config cp in
      if attr = ''X509_user_identity'' then
        (if cc_identity c \<noteq> None then (cp, Inl (Custom KRB5_PREAUTH_FAILED))
         else (cp\<lparr>cp_config := c\<lparr>cc_identity := Some val\<rparr>\<rparr>, Inr ()))
      else if attr = ''X509_anchors'' then
        (cp\<lparr>cp_config := c\<lparr>cc_anchors := cc_anchors c @ [val]\<rparr>\<rparr>, Inr ())
      else if attr = ''disable_freshness'' \<and> to_ascii_lowercase val \<in> {''yes'', ''true'', ''1''} then
        (cp\<lparr>cp_config := c\<lparr>cc_disable_freshness := True\<rparr>\<rparr>, Inr ())
      else (cp, Inr ()))"

definition typed_data_of :: "raw_pa_data list option \<Rightarrow> (int \<times> bytes) list" where
  "typed_data_of error_padata =
     (case error_padata of
        None \<Rightarrow> []
      | Some pas \<Rightarrow> map (\<lambda>pa. (rpa_type pa, pa_data_contents pa)) pas)"

definition tryagain ::
    "plugin_ctx \<Rightarrow> pkinit_env \<Rightarrow> clpreauth_callbacks \<Rightarrow> client_plugin \<Rightarrow> tryagain_request \<Rightarrow>
     client_plugin \<times> pa_data list kres" where
  "tryagain C E cb cp rq =
     (case cp_state cp of
        None \<Rightarrow> (cp, Inl NoHandle)
      | Some s \<Rightarrow>
          (case (case handle_tryagain_typed_data E s (typed_data_of (tq_error_padata rq)) of
                   (s, Inr (RetryWithKemAlgorithm _)) \<Rightarrow>
                     build_pa_pk_as_req C E cb s (kr_nonce (tq_request rq)) (tq_encoded_request_body rq)
                 | (s, Inr (RetryWithDhParams _)) \<Rightarrow>
                     build_pa_pk_as_req C E cb s (kr_nonce (tq_request rq)) (tq_encoded_request_body rq)
                 | (s, Inr _) \<Rightarrow> (s, Inl NoHandle)
                 | (s, Inl _) \<Rightarrow> (s, Inl (Custom (px_PREAUTH_FAILED C)))) of
             (s, r) \<Rightarrow> (cp\<lparr>cp_state := Some s\<rparr>, r)))"


section \<open>Every way the module can change\<close>

text \<open>
  One step is one call of libkrb5, on one machine (\<open>F\<close>, \<open>P\<close>) with one cryptography \<open>V\<close>; libkrb5,
  its callbacks, the clock and the broker may be in any state.
\<close>

inductive plugin_step :: "crypto_env \<Rightarrow> os_ops \<Rightarrow> pki_ops \<Rightarrow> client_plugin \<Rightarrow> client_plugin \<Rightarrow> bool" for V F P where
  Init: "init_etype_info C F P W cb cp rq = (cp', q, r) \<Longrightarrow> plugin_step V F P cp cp'"
| Process: "pe_crypto E = V \<Longrightarrow> process C F P E W cb cp prq = (cp', key, pr) \<Longrightarrow> plugin_step V F P cp cp'"
| Options: "supply_gic_opts cp attr val = (cp', r) \<Longrightarrow> plugin_step V F P cp cp'"
| Tryagain: "pe_crypto E = V \<Longrightarrow> tryagain C E cb cp trq = (cp', pr) \<Longrightarrow> plugin_step V F P cp cp'"

definition plugin_reachable :: "crypto_env \<Rightarrow> os_ops \<Rightarrow> pki_ops \<Rightarrow> client_plugin \<Rightarrow> bool" where
  "plugin_reachable V F P cp \<longleftrightarrow> (plugin_step V F P)\<^sup>*\<^sup>* client_init_module cp"

text \<open>Where the identity and the anchors of a client come from; when it has a broker.\<close>

definition loaded_identity :: "os_ops \<Rightarrow> pki_ops \<Rightarrow> pkinit_identity \<Rightarrow> bool" where
  "loaded_identity F P ident \<longleftrightarrow>
     (\<exists>source. identity_load F P source = Inr ident) \<or> (\<exists>path pw. load_pkcs12 F P path pw = Inr ident)"

definition read_store :: "os_ops \<Rightarrow> pki_ops \<Rightarrow> trust_store \<Rightarrow> bool" where
  "read_store F P store \<longleftrightarrow>
     (\<forall>a\<in>set (ts_anchors store). read_block F P ''CERTIFICATE'' a) \<and> ts_intermediates store = []"

definition state_origin :: "os_ops \<Rightarrow> pki_ops \<Rightarrow> client_state \<Rightarrow> bool" where
  "state_origin F P s \<longleftrightarrow> read_store F P (cl_trust_store s) \<and>
     (if cl_is_anonymous s then cl_identity s = anonymous_identity else loaded_identity F P (cl_identity s)) \<and>
     (cl_broker s \<noteq> None \<longleftrightarrow> cc_kdc_trust_tofu (cl_config s)) \<and> cl_kdc_hostname s = None"

definition plugin_inv :: "os_ops \<Rightarrow> pki_ops \<Rightarrow> client_plugin \<Rightarrow> bool" where
  "plugin_inv F P cp \<longleftrightarrow>
     (\<forall>s. cp_state cp = Some s \<longrightarrow> client_inv s \<and> state_origin F P s) \<and>
     (\<forall>p. cp_pending cp = Some p \<longrightarrow> read_store F P (pp_trust_store p))"

text \<open>What a call that has a client leaves alone.\<close>

definition same_origin :: "client_state \<Rightarrow> client_state \<Rightarrow> bool" where
  "same_origin s t \<longleftrightarrow> same_policy s t \<and> cl_is_anonymous t = cl_is_anonymous s \<and> cl_broker t = cl_broker s \<and>
     cl_kdc_principal t = cl_kdc_principal s \<and> cl_kdc_hostname t = cl_kdc_hostname s \<and>
     cc_kdc_trust_tofu (cl_config t) = cc_kdc_trust_tofu (cl_config s)"

lemma same_origin_refl [simp]: "same_origin s s"
  by (simp add: same_origin_def)

lemma same_origin_trans: "same_origin s t \<Longrightarrow> same_origin t u \<Longrightarrow> same_origin s u"
  by (auto simp: same_origin_def intro: same_policy_trans)

lemma state_origin_same: "same_origin s t \<Longrightarrow> state_origin F P s \<Longrightarrow> state_origin F P t"
  by (simp add: same_origin_def state_origin_def same_policy_def)

lemma same_origin_apply [simp]: "same_origin s (apply_offer s off)"
  by (cases off) (simp_all add: same_origin_def same_policy_def apply_offer_def set_kem_algorithm_def set_dh_group_def)

lemma same_origin_request: "build_as_req E s nonce ctime cusec body = (t, r) \<Longrightarrow> same_origin s t"
  by (auto simp: build_as_req_def request_key_def request_dh_nonce_def Let_def same_origin_def same_policy_def
      split: sum.splits if_splits prod.splits option.splits)

lemma same_origin_reply: "process_as_rep E s rep p O2 = (t, r) \<Longrightarrow> same_origin s t"
  by (auto simp: process_as_rep_def process_kem_rep_def Let_def same_origin_def same_policy_def
      split: if_splits option.splits)


text \<open>A call keeps the client's invariant and its origin.\<close>

definition kept :: "client_state \<Rightarrow> client_state \<Rightarrow> bool" where
  "kept s t \<longleftrightarrow> (client_inv s \<longrightarrow> client_inv t) \<and> same_origin s t"

lemma kept_refl [simp]: "kept s s"
  by (simp add: kept_def)

lemma kept_trans: "kept s t \<Longrightarrow> kept t u \<Longrightarrow> kept s u"
  by (auto simp: kept_def intro: same_origin_trans)

lemma kept_apply: "accepts E s off \<Longrightarrow> kept s (apply_offer s off)"
  by (simp add: kept_def client_inv_apply)

lemma kept_request: "build_pa_pk_as_req C E cb s nonce body = (t, r) \<Longrightarrow> kept s t"
  by (auto simp: build_pa_pk_as_req_def kept_def
      dest: build_as_req_inv same_origin_request split: sum.splits prod.splits option.splits)

lemma kept_hint: "process_pkinit_hint E s h = (t, r) \<Longrightarrow> kept s t"
  by (auto dest!: hint_cases intro: kept_apply)

lemma kept_as_req:
  assumes "process_pk_as_req C E cb s rq = (t, r)"
  shows "kept s t"
proof -
  obtain u h where u: "process_pkinit_hint E s (pa_data_contents (pq_pa_data rq)) = (u, h)" by fastforce
  from assms consider nonce body where "build_pa_pk_as_req C E cb s nonce body = (t, r)" | "t = u"
    | nonce body where "build_pa_pk_as_req C E cb u nonce body = (t, r)"
    by (auto simp: process_pk_as_req_def Let_def u split: if_splits sum.splits pkinit_error.splits)
  then show ?thesis by cases (auto intro: kept_trans kept_request kept_hint[OF u])
qed

lemma kept_as_rep:
  assumes "process_pk_as_rep C E cb s rq = (t, key, r)"
  shows "kept s t"
proof -
  from assms have "t = s \<or> (\<exists>rep p O2 r. process_as_rep E s rep p O2 = (t, r))"
    by (auto simp: process_pk_as_rep_def Let_def split: if_splits sum.splits prod.splits)
  then show ?thesis by (auto simp: kept_def dest: process_as_rep_inv same_origin_reply)
qed

lemma kept_tryagain:
  assumes "tryagain C E cb cp rq = (cp', r)"
  shows "cp' = cp \<or> (\<exists>s t. cp_state cp = Some s \<and> cp' = cp\<lparr>cp_state := Some t\<rparr> \<and> kept s t)"
proof (cases "cp_state cp")
  case (Some s)
  obtain u h where u: "handle_tryagain_typed_data E s (typed_data_of (tq_error_padata rq)) = (u, h)" by fastforce
  then have k: "kept s u" by (auto dest!: tryagain_cases intro: kept_apply)
  from assms Some u have "cp' = cp\<lparr>cp_state := Some u\<rparr> \<or>
      (\<exists>nonce body t. build_pa_pk_as_req C E cb u nonce body = (t, r) \<and> cp' = cp\<lparr>cp_state := Some t\<rparr>)"
    by (auto simp: tryagain_def split: sum.splits retry_action.splits prod.splits)
  with Some k show ?thesis by (auto intro: kept_trans kept_request)
qed (use assms in \<open>simp add: tryagain_def\<close>)

lemma build_client_sound:
  assumes "read_store F P store" "if anon then ident = anonymous_identity else loaded_identity F P ident"
  shows "client_inv (build_client C W ident store cfg server anon) \<and>
    state_origin F P (build_client C W ident store cfg server anon)"
  using assms client_inv_new[of ident store cfg]
  by (auto simp: build_client_def Let_def state_origin_def set_kdc_identity_def set_is_anonymous_def
      set_trust_broker_def client_new_def client_inv_def meets_floor_def split: option.splits)

lemma loaded_identityI:
  "identity_load F P source = Inr ident \<Longrightarrow> loaded_identity F P ident"
  "load_pkcs12 F P path pw = Inr ident \<Longrightarrow> loaded_identity F P ident"
  by (auto simp: loaded_identity_def)

lemma build_client_loaded:
  assumes "read_store F P store" "loaded_identity F P ident"
  shows "client_inv (build_client C W ident store cfg server False)"
    "state_origin F P (build_client C W ident store cfg server False)"
  using build_client_sound[of F P store False] assms by simp_all

lemma load_anchors_read: "load_anchors F P trust_store_new as = Inr store \<Longrightarrow> read_store F P store"
  by (auto simp: read_store_def trust_store_new_def grows_def dest: load_anchors_origin)

lemma plugin_inv_config [simp]: "plugin_inv F P (cp\<lparr>cp_config := c\<rparr>) = plugin_inv F P cp"
  by (simp add: plugin_inv_def)

lemma load_configured_inv:
  assumes "load_configured_identity C F P W cb cp store server i = (cp', q, r)" "plugin_inv F P cp"
    "read_store F P store"
  shows "plugin_inv F P cp'"
proof -
  show ?thesis
    using assms
    by (auto simp: load_configured_identity_def plugin_inv_def build_client_loaded loaded_identityI(1)
        split: sum.splits pkinit_error.splits identity_source.splits)
qed

lemma init_etype_info_inv:
  assumes "init_etype_info C F P W cb cp rq = (cp', q, r)" "plugin_inv F P cp"
  shows "plugin_inv F P cp'"
proof -
  have anon: "plugin_inv F P (cp\<lparr>cp_config := c, cp_state := Some (build_client C W anonymous_identity store c server True)\<rparr>)"
    if "load_anchors F P trust_store_new as = Inr store" for c store server as
    using assms(2) build_client_sound[OF load_anchors_read[OF that], of True]
    by (simp add: plugin_inv_def)
  have load: "plugin_inv F P cp'"
    if "load_configured_identity C F P W cb (cp\<lparr>cp_config := c\<rparr>) store server i = (cp', q, r)"
      "load_anchors F P trust_store_new as = Inr store" for c store server i as
    using load_configured_inv[OF that(1) _ load_anchors_read[OF that(2)]] assms(2) by simp
  show ?thesis
    using assms anon load unfolding init_etype_info_def Let_def
    by (auto split: if_splits sum.splits prod.splits option.splits)
qed

lemma finish_pending_inv:
  assumes "finish_pending_pkcs12 C F P W cb cp = (cp', r)" "plugin_inv F P cp"
  shows "plugin_inv F P cp' \<and> cp_pending cp' = None"
proof (cases "cp_pending cp")
  case (Some p)
  with assms(2) have "read_store F P (pp_trust_store p)" by (simp add: plugin_inv_def)
  with Some assms show ?thesis
    by (auto simp: finish_pending_pkcs12_def Let_def plugin_inv_def build_client_loaded loaded_identityI(2)
        split: option.splits sum.splits)
qed (use assms in \<open>simp add: finish_pending_pkcs12_def\<close>)


lemma kept_inv:
  assumes "cp_state cp = Some s" "kept s t" "plugin_inv F P cp"
  shows "plugin_inv F P (cp\<lparr>cp_state := Some t\<rparr>)"
  using assms by (auto simp: plugin_inv_def kept_def intro: state_origin_same)

lemma kept_token: "kept s (set_freshness_token s tok)"
  by (simp add: kept_def client_inv_sets same_origin_def) (simp add: set_freshness_token_def)

lemma same_state: "cp_state cp = x \<Longrightarrow> cp\<lparr>cp_state := x\<rparr> = cp"
  by (cases cp) simp

lemma process_kept:
  assumes "process C F P E W cb cp rq = (cp', key, r)" "finish_pending_pkcs12 C F P W cb cp = (c1, f)"
  shows "cp' = c1 \<or> (\<exists>s t. cp_state c1 = Some s \<and> cp' = c1\<lparr>cp_state := Some t\<rparr> \<and> kept s t)"
proof (cases f)
  case (Inr u)
  then show ?thesis
    using assms
    by (cases "cp_state c1")
      (auto simp: process_def Let_def same_state kept_token dest: kept_as_req kept_as_rep
        split: if_splits prod.splits)
qed (use assms in \<open>simp add: process_def\<close>)

lemma process_inv:
  assumes "process C F P E W cb cp rq = (cp', key, r)" "plugin_inv F P cp"
  shows "plugin_inv F P cp'"
proof -
  obtain c1 f where f: "finish_pending_pkcs12 C F P W cb cp = (c1, f)" by fastforce
  from process_kept[OF assms(1) f] finish_pending_inv[OF f assms(2)] show ?thesis
    by (auto intro: kept_inv)
qed

inductive_cases plugin_stepE: "plugin_step V F P cp cp'"

lemma plugin_step_inv:
  assumes "plugin_step V F P cp cp'" "plugin_inv F P cp"
  shows "plugin_inv F P cp'"
  using assms(1)
proof (rule plugin_stepE)
  fix attr val r
  assume "supply_gic_opts cp attr val = (cp', r)"
  with assms(2) show ?thesis by (auto simp: supply_gic_opts_def Let_def split: if_splits)
next
  fix E C cb trq pr
  assume "tryagain C E cb cp trq = (cp', pr)"
  with assms(2) show ?thesis by (auto dest!: kept_tryagain intro: kept_inv)
qed (use assms(2) in \<open>auto intro: init_etype_info_inv process_inv\<close>)

interpretation plugin_calls: guarded_calls "plugin_step V F P" "plugin_inv F P" "\<lambda>_ _. True" for V F P
  by unfold_locales (auto intro: plugin_step_inv)

lemma plugin_reachable_inv: "plugin_reachable V F P cp \<Longrightarrow> plugin_inv F P cp"
  using plugin_calls.reachable[of V F P client_init_module cp]
  by (simp add: plugin_reachable_def plugin_inv_def client_init_module_def)

text \<open>Whatever \<open>pkinit_pool\<close> says, no client of the module has an intermediate certificate of its own.\<close>

lemma pool_never_loaded:
  "plugin_reachable V F P cp \<Longrightarrow> cp_state cp = Some s \<Longrightarrow> ts_intermediates (cl_trust_store s) = []"
  by (drule plugin_reachable_inv) (simp add: plugin_inv_def state_origin_def read_store_def)

section \<open>Properties\<close>

lemma process_as_rep_trusted:
  assumes "process_as_rep E s rep p O2 = (t, Inr key)" "codec_ok (pe_codec E)"
  shows "\<exists>sd v. verify_signed_data (pe_crypto E) sd = Inr v \<and>
    validate_kdc_chain E s (vsd_signer_cert_der v) (vsd_all_certs_der v) = Inr () \<and>
    (if is_kem_rep rep then cl_kem_key s \<noteq> None \<and> vsd_content_type v = ID_PKINIT_KEM_KEY_DATA \<and>
       (\<exists>info. dec_kdc_kem_info (pe_codec E) (vsd_content v) = Inr info \<and> kki_nonce info = Some (uint (arp_nonce p)))
     else cl_dh_key s \<noteq> None \<and> vsd_content_type v = pe_oids E ID_PKINIT_DHKEY_DATA \<and>
       (\<exists>info. dec_kdc_dh_key_info (pe_msgs E) (vsd_content v) = Inr info \<and> kdk_nonce info = uint (arp_nonce p)))"
proof (cases "is_kem_rep rep")
  case True
  from process_as_rep_kem[OF assms(1) this] obtain k where k: "cl_kem_key s = Some k"
    "open_kem_rep E (s\<lparr>cl_kem_key := None\<rparr>) k rep p O2 = Inr key" by auto
  from open_kem_rep_Inr[OF k(2) assms(2)] obtain sd v info ct where
    V: "verify_signed_data (pe_crypto E) sd = Inr v" "vsd_content_type v = ID_PKINIT_KEM_KEY_DATA"
      "validate_kdc_chain E s (vsd_signer_cert_der v) (vsd_all_certs_der v) = Inr ()"
      "dec_kdc_kem_info (pe_codec E) (vsd_content v) = Inr info"
    and i: "info = \<lparr>kki_kem_algorithm = \<lparr>ai_oid = kem_oid (pe_oids E) (kkp_algorithm k), ai_params = None\<rparr>,
        kki_kemct = ct, kki_kdf_algorithm = \<lparr>ai_oid = pe_oids E ID_ALG_HKDF_WITH_SHA512, ai_params = None\<rparr>,
        kki_nonce = Some (uint (arp_nonce p)), kki_server_nonce = None\<rparr>"
    by auto
  have "kki_nonce info = Some (uint (arp_nonce p))" by (simp add: i)
  with V k(1) True show ?thesis by auto
next
  case False
  from process_as_rep_dh[OF assms(1) this] obtain info where "process_dh_rep E s info p O2 = Inr key" by blast
  then show ?thesis
    using False process_dh_needs_key
    by (fastforce simp: process_dh_rep_def res dest: decode_nonce_exact[OF assms(2)])
qed

lemma process_pk_as_rep_key:
  assumes "process_pk_as_rep C E cb s rq = (t, Some key, r)"
  shows "r = Inr [] \<and> lb_set_as_key cb key = Inr () \<and> (\<exists>p derived. arp_nonce p = kr_nonce (pq_request rq) \<and>
    process_as_rep E s (pa_data_contents (pq_pa_data rq)) p (krb5_o2k (px_krb5 C)) = (t, Inr derived) \<and>
    key = \<lparr>kb_enctype = dk_enctype derived, kb_contents = dk_key_data derived\<rparr>)"
  using assms
  by (auto simp: process_pk_as_rep_def Let_def split: if_splits sum.splits prod.splits)
    (metis as_rep_params.select_convs(1))

lemma process_key:
  assumes "process C F P E W cb cp rq = (cp', Some key, r)"
  shows "\<exists>c1 s t. rpa_type (pq_pa_data rq) = PA_PK_AS_REP \<and> finish_pending_pkcs12 C F P W cb cp = (c1, Inr ()) \<and>
    cp_state c1 = Some s \<and> cp' = c1\<lparr>cp_state := Some t\<rparr> \<and> process_pk_as_rep C E cb s rq = (t, Some key, r)"
proof -
  obtain c1 f where f: "finish_pending_pkcs12 C F P W cb cp = (c1, f)" by fastforce
  show ?thesis
    using assms f
    by (cases f; cases "cp_state c1") (auto simp: process_def Let_def split: if_splits prod.splits)
qed

text \<open>C32: A client in any state libkrb5 can bring the module to: with \<open>pkinit_require_kem\<close> it never holds
  a classic key; its anchors are certificates of files that were read; it has a certificate only
  from a loaded identity, and an anonymous one has none; it asks a trust broker only where the
  configuration enables trust on first use.\<close>
theorem plugin_state_sound:
  assumes "plugin_reachable V F P cp" "cp_state cp = Some s"
  shows "(cc_require_kem (cl_config s) \<longrightarrow> cl_dh_key s = None \<and> cl_kem_floor s \<noteq> None \<and>
      (\<forall>grp. cl_key_exchange s \<noteq> Some (KexDh grp))) \<and>
    (\<forall>k. cl_kem_key s = Some k \<longrightarrow> (\<forall>flr. cl_kem_floor s = Some flr \<longrightarrow>
      strength_order flr \<le> strength_order (kkp_algorithm k))) \<and>
    (\<forall>a\<in>set (ts_anchors (cl_trust_store s)). read_block F P ''CERTIFICATE'' a) \<and>
    (if cl_is_anonymous s then id_cert_der (cl_identity s) = [] \<and> id_signing_key (cl_identity s) = None
     else (\<exists>source. identity_load F P source = Inr (cl_identity s)) \<or>
       (\<exists>path pw. load_pkcs12 F P path pw = Inr (cl_identity s))) \<and>
    (cl_broker s \<noteq> None \<longleftrightarrow> cc_kdc_trust_tofu (cl_config s))"
  using plugin_reachable_inv[OF assms(1)] assms(2)
  by (auto simp: plugin_inv_def state_origin_def read_store_def loaded_identity_def anonymous_identity_def
      client_inv_def meets_floor_def)

text \<open>C33: The module installs a reply key only from a trusted KDC's signed answer to this very request:
  the message is a PA-PK-AS-REP, its SignedData verifies, its signer is a KDC the client trusts
  (anchors or broker, key purpose, name), the signed content has the request's nonce and is of
  the kind the client has a key for, a KEM one whenever \<open>pkinit_require_kem\<close> is set; libkrb5
  took exactly the derived key, and nothing is sent.\<close>
theorem as_key_only_from_trusted_kdc:
  assumes "plugin_reachable (pe_crypto E) F P cp" "process C F P E W cb cp rq = (cp', Some key, r)"
    and "codec_ok (pe_codec E)"
  shows "r = Inr [] \<and> rpa_type (pq_pa_data rq) = PA_PK_AS_REP \<and> lb_set_as_key cb key = Inr () \<and>
    (\<exists>c1 s t sd v p derived. finish_pending_pkcs12 C F P W cb cp = (c1, Inr ()) \<and> cp_state c1 = Some s \<and>
      verify_signed_data (pe_crypto E) sd = Inr v \<and>
      validate_kdc_chain E s (vsd_signer_cert_der v) (vsd_all_certs_der v) = Inr () \<and>
      (if is_kem_rep (pa_data_contents (pq_pa_data rq)) then vsd_content_type v = ID_PKINIT_KEM_KEY_DATA \<and>
         (\<exists>info. dec_kdc_kem_info (pe_codec E) (vsd_content v) = Inr info \<and>
            kki_nonce info = Some (uint (kr_nonce (pq_request rq))))
       else \<not> cc_require_kem (cl_config s) \<and> vsd_content_type v = pe_oids E ID_PKINIT_DHKEY_DATA \<and>
         (\<exists>info. dec_kdc_dh_key_info (pe_msgs E) (vsd_content v) = Inr info \<and>
            kdk_nonce info = uint (kr_nonce (pq_request rq)))) \<and>
      process_as_rep E s (pa_data_contents (pq_pa_data rq)) p (krb5_o2k (px_krb5 C)) = (t, Inr derived) \<and>
      key = \<lparr>kb_enctype = dk_enctype derived, kb_contents = dk_key_data derived\<rparr>)"
proof -
  from process_key[OF assms(2)] obtain c1 s t where
    A: "rpa_type (pq_pa_data rq) = PA_PK_AS_REP" "finish_pending_pkcs12 C F P W cb cp = (c1, Inr ())"
      "cp_state c1 = Some s" "process_pk_as_rep C E cb s rq = (t, Some key, r)" by blast
  from process_pk_as_rep_key[OF A(4)] obtain p derived where
    B: "r = Inr []" "lb_set_as_key cb key = Inr ()" "arp_nonce p = kr_nonce (pq_request rq)"
      "process_as_rep E s (pa_data_contents (pq_pa_data rq)) p (krb5_o2k (px_krb5 C)) = (t, Inr derived)"
      "key = \<lparr>kb_enctype = dk_enctype derived, kb_contents = dk_key_data derived\<rparr>" by blast
  have "client_inv s"
    using finish_pending_inv[OF A(2) plugin_reachable_inv[OF assms(1)]] A(3) by (simp add: plugin_inv_def)
  then have dh: "cl_dh_key s \<noteq> None \<Longrightarrow> \<not> cc_require_kem (cl_config s)" by (auto simp: client_inv_def)
  from process_as_rep_trusted[OF B(4) assms(3)] obtain sd v where
    V: "verify_signed_data (pe_crypto E) sd = Inr v"
      "validate_kdc_chain E s (vsd_signer_cert_der v) (vsd_all_certs_der v) = Inr ()"
      "if is_kem_rep (pa_data_contents (pq_pa_data rq)) then vsd_content_type v = ID_PKINIT_KEM_KEY_DATA \<and>
         (\<exists>info. dec_kdc_kem_info (pe_codec E) (vsd_content v) = Inr info \<and>
            kki_nonce info = Some (uint (kr_nonce (pq_request rq))))
       else \<not> cc_require_kem (cl_config s) \<and> vsd_content_type v = pe_oids E ID_PKINIT_DHKEY_DATA \<and>
         (\<exists>info. dec_kdc_dh_key_info (pe_msgs E) (vsd_content v) = Inr info \<and>
            kdk_nonce info = uint (kr_nonce (pq_request rq)))"
    using B(3) dh by (auto split: if_splits)
  show ?thesis
    by (rule conjI[OF B(1) conjI[OF A(1) conjI[OF B(2)]]]) (use A B(4,5) V in blast)
qed


lemma load_configured_cases:
  assumes "load_configured_identity C F P W cb cp store server i = (cp', q, r)" "cp_pending cp = None" "cp_state cp = None"
  shows "cp_config cp' = cp_config cp \<and> (\<forall>e. r = Inl e \<longrightarrow> e = einval C \<and> cp_state cp' = None \<and> cp_pending cp' = None) \<and>
    (r = Inr () \<longrightarrow> (\<exists>s. cp_state cp' = Some s \<and> cp_pending cp' = None \<and> q = None) \<or>
       (\<exists>p. cp_state cp' = None \<and> cp_pending cp' = Some p \<and> q = Some (PKCS12_PASSWORD_QUESTION, pp_path p)))"
  using assms
  by (auto simp: load_configured_identity_def split: sum.splits pkinit_error.splits identity_source.splits)

lemma init_etype_info_cases:
  assumes "init_etype_info C F P W cb cp rq = (cp', q, r)" "cp_pending cp = None" "cp_state cp = None"
  shows "(\<forall>e. r = Inl e \<longrightarrow> (e = einval C \<or> px_profile C = Inl e) \<and> cp_state cp' = None \<and> cp_pending cp' = None) \<and>
    (r = Inr () \<longrightarrow>
       cp_state cp' = None \<and> cp_pending cp' = None \<and> q = None \<and> cc_identity (cp_config cp') = None \<and>
         \<not> (\<exists>p. kr_client rq = Some p \<and> is_anonymous p) \<or>
       (cc_identity (cp_config cp') \<noteq> None \<or> (\<exists>p. kr_client rq = Some p \<and> is_anonymous p)) \<and>
       ((\<exists>s. cp_state cp' = Some s \<and> cp_pending cp' = None \<and> q = None) \<or>
        (\<exists>p. cp_state cp' = None \<and> cp_pending cp' = Some p \<and> q = Some (PKCS12_PASSWORD_QUESTION, pp_path p))))"
proof -
  have load: "cp_config cp' = c \<and> (\<forall>e. r = Inl e \<longrightarrow> e = einval C \<and> cp_state cp' = None \<and> cp_pending cp' = None) \<and>
      (r = Inr () \<longrightarrow> (\<exists>s. cp_state cp' = Some s \<and> cp_pending cp' = None \<and> q = None) \<or>
       (\<exists>p. cp_state cp' = None \<and> cp_pending cp' = Some p \<and> q = Some (PKCS12_PASSWORD_QUESTION, pp_path p)))"
    if "load_configured_identity C F P W cb (cp\<lparr>cp_config := c\<rparr>) store server i = (cp', q, r)" for c store server i
    using load_configured_cases[OF that] assms(2,3) by simp
  show ?thesis
    using assms load unfolding init_etype_info_def Let_def
    by (auto split: if_splits sum.splits prod.splits option.splits) (auto dest: load)
qed

text \<open>A configured identity is the client's, or its file waits for a password; nothing takes its place.\<close>

definition loaded_or_asked ::
    "os_ops \<Rightarrow> pki_ops \<Rightarrow> rstr \<Rightarrow> client_plugin \<Rightarrow> bool" where
  "loaded_or_asked F P i cp \<longleftrightarrow> (\<exists>source. identity_source_parse i = Inr source \<and>
     ((\<exists>s. cp_state cp = Some s \<and> identity_load F P source = Inr (cl_identity s) \<and> \<not> cl_is_anonymous s) \<or>
      (\<exists>p. cp_pending cp = Some p \<and> source = Pkcs12Id (pp_path p) \<and>
         identity_load F P source = Inl Pkcs12PasswordRequired)))"

lemma load_configured_loaded:
  "load_configured_identity C F P W cb cp store server i = (cp', q, Inr ()) \<Longrightarrow> loaded_or_asked F P i cp'"
  by (auto simp: load_configured_identity_def loaded_or_asked_def build_client_def Let_def set_kdc_identity_def
      set_is_anonymous_def set_trust_broker_def client_new_def
      split: sum.splits pkinit_error.splits identity_source.splits option.splits)

lemma init_etype_info_loaded:
  assumes "init_etype_info C F P W cb cp rq = (cp', q, Inr ())" "cp_state cp = None" "cp_pending cp = None"
    "cc_identity (cp_config cp') = Some i" "\<not> (\<exists>p. kr_client rq = Some p \<and> is_anonymous p)"
  shows "loaded_or_asked F P i cp'"
proof -
  have load: "loaded_or_asked F P i cp'"
    if "load_configured_identity C F P W cb (cp\<lparr>cp_config := c\<rparr>) store server (the (cc_identity c)) = (cp', q, Inr ())"
    for c store server
    using load_configured_loaded[OF that] load_configured_cases[OF that] assms(2-4) by simp
  show ?thesis
    using assms load unfolding init_etype_info_def Let_def
    by (auto split: if_splits sum.splits prod.splits option.splits)
qed

lemma unconfigured_declines:
  assumes "cp_state cp = None" "cp_pending cp = None"
  shows "process C F P E W cb cp rq = (cp, None,
      if rpa_type (pq_pa_data rq) \<in> {PA_PKINIT_KX, PA_AS_FRESHNESS} then Inr [] else Inl NoHandle)"
    and "tryagain C E cb cp trq = (cp, Inl NoHandle)"
  using assms same_state[OF assms(1)] by (auto simp: process_def finish_pending_pkcs12_def tryagain_def Let_def)

lemma no_password_error:
  assumes "cp_pending cp = Some p"
    and "\<forall>pw ident. lb_get_responder_answer cb PKCS12_PASSWORD_QUESTION = Some pw \<longrightarrow>
      load_pkcs12 F P (pp_path p) (str_bytes pw) \<noteq> Inr ident"
  shows "process C F P E W cb cp rq = (cp\<lparr>cp_pending := None\<rparr>, None, Inl (einval C))"
  using assms by (auto simp: process_def finish_pending_pkcs12_def Let_def split: option.splits sum.splits)

text \<open>C34: Falling back to a password is for a principal without a configured identity, and for nobody
  else: from a fresh module, an initialization that succeeds leaves the module without a client
  and without a question exactly when the request is not anonymous and neither the command line
  nor the profile names an identity; then every message of the exchange is declined with
  \<open>NoHandle\<close>, so libkrb5 goes on to the next mechanism (only the two informational ones,
  PA-PKINIT-KX and the freshness token, are taken, with no effect), and nothing changes.  When an
  identity is configured, success means that the client has the very identity that was loaded
  from it, or that it is a PKCS#12 file and its password was asked for; an identity that cannot
  be parsed or loaded is an error of the initialization, never an anonymous or absent client.
  A password that is missing or wrong is an error of the next message, never \<open>NoHandle\<close>; the
  pending file is then forgotten.\<close>
theorem password_fallback_only_unconfigured:
  assumes "init_etype_info C F P W cb cp rq = (cp', q, r)" "cp_state cp = None" "cp_pending cp = None"
  shows "(\<forall>e. r = Inl e \<longrightarrow> (e = einval C \<or> px_profile C = Inl e) \<and> cp_state cp' = None \<and> cp_pending cp' = None) \<and>
    (r = Inr () \<longrightarrow> (cp_state cp' = None \<and> cp_pending cp' = None \<longleftrightarrow>
       cc_identity (cp_config cp') = None \<and> \<not> (\<exists>p. kr_client rq = Some p \<and> is_anonymous p))) \<and>
    (\<forall>i. cc_identity (cp_config cp') = Some i \<and> \<not> (\<exists>p. kr_client rq = Some p \<and> is_anonymous p) \<and> r = Inr () \<longrightarrow>
       (\<exists>source. identity_source_parse i = Inr source \<and>
          ((\<exists>s. cp_state cp' = Some s \<and> identity_load F P source = Inr (cl_identity s) \<and> \<not> cl_is_anonymous s) \<or>
           (\<exists>p. cp_pending cp' = Some p \<and> source = Pkcs12Id (pp_path p) \<and>
              identity_load F P source = Inl Pkcs12PasswordRequired)))) \<and>
    (\<forall>i e. cc_identity (cp_config cp') = Some i \<and> \<not> (\<exists>p. kr_client rq = Some p \<and> is_anonymous p) \<and>
       rbind (identity_source_parse i) (identity_load F P) = Inl e \<and> e \<noteq> Pkcs12PasswordRequired \<longrightarrow>
       (\<exists>c. r = Inl c)) \<and>
    (cp_state cp' = None \<and> cp_pending cp' = None \<longrightarrow>
       process C F P E W cb2 cp' prq = (cp', None,
         if rpa_type (pq_pa_data prq) \<in> {PA_PKINIT_KX, PA_AS_FRESHNESS} then Inr [] else Inl NoHandle) \<and>
       tryagain C E cb2 cp' trq = (cp', Inl NoHandle)) \<and>
    (\<forall>p. cp_pending cp' = Some p \<longrightarrow> q = Some (PKCS12_PASSWORD_QUESTION, pp_path p) \<and>
       ((\<forall>pw ident. lb_get_responder_answer cb2 PKCS12_PASSWORD_QUESTION = Some pw \<longrightarrow>
           load_pkcs12 F P (pp_path p) (str_bytes pw) \<noteq> Inr ident) \<longrightarrow>
         process C F P E W cb2 cp' prq = (cp'\<lparr>cp_pending := None\<rparr>, None, Inl (einval C))))"
proof -
  note I = init_etype_info_cases[OF assms(1,3,2)]
  have loaded: "loaded_or_asked F P i cp'"
    if "r = Inr ()" "cc_identity (cp_config cp') = Some i" "\<not> (\<exists>p. kr_client rq = Some p \<and> is_anonymous p)" for i
    using init_etype_info_loaded[OF assms(1)[unfolded that(1)] assms(2,3) that(2,3)] .
  have q: "q = Some (PKCS12_PASSWORD_QUESTION, pp_path p)" if "cp_pending cp' = Some p" for p
    using I that by (cases r) auto
  show ?thesis
  proof (intro conjI)
    show "r = Inr () \<longrightarrow> (cp_state cp' = None \<and> cp_pending cp' = None \<longleftrightarrow>
       cc_identity (cp_config cp') = None \<and> \<not> (\<exists>p. kr_client rq = Some p \<and> is_anonymous p))"
      using I by auto
    show "\<forall>i e. cc_identity (cp_config cp') = Some i \<and> \<not> (\<exists>p. kr_client rq = Some p \<and> is_anonymous p) \<and>
       rbind (identity_source_parse i) (identity_load F P) = Inl e \<and> e \<noteq> Pkcs12PasswordRequired \<longrightarrow> (\<exists>c. r = Inl c)"
      using loaded unfolding loaded_or_asked_def by (cases r) fastforce+
  qed (use I loaded q unconfigured_declines no_password_error in \<open>simp_all add: loaded_or_asked_def\<close>)
qed

end
