(* ===== verification/Prompters.thy ===== *)
theory Prompters
  imports Plugin Broker
begin

text \<open>
  How the daemon asks: \<open>pkinit-trust-brokerd/src/client_tty.rs\<close> (a prompt on the connecting
  client's terminal), \<open>graphical.rs\<close> (a desktop notification) and the choice between them in
  \<open>main.rs\<close> with its command line and the socket of systemd.

  The terminal is an environment: what the \<open>k\<close>-th call of \<open>poll\<close>, \<open>write\<close> and \<open>read\<close> meets and
  gives.  Its loops are partial functions, a loop that never returns being \<open>None\<close>; each returns
  the number of the next call of \<open>poll\<close> with its result.
\<close>

section \<open>Waiting for the terminal\<close>

record poll_round =
  pl_remaining_ns :: nat
  pl_ret :: "int \<Rightarrow> int"
  pl_revents :: "16 word"
  pl_interrupted :: bool

text \<open>\<open>i32::try_from(remaining.as_millis()).unwrap_or(i32::MAX)\<close>.\<close>

definition poll_ms :: "nat \<Rightarrow> int" where
  "poll_ms ns = (let ms = int (ns div 1000000) in if ms \<le> 2147483647 then ms else 2147483647)"

partial_function (option) poll_fd :: "16 word \<Rightarrow> (nat \<Rightarrow> poll_round) \<Rightarrow> nat \<Rightarrow> (bool \<times> nat) option" where
  "poll_fd events polls i =
     (let r = polls i; ret = pl_ret r (poll_ms (pl_remaining_ns r)) in
      if pl_remaining_ns r = 0 then Some (False, i + 1)
      else if ret = 0 then Some (False, i + 1)
      else if 0 < ret then Some (and (pl_revents r) events \<noteq> 0, i + 1)
      else if pl_interrupted r then poll_fd events polls (i + 1)
      else Some (False, i + 1))"

definition POLLIN :: "16 word" where "POLLIN = 1"
definition POLLOUT :: "16 word" where "POLLOUT = 4"

datatype write_result = Wrote nat | WriteRetry | WriteFailed

datatype read_result = ReadEof | ReadByte byte | ReadRetry | ReadFailed

partial_function (option) write_all_deadline ::
    "(nat \<Rightarrow> poll_round) \<Rightarrow> (nat \<Rightarrow> write_result) \<Rightarrow> nat \<Rightarrow> nat \<Rightarrow> bytes \<Rightarrow> (bool \<times> nat) option" where
  "write_all_deadline polls writes i j buf =
     (if buf = [] then Some (True, i)
      else Option.bind (poll_fd POLLOUT polls i) (\<lambda>(ready, i).
        if \<not> ready then Some (False, i)
        else (case writes j of
                Wrote n \<Rightarrow>
                  if n = 0 then Some (False, i) else write_all_deadline polls writes i (j + 1) (drop n buf)
              | WriteRetry \<Rightarrow> write_all_deadline polls writes i (j + 1) buf
              | WriteFailed \<Rightarrow> Some (False, i))))"

text \<open>\<open>String::from_utf8\<close>: the well-formed sequences; the length of the one a text starts with.\<close>

definition cont_byte :: "nat \<Rightarrow> bool" where
  "cont_byte b \<longleftrightarrow> 128 \<le> b \<and> b < 192"

definition utf8_first :: "nat list \<Rightarrow> nat" where
  "utf8_first bs =
     (case bs of
        [] \<Rightarrow> 0
      | a # s \<Rightarrow>
          if a < 128 then 1
          else if 194 \<le> a \<and> a < 224 \<and> 1 \<le> length s \<and> cont_byte (s ! 0) then 2
          else if 224 \<le> a \<and> a < 240 \<and> 2 \<le> length s \<and> cont_byte (s ! 0) \<and> cont_byte (s ! 1) \<and>
                  (a = 224 \<longrightarrow> 160 \<le> s ! 0) \<and> (a = 237 \<longrightarrow> s ! 0 < 160) then 3
          else if 240 \<le> a \<and> a < 245 \<and> 3 \<le> length s \<and> cont_byte (s ! 0) \<and> cont_byte (s ! 1) \<and> cont_byte (s ! 2) \<and>
                  (a = 240 \<longrightarrow> 144 \<le> s ! 0) \<and> (a = 244 \<longrightarrow> s ! 0 < 144) then 4
          else 0)"

function utf8_valid :: "nat list \<Rightarrow> bool" where
  "utf8_valid bs = (if bs = [] then True else if utf8_first bs = 0 then False
     else utf8_valid (drop (utf8_first bs) bs))"
  by pat_completeness auto
termination by (relation "measure length") auto

declare utf8_valid.simps [simp del]

definition string_from_utf8 :: "bytes \<Rightarrow> rstr option" where
  "string_from_utf8 bs = (if utf8_valid (map unat bs) then Some (bytes_str bs) else None)"

partial_function (option) read_line_deadline ::
    "(nat \<Rightarrow> poll_round) \<Rightarrow> (nat \<Rightarrow> read_result) \<Rightarrow> nat \<Rightarrow> nat \<Rightarrow> bytes \<Rightarrow> (rstr option \<times> nat) option" where
  "read_line_deadline polls reads i j buf =
     Option.bind (poll_fd POLLIN polls i) (\<lambda>(ready, i).
       if \<not> ready then Some (None, i)
       else (case reads j of
               ReadEof \<Rightarrow> Some (None, i)
             | ReadByte b \<Rightarrow>
                 if b = 10 then Some (string_from_utf8 buf, i)
                 else read_line_deadline polls reads i (j + 1) (buf @ [b])
             | ReadRetry \<Rightarrow> read_line_deadline polls reads i (j + 1) buf
             | ReadFailed \<Rightarrow> Some (None, i)))"

section \<open>The prompt on the client's terminal\<close>

record tty =
  tty_opens :: bool
  tty_polls :: "nat \<Rightarrow> poll_round"
  tty_writes :: "nat \<Rightarrow> write_result"
  tty_reads :: "nat \<Rightarrow> read_result"

record tty_world =
  tw_read_link :: "rstr \<Rightarrow> rstr ext"
  tw_tty :: "rstr \<Rightarrow> tty"

text \<open>\<open>Path::file_name\<close>: the last component, which must not be \<open>..\<close>.\<close>

definition file_name :: "rstr \<Rightarrow> rstr option" where
  "file_name path =
     (case rev (filter (\<lambda>p. p \<noteq> [] \<and> p \<noteq> ''.'') (split_on CHR ''/'' path)) of
        [] \<Rightarrow> None | p # _ \<Rightarrow> if p = ''..'' then None else Some p)"

definition tty_target :: "tty_world \<Rightarrow> int \<Rightarrow> nat \<Rightarrow> rstr option" where
  "tty_target Y pid fd =
     Option.bind (ok_opt (tw_read_link Y (''/proc/'' @ show_int pid @ ''/fd/'' @ show_nat fd))) (\<lambda>target.
     Option.bind (file_name target) (\<lambda>n.
       if starts_with n ''tty'' \<or> contains target ''/pts/'' then Some target else None))"

fun find_map :: "('a \<Rightarrow> 'b option) \<Rightarrow> 'a list \<Rightarrow> 'b option" where
  "find_map f [] = None"
| "find_map f (x # xs) = (case f x of Some y \<Rightarrow> Some y | None \<Rightarrow> find_map f xs)"

definition client_tty_path :: "tty_world \<Rightarrow> int \<Rightarrow> rstr option" where
  "client_tty_path Y pid = find_map (tty_target Y pid) [0, 2, 1]"

definition newline :: rstr where "newline = [CHR 0x0A]"

definition prompt_text :: "trust_request \<Rightarrow> rstr" where
  "prompt_text req =
     ''PKINIT: KDC realm '' @ req_realm req @ '' (principal '' @ req_kdc_principal req @
       '') presents an unrecognized CA:'' @ newline @
     ''  Subject:    '' @ req_ca_subject req @ newline @
     ''  SHA-256:    '' @ req_fingerprint req @ newline @
     ''Trust this CA for '' @ req_realm req @ ''?'' @ newline @
     concat (map (\<lambda>(i, (label, _)). ''  '' @ show_nat (i + 1) @ '') '' @ label @ newline)
       (enumerate 0 GRANT_PRESETS)) @
     ''  N) No, deny'' @ newline @ ''Choice: ''"

definition grant_choice :: "rstr \<Rightarrow> grant_ttl option" where
  "grant_choice line =
     Option.bind (parse_unsigned 10 (2 ^ 64) (trim line)) (\<lambda>choice.
     Option.bind (if choice < 1 then None else Some (choice - 1)) (\<lambda>i.
       map_option snd (nth_opt i GRANT_PRESETS)))"

definition prompt_on :: "tty \<Rightarrow> trust_request \<Rightarrow> grant_ttl option option" where
  "prompt_on y req =
     (if \<not> tty_opens y then Some None
      else Option.bind (write_all_deadline (tty_polls y) (tty_writes y) 0 0 (str_bytes (prompt_text req)))
        (\<lambda>(written, i).
          if \<not> written then Some None
          else Option.bind (read_line_deadline (tty_polls y) (tty_reads y) i 0 [])
            (\<lambda>(line, i). Some (Option.bind line grant_choice))))"

text \<open>A prompt that does not return grants nothing; \<open>prompt_ends_at_deadline\<close> below shows that it returns.\<close>

definition client_tty_prompter :: "tty_world \<Rightarrow> prompter" where
  "client_tty_prompter Y req =
     (case req_client_pid req of
        None \<Rightarrow> None
      | Some pid \<Rightarrow>
          (case client_tty_path Y pid of
             None \<Rightarrow> None
           | Some path \<Rightarrow> (case prompt_on (tw_tty Y path) req of Some grant \<Rightarrow> grant | None \<Rightarrow> None)))"

section \<open>The desktop notification\<close>

definition DENY_ACTION :: rstr where "DENY_ACTION = ''deny''"

definition GUI_CHOICES :: "(rstr \<times> rstr \<times> grant_ttl) list" where
  "GUI_CHOICES = [(''grant-1h'', ''Trust 1 hour'', For (60 * 60)), (''grant-forever'', ''Trust always'', Forever)]"

record notification =
  nt_summary :: rstr
  nt_body :: rstr
  nt_actions :: "(rstr \<times> rstr) list"
  nt_timeout :: u64

text \<open>The capabilities, and showing a notification: the actions its callback is called with.\<close>

record notify_ops =
  nf_capabilities :: "rstr list ext"
  nf_show :: "notification \<Rightarrow> rstr list ext"

definition replace_char :: "char \<Rightarrow> rstr \<Rightarrow> rstr \<Rightarrow> rstr" where
  "replace_char c r s = concat (map (\<lambda>x. if x = c then r else [x]) s)"

definition escape_markup :: "rstr \<Rightarrow> rstr" where
  "escape_markup s =
     replace_char CHR ''>'' ''&gt;'' (replace_char CHR ''<'' ''&lt;'' (replace_char CHR ''&'' ''&amp;'' s))"

definition notification_for :: "trust_request \<Rightarrow> notification" where
  "notification_for req =
     \<lparr>nt_summary = ''Trust new certificate authority for '' @ escape_markup (req_realm req) @ ''?'',
      nt_body = escape_markup (req_ca_subject req) @ newline @ ''SHA-256: '' @ req_fingerprint req,
      nt_actions = (DENY_ACTION, ''Deny'') # map (\<lambda>(i, label, _). (i, label)) GUI_CHOICES,
      nt_timeout = PROMPT_TIMEOUT\<rparr>"

definition on_action :: "rstr \<Rightarrow> grant_ttl option \<Rightarrow> grant_ttl option" where
  "on_action action decided =
     (case List.find (\<lambda>(i, _, _). i = action) GUI_CHOICES of
        Some (_, _, ttl) \<Rightarrow> Some ttl | None \<Rightarrow> decided)"

definition notify_ask :: "notify_ops \<Rightarrow> trust_request \<Rightarrow> grant_ttl option ext" where
  "notify_ask N req =
     rbind (nf_capabilities N) (\<lambda>caps.
     rbind (ensure (list_ex (\<lambda>c. c = ''actions'') caps) ''notification server does not support actions'') (\<lambda>_.
     rbind (nf_show N (notification_for req)) (\<lambda>actions. Inr (fold on_action actions None))))"

definition notify_prompter :: "notify_ops \<Rightarrow> prompter \<Rightarrow> prompter" where
  "notify_prompter N fallback req =
     (case notify_ask N req of Inr grant \<Rightarrow> grant | Inl _ \<Rightarrow> fallback req)"

section \<open>The daemon's command line\<close>

datatype ui_mode = UiAuto | UiGui | UiTty

datatype prompter_kind = AutoPrompter bool | NotifyPrompter | ClientTtyPrompter

record args =
  ar_socket :: rstr
  ar_prompter :: prompter_kind
  ar_state :: "rstr option"

definition graphical_session_hint :: "plugin_ctx \<Rightarrow> bool" where
  "graphical_session_hint C \<longleftrightarrow> px_var_os C ''WAYLAND_DISPLAY'' \<noteq> None \<or> px_var_os C ''DISPLAY'' \<noteq> None"

definition prompter_for :: "plugin_ctx \<Rightarrow> ui_mode \<Rightarrow> prompter_kind" where
  "prompter_for C ui =
     (case ui of
        UiTty \<Rightarrow> ClientTtyPrompter
      | UiGui \<Rightarrow> NotifyPrompter
      | UiAuto \<Rightarrow> if graphical_session_hint C then NotifyPrompter else ClientTtyPrompter)"

text \<open>What a boxed prompter does; the notification falls back to the terminal.\<close>

fun run_prompter :: "tty_world \<Rightarrow> notify_ops \<Rightarrow> prompter_kind \<Rightarrow> prompter" where
  "run_prompter Y N (AutoPrompter approve) = auto_prompter approve"
| "run_prompter Y N NotifyPrompter = notify_prompter N (client_tty_prompter Y)"
| "run_prompter Y N ClientTtyPrompter = client_tty_prompter Y"

record options =
  op_socket :: "rstr option"
  op_auto :: "bool option"
  op_state :: "rstr option"
  op_ui :: "ui_mode option"

fun parse_options :: "rstr list \<Rightarrow> options \<Rightarrow> rstr + options" where
  "parse_options [] p = Inr p"
| "parse_options (arg # it) p =
     (if arg = ''--auto'' then
        (case it of
           [] \<Rightarrow> Inl ''--auto requires approve|deny''
         | v # it \<Rightarrow>
             if v = ''approve'' then parse_options it (p\<lparr>op_auto := Some True\<rparr>)
             else if v = ''deny'' then parse_options it (p\<lparr>op_auto := Some False\<rparr>)
             else Inl (''--auto expects approve|deny, got '' @ v))
      else if arg = ''--state'' then
        (case it of
           [] \<Rightarrow> Inl ''--state requires a file path''
         | v # it \<Rightarrow> parse_options it (p\<lparr>op_state := Some v\<rparr>))
      else if arg = ''--ui'' then
        (case it of
           [] \<Rightarrow> Inl ''--ui requires auto|gui|tty''
         | v # it \<Rightarrow>
             if v = ''auto'' then parse_options it (p\<lparr>op_ui := Some UiAuto\<rparr>)
             else if v = ''gui'' then parse_options it (p\<lparr>op_ui := Some UiGui\<rparr>)
             else if v = ''tty'' then parse_options it (p\<lparr>op_ui := Some UiTty\<rparr>)
             else Inl (''--ui expects auto|gui|tty, got '' @ v))
      else if starts_with arg ''--'' then Inl (''unknown option: '' @ arg)
      else if op_socket p \<noteq> None then Inl (''unexpected extra argument: '' @ arg)
      else parse_options it (p\<lparr>op_socket := Some arg\<rparr>))"

definition no_options :: options where
  "no_options = \<lparr>op_socket = None, op_auto = None, op_state = None, op_ui = None\<rparr>"

definition parse_args :: "plugin_ctx \<Rightarrow> rstr list \<Rightarrow> rstr + args" where
  "parse_args C argv =
     rbind (parse_options (drop 1 argv) no_options) (\<lambda>p.
       Inr \<lparr>ar_socket = (case op_socket p of Some s \<Rightarrow> s | None \<Rightarrow> default_socket_path C),
            ar_prompter = (case op_auto p of
               Some approve \<Rightarrow> AutoPrompter approve
             | None \<Rightarrow> prompter_for C (case op_ui p of Some ui \<Rightarrow> ui | None \<Rightarrow> UiAuto)),
            ar_state = op_state p\<rparr>)"

text \<open>The file descriptor of an activated socket; \<open>own_pid\<close> is this process.\<close>

definition SD_LISTEN_FDS_START :: nat where "SD_LISTEN_FDS_START = 3"

definition systemd_activation_fd :: "os_ops \<Rightarrow> nat \<Rightarrow> nat option" where
  "systemd_activation_fd F own_pid =
     Option.bind (Option.bind (ok_opt (env_var F ''LISTEN_PID'')) (parse_unsigned 10 (2 ^ 32))) (\<lambda>listen_pid.
       if listen_pid \<noteq> own_pid then None
       else Option.bind (Option.bind (ok_opt (env_var F ''LISTEN_FDS'')) (parse_unsigned 10 (2 ^ 64))) (\<lambda>listen_fds.
         if listen_fds = 0 then None else Some SD_LISTEN_FDS_START))"

section \<open>Facts\<close>

text \<open>What a number of calls carried, and waiting that was in time.\<close>

definition received :: "read_result list \<Rightarrow> bytes" where
  "received rs = concat (map (\<lambda>r. case r of ReadByte b \<Rightarrow> [b] | _ \<Rightarrow> []) rs)"

definition sent :: "write_result list \<Rightarrow> nat" where
  "sent rs = sum_list (map (\<lambda>r. case r of Wrote n \<Rightarrow> n | _ \<Rightarrow> 0) rs)"

definition in_time :: "(nat \<Rightarrow> poll_round) \<Rightarrow> nat \<Rightarrow> nat \<Rightarrow> bool" where
  "in_time polls i j \<longleftrightarrow> i \<le> j \<and> (\<forall>k. i \<le> k \<and> k < j \<longrightarrow> 0 < pl_remaining_ns (polls k))"

lemma in_time_refl [simp]: "in_time polls i i"
  by (simp add: in_time_def)

lemma in_time_trans: "in_time polls i j \<Longrightarrow> in_time polls j k \<Longrightarrow> in_time polls i k"
  unfolding in_time_def by (meson le_less_linear order_trans)

lemma in_time_next: "0 < pl_remaining_ns (polls i) \<Longrightarrow> in_time polls (Suc i) j \<Longrightarrow> in_time polls i j"
  unfolding in_time_def by (metis Suc_leD Suc_leI le_neq_implies_less)

lemma received_simps [simp]:
  "received [] = []" "received (ReadByte b # rs) = b # received rs" "received (ReadRetry # rs) = received rs"
  by (simp_all add: received_def)

lemma sent_simps [simp]: "sent [] = 0" "sent (Wrote n # rs) = n + sent rs" "sent (WriteRetry # rs) = sent rs"
  by (simp_all add: sent_def)

lemma poll_ready:
  assumes "poll_fd ev polls i = Some (True, i')"
  shows "in_time polls i i' \<and> i < i'"
proof -
  have "fst r \<longrightarrow> in_time polls i (snd r) \<and> i < snd r" if "poll_fd ev polls i = Some r" for r
  proof (rule poll_fd.raw_induct[OF _ that], goal_cases)
    case (1 w ev polls i r)
    have "i < snd r" if "Suc i < snd r" using that by simp
    with 1 show ?case
      using in_time_next[of polls i "snd r"] in_time_next[of polls i "Suc i"]
      by (cases r) (force simp: Let_def split: if_split_asm)
  qed
  from this[OF assms] show ?thesis by simp
qed

lemma map_upt_Suc: "map f [j..<j + Suc k] = f j # map f [Suc j..<Suc j + k]"
  by (simp add: upt_rec)

lemma write_all_sent:
  assumes "write_all_deadline polls writes i j buf = Some (True, i')"
  shows "in_time polls i i' \<and> (\<exists>k. i + k \<le> i' \<and> length buf \<le> sent (map writes [j..<j + k]))"
proof -
  have "fst r \<longrightarrow> in_time polls i (snd r) \<and> (\<exists>k. i + k \<le> snd r \<and> length buf \<le> sent (map writes [j..<j + k]))"
    if "write_all_deadline polls writes i j buf = Some r" for r
  proof (rule write_all_deadline.raw_induct[OF _ that], goal_cases)
    case (1 w polls writes i j buf r)
    note IH = 1(1) and step = 1(2)
    show ?case
    proof (cases "buf = []")
      case False
      have go: "\<exists>k. i + k \<le> snd r \<and> length buf \<le> sent (map writes [j..<j + k])"
        if "i + Suc k \<le> snd r" "length buf \<le> sent (writes j # map writes [Suc j..<Suc j + k])" for k
        using that map_upt_Suc[of writes j k] by metis
      show ?thesis
      proof
        assume ok: "fst r"
        from False step ok obtain i1 where p: "in_time polls i i1" "i < i1"
          and c: "(case writes j of Wrote n \<Rightarrow> if n = 0 then Some (False, i1) else w polls writes i1 (j + 1) (drop n buf)
              | WriteRetry \<Rightarrow> w polls writes i1 (j + 1) buf | WriteFailed \<Rightarrow> Some (False, i1)) = Some r"
          by (auto simp: bind_eq_Some_conv dest: poll_ready split: if_splits)
        show "in_time polls i (snd r) \<and> (\<exists>k. i + k \<le> snd r \<and> length buf \<le> sent (map writes [j..<j + k]))"
        proof (cases "writes j")
          case (Wrote n)
          with c ok have "w polls writes i1 (j + 1) (drop n buf) = Some r" by (auto split: if_splits)
          from IH[OF this] ok obtain k where k: "in_time polls i1 (snd r)" "i1 + k \<le> snd r"
            "length (drop n buf) \<le> sent (map writes [Suc j..<Suc j + k])" by auto
          then have "length buf \<le> sent (writes j # map writes [Suc j..<Suc j + k])" by (simp add: Wrote)
          from go[OF _ this] in_time_trans[OF p(1) k(1)] p(2) k(2) show ?thesis by simp
        next
          case WriteRetry
          with c have "w polls writes i1 (j + 1) buf = Some r" by simp
          from IH[OF this] ok obtain k where k: "in_time polls i1 (snd r)" "i1 + k \<le> snd r"
            "length buf \<le> sent (map writes [Suc j..<Suc j + k])" by auto
          then have "length buf \<le> sent (writes j # map writes [Suc j..<Suc j + k])" by (simp add: WriteRetry)
          from go[OF _ this] in_time_trans[OF p(1) k(1)] p(2) k(2) show ?thesis by simp
        qed (use c ok in auto)
      qed
    qed (use step in auto)
  qed
  from this[OF assms] show ?thesis by simp
qed

lemma read_line_received:
  assumes "read_line_deadline polls reads i j buf = Some (Some line, i')"
  shows "in_time polls i i' \<and> (\<exists>k l. i + k \<le> i' \<and> received (map reads [j..<j + k]) = l @ [10] \<and> 10 \<notin> set l \<and>
    string_from_utf8 (buf @ l) = Some line)"
proof -
  have "fst r = Some line \<longrightarrow> in_time polls i (snd r) \<and>
      (\<exists>k l. i + k \<le> snd r \<and> received (map reads [j..<j + k]) = l @ [10] \<and> 10 \<notin> set l \<and> string_from_utf8 (buf @ l) = Some line)"
    if "read_line_deadline polls reads i j buf = Some r" for r
  proof (rule read_line_deadline.raw_induct[OF _ that], goal_cases)
    case (1 w polls reads i j buf r)
    note IH = 1(1) and step = 1(2)
    have go: "\<exists>k l. i + k \<le> snd r \<and> received (map reads [j..<j + k]) = l @ [10] \<and> 10 \<notin> set l \<and> string_from_utf8 (buf @ l) = Some line"
      if "i + Suc k \<le> snd r" "received (reads j # map reads [Suc j..<Suc j + k]) = l @ [10]" "10 \<notin> set l"
        "string_from_utf8 (buf @ l) = Some line" for k l
      using that map_upt_Suc[of reads j k] by metis
    show ?case
    proof
      assume ok: "fst r = Some line"
      from step ok obtain i1 where p: "in_time polls i i1" "i < i1"
        and c: "(case reads j of ReadEof \<Rightarrow> Some (None, i1)
            | ReadByte b \<Rightarrow> if b = 10 then Some (string_from_utf8 buf, i1)
                else w polls reads i1 (j + 1) (buf @ [b])
            | ReadRetry \<Rightarrow> w polls reads i1 (j + 1) buf | ReadFailed \<Rightarrow> Some (None, i1)) = Some r"
        by (auto simp: bind_eq_Some_conv dest: poll_ready split: if_splits)
      show "in_time polls i (snd r) \<and> (\<exists>k l. i + k \<le> snd r \<and> received (map reads [j..<j + k]) = l @ [10] \<and> 10 \<notin> set l \<and>
          string_from_utf8 (buf @ l) = Some line)"
      proof (cases "reads j")
        case (ReadByte b)
        show ?thesis
        proof (cases "b = 10")
          case True
          with c ReadByte ok p go[of 0 "[]"] show ?thesis by auto
        next
          case False
          with c ReadByte have "w polls reads i1 (j + 1) (buf @ [b]) = Some r" by simp
          from IH[OF this] ok obtain k l where k: "in_time polls i1 (snd r)" "i1 + k \<le> snd r"
            "received (map reads [Suc j..<Suc j + k]) = l @ [10]" "10 \<notin> set l"
            "string_from_utf8 (buf @ b # l) = Some line" by auto
          with go[of k "b # l"] ReadByte False in_time_trans[OF p(1) k(1)] p(2) show ?thesis by simp
        qed
      next
        case ReadRetry
        with c have "w polls reads i1 (j + 1) buf = Some r" by simp
        from IH[OF this] ok obtain k l where k: "in_time polls i1 (snd r)" "i1 + k \<le> snd r"
          "received (map reads [Suc j..<Suc j + k]) = l @ [10]" "10 \<notin> set l"
          "string_from_utf8 (buf @ l) = Some line" by auto
        with go[of k l] ReadRetry in_time_trans[OF p(1) k(1)] p(2) show ?thesis by simp
      qed (use c ok in auto)
    qed
  qed
  from this[OF assms] show ?thesis by simp
qed

text \<open>Once no time is left, waiting fails; so every loop ends, at most one wait after the deadline.\<close>

definition time_ends :: "(nat \<Rightarrow> poll_round) \<Rightarrow> nat \<Rightarrow> bool" where
  "time_ends polls n \<longleftrightarrow> (\<forall>i\<ge>n. pl_remaining_ns (polls i) = 0)"

lemma poll_fd_ends:
  assumes "time_ends polls n"
  shows "\<exists>b i'. poll_fd ev polls i = Some (b, i') \<and> i < i' \<and> i' \<le> max n i + 1 \<and> (b \<longrightarrow> i' \<le> n)"
proof (induction "n - i" arbitrary: i)
  case 0
  with assms have "pl_remaining_ns (polls i) = 0" by (simp add: time_ends_def)
  then show ?case by (subst poll_fd.simps) (simp, blast)
next
  case (Suc d)
  then obtain b i' where "poll_fd ev polls (i + 1) = Some (b, i')" "i + 1 < i'" "i' \<le> max n (i + 1) + 1" "b \<longrightarrow> i' \<le> n"
    by (metis Suc_eq_plus1 diff_Suc_Suc diff_diff_left diff_Suc_1)
  with Suc(2) show ?case by (subst poll_fd.simps) (auto simp: Let_def)
qed

lemma write_all_ends:
  assumes "time_ends polls n"
  shows "\<exists>b i'. write_all_deadline polls writes i j buf = Some (b, i') \<and> i' \<le> max n i + 1"
proof (induction "n - i" arbitrary: i j buf rule: less_induct)
  case less
  obtain b i1 where p: "poll_fd POLLOUT polls i = Some (b, i1)" "i < i1" "i1 \<le> max n i + 1" "b \<longrightarrow> i1 \<le> n"
    using poll_fd_ends[OF assms] by blast
  show ?case
  proof (cases "buf = [] \<or> \<not> b")
    case True
    with p show ?thesis by (subst write_all_deadline.simps) auto
  next
    case False
    with p have "n - i1 < n - i" "max n i1 = n" "n \<le> max n i" by simp_all
    with less[OF this(1)] have IH: "\<exists>b i'. write_all_deadline polls writes i1 j buf = Some (b, i') \<and> i' \<le> max n i + 1" for j buf
      by (metis add_le_mono1 order_trans)
    from False p IH[of "j + 1"] show ?thesis
      by (subst write_all_deadline.simps) (auto split: write_result.split)
  qed
qed

lemma read_line_ends:
  assumes "time_ends polls n"
  shows "\<exists>line i'. read_line_deadline polls reads i j buf = Some (line, i') \<and> i' \<le> max n i + 1"
proof (induction "n - i" arbitrary: i j buf rule: less_induct)
  case less
  obtain b i1 where p: "poll_fd POLLIN polls i = Some (b, i1)" "i < i1" "i1 \<le> max n i + 1" "b \<longrightarrow> i1 \<le> n"
    using poll_fd_ends[OF assms] by blast
  show ?case
  proof (cases b)
    case False
    with p show ?thesis by (subst read_line_deadline.simps) auto
  next
    case True
    with p have "n - i1 < n - i" "max n i1 = n" "n \<le> max n i" by simp_all
    with less[OF this(1)] have IH: "\<exists>line i'. read_line_deadline polls reads i1 j buf = Some (line, i') \<and> i' \<le> max n i + 1" for j buf
      by (metis add_le_mono1 order_trans)
    from True p IH[of "j + 1"] show ?thesis
      by (subst read_line_deadline.simps) (auto split: read_result.split)
  qed
qed

lemma find_map_Some: "find_map f xs = Some y \<Longrightarrow> \<exists>x\<in>set xs. f x = Some y"
  by (induction xs) (auto split: option.splits)

lemma length_presets [simp]: "length GRANT_PRESETS = 5"
  by (simp add: GRANT_PRESETS_def)

lemma grant_choice_Some:
  "grant_choice line = Some ttl \<longleftrightarrow> (\<exists>k. parse_unsigned 10 (2 ^ 64) (trim line) = Some k \<and> 1 \<le> k \<and> k \<le> 5 \<and>
     ttl = snd (GRANT_PRESETS ! (k - 1)))"
proof (cases "parse_unsigned 10 (2 ^ 64) (trim line)")
  case (Some k)
  then show ?thesis unfolding grant_choice_def Some nth_opt_def
    by (cases "k = 0") (auto intro: prod.collapse[symmetric] exI)
qed (simp only: grant_choice_def, simp)

text \<open>What the user of the terminal has in front of him.\<close>

lemma prompt_shows_fingerprint:
  "\<exists>a b. prompt_text req = a @ newline @ ''  SHA-256:    '' @ req_fingerprint req @ newline @ b"
  by (rule exI[of _ "''PKINIT: KDC realm '' @ req_realm req @ '' (principal '' @ req_kdc_principal req @
      '') presents an unrecognized CA:'' @ newline @ ''  Subject:    '' @ req_ca_subject req"], simp add: prompt_text_def)

lemma concat_map_nth:
  assumes "n < length xs"
  shows "concat (map f xs) = concat (map f (take n xs)) @ f (xs ! n) @ concat (map f (drop (Suc n) xs))"
  by (subst id_take_nth_drop[OF assms]) simp

lemma prompt_shows_entry:
  assumes "1 \<le> k" "k \<le> 5"
  shows "\<exists>a b. prompt_text req = a @ ''  '' @ show_nat k @ '') '' @ fst (GRANT_PRESETS ! (k - 1)) @ newline @ b"
proof -
  define f where "f = (\<lambda>(i, (label :: rstr, _ :: grant_ttl)). ''  '' @ show_nat (i + 1) @ '') '' @ label @ newline)"
  let ?e = "enumerate 0 GRANT_PRESETS"
  let ?head = "''PKINIT: KDC realm '' @ req_realm req @ '' (principal '' @ req_kdc_principal req @
      '') presents an unrecognized CA:'' @ newline @ ''  Subject:    '' @ req_ca_subject req @ newline @
      ''  SHA-256:    '' @ req_fingerprint req @ newline @ ''Trust this CA for '' @ req_realm req @ ''?'' @ newline"
  have "prompt_text req = ?head @ concat (map f ?e) @ ''  N) No, deny'' @ newline @ ''Choice: ''"
    by (simp only: prompt_text_def f_def append_assoc)
  then obtain before after where p: "prompt_text req = before @ concat (map f ?e) @ after" by blast
  have "k - 1 < length ?e" using assms by simp
  from concat_map_nth[OF this, of f] obtain a b where c: "concat (map f ?e) = a @ f (?e ! (k - 1)) @ b" by blast
  have "f (?e ! (k - 1)) = ''  '' @ show_nat k @ '') '' @ fst (GRANT_PRESETS ! (k - 1)) @ newline"
    using assms by (simp add: nth_enumerate_eq f_def split: prod.split)
  then show ?thesis unfolding p c by (intro exI[of _ "before @ a"] exI[of _ "b @ after"]) simp
qed

definition escape_char :: "char \<Rightarrow> rstr" where
  "escape_char c = (if c = CHR ''&'' then ''&amp;'' else if c = CHR ''<'' then ''&lt;''
     else if c = CHR ''>'' then ''&gt;'' else [c])"

lemma escape_markup_one_pass: "escape_markup s = concat (map escape_char s)"
  by (induction s) (simp_all add: escape_markup_def replace_char_def escape_char_def)

lemma escape_char_prefix:
  "escape_char a @ s = escape_char b @ t \<Longrightarrow> a = b \<and> s = t"
  unfolding escape_char_def
  by (cases "a = CHR ''&''"; cases "a = CHR ''<''"; cases "a = CHR ''>''";
      cases "b = CHR ''&''"; cases "b = CHR ''<''"; cases "b = CHR ''>''"; simp)

lemma escape_char_nonempty: "escape_char c \<noteq> []"
  by (simp add: escape_char_def)

lemma escape_markup_inj: "escape_markup s = escape_markup t \<Longrightarrow> s = t"
proof (induction s arbitrary: t)
  case Nil
  then show ?case by (cases t) (simp_all add: escape_markup_one_pass escape_char_nonempty)
next
  case (Cons a s)
  then obtain b t' where t: "t = b # t'"
    by (cases t) (simp_all add: escape_markup_one_pass escape_char_nonempty)
  with Cons.prems have "escape_char a @ concat (map escape_char s) = escape_char b @ concat (map escape_char t')"
    by (simp add: escape_markup_one_pass)
  from escape_char_prefix[OF this] Cons.IH[of t'] t show ?case by (simp add: escape_markup_one_pass)
qed

lemma fold_on_action:
  "fold on_action as d = Some ttl \<Longrightarrow> d = Some ttl \<or>
   ''grant-1h'' \<in> set as \<and> ttl = For 3600 \<or> ''grant-forever'' \<in> set as \<and> ttl = Forever"
proof (induction as arbitrary: d)
  case (Cons a as)
  from Cons.IH[of "on_action a d"] Cons.prems show ?case
    by (auto simp: on_action_def GUI_CHOICES_def split: if_splits)
qed simp

text \<open>The command line ends with an \<open>--auto\<close> in force.\<close>

definition auto_given :: "rstr list \<Rightarrow> options \<Rightarrow> bool" where
  "auto_given it q \<longleftrightarrow>
     (\<exists>xs ys. it = xs @ ''--auto'' # ''approve'' # ys \<and> op_auto q = Some True) \<or>
     (\<exists>xs ys. it = xs @ ''--auto'' # ''deny'' # ys \<and> op_auto q = Some False)"

lemma auto_given_Cons: "auto_given it q \<Longrightarrow> auto_given (x # it) q"
  unfolding auto_given_def by (metis append_Cons)

lemma auto_given_here [simp]:
  "op_auto q = Some True \<Longrightarrow> auto_given (''--auto'' # ''approve'' # it) q"
  "op_auto q = Some False \<Longrightarrow> auto_given (''--auto'' # ''deny'' # it) q"
  unfolding auto_given_def by (metis append_Nil)+

lemma parse_options_auto:
  "parse_options it p = Inr q \<Longrightarrow> op_auto q = op_auto p \<or> auto_given it q"
proof (induction it p rule: parse_options.induct)
  case (2 arg it p)
  have here: ?case if "arg = ''--auto''"
    using 2 that by (cases it) (auto split: if_splits intro: exI[of _ "[]"] dest: auto_given_Cons)
  have skip: ?case if "op_auto q = op_auto p \<or> auto_given it q"
    using that by (auto dest: auto_given_Cons)
  show ?case
  proof (cases it)
    case Nil
    with 2 show ?thesis by (auto split: if_splits)
  next
    case (Cons v it')
    then show ?thesis
      using 2 here skip by (auto split: if_splits dest: auto_given_Cons)
  qed
qed simp

lemma parse_options_state:
  "parse_options it p = Inr q \<Longrightarrow> op_state q = op_state p \<or> ''--state'' \<in> set it"
  by (induction it p rule: parse_options.induct) (auto split: if_splits list.splits)

section \<open>Properties\<close>

text \<open>C37: A grant given on a terminal is an answer to the whole prompt: one of the connecting
  client's standard descriptors is a terminal, by its name, and could be opened; the terminal
  took as many bytes as the prompt has, which shows the authority's fingerprint on a line of its
  own and, on another, the entry that was chosen with its number; then a whole line arrived,
  terminated by a newline, valid UTF-8, that is a number from one to five between white space,
  and the grant is that entry of the menu; each of those writes and reads waited for the
  terminal, and no wait was past the deadline.  Everything else (no process, no terminal, a
  failed or late write, an end of file, a late or incomplete line, any other answer) is a
  refusal.\<close>
theorem terminal_grant_answers_prompt:
  assumes "client_tty_prompter Y req = Some ttl"
  shows "\<exists>pid fd path k line waits nw nr l.
    req_client_pid req = Some pid \<and> fd \<in> {0, 1, 2} \<and>
    tw_read_link Y (''/proc/'' @ show_int pid @ ''/fd/'' @ show_nat fd) = Inr path \<and>
    (\<exists>n. file_name path = Some n \<and> (starts_with n ''tty'' \<or> contains path ''/pts/'')) \<and> tty_opens (tw_tty Y path) \<and>
    (\<exists>a b. prompt_text req = a @ newline @ ''  SHA-256:    '' @ req_fingerprint req @ newline @ b) \<and>
    (\<exists>a b. prompt_text req = a @ ''  '' @ show_nat k @ '') '' @ fst (GRANT_PRESETS ! (k - 1)) @ newline @ b) \<and>
    length (prompt_text req) \<le> sent (map (tty_writes (tw_tty Y path)) [0..<nw]) \<and>
    received (map (tty_reads (tw_tty Y path)) [0..<nr]) = l @ [10] \<and> 10 \<notin> set l \<and>
    nw + nr \<le> waits \<and> in_time (tty_polls (tw_tty Y path)) 0 waits \<and> string_from_utf8 l = Some line \<and>
    parse_unsigned 10 (2 ^ 64) (trim line) = Some k \<and> 1 \<le> k \<and> k \<le> 5 \<and> ttl = snd (GRANT_PRESETS ! (k - 1))"
proof -
  from assms obtain pid path where P: "req_client_pid req = Some pid" "client_tty_path Y pid = Some path"
    "prompt_on (tw_tty Y path) req = Some (Some ttl)"
    by (auto simp: client_tty_prompter_def split: option.splits)
  from find_map_Some[OF P(2)[unfolded client_tty_path_def]] obtain fd where
    "fd \<in> {0, 1, 2}" "tw_read_link Y (''/proc/'' @ show_int pid @ ''/fd/'' @ show_nat fd) = Inr path"
    "\<exists>n. file_name path = Some n \<and> (starts_with n ''tty'' \<or> contains path ''/pts/'')"
    by (auto simp: tty_target_def bind_eq_Some_conv ok_opt_eq split: if_splits)
  moreover let ?y = "tw_tty Y path"
  from P(3) have "tty_opens ?y" by (auto simp: prompt_on_def split: if_splits)
  moreover from P(3) obtain line i i' where
    W: "write_all_deadline (tty_polls ?y) (tty_writes ?y) 0 0 (str_bytes (prompt_text req)) = Some (True, i)" and
    R: "read_line_deadline (tty_polls ?y) (tty_reads ?y) i 0 [] = Some (Some line, i')" "grant_choice line = Some ttl"
    by (auto simp: prompt_on_def bind_eq_Some_conv split: if_splits)
  moreover from write_all_sent[OF W] obtain nw where w: "nw \<le> i" "in_time (tty_polls ?y) 0 i"
    "length (prompt_text req) \<le> sent (map (tty_writes ?y) [0..<nw])" by (auto simp: str_bytes_def)
  moreover from read_line_received[OF R(1)] obtain nr l where "i + nr \<le> i'" "in_time (tty_polls ?y) i i'"
    "received (map (tty_reads ?y) [0..<nr]) = l @ [10]" "10 \<notin> set l" "string_from_utf8 l = Some line" by auto
  moreover from this(1) w(1) have "nw + nr \<le> i'" by simp
  moreover from R(2) obtain k where "parse_unsigned 10 (2 ^ 64) (trim line) = Some k" "1 \<le> k" "k \<le> 5"
    "ttl = snd (GRANT_PRESETS ! (k - 1))" unfolding grant_choice_Some by blast
  moreover note prompt_shows_fingerprint[of req] prompt_shows_entry[OF this(2,3), of req]
  ultimately show ?thesis using P(1) in_time_trans[OF w(2)] by blast
qed

text \<open>C38: A prompt always returns: however often the terminal takes nothing or has nothing to read,
  and however often a signal interrupts the wait, once the deadline has passed (from the \<open>n\<close>-th
  wait on no time remains) each of the loops returns, after at most one more wait, whatever is
  left to write or to read, and so the prompt ends with a grant or a refusal.\<close>
theorem prompt_ends_at_deadline:
  assumes "time_ends (tty_polls y) n"
  shows "(\<exists>grant. prompt_on y req = Some grant) \<and>
    (\<exists>ready i'. poll_fd ev (tty_polls y) i = Some (ready, i') \<and> i' \<le> max n i + 1) \<and>
    (\<exists>written i'. write_all_deadline (tty_polls y) (tty_writes y) i j buf = Some (written, i') \<and> i' \<le> max n i + 1) \<and>
    (\<exists>line i'. read_line_deadline (tty_polls y) (tty_reads y) i j buf = Some (line, i') \<and> i' \<le> max n i + 1)"
proof -
  obtain b i1 where w: "write_all_deadline (tty_polls y) (tty_writes y) 0 0 (str_bytes (prompt_text req)) = Some (b, i1)"
    using write_all_ends[OF assms] by blast
  obtain line i2 where r: "read_line_deadline (tty_polls y) (tty_reads y) i1 0 [] = Some (line, i2)"
    using read_line_ends[OF assms] by blast
  have "\<exists>grant. prompt_on y req = Some grant" by (auto simp: prompt_on_def w r)
  with poll_fd_ends[OF assms] write_all_ends[OF assms] read_line_ends[OF assms] show ?thesis by blast
qed

text \<open>C39: A desktop notification grants only by one of its two grant buttons, an hour or always (the
  other durations of the terminal's menu have none), and the text a stranger controls cannot
  forge its markup: the buttons are the refusal and these two, the realm in the summary and the
  subject in the body appear escaped character by character, without angle brackets, followed by
  the fingerprint on a line of its own, and two different texts never look the same; the terminal
  is asked instead exactly when the notification could not be shown.\<close>
theorem notification_grants_by_button:
  assumes "notify_prompter N fallback req = Some ttl"
  shows "((\<exists>caps actions. nf_capabilities N = Inr caps \<and> ''actions'' \<in> set caps \<and>
      nf_show N (notification_for req) = Inr actions \<and>
      (''grant-1h'' \<in> set actions \<and> ttl = For 3600 \<or> ''grant-forever'' \<in> set actions \<and> ttl = Forever)) \<or>
     \<not> is_ok (notify_ask N req) \<and> fallback req = Some ttl) \<and>
    nt_actions (notification_for req) =
      [(''deny'', ''Deny''), (''grant-1h'', ''Trust 1 hour''), (''grant-forever'', ''Trust always'')] \<and>
    nt_body (notification_for req) =
      concat (map escape_char (req_ca_subject req)) @ newline @ ''SHA-256: '' @ req_fingerprint req \<and>
    nt_summary (notification_for req) =
      ''Trust new certificate authority for '' @ concat (map escape_char (req_realm req)) @ ''?'' \<and>
    CHR ''<'' \<notin> set (escape_markup t) \<and> CHR ''>'' \<notin> set (escape_markup t) \<and>
    (escape_markup t = escape_markup u \<longrightarrow> t = u)"
proof -
  have "(\<exists>caps actions. nf_capabilities N = Inr caps \<and> ''actions'' \<in> set caps \<and>
      nf_show N (notification_for req) = Inr actions \<and>
      (''grant-1h'' \<in> set actions \<and> ttl = For 3600 \<or> ''grant-forever'' \<in> set actions \<and> ttl = Forever)) \<or>
     \<not> is_ok (notify_ask N req) \<and> fallback req = Some ttl"
  proof (cases "notify_ask N req")
    case (Inl e)
    with assms show ?thesis by (simp add: notify_prompter_def)
  next
    case (Inr g)
    with assms have "notify_ask N req = Inr (Some ttl)" by (simp add: notify_prompter_def)
    then show ?thesis
      by (auto simp: notify_ask_def res list_ex_iff dest!: sym[of "Some ttl"] fold_on_action)
  qed
  moreover have "CHR ''<'' \<notin> set (escape_markup t) \<and> CHR ''>'' \<notin> set (escape_markup t)"
    by (auto simp: escape_markup_one_pass escape_char_def split: if_splits)
  ultimately show ?thesis
    using escape_markup_inj
    by (auto simp: notification_for_def DENY_ACTION_def GUI_CHOICES_def escape_markup_one_pass[of "req_realm req"]
        escape_markup_one_pass[of "req_ca_subject req"])
qed

text \<open>The daemon approves by itself only when told to: it has the prompter that approves
  everything only if the command line has \<open>--auto approve\<close>, the one that refuses everything only
  if it has \<open>--auto deny\<close>, and otherwise one that asks the user; its pins are kept in a file only
  if \<open>--state\<close> names one.\<close>
theorem auto_approval_is_explicit:
  assumes "parse_args C argv = Inr a"
  shows "(ar_prompter a = AutoPrompter True \<longrightarrow> (\<exists>xs ys. argv = xs @ ''--auto'' # ''approve'' # ys)) \<and>
    (ar_prompter a = AutoPrompter False \<longrightarrow> (\<exists>xs ys. argv = xs @ ''--auto'' # ''deny'' # ys)) \<and>
    (''--auto'' \<notin> set argv \<longrightarrow> ar_prompter a \<in> {NotifyPrompter, ClientTtyPrompter}) \<and>
    (''--state'' \<notin> set argv \<longrightarrow> ar_state a = None)"
proof -
  from assms obtain p where p: "parse_options (drop 1 argv) no_options = Inr p"
    and a: "ar_prompter a = (case op_auto p of Some approve \<Rightarrow> AutoPrompter approve
        | None \<Rightarrow> prompter_for C (case op_ui p of Some ui \<Rightarrow> ui | None \<Rightarrow> UiAuto))" "ar_state a = op_state p"
    by (auto simp: parse_args_def res)
  have ask: "prompter_for C ui \<in> {NotifyPrompter, ClientTtyPrompter}" for ui
    by (simp add: prompter_for_def split: ui_mode.split)
  have tail: "\<exists>zs. argv = zs @ drop 1 argv" by (metis append_take_drop_id)
  have up: "auto_given argv p" if "auto_given (drop 1 argv) p"
    using that tail unfolding auto_given_def by (metis append.assoc)
  consider "op_auto p = None" | "auto_given argv p"
    using parse_options_auto[OF p] up by (auto simp: no_options_def)
  then have "(ar_prompter a = AutoPrompter True \<longrightarrow> (\<exists>xs ys. argv = xs @ ''--auto'' # ''approve'' # ys)) \<and>
    (ar_prompter a = AutoPrompter False \<longrightarrow> (\<exists>xs ys. argv = xs @ ''--auto'' # ''deny'' # ys)) \<and>
    (''--auto'' \<notin> set argv \<longrightarrow> ar_prompter a \<in> {NotifyPrompter, ClientTtyPrompter})"
  proof cases
    case 1
    with a(1) ask show ?thesis by (metis empty_iff insertE option.simps(4) prompter_kind.distinct(1,3))
  next
    case 2
    then show ?thesis unfolding auto_given_def using a(1) by auto
  qed
  moreover have "''--state'' \<notin> set argv \<Longrightarrow> op_state p = None"
    using parse_options_state[OF p] by (auto simp: no_options_def dest: in_set_dropD)
  ultimately show ?thesis using a(2) by simp
qed

section \<open>Concrete prompts\<close>

definition demo_trust_request :: trust_request where
  "demo_trust_request = \<lparr>req_realm = ''R'', req_kdc_principal = ''k'', req_ca_subject = ''CN=a'', req_fingerprint = ''00'',
     req_client_pid = Some 42\<rparr>"

definition demo_round :: poll_round where
  "demo_round = \<lparr>pl_remaining_ns = 9000000, pl_ret = (\<lambda>ms. if 0 < ms then 1 else 0), pl_revents = 5,
     pl_interrupted = False\<rparr>"

text \<open>A terminal whose user answers \<open>2\<close>, after an interrupted \<open>poll\<close> and a read with nothing there.\<close>

definition demo_tty :: tty where
  "demo_tty = \<lparr>tty_opens = True,
     tty_polls = (\<lambda>i. if i = 3 then demo_round\<lparr>pl_ret := (\<lambda>_. -1), pl_interrupted := True\<rparr>
        else if i < 9 then demo_round else demo_round\<lparr>pl_remaining_ns := 0\<rparr>),
     tty_writes = (\<lambda>j. if j = 0 then Wrote 20 else if j = 1 then WriteRetry else Wrote 300),
     tty_reads = (\<lambda>j. if j = 0 then ReadRetry else if j = 1 then ReadByte 50 else ReadByte 10)\<rparr>"

definition demo_tty_world :: tty_world where
  "demo_tty_world = \<lparr>tw_read_link = (\<lambda>p. if p = ''/proc/42/fd/0'' then Inr ''/dev/pts/3'' else Inl ''none''),
     tw_tty = (\<lambda>_. demo_tty)\<rparr>"

definition demo_notify :: notify_ops where
  "demo_notify = \<lparr>nf_capabilities = Inr [''body'', ''actions''], nf_show = (\<lambda>_. Inr [''grant-1h''])\<rparr>"

lemma demo_answer: "grant_choice ''2'' = Some (For 3600)"
proof -
  have "trim ''2'' = ''2''" by code_simp
  then show ?thesis
    by (simp add: grant_choice_def parse_unsigned_def digit_val_def nth_opt_def) (simp add: GRANT_PRESETS_def)
qed

lemma demo_poll:
  "i < 3 \<Longrightarrow> poll_fd POLLOUT (tty_polls demo_tty) i = Some (True, Suc i)"
  "3 < i \<Longrightarrow> i < 9 \<Longrightarrow> poll_fd POLLIN (tty_polls demo_tty) i = Some (True, Suc i)"
  by (subst poll_fd.simps, simp add: demo_tty_def demo_round_def POLLIN_def POLLOUT_def poll_ms_def Let_def)+

lemma demo_poll_again: "poll_fd POLLIN (tty_polls demo_tty) 3 = Some (True, 5)"
  using demo_poll(2)[of 4]
  by (subst poll_fd.simps) (simp add: demo_tty_def demo_round_def Let_def)

lemma demo_write:
  assumes "20 < length buf" "length buf \<le> 320"
  shows "write_all_deadline (tty_polls demo_tty) (tty_writes demo_tty) 0 0 buf = Some (True, 3)"
proof -
  let ?w = "write_all_deadline (tty_polls demo_tty) (tty_writes demo_tty)"
  have w: "tty_writes demo_tty 0 = Wrote 20" "tty_writes demo_tty (Suc 0) = WriteRetry"
    "tty_writes demo_tty (Suc (Suc 0)) = Wrote 300" by (simp_all add: demo_tty_def)
  have "?w (Suc (Suc (Suc 0))) (Suc (Suc (Suc 0))) [] = Some (True, 3)" by (subst write_all_deadline.simps) simp
  with assms have "?w (Suc (Suc 0)) (Suc (Suc 0)) (drop 20 buf) = Some (True, 3)"
    by (subst write_all_deadline.simps) (simp add: demo_poll w)
  with assms have "?w 1 (Suc 0) (drop 20 buf) = Some (True, 3)"
    by (subst write_all_deadline.simps) (simp add: demo_poll w)
  with assms show ?thesis
    by (subst write_all_deadline.simps) (auto simp: demo_poll w)
qed

lemma demo_read: "read_line_deadline (tty_polls demo_tty) (tty_reads demo_tty) 3 0 [] = Some (string_from_utf8 [50], 7)"
proof -
  let ?r = "read_line_deadline (tty_polls demo_tty) (tty_reads demo_tty)"
  have r: "tty_reads demo_tty 0 = ReadRetry" "tty_reads demo_tty (Suc 0) = ReadByte 50"
    "tty_reads demo_tty (Suc (Suc 0)) = ReadByte 10" by (simp_all add: demo_tty_def)
  have "?r 6 (Suc (Suc 0)) [50] = Some (string_from_utf8 [50], 7)"
    by (subst read_line_deadline.simps) (simp add: demo_poll r)
  then have "?r 5 (Suc 0) [] = Some (string_from_utf8 [50], 7)"
    by (subst read_line_deadline.simps) (simp add: demo_poll r)
  then show ?thesis
    by (subst read_line_deadline.simps) (simp add: demo_poll_again r)
qed

lemma demo_terminal: "client_tty_prompter demo_tty_world demo_trust_request = Some (For 3600)"
proof -
  have "client_tty_path demo_tty_world 42 = Some ''/dev/pts/3''" "tty_opens demo_tty"
    "20 < length (prompt_text demo_trust_request)" "length (prompt_text demo_trust_request) \<le> 320"
    "string_from_utf8 [50] = Some ''2''"
    "req_client_pid demo_trust_request = Some 42"
    by code_simp+
  then show ?thesis
    by (simp add: client_tty_prompter_def prompt_on_def demo_answer demo_write demo_read str_bytes_def demo_tty_world_def)
qed

theorem terminal_grant_answers_prompt_witness:
  "\<exists>path k. tw_read_link demo_tty_world ''/proc/42/fd/0'' = Inr path \<and> 1 \<le> k \<and> k \<le> 5 \<and>
     For 3600 = snd (GRANT_PRESETS ! (k - 1))"
proof -
  have "tw_read_link demo_tty_world ''/proc/42/fd/0'' = Inr ''/dev/pts/3''" by (simp add: demo_tty_world_def)
  then show ?thesis using terminal_grant_answers_prompt[OF demo_terminal] by blast
qed

theorem prompt_ends_at_deadline_witness:
  "\<exists>grant. prompt_on demo_tty demo_trust_request = Some grant"
proof -
  have "time_ends (tty_polls demo_tty) 9" by (simp add: time_ends_def demo_tty_def)
  from prompt_ends_at_deadline[OF this] show ?thesis by blast
qed

theorem notification_grants_by_button_witness:
  "\<exists>actions. nf_show demo_notify (notification_for demo_trust_request) = Inr actions \<and> ''grant-1h'' \<in> set actions"
proof -
  have n: "notify_prompter demo_notify (auto_prompter False) demo_trust_request = Some (For 3600)" by code_simp
  show ?thesis
    using notification_grants_by_button[OF n] by (auto simp: auto_prompter_def)
qed

theorem auto_approval_is_explicit_witness:
  "\<exists>a. parse_args demo_ctx [''d'', ''/s'', ''--auto'', ''approve''] = Inr a \<and> ar_prompter a = AutoPrompter True \<and>
     ar_state a = None \<and> (\<exists>xs ys. [''d'', ''/s'', ''--auto'', ''approve''] = xs @ ''--auto'' # ''approve'' # ys)"
proof -
  obtain a where a: "parse_args demo_ctx [''d'', ''/s'', ''--auto'', ''approve''] = Inr a" "ar_prompter a = AutoPrompter True"
    by (simp add: parse_args_def no_options_def starts_with_def)
  show ?thesis using auto_approval_is_explicit[OF a(1)] a by auto
qed

end
