(* ===== verification/Trust_Ctl.thy ===== *)
theory Trust_Ctl
  imports Plugin Broker
begin

text \<open>
  \<open>pkinit-trust-ctl\<close>: the program that lists the realms the broker trusts and exports them as
  permanent anchors (\<open>lib.rs\<close>), with its command line (\<open>main.rs\<close>).  What a run writes is a list
  of files, in the order they are written; a failed write ends the run.
\<close>

record ctl_ops =
  ct_b64_encode :: "bytes \<Rightarrow> rstr"
  ct_b64_decode :: "rstr \<Rightarrow> bytes ext"
  ct_create_dir_all :: "rstr \<Rightarrow> unit ext"
  ct_write :: "rstr \<Rightarrow> rstr \<Rightarrow> unit ext"
  ct_time_since_epoch :: "nat ext"

section \<open>Listing\<close>

definition ctl_now_secs :: "ctl_ops \<Rightarrow> u64" where
  "ctl_now_secs W = (case ct_time_since_epoch W of Inr t \<Rightarrow> of_nat t | Inl _ \<Rightarrow> 0)"

definition format_expiry :: "ctl_ops \<Rightarrow> u64 \<Rightarrow> rstr" where
  "format_expiry W expires_at =
     (let now = ctl_now_secs W in
      if expires_at \<le> now then ''expired''
      else
        let remaining = expires_at - now;
            days = remaining div 86400;
            hours = (remaining mod 86400) div 3600;
            minutes = (remaining mod 3600) div 60;
            parts = (if days > 0 then [show_nat (unat days) @ ''d''] else []) @
                    (if hours > 0 then [show_nat (unat hours) @ ''h''] else []);
            parts = parts @ (if minutes > 0 \<or> parts = [] then [show_nat (unat minutes) @ ''m''] else [])
        in ''in '' @ join_with '' '' parts)"

text \<open>\<open>{:<n}\<close>: padding on the right, counted in characters.\<close>

definition pad_right :: "nat \<Rightarrow> rstr \<Rightarrow> rstr" where
  "pad_right n s = s @ replicate (n - length (utf8_chars s)) CHR '' ''"

definition nl :: rstr where "nl = [CHR 0x0A]"

definition list_line :: "ctl_ops \<Rightarrow> trusted_realm \<Rightarrow> rstr" where
  "list_line W r = pad_right 30 (rlm_realm r) @ '' '' @ pad_right 64 (rlm_fingerprint r) @ '' '' @
     (case rlm_expires_at r of None \<Rightarrow> ''never'' | Some t \<Rightarrow> format_expiry W t) @ nl"

definition render_list :: "ctl_ops \<Rightarrow> trusted_realm list \<Rightarrow> rstr" where
  "render_list W realms =
     (if realms = [] then ''(no realms currently trusted)'' @ nl
      else fold (\<lambda>r out. out @ list_line W r) realms
        (pad_right 30 ''REALM'' @ '' '' @ pad_right 64 ''FINGERPRINT (SHA-256)'' @ '' EXPIRES'' @ nl))"

section \<open>Exporting\<close>

definition is_ascii_alphanumeric :: "char \<Rightarrow> bool" where
  "is_ascii_alphanumeric c \<longleftrightarrow> (let n = of_char c :: nat in
     48 \<le> n \<and> n \<le> 57 \<or> 65 \<le> n \<and> n \<le> 90 \<or> 97 \<le> n \<and> n \<le> 122)"

definition safe_filename :: "rstr \<Rightarrow> rstr option" where
  "safe_filename realm =
     (if realm \<noteq> [] \<and> realm \<noteq> ''.'' \<and> realm \<noteq> ''..'' \<and>
         list_all (\<lambda>c. is_ascii_alphanumeric c \<or> c \<in> set ''.-_'') realm
      then Some realm else None)"

text \<open>\<open>slice::chunks\<close>; an empty chunk length does not occur.\<close>

function chunks :: "nat \<Rightarrow> 'a list \<Rightarrow> 'a list list" where
  "chunks n xs = (if xs = [] \<or> n = 0 then [] else take n xs # chunks n (drop n xs))"
  by pat_completeness auto
termination by (relation "measure (\<lambda>(n, xs). length xs)") auto

declare chunks.simps [simp del]

definition to_pem :: "ctl_ops \<Rightarrow> bytes \<Rightarrow> rstr" where
  "to_pem W der =
     fold (\<lambda>chunk out. out @ chunk @ nl) (chunks 64 (ct_b64_encode W der))
       (''-----BEGIN CERTIFICATE-----'' @ nl) @ ''-----END CERTIFICATE-----'' @ nl"

text \<open>\<open>Path::join\<close>: an absolute second part replaces the first.\<close>

definition path_join :: "rstr \<Rightarrow> rstr \<Rightarrow> rstr" where
  "path_join dir name =
     (if starts_with name ''/'' \<or> dir = [] then name
      else if last dir = CHR ''/'' then dir @ name else dir @ ''/'' @ name)"

definition snippet_entry :: "rstr \<Rightarrow> rstr \<Rightarrow> rstr" where
  "snippet_entry realm cert_path =
     '' '' @ realm @ '' = {'' @ nl @ ''  pkinit_anchors = FILE:'' @ cert_path @ nl @ '' }'' @ nl"

fun export_realms :: "ctl_ops \<Rightarrow> rstr \<Rightarrow> trusted_realm list \<Rightarrow> rstr \<Rightarrow> (rstr \<times> rstr) list \<times> rstr ext" where
  "export_realms W dir [] snippet = ([], Inr snippet)"
| "export_realms W dir (r # realms) snippet =
     (case safe_filename (rlm_realm r) of
        None \<Rightarrow> export_realms W dir realms snippet
      | Some filename \<Rightarrow>
          (case ct_b64_decode W (rlm_ca_der r) of
             Inl e \<Rightarrow> ([], Inl e)
           | Inr der \<Rightarrow>
               let cert_path = path_join dir (filename @ ''.pem'') in
               (case ct_write W cert_path (to_pem W der) of
                  Inl e \<Rightarrow> ([], Inl e)
                | Inr _ \<Rightarrow>
                    (case export_realms W dir realms (snippet @ snippet_entry (rlm_realm r) cert_path) of
                       (files, out) \<Rightarrow> ((cert_path, to_pem W der) # files, out)))))"

definition export :: "ctl_ops \<Rightarrow> trusted_realm list \<Rightarrow> rstr \<Rightarrow> (rstr \<times> rstr) list \<times> rstr ext" where
  "export W realms anchors_dir =
     (case ct_create_dir_all W anchors_dir of
        Inl e \<Rightarrow> ([], Inl e)
      | Inr _ \<Rightarrow> export_realms W anchors_dir realms (''[realms]'' @ nl))"

section \<open>The command line\<close>

datatype ctl_command = ListCmd | ExportCmd rstr "rstr option"

record ctl_args =
  ca_socket :: rstr
  ca_command :: ctl_command

text \<open>The loop that takes every \<open>--socket PATH\<close> out of the arguments.\<close>

fun take_socket :: "rstr list \<Rightarrow> rstr option \<Rightarrow> rstr + (rstr list \<times> rstr option)" where
  "take_socket [] socket = Inr ([], socket)"
| "take_socket (a # args) socket =
     (if a = ''--socket'' then
        (case args of
           [] \<Rightarrow> Inl ''--socket requires a path''
         | v # args \<Rightarrow> take_socket args (Some v))
      else rbind (take_socket args socket) (\<lambda>(rest, s). Inr (a # rest, s)))"

fun export_options :: "rstr list \<Rightarrow> rstr option \<Rightarrow> rstr option \<Rightarrow> rstr + (rstr option \<times> rstr option)" where
  "export_options [] dir conf = Inr (dir, conf)"
| "export_options (a # rest) dir conf =
     (if a = ''--anchors-dir'' then
        (case rest of
           [] \<Rightarrow> Inl ''--anchors-dir requires a path''
         | v # rest \<Rightarrow> export_options rest (Some v) conf)
      else if a = ''--conf-snippet'' then
        (case rest of
           [] \<Rightarrow> Inl ''--conf-snippet requires a path''
         | v # rest \<Rightarrow> export_options rest dir (Some v))
      else Inl (''unknown option: '' @ a))"

definition parse_command :: "rstr list \<Rightarrow> rstr + ctl_command" where
  "parse_command args =
     (case args of
        [] \<Rightarrow> Inl ''usage: pkinit-trust-ctl [--socket PATH] <list|export>''
      | cmd # rest \<Rightarrow>
          if cmd = ''list'' then
            (case rest of [] \<Rightarrow> Inr ListCmd | a # _ \<Rightarrow> Inl (''unexpected argument: '' @ a))
          else if cmd = ''export'' then
            rbind (export_options rest None None) (\<lambda>(dir, conf).
            rbind (ok_or dir ''export requires --anchors-dir DIR'') (\<lambda>dir. Inr (ExportCmd dir conf)))
          else Inl (''unknown command: '' @ cmd))"

definition ctl_parse_args :: "plugin_ctx \<Rightarrow> rstr list \<Rightarrow> rstr + ctl_args" where
  "ctl_parse_args C argv =
     rbind (take_socket (drop 1 argv) None) (\<lambda>(args, socket).
     rbind (parse_command args) (\<lambda>command.
       Inr \<lparr>ca_socket = (case socket of Some s \<Rightarrow> s | None \<Rightarrow> default_socket_path C), ca_command = command\<rparr>))"

text \<open>What a run does with the broker's answer: the files it writes, and what it prints or the error.\<close>

definition run_command ::
    "ctl_ops \<Rightarrow> trusted_realm list \<Rightarrow> ctl_command \<Rightarrow> (rstr \<times> rstr) list \<times> rstr ext" where
  "run_command W store command =
     (case command of
        ListCmd \<Rightarrow> ([], Inr (render_list W store))
      | ExportCmd anchors_dir conf_snippet \<Rightarrow>
          (case export W store anchors_dir of
             (files, Inl e) \<Rightarrow> (files, Inl e)
           | (files, Inr snippet) \<Rightarrow>
               (case conf_snippet of
                  None \<Rightarrow> (files, Inr snippet)
                | Some path \<Rightarrow>
                    (case ct_write W path snippet of
                       Inl e \<Rightarrow> (files, Inl e)
                     | Inr _ \<Rightarrow> (files @ [(path, snippet)], Inr [])))))"


section \<open>Facts\<close>

lemma fold_append: "fold (\<lambda>x out. out @ f x) xs acc = acc @ concat (map f xs)"
  by (induction xs arbitrary: acc) auto

lemma chunks_simps [simp]: "chunks n [] = []" "xs \<noteq> [] \<Longrightarrow> 0 < n \<Longrightarrow> chunks n xs = take n xs # chunks n (drop n xs)"
  by (subst chunks.simps, simp)+

lemma chunks_bound: "c \<in> set (chunks n xs) \<Longrightarrow> length c \<le> n \<and> set c \<subseteq> set xs"
proof (induction n xs rule: chunks.induct)
  case (1 n xs)
  then show ?case
    by (cases "xs = [] \<or> n = 0") (auto simp: chunks.simps[of n xs] dest: in_set_takeD in_set_dropD split: if_splits)
qed

lemma concat_chunks: "0 < n \<Longrightarrow> concat (chunks n xs) = xs"
proof (induction n xs rule: chunks.induct)
  case (1 n xs)
  then show ?case by (cases "xs = []") simp_all
qed

lemma split_on_lines:
  "\<forall>l\<in>set ls. c \<notin> set l \<Longrightarrow> split_on c (concat (map (\<lambda>l. l @ [c]) ls) @ t) = ls @ split_on c t"
  by (induction ls) (auto simp: split_on_append_sep)

text \<open>The lines of a PEM text, and what is between the armour lines.\<close>

definition pem_lines :: "rstr \<Rightarrow> rstr list" where
  "pem_lines text = split_on CHR 0x0A text"

definition pem_body :: "rstr \<Rightarrow> rstr" where
  "pem_body text = concat (filter (\<lambda>l. \<not> starts_with l ''-----'') (pem_lines text))"

lemma to_pem_lines:
  assumes "CHR 0x0A \<notin> set (ct_b64_encode W der)"
  shows "pem_lines (to_pem W der) =
    ''-----BEGIN CERTIFICATE-----'' # chunks 64 (ct_b64_encode W der) @ [''-----END CERTIFICATE-----'', []]"
proof -
  let ?ls = "''-----BEGIN CERTIFICATE-----'' # chunks 64 (ct_b64_encode W der) @ [''-----END CERTIFICATE-----'']"
  have "to_pem W der = concat (map (\<lambda>l. l @ [CHR 0x0A]) ?ls) @ []"
    by (simp add: to_pem_def nl_def fold_append)
  moreover have "\<forall>l\<in>set ?ls. CHR 0x0A \<notin> set l"
    using assms by (auto dest: chunks_bound)
  ultimately have "pem_lines (to_pem W der) = ?ls @ split_on CHR 0x0A []"
    unfolding pem_lines_def using split_on_lines[of ?ls] by metis
  then show ?thesis by simp
qed

text \<open>The names a file may have: the portable file name characters of POSIX, spelled out.\<close>

definition portable_chars :: rstr where
  "portable_chars = ''ABCDEFGHIJKLMNOPQRSTUVWXYZabcdefghijklmnopqrstuvwxyz0123456789.-_''"

definition portable_name :: "rstr \<Rightarrow> bool" where
  "portable_name r \<longleftrightarrow> r \<noteq> [] \<and> r \<noteq> ''.'' \<and> r \<noteq> ''..'' \<and> set r \<subseteq> set portable_chars"

lemma portable_char: "is_ascii_alphanumeric c \<or> c \<in> set ''.-_'' \<longleftrightarrow> c \<in> set portable_chars"
proof -
  have code: "c \<in> set cs \<longleftrightarrow> (of_char c :: nat) \<in> set (map of_char cs)" for cs by auto
  have "map of_char portable_chars = [65..<91] @ [97..<123] @ [48..<58] @ [46, 45, 95 :: nat]"
    by (simp add: portable_chars_def)
  moreover have "map of_char ''.-_'' = [46, 45, 95 :: nat]" by simp
  ultimately show ?thesis unfolding code[of portable_chars] code[of "''.-_''"] is_ascii_alphanumeric_def Let_def
    by (simp only: set_append set_upt list.set Un_iff atLeastLessThan_iff) linarith
qed

lemma safe_filename_portable: "safe_filename r = (if portable_name r then Some r else None)"
  unfolding safe_filename_def portable_name_def list_all_iff portable_char by auto

lemma safe_filename_Some: "safe_filename r = Some f \<longleftrightarrow> f = r \<and> portable_name r"
  by (auto simp: safe_filename_portable)

definition exported :: "ctl_ops \<Rightarrow> rstr \<Rightarrow> trusted_realm \<Rightarrow> rstr \<times> rstr \<Rightarrow> bool" where
  "exported W dir r w \<longleftrightarrow> (\<exists>der. ct_b64_decode W (rlm_ca_der r) = Inr der \<and>
     w = (path_join dir (rlm_realm r @ ''.pem''), to_pem W der))"

definition safe_realms :: "trusted_realm list \<Rightarrow> trusted_realm list" where
  "safe_realms rs = filter (\<lambda>r. portable_name (rlm_realm r)) rs"

lemma export_realms_files:
  "export_realms W dir rs snippet = (files, out) \<Longrightarrow>
   list_all2 (exported W dir) (take (length files) (safe_realms rs)) files \<and>
   (\<forall>text. out = Inr text \<longrightarrow> list_all2 (exported W dir) (safe_realms rs) files \<and>
      text = snippet @ concat (map (\<lambda>r. snippet_entry (rlm_realm r) (path_join dir (rlm_realm r @ ''.pem'')))
        (safe_realms rs)))"
proof (induction rs arbitrary: snippet files out)
  case (Cons r rs)
  show ?case
  proof (cases "safe_filename (rlm_realm r)")
    case None
    with Cons show ?thesis by (simp add: safe_realms_def safe_filename_portable split: if_splits)
  next
    case (Some f)
    then have f: "f = rlm_realm r" by (simp add: safe_filename_Some)
    from Some have sr: "safe_realms (r # rs) = r # safe_realms rs" by (simp add: safe_realms_def safe_filename_Some)
    let ?path = "path_join dir (rlm_realm r @ ''.pem'')"
    from Cons.prems Some f consider "files = []" "\<not> is_ok out"
      | der rest where "ct_b64_decode W (rlm_ca_der r) = Inr der" "files = (?path, to_pem W der) # rest"
          "export_realms W dir rs (snippet @ snippet_entry (rlm_realm r) ?path) = (rest, out)"
      by (auto simp: Let_def split: sum.splits prod.splits)
    then show ?thesis
    proof cases
      case 1
      then show ?thesis by auto
    next
      case 2
      then have "exported W dir r (?path, to_pem W der)" by (simp add: exported_def)
      with Cons.IH[OF 2(3)] 2(2) show ?thesis by (simp add: sr)
    qed
  qed
qed (auto simp: safe_realms_def)

section \<open>Properties\<close>

text \<open>C35: Exporting cannot be led out of its directory, and exports exactly what the broker trusts: of
  the realms the broker at the other end lists, every file written is \<open>realm.pem\<close> in the anchors
  directory for a realm with a live pin and a name of letters, digits, dots, dashes and
  underscores (so without a path separator, a line break or a brace, and neither the directory
  itself nor its parent), with the PEM text of the pinned authority; an export that succeeds
  wrote one for every such realm, in order, and its configuration has an entry for exactly these
  realms and files, the other realms being skipped.\<close>
theorem export_writes_pinned_anchors:
  assumes "export W (list_trusted_realms B bk) dir = (files, out)"
  shows "(\<forall>path text. (path, text) \<in> set files \<longrightarrow> (\<exists>realm p der.
      ps_pins (bk_store bk) realm = Some p \<and> \<not> expired p (now_secs B) \<and>
      path = path_join dir (realm @ ''.pem'') \<and> ct_b64_decode W (pin_ca_b64 p) = Inr der \<and> text = to_pem W der \<and>
      portable_name realm)) \<and>
    (\<forall>text. out = Inr text \<longrightarrow>
       map fst files = map (\<lambda>r. path_join dir (rlm_realm r @ ''.pem''))
         (filter (\<lambda>r. portable_name (rlm_realm r)) (list_trusted_realms B bk)) \<and>
       text = ''[realms]'' @ nl @ concat (map (\<lambda>r. snippet_entry (rlm_realm r) (path_join dir (rlm_realm r @ ''.pem'')))
         (filter (\<lambda>r. portable_name (rlm_realm r)) (list_trusted_realms B bk))))"
proof -
  let ?rs = "safe_realms (list_trusted_realms B bk)"
  have E: "list_all2 (exported W dir) (take (length files) ?rs) files"
    "\<forall>text. out = Inr text \<longrightarrow> list_all2 (exported W dir) ?rs files \<and> text = ''[realms]'' @ nl @
      concat (map (\<lambda>r. snippet_entry (rlm_realm r) (path_join dir (rlm_realm r @ ''.pem''))) ?rs)"
    using assms export_realms_files[of W dir "list_trusted_realms B bk" "''[realms]'' @ nl" files out]
    by (auto simp: export_def split: sum.splits)
  have pin: "\<exists>p. ps_pins (bk_store bk) (rlm_realm r) = Some p \<and> \<not> expired p (now_secs B) \<and> rlm_ca_der r = pin_ca_b64 p"
    if "r \<in> set (list_trusted_realms B bk)" for r
    using that by (auto simp: list_trusted_realms_def trusted_realms_def Let_def List.map_filter_def
        split: option.splits if_splits)
  have written: "\<exists>realm p der. ps_pins (bk_store bk) realm = Some p \<and> \<not> expired p (now_secs B) \<and>
      path = path_join dir (realm @ ''.pem'') \<and> ct_b64_decode W (pin_ca_b64 p) = Inr der \<and> pem = to_pem W der \<and>
      portable_name realm"
    if w: "(path, pem) \<in> set files" for path pem
  proof -
    from E(1) w obtain r where r: "r \<in> set ?rs" "exported W dir r (path, pem)"
      by (metis in_set_takeD list_all2_conv_all_nth in_set_conv_nth)
    then have f: "portable_name (rlm_realm r)" "r \<in> set (list_trusted_realms B bk)"
      by (auto simp: safe_realms_def)
    from pin[OF f(2)] r(2) f(1) show ?thesis
      by (intro exI[of _ "rlm_realm r"]) (auto simp: exported_def)
  qed
  have names: "map fst files = map (\<lambda>r. path_join dir (rlm_realm r @ ''.pem'')) rs"
    if "list_all2 (exported W dir) rs files" for rs
    using that by induction (auto simp: exported_def)
  show ?thesis
    using written E(2) names unfolding safe_realms_def by blast
qed

text \<open>An exported certificate can be read back: where base64 is what it says (its text has no
  line break and no dash and decodes to what was encoded), the text between the armour lines of
  the PEM is the base64 of the certificate, in lines of at most 64 characters.\<close>
theorem pem_roundtrip:
  assumes "set (ct_b64_encode W der) \<inter> {CHR 0x0A, CHR ''-''} = {}" "ct_b64_decode W (ct_b64_encode W der) = Inr der"
  shows "ct_b64_decode W (pem_body (to_pem W der)) = Inr der \<and>
    hd (pem_lines (to_pem W der)) = ''-----BEGIN CERTIFICATE-----'' \<and>
    (\<forall>l\<in>set (pem_lines (to_pem W der)). length l \<le> 64)"
proof -
  let ?b = "ct_b64_encode W der"
  have L: "pem_lines (to_pem W der) = ''-----BEGIN CERTIFICATE-----'' # chunks 64 ?b @ [''-----END CERTIFICATE-----'', []]"
    using assms(1) by (intro to_pem_lines) auto
  have "\<not> starts_with c ''-----''" if "c \<in> set (chunks 64 ?b)" for c
    using chunks_bound[OF that] assms(1) by (auto simp: starts_with_iff)
  then have "filter (\<lambda>l. \<not> starts_with l ''-----'') (chunks 64 ?b) = chunks 64 ?b" by simp
  then have "pem_body (to_pem W der) = concat (chunks 64 ?b)"
    by (simp add: pem_body_def L starts_with_def)
  then show ?thesis using assms(2) by (auto simp: L concat_chunks dest: chunks_bound)
qed

section \<open>A concrete export\<close>

text \<open>Base64 as hexadecimal, which shares what the round trip needs.\<close>

definition demo_hex_decode :: "rstr \<Rightarrow> bytes ext" where
  "demo_hex_decode t = (if t = ''300103'' then Inr [0x30, 1, 3] else Inl ''hex'')"

definition demo_ctl :: ctl_ops where
  "demo_ctl = \<lparr>ct_b64_encode = (\<lambda>d. concat (map hex2 d)),
     ct_b64_decode = (\<lambda>t. if t = pin_ca_b64 demo_pin then Inr [0x30, 1, 3] else demo_hex_decode t),
     ct_create_dir_all = (\<lambda>_. Inr ()), ct_write = (\<lambda>_ _. Inr ()), ct_time_since_epoch = Inr 1100\<rparr>"

lemma demo_export_run:
  "map fst (fst (export demo_ctl (list_trusted_realms demo_ops (broker_new demo_pins (auto_prompter True))) ''d'')) = [''d/R.pem'']"
  by code_simp

theorem export_writes_pinned_anchors_witness:
  "\<exists>pem der. (''d/R.pem'', pem) \<in> set (fst (export demo_ctl
     (list_trusted_realms demo_ops (broker_new demo_pins (auto_prompter True))) ''d'')) \<and> pem = to_pem demo_ctl der"
proof -
  let ?e = "export demo_ctl (list_trusted_realms demo_ops (broker_new demo_pins (auto_prompter True))) ''d''"
  have "''d/R.pem'' \<in> set (map fst (fst ?e))" unfolding demo_export_run by simp
  then obtain pem where t: "(''d/R.pem'', pem) \<in> set (fst ?e)" by auto
  have e: "?e = (fst ?e, snd ?e)" by simp
  from export_writes_pinned_anchors[OF e] t show ?thesis by blast
qed

theorem pem_roundtrip_witness:
  "ct_b64_decode demo_ctl (pem_body (to_pem demo_ctl [0x30, 1, 3])) = Inr [0x30, 1, 3]"
proof -
  have "ct_b64_encode demo_ctl [0x30, 1, 3] = ''300103''" by code_simp
  moreover have "ct_b64_decode demo_ctl ''300103'' = Inr [0x30, 1, 3]" by code_simp
  ultimately show ?thesis using pem_roundtrip[of demo_ctl "[0x30, 1, 3]"] by simp
qed

end
