(* ===== verification/Daemon.thy ===== *)
theory Daemon
  imports Prompters Trust_Ctl
begin

text \<open>
  The programs as a whole: \<open>main\<close> of \<open>pkinit-trust-brokerd/src/main.rs\<close> (command line, store,
  socket) and the calls its server then takes one after the other, and \<open>main\<close> of
  \<open>pkinit-trust-ctl/src/main.rs\<close>.  The interface the broker asks its user through, the \<open>Prompter\<close>
  trait, is the locale \<open>consent\<close>, which every prompter of the daemon meets.
\<close>

section \<open>The daemon\<close>

datatype start_error = UsageExit rstr | StartFailed rstr

datatype listener = Activated nat | Bound rstr

record socket_ops =
  so_from_fd :: "nat \<Rightarrow> unit ext"
  so_bind :: "rstr \<Rightarrow> unit ext"

record daemon =
  dm_store :: pin_store
  dm_prompter :: prompter_kind
  dm_listener :: listener

text \<open>The socket that systemd passed, or one of its own; what was at the path before is removed.\<close>

definition open_listener :: "os_ops \<Rightarrow> socket_ops \<Rightarrow> nat \<Rightarrow> rstr \<Rightarrow> listener ext" where
  "open_listener F S own_pid path =
     (case systemd_activation_fd F own_pid of
        Some fd \<Rightarrow> rbind (so_from_fd S fd) (\<lambda>_. Inr (Activated fd))
      | None \<Rightarrow> rbind (so_bind S path) (\<lambda>_. Inr (Bound path)))"

definition daemon_start ::
    "plugin_ctx \<Rightarrow> os_ops \<Rightarrow> socket_ops \<Rightarrow> broker_ops \<Rightarrow> nat \<Rightarrow> rstr list \<Rightarrow> start_error + daemon" where
  "daemon_start C F S B own_pid argv =
     (case parse_args C argv of
        Inl e \<Rightarrow> Inl (UsageExit e)
      | Inr a \<Rightarrow>
          rbind (map_err StartFailed (case ar_state a of Some path \<Rightarrow> open_store B F path | None \<Rightarrow> Inr in_memory))
            (\<lambda>store.
          rbind (map_err StartFailed (open_listener F S own_pid (ar_socket a))) (\<lambda>l.
            Inr \<lparr>dm_store = store, dm_prompter = ar_prompter a, dm_listener = l\<rparr>)))"

text \<open>A call with the libraries, the terminals and the notification server of its time.\<close>

datatype daemon_call =
    RequestTrust broker_ops tty_world notify_ops "int option" wire_request
  | ListTrustedRealms broker_ops

datatype daemon_reply = TrustAnswer "kdc_trust_error + trust_reply" | RealmsAnswer "trusted_realm list"

fun daemon_serve :: "daemon \<Rightarrow> daemon_call \<Rightarrow> daemon \<times> daemon_reply" where
  "daemon_serve d (RequestTrust B Y N pid rq) =
     (case request_trust B (broker_new (dm_store d) (run_prompter Y N (dm_prompter d))) pid rq of
        (bk, answer, written) \<Rightarrow> (d\<lparr>dm_store := bk_store bk\<rparr>, TrustAnswer answer))"
| "daemon_serve d (ListTrustedRealms B) = (d, RealmsAnswer (trusted_realms B (dm_store d)))"

section \<open>The trust store tool\<close>

datatype list_outcome =
    ListConnectFailed rstr
  | ListCallFailed rstr
  | ListErrorReply kdc_trust_error
  | Listed "trusted_realm list"

datatype ctl_exit = CtlUsage rstr | CtlFailed rstr

text \<open>The files a run writes, and what it prints or how it fails; \<open>call\<close> is the broker's answer at a socket.\<close>

definition ctl_main ::
    "plugin_ctx \<Rightarrow> ctl_ops \<Rightarrow> (rstr \<Rightarrow> list_outcome) \<Rightarrow> (kdc_trust_error \<Rightarrow> rstr) \<Rightarrow> rstr list \<Rightarrow>
     (rstr \<times> rstr) list \<times> (ctl_exit + rstr)" where
  "ctl_main C W call debug argv =
     (case ctl_parse_args C argv of
        Inl e \<Rightarrow> ([], Inl (CtlUsage e))
      | Inr a \<Rightarrow>
          (case call (ca_socket a) of
             ListConnectFailed e \<Rightarrow> ([], Inl (CtlFailed (''connecting to '' @ ca_socket a @ '': '' @ e)))
           | ListCallFailed e \<Rightarrow> ([], Inl (CtlFailed (''varlink call failed: '' @ e)))
           | ListErrorReply e \<Rightarrow> ([], Inl (CtlFailed (''broker returned an error: '' @ debug e)))
           | Listed store \<Rightarrow>
               (case run_command W store (ca_command a) of (files, r) \<Rightarrow> (files, map_err CtlFailed r))))"

section \<open>Consent\<close>

text \<open>What makes a pin the result of a request that was granted.\<close>

definition granted :: "broker_ops \<Rightarrow> prompter \<Rightarrow> int option \<Rightarrow> wire_request \<Rightarrow> pin \<Rightarrow> bool" where
  "granted B confirm pid rq p \<longleftrightarrow> wq_interactive rq \<and>
     (\<exists>signer presented ca fp ttl. b64_decode B (wq_signer_cert rq) = Inr signer \<and>
        decode_all B (wq_presented_certs rq) = Some presented \<and> ca \<in> set presented \<and> ca \<noteq> signer \<and>
        validates_as_anchor B ca signer presented \<and> sha256_hex B ca = Some fp \<and>
        confirm (prompt_for B (wq_realm rq) (wq_kdc_principal rq) pid ca fp) = Some ttl \<and>
        ttl \<in> snd ` set GRANT_PRESETS \<and>
        p = \<lparr>pin_ca_b64 = b64_encode B ca, pin_fingerprint = fp, pin_expires_at = expires_at_epoch_secs ttl (now_secs B)\<rparr>)"

text \<open>The contract of a prompter: it grants nothing that is not on the menu.\<close>

locale consent =
  fixes confirm :: prompter
  assumes menu: "confirm req = Some ttl \<Longrightarrow> ttl \<in> snd ` set GRANT_PRESETS"
begin

lemma request_grants:
  assumes "request_trust B bk pid rq = (bk', answer, written)" "bk_prompter bk = confirm"
    and "ps_pins (bk_store bk') k = Some p"
  shows "ps_pins (bk_store bk) k = Some p \<or> k = wq_realm rq \<and> granted B confirm pid rq p"
proof (cases "ps_pins (bk_store bk') k = ps_pins (bk_store bk) k")
  case False
  then obtain signer presented reply where R: "b64_decode B (wq_signer_cert rq) = Inr signer"
    "decode_all B (wq_presented_certs rq) = Some presented"
    "decide B (bk_store bk) (wq_realm rq) (wq_kdc_principal rq) pid signer presented (wq_interactive rq) confirm
       = (bk_store bk', reply, written)"
    using assms(1,2) by (auto simp: request_trust_def split: sum.splits option.splits prod.splits)
  from decide_other_realms[OF R(3)] False have k: "k = wq_realm rq" by blast
  from decide_cases[OF R(3)] False assms(3) k obtain ca fp ttl where
    G: "shown_ca B signer presented = Some (ca, fp)" "wq_interactive rq"
      "confirm (prompt_for B (wq_realm rq) (wq_kdc_principal rq) pid ca fp) = Some ttl"
      "p = \<lparr>pin_ca_b64 = b64_encode B ca, pin_fingerprint = fp, pin_expires_at = expires_at_epoch_secs ttl (now_secs B)\<rparr>"
    by (elim disjE exE conjE) auto
  with R(1,2) k shown_ca_Some[OF G(1)] menu[OF G(3)] show ?thesis unfolding granted_def by blast
qed (use assms(3) in simp)

end

lemma consent_auto: "consent (auto_prompter approve)"
  by unfold_locales (auto simp: auto_prompter_def GRANT_PRESETS_def split: if_splits)

lemma consent_tty: "consent (client_tty_prompter Y)"
proof
  fix req ttl
  assume "client_tty_prompter Y req = Some ttl"
  then obtain line where "grant_choice line = Some ttl"
    by (auto simp: client_tty_prompter_def prompt_on_def bind_eq_Some_conv split: option.splits if_splits)
  then obtain k where "1 \<le> k" "k \<le> 5" "ttl = snd (GRANT_PRESETS ! (k - 1))" unfolding grant_choice_Some by blast
  then show "ttl \<in> snd ` set GRANT_PRESETS" by simp
qed

lemma consent_notify:
  assumes "consent fallback"
  shows "consent (notify_prompter N fallback)"
proof
  fix req ttl
  assume a: "notify_prompter N fallback req = Some ttl"
  show "ttl \<in> snd ` set GRANT_PRESETS"
  proof (cases "notify_ask N req")
    case (Inl e)
    with a have "fallback req = Some ttl" by (simp add: notify_prompter_def)
    then show ?thesis by (rule consent.menu[OF assms])
  next
    case (Inr g)
    with a have "notify_ask N req = Inr (Some ttl)" by (simp add: notify_prompter_def)
    then have "ttl = For 3600 \<or> ttl = Forever"
      by (auto simp: notify_ask_def res dest!: sym[of "Some ttl"] fold_on_action)
    then show ?thesis by (auto simp: GRANT_PRESETS_def)
  qed
qed

interpretation daemon_prompter: consent "run_prompter Y N kind" for Y N kind
  by (cases kind) (simp_all add: consent_auto consent_tty consent_notify)

lemma serve_prompter: "daemon_serve d c = (d', r) \<Longrightarrow> dm_prompter d' = dm_prompter d"
  by (cases c) (auto split: prod.splits)

lemma serve_grants:
  assumes "daemon_serve d c = (d', r)" "ps_pins (dm_store d') k = Some p"
  shows "ps_pins (dm_store d) k = Some p \<or> (\<exists>B Y N pid rq. c = RequestTrust B Y N pid rq \<and> wq_realm rq = k \<and>
    granted B (run_prompter Y N (dm_prompter d)) pid rq p)"
proof (cases c)
  case (RequestTrust B Y N pid rq)
  with assms(1) obtain bk answer written where
    "request_trust B (broker_new (dm_store d) (run_prompter Y N (dm_prompter d))) pid rq = (bk, answer, written)"
    "dm_store d' = bk_store bk" by (auto split: prod.splits)
  with daemon_prompter.request_grants[OF this(1), of Y N "dm_prompter d" k p] assms(2) RequestTrust show ?thesis
    by (simp add: broker_new_def) blast
qed (use assms in auto)

lemma run_grants:
  "serve_all daemon_serve d calls = (d', rs) \<Longrightarrow> ps_pins (dm_store d') k = Some p \<Longrightarrow>
   ps_pins (dm_store d) k = Some p \<or> (\<exists>B Y N pid rq. RequestTrust B Y N pid rq \<in> set calls \<and> wq_realm rq = k \<and>
     granted B (run_prompter Y N (dm_prompter d)) pid rq p)"
proof (induction calls arbitrary: d rs)
  case (Cons c calls)
  obtain d1 r where 1: "daemon_serve d c = (d1, r)" by force
  with Cons.prems(1) obtain rs1 where "serve_all daemon_serve d1 calls = (d', rs1)" by (auto split: prod.splits)
  from Cons.IH[OF this Cons.prems(2)] serve_grants[OF 1, of k p] serve_prompter[OF 1] show ?case
    by (metis list.set_intros(1,2))
qed simp

lemma daemon_start_Inr:
  assumes "daemon_start C F S B own_pid argv = Inr d"
  shows "\<exists>a. parse_args C argv = Inr a \<and> dm_prompter d = ar_prompter a \<and>
    (case ar_state a of Some path \<Rightarrow> open_store B F path = Inr (dm_store d) | None \<Rightarrow> dm_store d = in_memory)"
  using assms by (auto simp: daemon_start_def res split: sum.splits option.splits)

section \<open>From pins to anchors\<close>

definition armoured :: "ctl_ops \<Rightarrow> rstr \<Rightarrow> bytes \<Rightarrow> bool" where
  "armoured W text der \<longleftrightarrow>
     (\<exists>ls. pem_lines text = ''-----BEGIN CERTIFICATE-----'' # ls @ [''-----END CERTIFICATE-----'', []] \<and>
        (\<forall>l\<in>set ls. length l \<le> 64 \<and> CHR ''-'' \<notin> set l) \<and> ct_b64_decode W (concat ls) = Inr der)"

lemma armoured_to_pem:
  assumes "\<forall>d. ct_b64_decode W (ct_b64_encode W d) = Inr d \<and> set (ct_b64_encode W d) \<inter> {CHR 0x0A, CHR ''-''} = {}"
  shows "armoured W (to_pem W der) der"
proof -
  let ?ls = "chunks 64 (ct_b64_encode W der)"
  have "pem_lines (to_pem W der) = ''-----BEGIN CERTIFICATE-----'' # ?ls @ [''-----END CERTIFICATE-----'', []]"
    using assms by (intro to_pem_lines) auto
  moreover have "\<forall>l\<in>set ?ls. length l \<le> 64 \<and> CHR ''-'' \<notin> set l"
    using assms by (auto dest!: chunks_bound)
  ultimately show ?thesis using assms unfolding armoured_def by (intro exI[of _ ?ls]) (simp add: concat_chunks)
qed

lemma listed_pin:
  assumes "set (map_keys B (ps_pins s)) = dom (ps_pins s)" "ps_pins s realm = Some p" "\<not> expired p (now_secs B)"
  shows "\<exists>r\<in>set (trusted_realms B s). rlm_realm r = realm \<and> rlm_ca_der r = pin_ca_b64 p"
proof -
  from assms(1,2) have "realm \<in> set (map_keys B (ps_pins s))" by auto
  with assms(2,3) show ?thesis
    by (force simp: trusted_realms_def Let_def List.map_filter_def)
qed

section \<open>Properties\<close>

text \<open>C40: The daemon trusts nothing by itself: whatever calls it takes, with whatever libraries,
  terminals and notification servers, a pin it holds was in the state file that \<open>--state\<close> named
  when it started, or was granted in answer to an interactive request for that realm, for a
  certificate authority that validates the presented chain and is not the signer, whose
  fingerprint its prompter was shown, for a time on the menu and from that moment; and the
  prompter asks the user unless \<open>--auto\<close> says otherwise.\<close>
theorem daemon_pins_by_consent:
  assumes "daemon_start C F S B0 own_pid argv = Inr d" "serve_all daemon_serve d calls = (d', answers)"
    and "ps_pins (dm_store d') realm = Some p"
  shows "((\<exists>path. ''--state'' \<in> set argv \<and> open_store B0 F path = Inr (dm_store d) \<and> ps_pins (dm_store d) realm = Some p) \<or>
     (\<exists>B Y N pid rq. RequestTrust B Y N pid rq \<in> set calls \<and> wq_realm rq = realm \<and>
        granted B (run_prompter Y N (dm_prompter d)) pid rq p)) \<and>
    (dm_prompter d = AutoPrompter True \<longrightarrow> (\<exists>xs ys. argv = xs @ ''--auto'' # ''approve'' # ys)) \<and>
    (''--auto'' \<notin> set argv \<longrightarrow> dm_prompter d \<in> {NotifyPrompter, ClientTtyPrompter})"
proof -
  from daemon_start_Inr[OF assms(1)] obtain a where a: "parse_args C argv = Inr a" "dm_prompter d = ar_prompter a"
    "case ar_state a of Some path \<Rightarrow> open_store B0 F path = Inr (dm_store d) | None \<Rightarrow> dm_store d = in_memory" by blast
  have start: "\<exists>path. ''--state'' \<in> set argv \<and> open_store B0 F path = Inr (dm_store d)"
    if "ps_pins (dm_store d) realm = Some p"
    using that a(3) auto_approval_is_explicit[OF a(1)] by (auto simp: in_memory_def split: option.splits)
  from run_grants[OF assms(2,3)] start auto_approval_is_explicit[OF a(1)] a(2) show ?thesis by auto
qed

text \<open>C36: Trust on first use can be made permanent: a live pin whose realm can name a file is exported
  to a file and an entry of the configuration that names it; and a client or a KDC that has that
  file among its anchors loads exactly the pinned certificate from it.  Base64 and PEM are what
  they are: the encoder's text has no line break and no dash and is decoded, and the reader
  gives the one certificate of an armoured text with lines of at most 64 characters.\<close>
theorem exported_pin_becomes_anchor:
  assumes "export W (list_trusted_realms B bk) dir = (files, Inr snippet)"
    and "set (map_keys B (ps_pins (bk_store bk))) = dom (ps_pins (bk_store bk))"
    and "ps_pins (bk_store bk) realm = Some p" "\<not> expired p (now_secs B)" "safe_filename realm \<noteq> None"
    and "\<forall>d. ct_b64_decode W (ct_b64_encode W d) = Inr d \<and> set (ct_b64_encode W d) \<inter> {CHR 0x0A, CHR ''-''} = {}"
    and "\<forall>text der. armoured W text der \<longrightarrow> read_pki_blocks P (str_bytes text) = Inr [(''CERTIFICATE'', der)]"
    and "\<forall>(path, text)\<in>set files. fs_read F path = Inr (str_bytes text)"
  shows "\<exists>ca before after. ct_b64_decode W (pin_ca_b64 p) = Inr ca \<and>
    snippet = before @ snippet_entry realm (path_join dir (realm @ ''.pem'')) @ after \<and>
    load_anchors F P trust_store_new [''FILE:'' @ path_join dir (realm @ ''.pem'')] =
      Inr \<lparr>ts_anchors = [ca], ts_intermediates = [], ts_crls = []\<rparr>"
proof -
  let ?rs = "safe_realms (list_trusted_realms B bk)" and ?path = "path_join dir (realm @ ''.pem'')"
  have E: "list_all2 (exported W dir) ?rs files" "snippet = (''[realms]'' @ nl) @
      concat (map (\<lambda>r. snippet_entry (rlm_realm r) (path_join dir (rlm_realm r @ ''.pem''))) ?rs)"
    using assms(1) export_realms_files[of W dir "list_trusted_realms B bk" "''[realms]'' @ nl" files "Inr snippet"]
    by (auto simp: export_def split: sum.splits)
  obtain r where r: "r \<in> set ?rs" "rlm_realm r = realm" "rlm_ca_der r = pin_ca_b64 p"
    using listed_pin[OF assms(2-4)] assms(5)
    by (auto simp: safe_realms_def list_trusted_realms_def safe_filename_portable split: if_splits)
  from E(1) r(1) obtain w where w: "w \<in> set files" "exported W dir r w"
    by (metis list_all2_conv_all_nth in_set_conv_nth)
  with r obtain ca where ca: "ct_b64_decode W (pin_ca_b64 p) = Inr ca" "w = (?path, to_pem W ca)"
    by (auto simp: exported_def)
  from assms(8) w(1) ca(2) have "fs_read F ?path = Inr (str_bytes (to_pem W ca))" by auto
  moreover from assms(7) armoured_to_pem[OF assms(6)]
  have "read_pki_blocks P (str_bytes (to_pem W ca)) = Inr [(''CERTIFICATE'', ca)]" by blast
  moreover have "split_once CHR '':'' (''FILE:'' @ ?path) = Some (''FILE'', ?path)"
    using split_once_at[of "CHR '':''" "''FILE''" ?path] by simp
  ultimately have "load_anchors F P trust_store_new [''FILE:'' @ ?path] =
      Inr \<lparr>ts_anchors = [ca], ts_intermediates = [], ts_crls = []\<rparr>"
    by (simp add: load_from_path_def add_anchor_def trust_store_new_def)
  moreover from split_list[OF r(1)] obtain as bs where "?rs = as @ r # bs" by blast
  then have "\<exists>before after. snippet = before @ snippet_entry realm ?path @ after"
    unfolding E(2) using r(2)
    by (intro exI[of _ "(''[realms]'' @ nl) @ concat (map (\<lambda>r. snippet_entry (rlm_realm r)
      (path_join dir (rlm_realm r @ ''.pem''))) as)"] exI) simp
  ultimately show ?thesis using ca(1) by metis
qed

section \<open>A concrete daemon and a concrete export\<close>

definition demo_request :: wire_request where
  "demo_request = \<lparr>wq_realm = ''R'', wq_kdc_principal = ''krbtgt/R@R'', wq_signer_cert = bytes_str demo_client_cert,
     wq_presented_certs = map bytes_str demo_certs, wq_interactive = True\<rparr>"

lemma demo_daemon_grants:
  "fst (request_trust demo_broker (broker_new in_memory (auto_prompter True)) pid demo_request)
     = broker_new (in_memory\<lparr>ps_pins := [''R'' \<mapsto> demo_pin]\<rparr>) (auto_prompter True)"
proof -
  have d: "b64_decode demo_broker t = Inr (str_bytes t)" "b64_encode demo_broker = bytes_str" for t
    by (simp_all add: demo_broker_def demo_ops_def)
  then have "decode_all demo_broker (map bytes_str demo_certs) = Some demo_certs"
    by (intro decode_all_encoded) (simp add: str_bytes_str)
  then show ?thesis
    by (simp add: request_trust_def demo_request_def broker_new_def d str_bytes_str decide_def demo_select demo_fingerprint
        in_memory_def auto_prompter_def expires_at_epoch_secs_def persist_def Let_def demo_pin_def)
qed

theorem daemon_pins_by_consent_witness:
  "\<exists>d. daemon_start demo_ctx demo_os \<lparr>so_from_fd = \<lambda>_. Inr (), so_bind = \<lambda>_. Inr ()\<rparr> demo_ops 7 [''d'', ''/s'', ''--auto'', ''approve''] = Inr d \<and>
     granted demo_broker (run_prompter demo_tty_world demo_notify (dm_prompter d)) None demo_request demo_pin"
proof -
  let ?S = "\<lparr>so_from_fd = \<lambda>_. Inr (), so_bind = \<lambda>_. Inr ()\<rparr>" and ?argv = "[''d'', ''/s'', ''--auto'', ''approve'']"
  let ?call = "RequestTrust demo_broker demo_tty_world demo_notify None demo_request"
  obtain d where d: "daemon_start demo_ctx demo_os ?S demo_ops 7 ?argv = Inr d"
    "dm_prompter d = AutoPrompter True" "dm_store d = in_memory"
    by (simp add: daemon_start_def parse_args_def no_options_def starts_with_def open_listener_def
        systemd_activation_fd_def demo_os_def)
  have run: "serve_all daemon_serve d [?call] =
      (fst (serve_all daemon_serve d [?call]), snd (serve_all daemon_serve d [?call]))" by simp
  have "ps_pins (dm_store (fst (serve_all daemon_serve d [?call]))) ''R'' = Some demo_pin"
    using demo_daemon_grants[of None] d(2,3) by (auto simp: broker_new_def split: prod.splits)
  from daemon_pins_by_consent[OF d(1) run this] d show ?thesis by auto
qed

text \<open>Base64 as hexadecimal digits, and a reader of armoured texts.\<close>

fun unhex :: "rstr \<Rightarrow> bytes" where
  "unhex (a # b # t) = of_nat (16 * the (digit_val 16 a) + the (digit_val 16 b)) # unhex t"
| "unhex _ = []"

definition hex_ctl :: ctl_ops where
  "hex_ctl = demo_ctl\<lparr>ct_b64_decode := (\<lambda>t. Inr (unhex t))\<rparr>"

lemma hex_digit: "x < 16 \<Longrightarrow> digit_val 16 (''0123456789abcdef'' ! x) = Some x \<and>
    ''0123456789abcdef'' ! x \<notin> {CHR 0x0A, CHR ''-''}"
proof -
  have "list_all (\<lambda>x. digit_val 16 (''0123456789abcdef'' ! x) = Some x \<and>
      ''0123456789abcdef'' ! x \<notin> {CHR 0x0A, CHR ''-''}) [0..<16]" by code_simp
  then show "x < 16 \<Longrightarrow> ?thesis" by (simp add: list_all_iff)
qed

lemma hex_roundtrip: "unhex (concat (map hex2 d)) = d \<and> set (concat (map hex2 d)) \<inter> {CHR 0x0A, CHR ''-''} = {}"
proof (induction d)
  case (Cons b d)
  have "unat b div 16 < 16" "unat b mod 16 < 16"
    using unat_byte_lt[of b] by (auto intro: less_mult_imp_div_less simp del: unat_byte_lt)
  from hex_digit[OF this(1)] hex_digit[OF this(2)] Cons show ?case by (simp add: hex2_def Let_def)
qed simp

definition hex_pki :: pki_ops where
  "hex_pki = demo_pki\<lparr>read_pki_blocks := (\<lambda>d. Inr [(''CERTIFICATE'', unhex (pem_body (bytes_str d)))])\<rparr>"

lemma armoured_body:
  assumes "armoured W text der"
  shows "ct_b64_decode W (pem_body text) = Inr der"
proof -
  from assms obtain ls where ls: "pem_lines text = ''-----BEGIN CERTIFICATE-----'' # ls @ [''-----END CERTIFICATE-----'', []]"
    "\<forall>l\<in>set ls. CHR ''-'' \<notin> set l" "ct_b64_decode W (concat ls) = Inr der" unfolding armoured_def by blast
  from ls(2) have "filter (\<lambda>l. \<not> starts_with l ''-----'') ls = ls" by (auto simp: filter_id_conv starts_with_iff)
  then have "pem_body text = concat ls" by (simp add: pem_body_def ls(1) starts_with_def)
  with ls(3) show ?thesis by simp
qed

definition hex_pin :: pin where
  "hex_pin = demo_pin\<lparr>pin_ca_b64 := concat (map hex2 demo_kdc_cert)\<rparr>"

definition hex_broker :: broker where
  "hex_broker = broker_new (in_memory\<lparr>ps_pins := [''R'' \<mapsto> hex_pin]\<rparr>) (auto_prompter True)"

theorem exported_pin_becomes_anchor_witness:
  "load_anchors (demo_os\<lparr>fs_read := (\<lambda>_. Inr (str_bytes (to_pem hex_ctl demo_kdc_cert)))\<rparr>) hex_pki trust_store_new
     [''FILE:d/R.pem''] = Inr \<lparr>ts_anchors = [demo_kdc_cert], ts_intermediates = [], ts_crls = []\<rparr>"
proof -
  let ?F = "demo_os\<lparr>fs_read := (\<lambda>_. Inr (str_bytes (to_pem hex_ctl demo_kdc_cert)))\<rparr>"
  have ca: "ct_b64_decode hex_ctl (pin_ca_b64 hex_pin) = Inr demo_kdc_cert"
    using hex_roundtrip by (simp add: hex_ctl_def hex_pin_def)
  have path: "path_join ''d'' (''R'' @ ''.pem'') = ''d/R.pem''" by code_simp
  have safe: "safe_filename ''R'' = Some ''R''" by code_simp
  obtain files snippet where e: "export hex_ctl (list_trusted_realms demo_ops hex_broker) ''d'' = (files, Inr snippet)"
    and files: "set files = {(''d/R.pem'', to_pem hex_ctl demo_kdc_cert)}"
    using ca safe path
    by (simp add: export_def list_trusted_realms_def trusted_realms_def hex_broker_def broker_new_def in_memory_def
        demo_ops_def hex_pin_def demo_pin_def expired_def Let_def List.map_filter_def)
      (simp add: hex_ctl_def demo_ctl_def Let_def)
  have "set (map_keys demo_ops (ps_pins (bk_store hex_broker))) = dom (ps_pins (bk_store hex_broker))"
    "ps_pins (bk_store hex_broker) ''R'' = Some hex_pin" "\<not> expired hex_pin (now_secs demo_ops)"
    by (simp_all add: demo_ops_def hex_broker_def broker_new_def expired_def hex_pin_def demo_pin_def)
  moreover have "\<forall>d. ct_b64_decode hex_ctl (ct_b64_encode hex_ctl d) = Inr d \<and>
      set (ct_b64_encode hex_ctl d) \<inter> {CHR 0x0A, CHR ''-''} = {}"
    using hex_roundtrip by (simp add: hex_ctl_def demo_ctl_def)
  moreover have "\<forall>text der. armoured hex_ctl text der \<longrightarrow> read_pki_blocks hex_pki (str_bytes text) = Inr [(''CERTIFICATE'', der)]"
    using armoured_body by (fastforce simp: hex_pki_def bytes_str_bytes hex_ctl_def)
  moreover have "\<forall>(path, text)\<in>set files. fs_read ?F path = Inr (str_bytes text)" by (simp add: files)
  ultimately show ?thesis
    using exported_pin_becomes_anchor[OF e, of "''R''" hex_pin hex_pki ?F] safe ca path by simp
qed

end
