(* ===== verification/Plugin_Exchange.thy ===== *)
theory Plugin_Exchange
  imports Exchange Client_Plugin Kdc_Plugin
begin

text \<open>
  The two plugins together: the request that the client's plugin hands to libkrb5, as the KDC's
  plugin verifies it, and the answer of the KDC's plugin, as the client's plugin turns it into
  the reply key; and the negotiation of an algorithm between the two.
\<close>

section \<open>What one plugin call does to the core\<close>

lemma build_as_req_kex:
  "build_as_req E s nonce ctime cusec body = (t, Inr req) \<Longrightarrow> cl_key_exchange t = Some (KexKem alg) \<Longrightarrow>
   cc_kem_algorithm (cl_config s) = Some alg \<and> cl_identity t = cl_identity s"
  by (auto simp: build_as_req_def request_key_def request_dh_nonce_def Let_def
      split: sum.splits if_splits prod.splits option.splits)

lemma build_pa_sends:
  "build_pa_pk_as_req C E cb s nonce body = (t, Inr out) \<Longrightarrow>
   \<exists>ctime cusec d req. lb_get_preauth_time cb = Inr (ctime, cusec) \<and> body = Some d \<and>
     build_as_req E s nonce ctime cusec d = (t, Inr req) \<and> out = [\<lparr>pa_type = PA_PK_AS_REQ, pa_contents = req\<rparr>]"
  by (auto simp: build_pa_pk_as_req_def split: sum.splits prod.splits option.splits)

lemma process_pk_as_req_sends:
  "process_pk_as_req C E cb s rq = (t, Inr out) \<Longrightarrow>
   \<exists>s' body. build_pa_pk_as_req C E cb s' (kr_nonce (pq_request rq)) body = (t, Inr out)"
  by (auto simp: process_pk_as_req_def Let_def split: if_splits sum.splits prod.splits pkinit_error.splits)

lemma finish_pending_forgets: "finish_pending_pkcs12 C F P W cb cp = (c1, r) \<Longrightarrow> cp_pending c1 = None"
  by (auto simp: finish_pending_pkcs12_def Let_def split: option.splits sum.splits)

lemma process_sends:
  assumes "process C F P E W cb cp rq = (cp', key, Inr (pa # pas))"
  shows "pas = [] \<and> key = None \<and> cp_pending cp' = None \<and> pa_type pa = PA_PK_AS_REQ \<and>
    (\<exists>s ctime cusec body t. cp_state cp' = Some t \<and>
       build_as_req E s (kr_nonce (pq_request rq)) ctime cusec body = (t, Inr (pa_contents pa)))"
proof -
  obtain c1 f where f: "finish_pending_pkcs12 C F P W cb cp = (c1, f)" by fastforce
  have rep: "process_pk_as_rep C E cb s rq \<noteq> (t, key, Inr (pa # pas))" for s t
    by (auto simp: process_pk_as_rep_def Let_def split: if_splits sum.splits prod.splits)
  from assms f obtain s t where "process_pk_as_req C E cb s rq = (t, Inr (pa # pas))"
    "key = None" "cp' = c1\<lparr>cp_state := Some t\<rparr>"
    using rep by (cases f; cases "cp_state c1") (auto simp: process_def Let_def split: if_splits prod.splits)
  with finish_pending_forgets[OF f] show ?thesis
    by (fastforce dest!: process_pk_as_req_sends build_pa_sends)
qed

lemma return_padata_answers:
  assumes "return_padata D K k rr cb = (eff, Inr (Some rep))" "rq_padata_type rr = Some PA_PK_AS_REQ" "rq_modreq rr = Some v"
  shows "\<exists>cn sn derived. build_as_rep K (kp_state k) v
      \<lparr>brp_nonce = vr_nonce v,
       brp_enctype = (case cb_fast_armor cb of Some a \<Rightarrow> kb_enctype a | None \<Rightarrow> ENCTYPE_AES256_CTS_HMAC_SHA1_96),
       brp_as_req_der = rq_request_packet rr, brp_client_name = cn, brp_server_name = sn\<rparr>
      (krb5_o2k (px_krb5 D)) = Inr (pa_contents rep, derived) \<and>
    cb_client_name_string cb = Some cn \<and> (\<exists>p. rq_server rr = Some (Some p) \<and> px_unparse D p = Inr sn) \<and>
    pa_type rep = PA_PK_AS_REP \<and>
    re_reply_key eff = Some \<lparr>kb_enctype = dk_enctype derived, kb_contents = dk_key_data derived\<rparr>"
  using assms
  by (auto simp: return_padata_def return_pkinit_dh_def Let_def res split: sum.splits prod.splits)

text \<open>libkrb5 hands the KDC's answer \<open>rep\<close> to the client as the reply to the request of \<open>rq\<close>: the same
  nonce, the request as it was sent, the encryption type the KDC used, and names it can print.\<close>

definition delivered ::
    "plugin_ctx \<Rightarrow> process_request \<Rightarrow> return_request \<Rightarrow> kdc_callbacks \<Rightarrow> pa_data \<Rightarrow> clpreauth_callbacks \<Rightarrow> process_request \<Rightarrow> bool" where
  "delivered C rq rr kcb rep cb rq2 \<longleftrightarrow>
     rpa_type (pq_pa_data rq2) = pa_type rep \<and> pa_data_contents (pq_pa_data rq2) = pa_contents rep \<and>
     kr_nonce (pq_request rq2) = kr_nonce (pq_request rq) \<and>
     pq_encoded_previous_request rq2 = Some (rq_request_packet rr) \<and>
     lb_get_etype cb = (case cb_fast_armor kcb of Some a \<Rightarrow> kb_enctype a | None \<Rightarrow> ENCTYPE_AES256_CTS_HMAC_SHA1_96) \<and>
     (\<exists>c sv cn sn. kr_client (pq_request rq2) = Some c \<and> px_unparse C c = Inr cn \<and>
        kr_server (pq_request rq2) = Some sv \<and> px_unparse C sv = Inr sn) \<and>
     (\<forall>key. lb_set_as_key cb key = Inr ())"

lemma process_delivered:
  assumes "delivered C rq rr kcb rep cb rq2" "pa_type rep = PA_PK_AS_REP" "pa_contents rep \<noteq> []"
    and "cp_state cp = Some t" "cp_pending cp = None"
    and "\<And>cn sn. process_as_rep E t (pa_contents rep) \<lparr>arp_nonce = kr_nonce (pq_request rq),
      arp_enctype = (case cb_fast_armor kcb of Some a \<Rightarrow> kb_enctype a | None \<Rightarrow> ENCTYPE_AES256_CTS_HMAC_SHA1_96),
      arp_as_req_der = rq_request_packet rr, arp_pa_rep_raw = pa_contents rep, arp_client_name = cn, arp_server_name = sn\<rparr>
      (krb5_o2k (px_krb5 C)) = (t', Inr derived)"
  shows "process C F P E W cb cp rq2 = (cp\<lparr>cp_state := Some t'\<rparr>,
    Some \<lparr>kb_enctype = dk_enctype derived, kb_contents = dk_key_data derived\<rparr>, Inr [])"
  using assms
  by (auto simp: delivered_def process_def finish_pending_pkcs12_def process_pk_as_rep_def Let_def
      PA_PK_AS_REP_def PA_PK_AS_REQ_def PA_PKINIT_KX_def PA_AS_FRESHNESS_def)

lemma plugin_reply_installed:
  assumes "exchange_ok E" "same_libraries E K" "px_krb5 D = px_krb5 C"
    and "process C F P E W cb cp rq = (cp1, none, Inr [pa])" "cp_state cp1 = Some t"
    and "cl_key_exchange t = Some (KexKem alg)" "signer_ok E (cl_identity t)"
    and "kdc_verify D K k pa vcb = (inds, VOk v)"
    and "rq_padata_type rr = Some PA_PK_AS_REQ" "rq_modreq rr = Some v"
    and "return_padata D K k rr kcb = (eff, Inr (Some rep))" "length (pa_contents rep) < 2 ^ 32"
    and "signer_ok E (ks_identity (kp_state k))" "kdc_trusted E t (ks_identity (kp_state k))"
    and "delivered C rq rr kcb rep cb2 rq2"
  shows "\<exists>key. re_reply_key eff = Some key \<and>
    process C F P E W cb2 cp1 rq2 = (cp1\<lparr>cp_state := Some (t\<lparr>cl_kem_key := None\<rparr>)\<rparr>, Some key, Inr [])"
proof -
  from process_sends[OF assms(4)] assms(5) obtain s ctime cusec body where
    req: "build_as_req E s (kr_nonce (pq_request rq)) ctime cusec body = (t, Inr (pa_contents pa))"
    and pend: "cp_pending cp1 = None" by auto
  note alg = build_as_req_kex[OF req assms(6)]
  from assms(8) have "verify_as_req K (kp_state k) (pa_contents pa) None (cb_max_time_skew vcb) (current_time vcb) = Inr v"
    by (simp add: kdc_verify_ok)
  from verified_kem_request[OF assms(1,2) req _ _ this] alg assms(7) obtain kp where
    g: "kem_generate (pe_kem E) alg (pe_keygen_seed E) = Inr kp"
      "kem_public_key_spki_der (pe_kem E) kp = Inr (vr_client_dh_public v)"
    and t: "cl_kem_key t = Some kp" and v: "vr_nonce v = kr_nonce (pq_request rq)" "vr_key_exchange v = KexKem alg"
    by auto
  from return_padata_answers[OF assms(11,9,10)] v assms(3) obtain cn sn derived where
    b: "build_kem_rep K (kp_state k) v \<lparr>brp_nonce = kr_nonce (pq_request rq),
       brp_enctype = (case cb_fast_armor kcb of Some a \<Rightarrow> kb_enctype a | None \<Rightarrow> ENCTYPE_AES256_CTS_HMAC_SHA1_96),
       brp_as_req_der = rq_request_packet rr, brp_client_name = cn, brp_server_name = sn\<rparr>
      (krb5_o2k (px_krb5 C)) alg = Inr (pa_contents rep, derived)"
    and r: "pa_type rep = PA_PK_AS_REP"
      "re_reply_key eff = Some \<lparr>kb_enctype = dk_enctype derived, kb_contents = dk_key_data derived\<rparr>"
    by (auto simp: build_as_rep_def)
  have tr: "kdc_trusted E (t\<lparr>cl_kem_key := None\<rparr>) (ks_identity (kp_state k))"
    using assms(14) by (simp add: kdc_trusted_def)
  have o: "is_kem_rep (pa_contents rep) \<and> open_kem_rep E (t\<lparr>cl_kem_key := None\<rparr>) kp (pa_contents rep)
      \<lparr>arp_nonce = kr_nonce (pq_request rq),
       arp_enctype = (case cb_fast_armor kcb of Some a \<Rightarrow> kb_enctype a | None \<Rightarrow> ENCTYPE_AES256_CTS_HMAC_SHA1_96),
       arp_as_req_der = rq_request_packet rr, arp_pa_rep_raw = pa_contents rep, arp_client_name = c, arp_server_name = n\<rparr>
      (krb5_o2k (px_krb5 C)) = Inr derived" for c n
    by (rule kem_reply_opened[OF assms(1,2) g b assms(12,13) tr]) simp_all
  have "process C F P E W cb2 cp1 rq2 = (cp1\<lparr>cp_state := Some (t\<lparr>cl_kem_key := None\<rparr>)\<rparr>,
    Some \<lparr>kb_enctype = dk_enctype derived, kb_contents = dk_key_data derived\<rparr>, Inr [])"
  proof (rule process_delivered[OF assms(15) r(1) _ assms(5) pend])
    show "pa_contents rep \<noteq> []" using o by (auto simp: is_kem_rep_def)
  qed (use o t in \<open>simp add: process_as_rep_def process_kem_rep_def\<close>)
  with r(2) show ?thesis by blast
qed

section \<open>Properties\<close>

text \<open>C2: The two plugins end with the same reply key: whenever the client's plugin sent a KEM request,
  the KDC's plugin accepted exactly it and answered, and libkrb5 delivers the answer, then the
  client's plugin, if it trusts the KDC's certificate, accepts the answer and installs the very
  key that the KDC's plugin put in place of its own; the decapsulation key is gone.\<close>
theorem plugin_key_agreement:
  assumes "exchange_ok E" "same_libraries E K" "px_krb5 D = px_krb5 C"
    and "process C F P E W cb cp rq = (cp1, none, Inr [pa])" "cp_state cp1 = Some t"
    and "cl_key_exchange t = Some (KexKem alg)" "signer_ok E (cl_identity t)"
    and "kdc_verify D K k pa vcb = (inds, VOk v)"
    and "rq_padata_type rr = Some PA_PK_AS_REQ" "rq_modreq rr = Some v"
    and "return_padata D K k rr kcb = (eff, Inr (Some rep))" "length (pa_contents rep) < 2 ^ 32"
    and "signer_ok E (ks_identity (kp_state k))" "kdc_trusted E t (ks_identity (kp_state k))"
    and "delivered C rq rr kcb rep cb2 rq2"
  shows "\<exists>key. re_reply_key eff = Some key \<and>
    process C F P E W cb2 cp1 rq2 = (cp1\<lparr>cp_state := Some (t\<lparr>cl_kem_key := None\<rparr>)\<rparr>, Some key, Inr [])"
  by (rule plugin_reply_installed[OF assms])

end
