(* ===== verification/Negotiation.thy ===== *)
theory Negotiation
  imports Exchange
begin

text \<open>
  How client and KDC agree on an algorithm: the KDC's hint before the first request and the
  typed data of its refusal (\<open>acceptable_key_establishment_alg_ids\<close> of \<open>server.rs\<close>), as the client
  reads them (\<open>process_pkinit_hint\<close> and \<open>handle_tryagain_typed_data\<close> of \<open>client.rs\<close>).
\<close>

text \<open>
  What the libraries must do for it: an algorithm identifier put into the typed data is read
  back, and the parameters of a group survive their encoding.
\<close>

definition negotiation_ok :: "pkinit_env \<Rightarrow> bool" where
  "negotiation_ok E \<longleftrightarrow> oids_ok (pe_oids E) \<and> codec_ok (pe_codec E) \<and> dh_codec_ok (pe_codec E) (pe_dh E) \<and>
     (\<forall>d e. element_from_der (pe_codec E) d = Inr e \<longrightarrow> is_ok (element_to_der (pe_codec E) e)) \<and>
     (\<forall>c\<in>{SECP256R1, SECP384R1, SECP521R1}.
        is_ok (element_to_der (pe_codec E) (element_of_oid (pe_dh E) (pe_oids E c)))) \<and>
     (\<forall>ids d. enc_td_dh_parameters (pe_msgs E) ids = Inr d \<longrightarrow>
        (\<exists>elems. dec_td_dh_parameters (pe_msgs E) d = Inr elems \<and>
           list_all2 (\<lambda>aid e. \<exists>b. element_to_der (pe_codec E) e = Inr b \<and>
             dec_alg_id (cv_cms (pe_crypto E)) b = Inr aid) ids elems))"

section \<open>What the client sees of the KDC's list\<close>

definition client_view :: "client_state \<Rightarrow> kdc_config \<Rightarrow> offered list" where
  "client_view s cfg = map OfferedKem (advertised_kems cfg) @
     map OfferedDh (filter (\<lambda>g. is_ec g \<or> cc_dh_min_bits (cl_config s) \<le> min_bits g) (advertised_groups cfg))"

lemma kem_offer:
  assumes "negotiation_ok E" "pe_crypto K = pe_crypto E" "kem_algorithm_identifier K a = Inr aid"
  shows "offered_algorithm (pe_codec E) aid = Inr (kem_oid (pe_oids E) a, None) \<and>
    recognize E s (kem_oid (pe_oids E) a, None) = Some (OfferedKem a)"
proof -
  have ok: "oids_ok (pe_oids E)" "codec_ok (pe_codec E)" using assms(1) by (simp_all add: negotiation_ok_def)
  from assms obtain o1 where o1: "oid_new (pe_codec E) (kem_oid (pe_oids E) a) = Inr o1"
    "aid = \<lparr>ai_oid = o1, ai_params = None\<rparr>"
    by (auto simp: kem_algorithm_identifier_def res)
  then show ?thesis
    using codec_okD(4)[OF ok(2) o1(1)] ok(1) by (simp add: offered_algorithm_def recognize_def)
qed

lemma kem_offers:
  assumes "negotiation_ok E" "pe_crypto K = pe_crypto E" "traverse (kem_algorithm_identifier K) algs = Inr ids"
  shows "\<exists>adv. traverse (offered_algorithm (pe_codec E)) ids = Inr adv \<and>
    List.map_filter (recognize E s) adv = map OfferedKem algs"
  using assms(3)
proof (induction algs arbitrary: ids)
  case (Cons a algs)
  then obtain aid rest where R: "kem_algorithm_identifier K a = Inr aid"
    "traverse (kem_algorithm_identifier K) algs = Inr rest" "ids = aid # rest"
    by (auto simp: res)
  from kem_offer[OF assms(1,2) R(1), of s] Cons.IH[OF R(2)] show ?case
    by (auto simp: R(3) List.map_filter_def)
qed (simp add: List.map_filter_def)

lemma group_offer:
  assumes "negotiation_ok E" "pe_crypto K = pe_crypto E" "pe_dh K = pe_dh E" "group_algorithm_identifier K g = Inr aid"
  shows "\<exists>o1 d. offered_algorithm (pe_codec E) aid = Inr (o1, Some d) \<and>
    recognize E s (o1, Some d) = (if is_ec g \<or> cc_dh_min_bits (cl_config s) \<le> min_bits g then Some (OfferedDh g) else None)"
proof -
  have ok: "oids_ok (pe_oids E)" "codec_ok (pe_codec E)" "dh_codec_ok (pe_codec E) (pe_dh E)"
    "\<And>d e. element_from_der (pe_codec E) d = Inr e \<Longrightarrow> is_ok (element_to_der (pe_codec E) e)"
    "\<And>c. group_curve g = Some c \<Longrightarrow> is_ok (element_to_der (pe_codec E) (element_of_oid (pe_dh E) (pe_oids E c)))"
    using assms(1) by (cases g; simp add: negotiation_ok_def group_curve_def)+
  from assms obtain o1 ps o2 where A:
    "group_algorithm_oid_and_params (pe_oids E) (pe_codec E) (pe_dh E) g = Inr (o1, ps)"
    "oid_new (pe_codec E) o1 = Inr o2" "aid = \<lparr>ai_oid = o2, ai_params = ps\<rparr>"
    by (auto simp: group_algorithm_identifier_def res)
  have o2: "o2 = o1" using codec_okD(4)[OF ok(2)] A(2) by blast
  obtain e where "ps = Some e" "is_ok (element_to_der (pe_codec E) e)"
  proof (cases "group_curve g")
    case None
    with A(1) obtain p e where "ps = Some e" "element_from_der (pe_codec E) p = Inr e"
      by (auto simp: group_algorithm_oid_and_params_def res)
    with ok(4) that show ?thesis by blast
  next
    case (Some c)
    with A(1) codec_okD(4)[OF ok(2)] have "ps = Some (element_of_oid (pe_dh E) (pe_oids E c))"
      by (auto simp: group_algorithm_oid_and_params_def res)
    with ok(5)[OF Some] that show ?thesis by blast
  qed
  then obtain d where e: "ps = Some e" "element_to_der (pe_codec E) e = Inr d" by (auto simp: is_ok_iff)
  from A(1) have "o1 \<in> {pe_oids E ID_EC_PUBLIC_KEY, pe_oids E DHPUBLICNUMBER}"
    by (auto simp: group_algorithm_oid_and_params_def res split: option.splits)
  then have "kem_from_oid (pe_oids E) o1 = None" using ok(1) by (auto simp: kem_from_oid_def)
  moreover have "offered_algorithm (pe_codec E) aid = Inr (o1, Some d)"
    using A(3) e o2 by (simp add: offered_algorithm_def)
  ultimately show ?thesis
    using group_identifier_roundtrip[OF ok(1-3), of g o1 e d] A(1) e by (simp add: recognize_def)
qed

lemma group_offers:
  assumes "negotiation_ok E" "pe_crypto K = pe_crypto E" "pe_dh K = pe_dh E"
    and "traverse (group_algorithm_identifier K) gs = Inr ids"
  shows "\<exists>adv. traverse (offered_algorithm (pe_codec E)) ids = Inr adv \<and> List.map_filter (recognize E s) adv =
    map OfferedDh (filter (\<lambda>g. is_ec g \<or> cc_dh_min_bits (cl_config s) \<le> min_bits g) gs)"
  using assms(4)
proof (induction gs arbitrary: ids)
  case (Cons g gs)
  then obtain aid rest where R: "group_algorithm_identifier K g = Inr aid"
    "traverse (group_algorithm_identifier K) gs = Inr rest" "ids = aid # rest"
    by (auto simp: res)
  from group_offer[OF assms(1-3) R(1), of s] Cons.IH[OF R(2)] show ?case
    by (auto simp: R(3) List.map_filter_def)
qed (simp add: List.map_filter_def)

text \<open>The client recognizes exactly the KDC's algorithms, in the KDC's order, but for classic groups
  that are too short for it.\<close>

lemma kdc_offers:
  assumes "negotiation_ok E" "same_libraries E K" "acceptable_key_establishment_alg_ids K cfg = Inr ids"
  shows "\<exists>adv. traverse (offered_algorithm (pe_codec E)) ids = Inr adv \<and>
    List.map_filter (recognize E s) adv = client_view s cfg"
proof -
  have lib: "pe_crypto K = pe_crypto E" "pe_dh K = pe_dh E" using assms(2) by (simp_all add: same_libraries_def)
  from assms(3) obtain ks gs where I: "traverse (kem_algorithm_identifier K) (advertised_kems cfg) = Inr ks"
    "traverse (group_algorithm_identifier K) (advertised_groups cfg) = Inr gs" "ids = ks @ gs"
    by (auto simp: acceptable_key_establishment_alg_ids_def res)
  from kem_offers[OF assms(1) lib(1) I(1), of s] group_offers[OF assms(1) lib I(2), of s] I(3) show ?thesis
    by (auto simp: traverse_append client_view_def map_filter_def)
qed

lemma td_parsed:
  assumes "negotiation_ok E" "enc_td_dh_parameters (pe_msgs E) ids = Inr d"
  shows "parse_td_offered E d = traverse (offered_algorithm (pe_codec E)) ids"
proof -
  from assms obtain elems where "dec_td_dh_parameters (pe_msgs E) d = Inr elems"
    and "list_all2 (\<lambda>aid e. \<exists>b. element_to_der (pe_codec E) e = Inr b \<and>
      dec_alg_id (cv_cms (pe_crypto E)) b = Inr aid) ids elems"
    unfolding negotiation_ok_def by blast
  moreover from this(2) have "traverse (\<lambda>elem.
       rbind (asn1 ''encode AlgorithmIdentifier'' (element_to_der (pe_codec E) elem)) (\<lambda>elem_der.
       rbind (asn1 ''decode AlgorithmIdentifier'' (dec_alg_id (cv_cms (pe_crypto E)) elem_der)) (\<lambda>aid.
         offered_algorithm (pe_codec E) aid))) elems = traverse (offered_algorithm (pe_codec E)) ids"
    by induction auto
  ultimately show ?thesis by (simp add: parse_td_offered_def)
qed

section \<open>Agreement\<close>

lemma advertised_accepted:
  assumes "kdc_new K ident store cfg = Inr k" "kem_lists_ok cfg" "alg \<in> set (advertised_kems (ks_config k))"
  shows "accepts_kem k alg"
  using kem_lists_ok_effective[OF assms(2)] assms(3)
  by (auto simp: kem_lists_ok_def list_all_iff accepts_kem_def advertised_kems_set kdc_new_config[OF assms(1)])

text \<open>The key exchange of the client's next request is one the KDC takes.\<close>

definition kdc_serves :: "kdc_state \<Rightarrow> client_state \<Rightarrow> bool" where
  "kdc_serves k s \<longleftrightarrow>
     (case cc_kem_algorithm (cl_config s) of
        Some alg \<Rightarrow> accepts_kem k alg
      | None \<Rightarrow> \<not> kc_require_kem (ks_config k) \<and>
          (is_ec (cc_dh_group (cl_config s)) \<or> kc_dh_min_bits (ks_config k) \<le> min_bits (cc_dh_group (cl_config s))))"

lemma served_offer:
  assumes "kdc_new K ident store cfg = Inr k" "kem_lists_ok cfg" "off \<in> set (client_view s (ks_config k))"
  shows "kdc_serves k (apply_offer s off)"
  using assms advertised_accepted[OF assms(1,2)]
  by (auto simp: client_view_def kdc_serves_def apply_offer_def set_kem_algorithm_def set_dh_group_def
      advertised_groups_def split: if_splits)

lemma find_None_accepts: "List.find P xs = None \<longleftrightarrow> (\<forall>x\<in>set xs. \<not> P x)"
  by (auto simp: find_None_iff)

lemma hint_agreement:
  assumes "negotiation_ok E" "same_libraries E K" "kdc_new K ident store cfg = Inr k" "kem_lists_ok cfg"
    and "build_supported_algorithms_hint k = Some h" "length h < 2 ^ 32" "process_pkinit_hint E s h = (t, r)"
  shows "if \<exists>off\<in>set (client_view s (ks_config k)). accepts E s off then r = Inr () \<and> kdc_serves k t
    else t = s \<and> (\<exists>e. r = Inl (NoAcceptableKeyExchange e))"
proof -
  have lib: "pe_crypto K = pe_crypto E" using assms(2) by (simp add: same_libraries_def)
  have codec: "codec_ok (pe_codec E)" using assms(1) by (simp add: negotiation_ok_def)
  from assms(3,5) obtain ids where ids: "acceptable_key_establishment_alg_ids K (ks_config k) = Inr ids" "ids \<noteq> []"
    "encode_pkinit_hint_alg_ids (pe_codec E) ids = Inr h"
    by (auto simp: kdc_new_def Let_def res build_supported_algorithms_hint_def make_supported_algorithms_hint_def lib
        split: if_splits)
  from kdc_offers[OF assms(1,2) ids(1), of s] obtain adv where
    adv: "traverse (offered_algorithm (pe_codec E)) ids = Inr adv"
      "List.map_filter (recognize E s) adv = client_view s (ks_config k)" by blast
  have parsed: "parse_pkinit_hint (pe_codec E) h = Inr adv"
    using pkinit_hint_roundtrip[OF codec ids(3) assms(6)] adv(1) by simp
  have "adv \<noteq> []" using traverse_length[OF adv(1)] ids(2) by auto
  show ?thesis
  proof (cases "\<exists>current. cc_kem_algorithm (cl_config s) = Some current \<and>
      OfferedKem current \<in> set (client_view s (ks_config k)) \<and> accepts E s (OfferedKem current)")
    case True
    then obtain current where C: "cc_kem_algorithm (cl_config s) = Some current"
      "OfferedKem current \<in> set (client_view s (ks_config k))" "accepts E s (OfferedKem current)" by blast
    then have "(t, r) = (s, Inr ())"
      using assms(7) parsed \<open>adv \<noteq> []\<close> adv(2) by (simp add: process_pkinit_hint_def Let_def)
    moreover have "current \<in> set (advertised_kems (ks_config k))" using C(2) by (auto simp: client_view_def)
    from advertised_accepted[OF assms(3,4) this] have "kdc_serves k s" using C(1) by (simp add: kdc_serves_def)
    ultimately show ?thesis using C(2,3) by auto
  next
    case False
    then have "(t, r) = (case List.find (accepts E s) (client_view s (ks_config k)) of
         Some off \<Rightarrow> (apply_offer s off, Inr ())
       | None \<Rightarrow> (s, Inl (NoAcceptableKeyExchange
           ''the KDC advertised no key-establishment algorithm acceptable to the client'')))"
      using assms(7) parsed \<open>adv \<noteq> []\<close> adv(2)
      by (auto simp: process_pkinit_hint_def Let_def split: option.splits)
    then show ?thesis
      using served_offer[OF assms(3,4)]
      by (cases "List.find (accepts E s) (client_view s (ks_config k))")
        (auto simp: find_None_accepts dest: find_SomeD)
  qed
qed

lemma retry_agreement:
  assumes "negotiation_ok E" "same_libraries E K" "kdc_new K ident store cfg = Inr k" "kem_lists_ok cfg"
    and "handle_tryagain_typed_data E s [(TD_DH_PARAMETERS (pe_msgs E), build_td_ephemeral_key_params k)] = (t, r)"
  shows "if \<exists>off\<in>set (client_view s (ks_config k)). accepts E s off \<and> Some off \<noteq> map_option offered_of_kex (cl_key_exchange s)
    then (\<exists>a. r = Inr a \<and> a \<in> range RetryWithKemAlgorithm \<union> range RetryWithDhParams) \<and> kdc_serves k t
    else t = s \<and> \<not> is_ok r"
proof -
  have lib: "pe_msgs K = pe_msgs E" using assms(2) by (simp add: same_libraries_def)
  from assms(3) obtain ids where ids: "acceptable_key_establishment_alg_ids K (ks_config k) = Inr ids"
    "enc_td_dh_parameters (pe_msgs E) ids = Inr (build_td_ephemeral_key_params k)"
    by (auto simp: kdc_new_def Let_def res build_td_ephemeral_key_params_def make_td_ephemeral_key_params_def lib asn1_eq)
  from kdc_offers[OF assms(1,2) ids(1), of s] obtain adv where
    adv: "traverse (offered_algorithm (pe_codec E)) ids = Inr adv"
      "List.map_filter (recognize E s) adv = client_view s (ks_config k)" by blast
  have "parse_td_offered E (build_td_ephemeral_key_params k) = Inr adv"
    using td_parsed[OF assms(1) ids(2)] adv(1) by simp
  moreover define offers where "offers = filter (\<lambda>off. Some off \<noteq> map_option offered_of_kex (cl_key_exchange s))
    (client_view s (ks_config k))"
  ultimately have found: "List.find (accepts E s) offers = Some off \<Longrightarrow> (t, r) = (apply_offer s off,
      Inr (case off of OfferedKem alg \<Rightarrow> RetryWithKemAlgorithm alg | OfferedDh grp \<Rightarrow> RetryWithDhParams grp))"
    and none: "List.find (accepts E s) offers = None \<Longrightarrow> t = s \<and> \<not> is_ok r" for off
    using assms(5) adv(2) by (auto simp: retry_key_parameters_def Let_def split: if_splits)
  show ?thesis
  proof (cases "List.find (accepts E s) offers")
    case None
    then show ?thesis using none by (auto simp: find_None_accepts offers_def)
  next
    case (Some off)
    then have o: "off \<in> set (client_view s (ks_config k))" "accepts E s off"
      "Some off \<noteq> map_option offered_of_kex (cl_key_exchange s)"
      by (auto simp: offers_def dest: find_SomeD)
    with found[OF Some] served_offer[OF assms(3,4) o(1)] show ?thesis by (cases off) auto
  qed
qed

text \<open>C3: Client and KDC find a common algorithm whenever they have one, and in one exchange of messages:
  if the client's policy accepts some algorithm that the KDC advertises (a classic group only if
  it is long enough for the client), then after the KDC's hint the client's next request uses an
  algorithm the KDC takes, and after the KDC's refusal of another algorithm so does the retry;
  otherwise the client keeps its state and reports that there is none, and never tries an
  algorithm the KDC did not offer.\<close>
theorem negotiation_agreement:
  assumes "negotiation_ok E" "same_libraries E K" "kdc_new K ident store cfg = Inr k" "kem_lists_ok cfg"
  shows "(build_supported_algorithms_hint k = Some h \<longrightarrow> length h < 2 ^ 32 \<longrightarrow> process_pkinit_hint E s h = (t, r) \<longrightarrow>
      (if \<exists>off\<in>set (client_view s (ks_config k)). accepts E s off then r = Inr () \<and> kdc_serves k t
       else t = s \<and> (\<exists>e. r = Inl (NoAcceptableKeyExchange e)))) \<and>
    (handle_tryagain_typed_data E s [(TD_DH_PARAMETERS (pe_msgs E), build_td_ephemeral_key_params k)] = (t2, r2) \<longrightarrow>
      (if \<exists>off\<in>set (client_view s (ks_config k)). accepts E s off \<and> Some off \<noteq> map_option offered_of_kex (cl_key_exchange s)
       then (\<exists>a. r2 = Inr a \<and> a \<in> range RetryWithKemAlgorithm \<union> range RetryWithDhParams) \<and> kdc_serves k t2
       else t2 = s \<and> \<not> is_ok r2))"
  by (intro conjI impI; rule hint_agreement[OF assms] retry_agreement[OF assms]; assumption)

end
