(* ===== verification/Plugin_Runs.thy ===== *)
theory Plugin_Runs
  imports Runs Plugin_Exchange Negotiation
begin

text \<open>
  One exchange through the two plugins, on the concrete libraries of \<open>Messages\<close>: both start from
  \<open>krb5.conf\<close> relations and files, the client's plugin sends the ML-KEM-768 request, the KDC's
  plugin verifies it and answers, and the client's plugin installs the key.  The properties of
  the plugins and of the negotiation are applied to it.
\<close>

section \<open>One machine\<close>

definition demo_plugin_relations :: relations where
  "demo_plugin_relations = \<lparr>
     rel_values = (\<lambda>p.
       if p = [''libdefaults'', ''pkinit_identities''] then [''FILE:cc.pem,ck.pem'']
       else if p = [''kdcdefaults'', ''pkinit_identity''] then [''FILE:kc.pem,kk.pem'']
       else if p = [''kdcdefaults'', ''pkinit_require_kem''] then [''true'']
       else if p \<in> {[''libdefaults'', ''pkinit_anchors''], [''kdcdefaults'', ''pkinit_anchors'']} then [''FILE:a.pem'']
       else if p \<in> {[''libdefaults'', ''pkinit_pqc_min_algorithm''], [''kdcdefaults'', ''pkinit_pqc_min_algorithm'']}
         then [''ML-KEM-768'']
       else []),
     rel_bool = (\<lambda>v. if v = ''true'' then Some True else if v = ''false'' then Some False else None),
     rel_int = (\<lambda>v. map_option word_of_nat (parse_unsigned 10 32 v))\<rparr>"

definition demo_files :: os_ops where
  "demo_files = demo_os\<lparr>fs_read := (\<lambda>p. if p = ''cc.pem'' then Inr [1] else if p = ''ck.pem'' then Inr [2]
     else if p = ''kc.pem'' then Inr [3] else if p = ''kk.pem'' then Inr [4] else if p = ''a.pem'' then Inr [3]
     else Inl ''not found'')\<rparr>"

definition demo_keys :: pki_ops where
  "demo_keys = demo_pki\<lparr>read_pki_blocks := (\<lambda>d. if d = [1] then Inr [(''CERTIFICATE'', demo_client_cert)]
     else if d = [2] then Inr [(''PRIVATE KEY'', [2])] else if d = [3] then Inr [(''CERTIFICATE'', demo_kdc_cert)]
     else if d = [4] then Inr [(''PRIVATE KEY'', [1])] else Inl ''no PEM'')\<rparr>"

definition demo_machine :: plugin_ctx where
  "demo_machine = demo_ctx\<lparr>px_profile := Inr (profile_of demo_plugin_relations), px_realm := Some ''R''\<rparr>"

definition demo_user :: principal where
  "demo_user = \<lparr>pr_realm = ''R'', pr_components = [''u'']\<rparr>"

definition demo_tgs :: principal where
  "demo_tgs = \<lparr>pr_realm = ''R'', pr_components = [''krbtgt/R'']\<rparr>"

definition demo_kdc_request :: kdc_request where
  "demo_kdc_request = \<lparr>kr_client = Some demo_user, kr_server = Some demo_tgs, kr_nonce = 7\<rparr>"

definition demo_clcb :: clpreauth_callbacks where
  "demo_clcb = \<lparr>lb_ask_responder_question = (\<lambda>_ _. Inr ()), lb_get_responder_answer = (\<lambda>_. None),
     lb_get_preauth_time = Inr (1000, 0), lb_get_etype = 18, lb_set_as_key = (\<lambda>_. Inr ())\<rparr>"

definition demo_kdccb :: kdc_callbacks where
  "demo_kdccb = \<lparr>cb_max_time_skew = 300, cb_time_since_epoch = Inr 1100, cb_client_name_principal = Some demo_user,
     cb_client_name_string = Some ''u@R'', cb_fast_armor = None, cb_replace_reply_key = (\<lambda>_. Inr ())\<rparr>"

section \<open>The client's plugin starts\<close>

definition demo_cfg :: client_config where
  "demo_cfg = fst (read_client_config (profile_of demo_plugin_relations) (Some ''R'') client_config_default)"

lemma demo_kem_768: "kem_from_name ''ML-KEM-768'' = Some MlKem768"
  by code_simp

lemma demo_cfg:
  "cc_identity demo_cfg = Some ''FILE:cc.pem,ck.pem''"
  "cc_anchors demo_cfg = [''FILE:a.pem'']" "cc_kem_algorithm demo_cfg = Some MlKem768"
  "\<not> cc_require_kem demo_cfg" "\<not> cc_kdc_trust_tofu demo_cfg"
  by (simp_all add: demo_cfg_def read_client_config_def Let_def lookups_effective[OF profile_of_ok] effective_def places_def
      effective_typed_def typed_value_def demo_plugin_relations_def first_value_def parse_kem_algorithm_def demo_kem_768
      client_config_default_def or_keep_def)

lemma demo_client_read:
  "read_client_config (profile_of demo_plugin_relations) (Some ''R'') client_config_default = (demo_cfg, Inr ())"
  by (rule prod_eqI) (simp_all add: demo_cfg_def, simp_all add: read_client_config_def Let_def
      lookups_effective[OF profile_of_ok] effective_def places_def demo_plugin_relations_def first_value_def
      parse_kem_algorithm_def demo_kem_768)

lemma demo_loads:
  "load_anchors demo_files demo_keys trust_store_new [''FILE:a.pem''] = Inr demo_store"
  "rbind (identity_source_parse ''FILE:cc.pem,ck.pem'') (identity_load demo_files demo_keys) = Inr demo_client_identity"
  "rbind (identity_source_parse ''FILE:kc.pem,kk.pem'') (identity_load demo_files demo_keys) = Inr demo_kdc_identity"
  by code_simp+

definition demo_started :: client_state where
  "demo_started = set_is_anonymous (set_kdc_identity
     (client_new demo_client_identity demo_store demo_cfg) ''krbtgt/R@R'' None) False"

definition demo_cp :: client_plugin where
  "demo_cp = \<lparr>cp_state = Some demo_started, cp_config = demo_cfg, cp_pending = None\<rparr>"

lemma demo_init:
  "init_etype_info demo_machine demo_files demo_keys W cb client_init_module demo_kdc_request = (demo_cp, None, Inr ())"
proof -
  obtain src where src: "identity_source_parse ''FILE:cc.pem,ck.pem'' = Inr src"
    "identity_load demo_files demo_keys src = Inr demo_client_identity"
    using demo_loads(2) by (auto simp: res)
  have n: "px_unparse demo_machine demo_tgs = Inr ''krbtgt/R@R''" "\<not> is_anonymous demo_user"
    "px_profile demo_machine = Inr (profile_of demo_plugin_relations)" "px_realm demo_machine = Some ''R''"
    by (simp_all add: demo_machine_def demo_ctx_def demo_tgs_def demo_user_def is_anonymous_def)
  show ?thesis
    using demo_cfg
    by (simp add: init_etype_info_def client_init_module_def n demo_client_read demo_kdc_request_def demo_loads(1)
        load_configured_identity_def src build_client_def demo_cp_def demo_started_def Let_def
        del: load_anchors.simps)
qed

lemma demo_reachable: "plugin_reachable V demo_files demo_keys demo_cp"
  unfolding plugin_reachable_def by (intro r_into_rtranclp plugin_step.Init[OF demo_init])

lemma demo_started_fields:
  "cl_identity demo_started = demo_client_identity" "cl_trust_store demo_started = demo_store"
  "cl_config demo_started = demo_cfg" "cl_freshness_token demo_started = None"
  "cl_kdc_principal demo_started = Some ''krbtgt/R@R''" "cl_kdc_hostname demo_started = None"
  "cl_broker demo_started = None" "\<not> cl_is_anonymous demo_started"
  using demo_cfg
  by (simp_all add: demo_started_def client_new_def set_kdc_identity_def set_is_anonymous_def)

section \<open>The request and its verification\<close>

definition demo_sent :: client_state where
  "demo_sent = demo_started\<lparr>cl_kem_key := Some \<lparr>kkp_algorithm = MlKem768, kkp_private_key = [9, 9, 9]\<rparr>,
     cl_key_exchange := Some (KexKem MlKem768)\<rparr>"

definition demo_as_req :: process_request where
  "demo_as_req = \<lparr>pq_request = demo_kdc_request,
     pq_pa_data = \<lparr>rpa_type = PA_PK_AS_REQ, rpa_length = 0, rpa_contents = None\<rparr>,
     pq_encoded_request_body = Some [1], pq_encoded_previous_request = None\<rparr>"

definition demo_pa :: pa_data where
  "demo_pa = \<lparr>pa_type = PA_PK_AS_REQ, pa_contents = [48, 48, 160, 77]\<rparr>"

lemma demo_process: "process demo_machine demo_files demo_keys demo_penv W demo_clcb demo_cp demo_as_req
    = (demo_cp\<lparr>cp_state := Some demo_sent\<rparr>, None, Inr [demo_pa])"
proof -
  have "build_as_req demo_penv demo_started 7 1000 0 [1] = (demo_sent, Inr [48, 48, 160, 77])"
    unfolding demo_sent_def by (rule demo_request_any) (simp_all add: demo_started_fields demo_cfg)
  then show ?thesis
    by (simp add: process_def finish_pending_pkcs12_def demo_cp_def demo_as_req_def process_pk_as_req_def pa_data_contents_def
        build_pa_pk_as_req_def demo_clcb_def demo_kdc_request_def demo_pa_def Let_def
        PA_PK_AS_REQ_def PA_PKINIT_KX_def PA_AS_FRESHNESS_def)
qed

lemma demo_kdc_verifies:
  assumes "ks_trust_store k = demo_store" "kc_require_crl_checking (ks_config k) = False"
    "kc_accept_secondary_eku (ks_config k) = False" "accepts_kem k MlKem768" "\<not> kc_require_freshness (ks_config k)"
  shows "verify_as_req demo_penv k [48, 48, 160, 77] None 300 1100 = Inr demo_verified"
proof -
  have "validate_chain (pe_chain demo_penv) demo_store demo_client_cert [demo_client_cert] False = Inr ()"
    "verify_client_eku (pe_oids demo_penv) (pe_x509 demo_penv) demo_client_cert False = Inr Authorized"
    "pe_oids demo_penv ID_ALG_HKDF_WITH_SHA512 = std_oids ID_ALG_HKDF_WITH_SHA512"
    "kem_public_key_spki_der (pe_kem demo_penv) \<lparr>kkp_algorithm = MlKem768, kkp_private_key = [9, 9, 9]\<rparr> = Inr [9, 9, 9]"
    "kem_generate (pe_kem demo_penv) MlKem768 (pe_keygen_seed demo_penv)
      = Inr \<lparr>kkp_algorithm = MlKem768, kkp_private_key = [9, 9, 9]\<rparr>"
    by code_simp+
  moreover from this assms have "client_trusted demo_penv k demo_client_identity"
    by (simp add: client_trusted_def demo_client_identity_def)
  ultimately show ?thesis
    using kem_request_accepted[OF demo_exchange_ok _ demo_request, of demo_penv MlKem768 k 1100 300] assms demo_signers(1)
    by (intro verify_without_body[of _ _ _ "[1]"])
      (auto simp: same_libraries_def demo_client_config demo_client_sent_def demo_verified_def demo_client_identity_def)
qed

definition demo_kp :: kdc_plugin where
  "demo_kp = \<lparr>kp_state = demo_kdc, kp_config = demo_kdc_config\<lparr>kc_auth_indicators := [''pkinit'']\<rparr>\<rparr>"

lemma demo_authorized:
  assumes "\<not> kc_allow_upn (kp_config k)"
  shows "authorize_client demo_machine demo_penv k demo_verified demo_kdccb = Inr ()"
proof -
  have "verify_client_san (pe_oids demo_penv) (pe_x509 demo_penv) demo_client_cert ''u@R'' False = Inr Authorized"
    by code_simp
  then show ?thesis
    using assms by (simp add: authorize_client_def demo_kdccb_def demo_verified_def demo_machine_def demo_ctx_def demo_user_def)
qed

lemma demo_time: "current_time demo_kdccb = 1100" "cb_max_time_skew demo_kdccb = 300"
  by (simp_all add: current_time_def demo_kdccb_def)

lemma demo_kdc_verify:
  "kdc_verify demo_machine demo_penv demo_kp demo_pa demo_kdccb = ([''pkinit''], VOk demo_verified)"
proof -
  have "verify_as_req demo_penv demo_kdc [48, 48, 160, 77] None 300 1100 = Inr demo_verified"
    by (rule demo_kdc_verifies) (use demo_kdc_accepts in \<open>simp_all add: demo_kdc_def demo_kdc_config_def kdc_config_default_def\<close>)
  moreover have "\<not> vr_is_anonymous demo_verified" by (simp add: demo_verified_def)
  moreover have "kp_state demo_kp = demo_kdc" "pa_contents demo_pa = [48, 48, 160, 77]"
    "kc_auth_indicators (kp_config demo_kp) = [''pkinit'']" "\<not> kc_allow_upn (kp_config demo_kp)"
    by (simp_all add: demo_kp_def demo_pa_def demo_kdc_config_def kdc_config_default_def)
  ultimately show ?thesis
    unfolding kdc_verify_ok by (simp add: demo_time demo_authorized)
qed

section \<open>The answer\<close>

definition demo_return :: return_request where
  "demo_return = \<lparr>rq_padata_type = Some PA_PK_AS_REQ, rq_modreq = Some demo_verified, rq_request_packet = [3],
     rq_server = Some (Some demo_tgs), rq_encrypting_key = None, rq_reply = None\<rparr>"

definition demo_answer :: pa_data where
  "demo_answer = \<lparr>pa_type = PA_PK_AS_REP, pa_contents = [162, 4, 48, 48, 160, 78]\<rparr>"

lemma demo_return_padata:
  "\<exists>key. return_padata demo_machine demo_penv demo_kp demo_return demo_kdccb
     = (\<lparr>re_reply_key = Some key, re_session = None\<rparr>, Inr (Some demo_answer))"
proof -
  have "pkinit_kem_kdf (pe_codec demo_penv) (pe_kdf demo_penv) \<lparr>kki_shared_secret = [5, 5, 5, 5],
       kki_enctype = 18, kki_as_req_der = [3], kki_kem_signed_data = [48, 160, 78]\<rparr> (krb5_o2k demo_krb5) = Inr demo_key"
    by (simp add: pkinit_kem_kdf_def krb5_o2k_def krb5_random_length_def krb5_random_to_key_def krb5_key_length_def
        demo_krb5_def overwrite_def demo_penv_def demo_crypto_def demo_pcodec_def demo_kdf_def asn1_def demo_key_def)
  from demo_kem_rep_any[OF _ this, of demo_kdc] show ?thesis
    by (simp add: return_padata_def return_pkinit_dh_def demo_return_def demo_kp_def demo_kdccb_def demo_machine_def
        demo_ctx_def demo_tgs_def demo_answer_def demo_verified_def ENCTYPE_AES256_CTS_HMAC_SHA1_96_def demo_kdc_def)
qed

definition demo_as_rep :: process_request where
  "demo_as_rep = \<lparr>pq_request = demo_kdc_request,
     pq_pa_data = \<lparr>rpa_type = PA_PK_AS_REP, rpa_length = 6, rpa_contents = Some [162, 4, 48, 48, 160, 78]\<rparr>,
     pq_encoded_request_body = None, pq_encoded_previous_request = Some [3]\<rparr>"

lemma demo_delivered: "delivered demo_machine demo_as_req demo_return demo_kdccb demo_answer demo_clcb demo_as_rep"
  by (simp add: delivered_def demo_as_rep_def demo_answer_def pa_data_contents_def demo_as_req_def demo_return_def
      demo_clcb_def demo_kdccb_def demo_kdc_request_def demo_machine_def demo_ctx_def ENCTYPE_AES256_CTS_HMAC_SHA1_96_def)

lemma demo_sent_trusts: "kdc_trusted demo_penv demo_sent demo_kdc_identity"
proof -
  have c: "validate_kdc_chain demo_penv demo_sent c cs = validate_kdc_chain demo_penv demo_client_sent c cs"
    if "validate_chain (pe_chain demo_penv) demo_store c cs False = Inr ()" for c cs
    using that by (simp add: validate_kdc_chain_def demo_sent_def demo_started_fields demo_client_sent_def demo_client_config)
  have "validate_chain (pe_chain demo_penv) demo_store demo_kdc_cert [demo_kdc_cert] False = Inr ()" by code_simp
  from c[OF this] demo_kdc_trusted show ?thesis
    by (simp add: kdc_trusted_def demo_kdc_identity_def has_pq_certificate_def demo_sent_def demo_started_fields
        demo_client_sent_def demo_client_config)
qed

theorem plugin_key_agreement_witness:
  "\<exists>key. snd (process demo_machine demo_files demo_keys demo_penv demo_wire demo_clcb (demo_cp\<lparr>cp_state := Some demo_sent\<rparr>)
     demo_as_rep) = (Some key, Inr []) \<and>
   re_reply_key (fst (return_padata demo_machine demo_penv demo_kp demo_return demo_kdccb)) = Some key"
proof -
  obtain key where r: "return_padata demo_machine demo_penv demo_kp demo_return demo_kdccb
      = (\<lparr>re_reply_key = Some key, re_session = None\<rparr>, Inr (Some demo_answer))"
    using demo_return_padata by blast
  show ?thesis
    using plugin_key_agreement[OF demo_exchange_ok _ _ demo_process[of demo_wire] _ _ _ demo_kdc_verify _ _ r _ _ _ demo_delivered]
      demo_signers demo_sent_trusts r
    by (auto simp: same_libraries_def demo_return_def demo_answer_def demo_kp_def demo_kdc_def demo_sent_def demo_started_fields)
qed

theorem ticket_only_for_named_principal_witness:
  "\<exists>sans. extract_pkinit_sans (pe_oids demo_penv) (pe_x509 demo_penv) demo_client_cert = Inr sans \<and> ''u@R'' \<in> set sans"
proof -
  have "kc_allow_upn (kp_config demo_kp) = False" "vr_is_anonymous demo_verified = False"
    "vr_client_cert_der demo_verified = demo_client_cert"
    "\<And>n. px_unparse demo_machine demo_user = Inr n \<Longrightarrow> n = ''u@R''" "cb_client_name_principal demo_kdccb = Some demo_user"
    by (simp_all add: demo_kp_def demo_kdc_config_def kdc_config_default_def demo_verified_def demo_machine_def
        demo_ctx_def demo_user_def demo_kdccb_def)
  then show ?thesis using ticket_only_for_named_principal[OF demo_kdc_verify] by auto
qed

section \<open>The client's properties\<close>

lemma demo_installs:
  "\<exists>key. process demo_machine demo_files demo_keys demo_penv demo_wire demo_clcb (demo_cp\<lparr>cp_state := Some demo_sent\<rparr>)
     demo_as_rep = (demo_cp\<lparr>cp_state := Some (demo_sent\<lparr>cl_kem_key := None\<rparr>)\<rparr>, Some key, Inr [])"
proof -
  obtain key where r: "return_padata demo_machine demo_penv demo_kp demo_return demo_kdccb
      = (\<lparr>re_reply_key = Some key, re_session = None\<rparr>, Inr (Some demo_answer))"
    using demo_return_padata by blast
  show ?thesis
    using plugin_reply_installed[OF demo_exchange_ok _ _ demo_process[of demo_wire] _ _ _ demo_kdc_verify _ _ r _ _ _ demo_delivered]
      demo_signers demo_sent_trusts
    by (auto simp: same_libraries_def demo_return_def demo_answer_def demo_kp_def demo_kdc_def demo_sent_def demo_started_fields)
qed

lemma demo_sent_reachable:
  "plugin_reachable (pe_crypto demo_penv) demo_files demo_keys (demo_cp\<lparr>cp_state := Some demo_sent\<rparr>)"
  using demo_reachable[of "pe_crypto demo_penv"] plugin_step.Process[OF refl demo_process]
  unfolding plugin_reachable_def by (meson rtranclp.rtrancl_into_rtrancl)

theorem plugin_state_sound_witness:
  "read_block demo_files demo_keys ''CERTIFICATE'' demo_kdc_cert \<and> demo_kdc_cert \<in> set (ts_anchors (cl_trust_store demo_started))"
proof -
  have s: "cp_state demo_cp = Some demo_started" by (simp add: demo_cp_def)
  show ?thesis using plugin_state_sound[OF demo_reachable s] by (simp add: demo_started_fields demo_store_def)
qed

theorem as_key_only_from_trusted_kdc_witness:
  "\<exists>sd v. verify_signed_data (pe_crypto demo_penv) sd = Inr v \<and> vsd_content_type v = ID_PKINIT_KEM_KEY_DATA \<and>
     validate_kdc_chain demo_penv demo_sent (vsd_signer_cert_der v) (vsd_all_certs_der v) = Inr ()"
proof -
  obtain key cp' where p: "process demo_machine demo_files demo_keys demo_penv demo_wire demo_clcb (demo_cp\<lparr>cp_state := Some demo_sent\<rparr>)
     demo_as_rep = (cp', Some key, Inr [])" using demo_installs by blast
  have "finish_pending_pkcs12 demo_machine demo_files demo_keys demo_wire demo_clcb (demo_cp\<lparr>cp_state := Some demo_sent\<rparr>)
      = (demo_cp\<lparr>cp_state := Some demo_sent\<rparr>, Inr ())"
    by (simp add: finish_pending_pkcs12_def demo_cp_def)
  moreover have "is_kem_rep (pa_data_contents (pq_pa_data demo_as_rep))" by code_simp
  ultimately show ?thesis
    using as_key_only_from_trusted_kdc[OF demo_sent_reachable p exchange_okD(3)[OF demo_exchange_ok]] by auto
qed

lemma demo_no_identity:
  "\<exists>c. init_etype_info demo_ctx demo_files demo_keys W cb client_init_module demo_kdc_request
     = (\<lparr>cp_state = None, cp_config = c, cp_pending = None\<rparr>, None, Inr ())"
proof -
  obtain c where c: "read_client_config demo_profile (Some ''EXAMPLE.COM'') client_config_default = (c, Inr ())"
    using demo_read_client by (metis prod.collapse)
  then have "cc_identity c = None"
    by (auto simp: read_client_config_def Let_def lookups_effective[OF demo_profile_ok] effective_def places_def
        demo_relations_def first_value_def parse_kem_algorithm_def demo_kem_names client_config_default_def)
  with c show ?thesis
    by (simp add: init_etype_info_def client_init_module_def demo_ctx_def demo_kdc_request_def demo_user_def
        is_anonymous_def Let_def)
qed

theorem password_fallback_only_unconfigured_witness:
  "\<exists>cp. fst (init_etype_info demo_ctx demo_files demo_keys demo_wire demo_clcb client_init_module demo_kdc_request) = cp \<and>
     process demo_ctx demo_files demo_keys demo_penv demo_wire demo_clcb cp demo_as_req = (cp, None, Inl NoHandle)"
proof -
  obtain c where i: "init_etype_info demo_ctx demo_files demo_keys demo_wire demo_clcb client_init_module demo_kdc_request
     = (\<lparr>cp_state = None, cp_config = c, cp_pending = None\<rparr>, None, Inr ())" using demo_no_identity by blast
  have "rpa_type (pq_pa_data demo_as_req) = PA_PK_AS_REQ" by (simp add: demo_as_req_def)
  moreover have "cp_state client_init_module = None" "cp_pending client_init_module = None"
    by (simp_all add: client_init_module_def)
  ultimately show ?thesis
    using password_fallback_only_unconfigured[OF i, of demo_penv demo_clcb demo_as_req]
    by (simp add: i PA_PK_AS_REQ_def PA_PKINIT_KX_def PA_AS_FRESHNESS_def)
qed

section \<open>The KDC's properties\<close>

abbreviation demo_kdc_cfg :: kdc_config where
  "demo_kdc_cfg \<equiv> kdc_config_default\<lparr>kc_identity := Some ''FILE:kc.pem,kk.pem'', kc_anchors := [''FILE:a.pem''],
     kc_supported_kem_algorithms := [MlKem768, MlKem1024], kc_require_kem := True\<rparr>"

lemma demo_read_kdc_config:
  "read_kdc_config (profile_of demo_plugin_relations) ''R'' = Inr demo_kdc_cfg"
proof -
  have "algorithms_at_or_above MlKem768 = [MlKem768, MlKem1024]" by code_simp
  then show ?thesis
    by (simp add: read_kdc_config_def Let_def lookups_effective[OF profile_of_ok] effective_def places_def
      effective_typed_def typed_value_def demo_plugin_relations_def first_value_def parse_kem_algorithm_def demo_kem_768
      kdc_config_default_def or_keep_def eku_settings_def)
qed

lemma demo_kdc_init:
  "\<exists>k. kdc_init_module demo_machine demo_files demo_keys demo_penv [''R''] = Inr k \<and> kp_config k = demo_kdc_cfg \<and>
     ks_trust_store (kp_state k) = demo_store \<and> ks_config (kp_state k) = demo_kdc_cfg"
proof -
  have e: "effective_kdc_config demo_kdc_cfg = demo_kdc_cfg" by (simp add: effective_kdc_config_def)
  have "is_ok (make_supported_algorithms_hint demo_penv demo_kdc_cfg)" "is_ok (make_td_ephemeral_key_params demo_penv demo_kdc_cfg)"
    by code_simp+
  then obtain k where k: "kdc_new demo_penv demo_kdc_identity demo_store demo_kdc_cfg = Inr k"
    "ks_trust_store k = demo_store" "ks_config k = demo_kdc_cfg"
    by (auto simp: kdc_new_def e is_ok_iff)
  obtain src where src: "identity_source_parse ''FILE:kc.pem,kk.pem'' = Inr src"
    "identity_load demo_files demo_keys src = Inr demo_kdc_identity"
    using demo_loads(3) by (auto simp: res)
  have "px_profile demo_machine = Inr (profile_of demo_plugin_relations)" by (simp add: demo_machine_def)
  then show ?thesis
    using k by (simp add: kdc_init_module_def demo_read_kdc_config src demo_loads(1) del: load_anchors.simps)
qed

theorem profile_policy_binds_kdc_witness:
  "\<exists>k v alg. kdc_init_module demo_machine demo_files demo_keys demo_penv [''R''] = Inr k \<and>
     kdc_verify demo_machine demo_penv k demo_pa demo_kdccb = ([], VOk v) \<and> vr_key_exchange v = KexKem alg \<and>
     strength_order MlKem768 \<le> strength_order alg"
proof -
  obtain k where k: "kdc_init_module demo_machine demo_files demo_keys demo_penv [''R''] = Inr k" "kp_config k = demo_kdc_cfg"
    "ks_trust_store (kp_state k) = demo_store" "ks_config (kp_state k) = demo_kdc_cfg"
    using demo_kdc_init by blast
  have "verify_as_req demo_penv (kp_state k) [48, 48, 160, 77] None 300 1100 = Inr demo_verified"
    by (rule demo_kdc_verifies) (simp_all add: k accepts_kem_def is_composite_def kdc_config_default_def)
  then have v: "kdc_verify demo_machine demo_penv k demo_pa demo_kdccb = ([], VOk demo_verified)"
    unfolding kdc_verify_ok
    using k by (simp add: demo_time demo_authorized kdc_config_default_def) (simp add: demo_pa_def demo_verified_def)
  have p: "px_profile demo_machine = Inr (profile_of demo_plugin_relations)" by (simp add: demo_machine_def)
  have eff: "effective_typed (rel_bool demo_plugin_relations) demo_plugin_relations ''kdcdefaults'' (Some ''R'') ''pkinit_require_kem'' False"
    "effective demo_plugin_relations ''kdcdefaults'' (Some ''R'') ''pkinit_pqc_min_algorithm'' = [''ML-KEM-768'']"
    by (simp_all add: effective_typed_def typed_value_def effective_def places_def demo_plugin_relations_def
        List.map_filter_simps first_value_def)
  from profile_policy_binds_kdc[OF k(1) p profile_of_ok eff(1) v] eff(2) demo_kem_768 k(1) v show ?thesis
    by (auto simp: demo_verified_def is_composite_def)
qed

definition demo_kx_request :: return_request where
  "demo_kx_request = \<lparr>rq_padata_type = Some PA_PKINIT_KX, rq_modreq = None, rq_request_packet = [],
     rq_server = None, rq_encrypting_key = Some \<lparr>kb_enctype = 18, kb_contents = [9]\<rparr>,
     rq_reply = Some \<lparr>krp_ticket = Some \<lparr>tk_enc_part2 = Some \<lparr>etp_session =
       Some \<lparr>sk_enctype = 18, sk_length = 2, sk_contents = Some [1, 2]\<rparr>\<rparr>\<rparr>\<rparr>\<rparr>"

definition demo_anon_kdccb :: kdc_callbacks where
  "demo_anon_kdccb = demo_kdccb\<lparr>cb_client_name_principal :=
     Some \<lparr>pr_realm = ''R'', pr_components = [''WELLKNOWN'', ''ANONYMOUS'']\<rparr>\<rparr>"

theorem anonymous_session_key_bound_witness:
  "\<exists>pa. return_padata demo_machine demo_penv demo_kp demo_kx_request demo_anon_kdccb
     = (\<lparr>re_reply_key = None, re_session = Some \<lparr>sk_enctype = 18, sk_length = 3, sk_contents = Some [1, 2, 9]\<rparr>\<rparr>, Inr (Some pa)) \<and>
     px_encrypt demo_machine \<lparr>kb_enctype = 18, kb_contents = [9]\<rparr> 44 [48, 1, 2] = Inr (18, [9, 48, 1, 2]) \<and> pa_type pa = PA_PKINIT_KX"
proof -
  have t: "rq_padata_type demo_kx_request = Some PA_PKINIT_KX" by (simp add: demo_kx_request_def)
  have r: "return_padata demo_machine demo_penv demo_kp demo_kx_request demo_anon_kdccb
     = (\<lparr>re_reply_key = None, re_session = Some \<lparr>sk_enctype = 18, sk_length = 3, sk_contents = Some [1, 2, 9]\<rparr>\<rparr>,
        Inr (Some \<lparr>pa_type = PA_PKINIT_KX, pa_contents = [48, 9, 48, 1, 2]\<rparr>))"
    by (simp add: return_padata_def return_pkinit_kx_def kx_message_def reply_session_def demo_kx_request_def demo_anon_kdccb_def
        demo_kdccb_def demo_machine_def demo_ctx_def is_anonymous_def Let_def PA_PK_AS_REQ_def PA_PKINIT_KX_def)
  have a: "\<exists>p. cb_client_name_principal demo_anon_kdccb = Some p \<and> is_anonymous p"
    by (simp add: demo_anon_kdccb_def is_anonymous_def)
  from anonymous_session_key_bound[OF t r] a r show ?thesis
    by (auto simp: demo_kx_request_def reply_session_def demo_machine_def demo_ctx_def)
qed

section \<open>The negotiation's property\<close>

text \<open>Libraries with the typed data and the group parameters; the client wants ML-KEM-768, the KDC
  takes ML-KEM-1024 only.\<close>

definition demo_neg_codec :: codec where
  "demo_neg_codec = demo_pcodec\<lparr>element_to_der := (\<lambda>e. if e = [] then Inl ''empty'' else Inr e),
     element_from_der := (\<lambda>e. if e = [] then Inl ''empty'' else Inr e),
     enc_alg_ids := table_enc [([\<lparr>ai_oid = std_oids ID_ML_KEM_1024, ai_params = None\<rparr>], [5])],
     dec_alg_ids := table_dec [([\<lparr>ai_oid = std_oids ID_ML_KEM_1024, ai_params = None\<rparr>], [5])]\<rparr>"

definition demo_neg_env :: pkinit_env where
  "demo_neg_env = demo_penv\<lparr>pe_crypto := demo_crypto\<lparr>cv_codec := demo_neg_codec\<rparr>, pe_dh := demo_dh,
     pe_msgs := demo_msgs\<lparr>
       enc_td_dh_parameters := table_enc [([\<lparr>ai_oid = std_oids ID_ML_KEM_1024, ai_params = None\<rparr>], [4])],
       dec_td_dh_parameters := (\<lambda>d. Inr [d])\<rparr>\<rparr>"

definition demo_neg_kdc :: kdc_state where
  "demo_neg_kdc = \<lparr>ks_identity = demo_kdc_identity, ks_trust_store = demo_store,
     ks_config = kdc_config_default\<lparr>kc_supported_kem_algorithms := [MlKem1024], kc_require_kem := True\<rparr>,
     ks_supported_algorithms_hint = Some [48, 3, 160, 1, 5], ks_td_ephemeral_key_params = [4]\<rparr>"

lemma demo_neg_ok: "negotiation_ok demo_neg_env"
proof -
  have c: "codec_ok demo_neg_codec"
    using demo_pcodec_ok unfolding codec_ok_def demo_neg_codec_def
    by (auto intro!: table_roundtrip simp: demo_pcodec_def demo_codec_def)
  have "dh_codec_ok demo_neg_codec demo_dh"
    by (auto simp: dh_codec_ok_def demo_neg_codec_def demo_dh_def table_dec_def split: if_splits)
  moreover have "enc_td_dh_parameters (pe_msgs demo_neg_env) ids = Inr d \<longleftrightarrow>
      ids = [\<lparr>ai_oid = std_oids ID_ML_KEM_1024, ai_params = None\<rparr>] \<and> d = [4]" for ids d
    by (auto simp: demo_neg_env_def table_enc_def)
  moreover have "dec_alg_id (cv_cms (pe_crypto demo_neg_env)) [4] = Inr \<lparr>ai_oid = std_oids ID_ML_KEM_1024, ai_params = None\<rparr>"
    "pe_oids demo_neg_env = std_oids" "pe_codec demo_neg_env = demo_neg_codec" "pe_dh demo_neg_env = demo_dh"
    by (simp_all add: demo_neg_env_def demo_crypto_def demo_env_def demo_cms_def table_dec_def demo_alg_table_def)
  ultimately show ?thesis
    using c std_oids_ok
    by (simp add: negotiation_ok_def) (simp add: demo_neg_env_def demo_neg_codec_def demo_dh_def)
qed

lemma demo_neg_kdc_new:
  "kdc_new demo_neg_env demo_kdc_identity demo_store (ks_config demo_neg_kdc) = Inr demo_neg_kdc"
proof -
  have "make_supported_algorithms_hint demo_neg_env (ks_config demo_neg_kdc) = Inr (Some [48, 3, 160, 1, 5])"
    "make_td_ephemeral_key_params demo_neg_env (ks_config demo_neg_kdc) = Inr [4]"
    by code_simp+
  moreover have "effective_kdc_config (ks_config demo_neg_kdc) = ks_config demo_neg_kdc"
    by (simp add: effective_kdc_config_def demo_neg_kdc_def)
  ultimately show ?thesis by (simp add: kdc_new_def) (simp add: demo_neg_kdc_def)
qed

theorem negotiation_agreement_witness:
  "cc_kem_algorithm (cl_config (fst (process_pkinit_hint demo_neg_env demo_client [48, 3, 160, 1, 5]))) = Some MlKem1024 \<and>
   kdc_serves demo_neg_kdc (fst (process_pkinit_hint demo_neg_env demo_client [48, 3, 160, 1, 5])) \<and>
   kdc_serves demo_neg_kdc (fst (handle_tryagain_typed_data demo_neg_env demo_client [(109, [4])]))"
proof -
  have k: "kem_lists_ok (ks_config demo_neg_kdc)" "TD_DH_PARAMETERS (pe_msgs demo_neg_env) = 109"
    "build_supported_algorithms_hint demo_neg_kdc = Some [48, 3, 160, 1, 5]" "build_td_ephemeral_key_params demo_neg_kdc = [4]"
    "map_option offered_of_kex (cl_key_exchange demo_client) = None"
    "cc_kem_algorithm (cl_config (fst (process_pkinit_hint demo_neg_env demo_client [48, 3, 160, 1, 5]))) = Some MlKem1024"
    by code_simp+
  have o: "OfferedKem MlKem1024 \<in> set (client_view demo_client (ks_config demo_neg_kdc))"
    "accepts demo_neg_env demo_client (OfferedKem MlKem1024)" by code_simp+
  show ?thesis
    using negotiation_agreement[OF demo_neg_ok _ demo_neg_kdc_new k(1), of "[48, 3, 160, 1, 5]" demo_client
        "fst (process_pkinit_hint demo_neg_env demo_client [48, 3, 160, 1, 5])"
        "snd (process_pkinit_hint demo_neg_env demo_client [48, 3, 160, 1, 5])"
        "fst (handle_tryagain_typed_data demo_neg_env demo_client [(109, [4])])"
        "snd (handle_tryagain_typed_data demo_neg_env demo_client [(109, [4])])"] o k
    by (auto simp: same_libraries_def split: if_splits)
qed

end
