(* ===== verification/Authentic.thy ===== *)
theory Authentic
  imports Runs
begin

text \<open>
  Authentication.  A signature that verifies shows what its signer signed: with signatures that
  are made only by the holder of the key (\<open>signs_only\<close>) and digests that stand for one content
  (\<open>digests_bind\<close>), the content \<open>verify_signed_data\<close> returns is one that the signer gave to
  \<open>create_signed_data\<close>.  What the KDC (\<open>reply_content\<close>) and the client (\<open>auth_pack_content\<close>) sign is
  taken out of \<open>build_as_rep\<close> and \<open>build_as_req\<close>; so a reply that yields a key is a KDC's answer
  with the client's nonce, and a signed request that is accepted is a client's.  The sets of
  runs stand for everything the holders of the keys ever did; nothing is said of their order.
\<close>

section \<open>What a signature shows\<close>

definition signs_only :: "crypto_env \<Rightarrow> bytes \<Rightarrow> (bytes \<times> oid) set \<Rightarrow> bool" where
  "signs_only V cert_der L \<longleftrightarrow>
     (\<forall>cert spki pk tbs alg sg. certificate_from_der (cv_cms V) cert_der = Inr cert \<longrightarrow>
        crt_spki_der cert = Inr spki \<longrightarrow> public_key_from_der (cv_cms V) spki = Inr pk \<longrightarrow>
        verify_signature (cv_cms V) pk tbs alg sg = Inr () \<longrightarrow>
        (\<exists>content ctype h d attrs. (content, ctype) \<in> L \<and> hash_data (cv_hash V) h content = Inr d \<and>
           build_signed_attrs V ctype d = Inr (tbs, attrs)))"

definition digests_bind :: "crypto_env \<Rightarrow> (bytes \<times> oid) set \<Rightarrow> bool" where
  "digests_bind V L \<longleftrightarrow>
     (\<forall>content ctype h h' d x. (content, ctype) \<in> L \<longrightarrow> hash_data (cv_hash V) h content = Inr d \<longrightarrow>
        hash_data (cv_hash V) h' x = Inr d \<longrightarrow> x = content)"

lemma retag_as_set_inj: "retag_as_set x = retag_as_set y \<Longrightarrow> x = y"
proof -
  assume eq: "retag_as_set x = retag_as_set y"
  have header: "m < n \<Longrightarrow> length (der_encode_length m [0x31]) \<le> length (der_encode_length n [0x31])" for m n
    by (auto simp: der_encode_length_def)
  from eq have "length (der_encode_length (length x) [0x31]) + length x
      = length (der_encode_length (length y) [0x31]) + length y"
    unfolding retag_as_set_def by (metis length_append)
  then have "length x = length y"
    using header[of "length x" "length y"] header[of "length y" "length x"] by linarith
  with eq show "x = y" by (simp add: retag_as_set_def)
qed

text \<open>The signed attributes say which content type and which digest they were made for.\<close>

lemma signed_attrs_found:
  assumes ok: "cms_ok V" "codec_ok (cv_codec V)" "hash_ok (cv_hash V)" "oids_ok (cv_oids V)"
    and b: "build_signed_attrs V ctype d = Inr (tbs, attrs)"
  shows "tbs = retag_as_set attrs"
    and "verify_message_digest V attrs md = Inr () \<longleftrightarrow> md = d"
    and "verify_content_type V attrs ct = Inr () \<longleftrightarrow> ct = ctype"
proof -
  let ?M = "cv_cms V"
  have oid: "oid_new (cv_codec V) x = Inr y \<Longrightarrow> y = x" for x y by (rule codec_okD(4)[OF ok(2)])
  have eq: "ct_eq (cv_hash V) x y \<longleftrightarrow> x = y" for x y using ok(3) by (simp add: hash_ok_def)
  from b obtain o1 o2 ctv ctd mdv mdd where B0:
    "oid_new (cv_codec V) (cv_oids V PKCS9_CONTENT_TYPE) = Inr o1"
    "oid_new (cv_codec V) (cv_oids V PKCS9_MESSAGE_DIGEST) = Inr o2"
    "enc_set_of_oids ?M [ctype] = Inr ctv"
    "enc_attribute ?M \<lparr>at_type = o1, at_values = ctv\<rparr> = Inr ctd"
    "enc_set_of_octets ?M [d] = Inr mdv"
    "enc_attribute ?M \<lparr>at_type = o2, at_values = mdv\<rparr> = Inr mdd"
    "enc_set_of_raw ?M [ctd, mdd] = Inr tbs" "enter_set ?M tbs = Inr attrs"
    by (auto simp: build_signed_attrs_def Let_def res)
  note B = B0[unfolded oid[OF B0(1)] oid[OF B0(2)]]
  have R: "tbs = retag_as_set attrs" "attrs = ctd @ mdd \<or> attrs = mdd @ ctd"
    using cms_okD(12)[OF ok(1) B(7,8)] by simp_all
  show "tbs = retag_as_set attrs" by (rule R(1))
  have law: "enc_attribute ?M a = Inr e \<Longrightarrow> e \<noteq> [] \<and> dec_attribute ?M (e @ r) = Inr (a, length e - 1)" for a e r
    using cms_okD(8,9)[OF ok(1)] by simp
  have names: "cv_oids V PKCS9_CONTENT_TYPE \<noteq> cv_oids V PKCS9_MESSAGE_DIGEST" using ok(4) by simp
  have "find_attribute ?M (cv_oids V PKCS9_CONTENT_TYPE) m attrs
      = Inr \<lparr>at_type = cv_oids V PKCS9_CONTENT_TYPE, at_values = ctv\<rparr>" for m
    using names R(2) by (intro find_attribute_either[OF law B(4) B(6)]) auto
  moreover have "find_attribute ?M (cv_oids V PKCS9_MESSAGE_DIGEST) m attrs
      = Inr \<lparr>at_type = cv_oids V PKCS9_MESSAGE_DIGEST, at_values = mdv\<rparr>" for m
    using names R(2) by (intro find_attribute_either[OF law B(6) B(4)]) auto
  moreover from cms_okD(11)[OF ok(1) B(3)] cms_okD(10)[OF ok(1) B(5)] obtain ci mi where
    "enter_set ?M ctv = Inr ci" "dec_oid_value ?M ci = Inr ctype"
    "enter_set ?M mdv = Inr mi" "dec_octet_string ?M mi = Inr d" by blast
  ultimately show "verify_message_digest V attrs md = Inr () \<longleftrightarrow> md = d"
    "verify_content_type V attrs ct = Inr () \<longleftrightarrow> ct = ctype"
    using B(1,2) by (auto simp: verify_message_digest_def verify_content_type_def Let_def res eq)
qed

lemma signed_content_authentic:
  assumes ok: "cms_ok V" "codec_ok (cv_codec V)" "hash_ok (cv_hash V)" "oids_ok (cv_oids V)"
    and v: "verify_signed_data V d = Inr v"
    and crypto: "signs_only V (vsd_signer_cert_der v) L" "digests_bind V L"
  shows "(vsd_content v, vsd_content_type v) \<in> L"
  using v
proof (rule verify_signed_data_Inr, goal_cases)
  case (1 sd si ss ias n cert spki pk attrs h md alg)
  from crypto(1) 1(8-10,17) obtain content ctype h' d' attrs' where
    L: "(content, ctype) \<in> L" "hash_data (cv_hash V) h' content = Inr d'"
    and b: "build_signed_attrs V ctype d' = Inr (retag_as_set attrs, attrs')"
    unfolding signs_only_def by blast
  note found = signed_attrs_found[OF ok b]
  have "attrs' = attrs" using found(1) retag_as_set_inj by metis
  then have "md = d'" "vsd_content_type v = ctype" using found(2,3) 1(14,15) by simp_all
  then show ?case using crypto(2) L 1(13) unfolding digests_bind_def by blast
qed

section \<open>What the KDC signs\<close>

text \<open>The content and content type of the reply, as \<open>build_as_rep\<close> makes them before it signs.\<close>

definition kem_reply_info :: "pkinit_env \<Rightarrow> bytes \<Rightarrow> kem_algorithm \<Rightarrow> u32 \<Rightarrow> (kdc_kem_info \<times> bytes) res" where
  "kem_reply_info K client_spki alg nonce =
     rbind (encapsulate_for_client (pe_kem K) client_spki alg (pe_keygen_seed K)) (\<lambda>(kemct, shared_secret).
     rbind (asn1 ''KEM OID'' (oid_new (pe_codec K) (kem_oid (pe_oids K) alg))) (\<lambda>kem_alg_oid.
     rbind (asn1 ''KDF OID'' (oid_new (pe_codec K) (pe_oids K ID_ALG_HKDF_WITH_SHA512))) (\<lambda>kdf_oid.
       Inr (\<lparr>kki_kem_algorithm = \<lparr>ai_oid = kem_alg_oid, ai_params = None\<rparr>, kki_kemct = kemct,
             kki_kdf_algorithm = \<lparr>ai_oid = kdf_oid, ai_params = None\<rparr>,
             kki_nonce = Some (encode_nonce nonce), kki_server_nonce = None\<rparr>, shared_secret))))"

definition dh_reply_info :: "pkinit_env \<Rightarrow> bytes \<Rightarrow> dh_group \<Rightarrow> u32 \<Rightarrow> (kdc_dh_key_info \<times> bytes) res" where
  "dh_reply_info K client_spki grp nonce =
     rbind (dh_generate (pe_dh K) grp (pe_keygen_seed K)) (\<lambda>kdc_dh_key.
     rbind (dh_public_key_spki_der (pe_dh K) kdc_dh_key) (\<lambda>kdc_spki_der.
     rbind (derive_shared_secret (pe_dh K) kdc_dh_key client_spki) (\<lambda>shared_secret.
     rbind (extract_pub_key_bits K kdc_spki_der) (\<lambda>kdc_pub_bits.
     rbind (asn1 ''BitStringRef'' (bit_string_new (pe_msgs K) kdc_pub_bits)) (\<lambda>bits.
       Inr (\<lparr>kdk_subject_public_key = bits, kdk_nonce = encode_nonce nonce, kdk_dh_key_expiration = None\<rparr>,
            shared_secret))))))"

definition reply_content ::
    "pkinit_env \<Rightarrow> verified_request \<Rightarrow> build_as_rep_params \<Rightarrow> (bytes \<times> oid \<times> bytes) res" where
  "reply_content K v pr =
     (case vr_key_exchange v of
        KexKem alg \<Rightarrow>
          rbind (ensure (\<not> (vr_supported_kdfs v \<noteq> [] \<and>
                     \<not> list_ex (\<lambda>kdf. kdf = pe_oids K ID_ALG_HKDF_WITH_SHA512) (vr_supported_kdfs v)))
                   NoAcceptableKdf) (\<lambda>_.
          rbind (kem_reply_info K (vr_client_dh_public v) alg (brp_nonce pr)) (\<lambda>(info, shared_secret).
          rbind (asn1 ''encode KDCKEMInfo'' (enc_kdc_kem_info (pe_codec K) info)) (\<lambda>content.
            Inr (content, ID_PKINIT_KEM_KEY_DATA, shared_secret))))
      | KexDh grp \<Rightarrow>
          rbind (dh_reply_info K (vr_client_dh_public v) grp (brp_nonce pr)) (\<lambda>(info, shared_secret).
          rbind (asn1 ''encode KDCDHKeyInfo'' (enc_kdc_dh_key_info (pe_msgs K) info)) (\<lambda>content.
            Inr (content, pe_oids K ID_PKINIT_DHKEY_DATA, shared_secret))))"

text \<open>Whatever the KDC's identity, \<open>build_as_rep\<close> signs this content, once, and nothing else.\<close>

lemma build_as_rep_signs:
  "\<exists>finish. \<forall>k. build_as_rep K k v pr O2 = rbind (reply_content K v pr) (\<lambda>(content, ctype, shared_secret).
     rbind (kdc_sign K k content ctype) (finish shared_secret))"
proof (cases "vr_key_exchange v")
  case (KexKem alg)
  then show ?thesis
    by (intro exI[of _ "\<lambda>shared_secret kem_signed_data.
        rbind (encode_kem_rep_wrapper (pe_codec K) \<lparr>kri_signed_data = kem_signed_data\<rparr>) (\<lambda>pa_rep_der.
        rbind (pkinit_kem_kdf (pe_codec K) (pe_kdf K)
              \<lparr>kki_shared_secret = shared_secret, kki_enctype = brp_enctype pr,
               kki_as_req_der = brp_as_req_der pr, kki_kem_signed_data = kem_signed_data\<rparr> O2) (\<lambda>key.
          Inr (pa_rep_der, key)))"])
      (simp add: build_as_rep_def build_kem_rep_def reply_content_def kem_reply_info_def rbind_assoc
        case_prod_unfold)
next
  case (KexDh grp)
  then show ?thesis
    unfolding build_as_rep_def build_dh_rep_def reply_content_def dh_reply_info_def Let_def
    by (simp add: rbind_assoc case_prod_unfold) (rule exI, rule allI, rule refl)
qed

text \<open>Everything that KDCs sign in a set of runs: library state, verified request, parameters.\<close>

type_synonym kdc_runs = "(pkinit_env \<times> verified_request \<times> build_as_rep_params) set"

definition kdc_log :: "kdc_runs \<Rightarrow> (bytes \<times> oid) set" where
  "kdc_log R = {(content, ctype). \<exists>K v pr shared_secret. (K, v, pr) \<in> R \<and>
     reply_content K v pr = Inr (content, ctype, shared_secret)}"

text \<open>The client's trusted KDCs are KDCs of these runs, with cryptography that works.\<close>

definition kdcs_sign_only :: "pkinit_env \<Rightarrow> client_state \<Rightarrow> kdc_runs \<Rightarrow> bool" where
  "kdcs_sign_only E s R \<longleftrightarrow>
     (\<forall>(K, v, pr)\<in>R. same_libraries E K) \<and> digests_bind (pe_crypto E) (kdc_log R) \<and>
     (\<forall>c cs. validate_kdc_chain E s c cs = Inr () \<longrightarrow> signs_only (pe_crypto E) c (kdc_log R))"

lemma kdc_content_logged:
  assumes "env_ok E" "kdcs_sign_only E s R" "verify_signed_data (pe_crypto E) d = Inr sv"
    and "validate_kdc_chain E s (vsd_signer_cert_der sv) (vsd_all_certs_der sv) = Inr ()"
  obtains K v pr ss where "(K, v, pr) \<in> R" "same_libraries E K"
    "reply_content K v pr = Inr (vsd_content sv, vsd_content_type sv, ss)"
proof -
  have "(vsd_content sv, vsd_content_type sv) \<in> kdc_log R"
    using assms unfolding env_ok_def kdcs_sign_only_def by (intro signed_content_authentic[OF _ _ _ _ assms(3)]) auto
  then show thesis using that assms(2) unfolding kdc_log_def kdcs_sign_only_def by blast
qed

lemma reply_content_kem:
  assumes "env_ok E" "same_libraries E K" "reply_content K v pr = Inr (content, ID_PKINIT_KEM_KEY_DATA, ss)"
  shows "\<exists>alg info. vr_key_exchange v = KexKem alg \<and>
    kem_reply_info K (vr_client_dh_public v) alg (brp_nonce pr) = Inr (info, ss) \<and>
    dec_kdc_kem_info (pe_codec E) content = Inr info"
proof -
  have lib: "pe_crypto K = pe_crypto E" using assms(2) by (simp add: same_libraries_def)
  have c: "codec_ok (pe_codec E)" "oids_ok (pe_oids E)" using assms(1) by (simp_all add: env_ok_def)
  show ?thesis
    using assms(3) c(2) by (cases "vr_key_exchange v") (auto simp: reply_content_def res lib intro: codec_okD(2)[OF c(1)])
qed

lemma reply_content_dh:
  assumes "env_ok E" "same_libraries E K" "reply_content K v pr = Inr (content, pe_oids E ID_PKINIT_DHKEY_DATA, ss)"
  shows "\<exists>grp info. vr_key_exchange v = KexDh grp \<and>
    dh_reply_info K (vr_client_dh_public v) grp (brp_nonce pr) = Inr (info, ss) \<and>
    dec_kdc_dh_key_info (pe_msgs E) content = Inr info"
proof -
  have lib: "pe_crypto K = pe_crypto E" "pe_msgs K = pe_msgs E" using assms(2) by (simp_all add: same_libraries_def)
  have c: "msgs_ok (pe_codec E) (pe_msgs E)" "oids_ok (pe_oids E)" using assms(1) by (simp_all add: env_ok_def)
  show ?thesis
    using assms(3) c(2) by (cases "vr_key_exchange v") (auto simp: reply_content_def res lib intro: msgs_okD(5)[OF c(1)])
qed

section \<open>What the client signs\<close>

definition auth_pack_content ::
    "pkinit_env \<Rightarrow> client_state \<Rightarrow> u32 \<Rightarrow> int \<Rightarrow> int \<Rightarrow> bytes \<Rightarrow> (auth_pack \<times> bytes) res" where
  "auth_pack_content E s nonce ctime cusec req_body_der =
     (let use_kem = (cc_kem_algorithm (cl_config s) \<noteq> None) in
      rbind (build_pk_authenticator E s nonce ctime cusec req_body_der) (\<lambda>pk_auth.
      rbind (ensure (\<not> (cc_require_kem (cl_config s) \<and> cc_kem_algorithm (cl_config s) = None))
               (DowngradeRejected ''classic DH/ECDH key exchange refused: pkinit_require_kem is set'')) (\<lambda>_.
      rbind (snd (request_key E s)) (\<lambda>client_spki_der.
      rbind (asn1 ''decode SPKI element'' (element_from_der (pe_codec E) client_spki_der)) (\<lambda>element.
      rbind (snd (request_dh_nonce E s use_kem)) (\<lambda>dh_nonce.
      rbind (request_kdfs E use_kem) (\<lambda>kdfs.
      let ap = \<lparr>ap_pk_authenticator = pk_auth, ap_client_public_value = Some element,
                ap_client_dhnonce = dh_nonce, ap_supported_kdfs = Some kdfs\<rparr> in
      rbind (asn1 ''encode AuthPack'' (enc_auth_pack (pe_msgs E) ap)) (\<lambda>content.
        Inr (ap, content)))))))))"

lemma request_key_identity: "request_key E s = (t, r) \<Longrightarrow> cl_identity t = cl_identity s"
  by (auto simp: request_key_def Let_def split: option.splits sum.splits)

lemma request_dh_nonce_any:
  "snd (request_dh_nonce E s k) = snd (request_dh_nonce E t k)"
  "cl_identity (fst (request_dh_nonce E s k)) = cl_identity s"
  by (auto simp: request_dh_nonce_def split: sum.splits)

text \<open>\<open>build_as_req\<close> signs this content with the client's identity, once, and nothing else.\<close>

lemma build_as_req_signs:
  "snd (build_as_req E s nonce ctime cusec body) =
     rbind (auth_pack_content E s nonce ctime cusec body) (\<lambda>(_, content).
     rbind (sign_auth_pack E (cl_identity s) content) (\<lambda>signed_auth_pack.
       asn1 ''encode PA-PK-AS-REQ'' (enc_pa_pk_as_req (pe_msgs E) \<lparr>par_signed_auth_pack = signed_auth_pack\<rparr>)))"
proof (cases "build_pk_authenticator E s nonce ctime cusec body")
  case (Inr pk_auth)
  obtain s1 r1 where k: "request_key E s = (s1, r1)" by (cases "request_key E s")
  obtain s2 r2 where n: "request_dh_nonce E s1 (cc_kem_algorithm (cl_config s) \<noteq> None) = (s2, r2)"
    by (cases "request_dh_nonce E s1 (cc_kem_algorithm (cl_config s) \<noteq> None)")
  have i: "cl_identity s2 = cl_identity s"
    using request_key_identity[OF k] request_dh_nonce_any(2)[of E s1 "cc_kem_algorithm (cl_config s) \<noteq> None"] n by simp
  note any = request_dh_nonce_any(1)[of E s _ s1]
  show ?thesis
    using Inr k n i
    by (auto simp: build_as_req_def auth_pack_content_def finish_as_req_def Let_def any rbind_assoc
        split: sum.splits if_splits)
qed (simp add: build_as_req_def auth_pack_content_def)

text \<open>Everything that clients sign in a set of runs: library state, client, nonce, time, request body.\<close>

type_synonym client_runs = "(pkinit_env \<times> client_state \<times> u32 \<times> int \<times> int \<times> bytes) set"

definition client_log :: "client_runs \<Rightarrow> oid \<Rightarrow> (bytes \<times> oid) set" where
  "client_log R ctype = {(content, ctype) |content. \<exists>E s nonce ctime cusec body ap. (E, s, nonce, ctime, cusec, body) \<in> R \<and>
     auth_pack_content E s nonce ctime cusec body = Inr (ap, content)}"

lemma client_content_logged:
  assumes "env_ok K" "verify_signed_data (pe_crypto K) d = Inr sv"
    and "signs_only (pe_crypto K) (vsd_signer_cert_der sv) (client_log R ct)" "digests_bind (pe_crypto K) (client_log R ct)"
  obtains E s nonce ctime cusec body ap where "(E, s, nonce, ctime, cusec, body) \<in> R"
    "auth_pack_content E s nonce ctime cusec body = Inr (ap, vsd_content sv)"
proof -
  have "(vsd_content sv, vsd_content_type sv) \<in> client_log R ct"
    using assms unfolding env_ok_def by (intro signed_content_authentic[OF _ _ _ _ assms(2)]) auto
  then show thesis using that unfolding client_log_def by blast
qed

section \<open>Properties\<close>

lemma kem_reply_info_Inr:
  assumes "codec_ok (pe_codec E)" "same_libraries E K" "kem_reply_info K p alg nonce = Inr (info, ss)"
  shows "encapsulate_for_client (pe_kem E) p alg (pe_keygen_seed K) = Inr (kki_kemct info, ss)"
    and "ai_oid (kki_kem_algorithm info) = kem_oid (pe_oids E) alg" "kki_nonce info = Some (encode_nonce nonce)"
  using assms codec_okD(4)[OF assms(1)] by (auto simp: kem_reply_info_def res same_libraries_def)

lemma open_kem_rep_signed:
  assumes "open_kem_rep E s k rep p O2 = Inr key" "codec_ok (pe_codec E)"
  obtains d sv info secret where "verify_signed_data (pe_crypto E) d = Inr sv"
    "vsd_content_type sv = ID_PKINIT_KEM_KEY_DATA"
    "validate_kdc_chain E s (vsd_signer_cert_der sv) (vsd_all_certs_der sv) = Inr ()"
    "dec_kdc_kem_info (pe_codec E) (vsd_content sv) = Inr info"
    "ai_oid (kki_kem_algorithm info) = kem_oid (pe_oids E) (kkp_algorithm k)"
    "kki_nonce info = Some (uint (arp_nonce p))" "kem_decapsulate (pe_kem E) k (kki_kemct info) = Inr secret"
proof -
  from assms(1) obtain w :: kem_rep_info and sv info u secret where
    A: "verify_signed_data (pe_crypto E) (kri_signed_data w) = Inr sv" "vsd_content_type sv = ID_PKINIT_KEM_KEY_DATA"
      "validate_kdc_chain E s (vsd_signer_cert_der sv) (vsd_all_certs_der sv) = Inr ()"
      "dec_kdc_kem_info (pe_codec E) (vsd_content sv) = Inr info"
      "check_kem_info E (kkp_algorithm k) (arp_nonce p) info = Inr u"
      "kem_decapsulate (pe_kem E) k (kki_kemct info) = Inr secret"
    by (auto simp: open_kem_rep_def res)
  from that[OF A(1-4) _ _ A(6)] check_kem_info_Inr[OF A(5) assms(2)] show thesis by simp
qed

lemma process_as_rep_dh_Inr:
  assumes "process_as_rep E s rep p O2 = (t, Inr key)" "\<not> is_kem_rep rep" "codec_ok (pe_codec E)"
  obtains d sv info kp spki secret where "verify_signed_data (pe_crypto E) d = Inr sv"
    "vsd_content_type sv = pe_oids E ID_PKINIT_DHKEY_DATA"
    "validate_kdc_chain E s (vsd_signer_cert_der sv) (vsd_all_certs_der sv) = Inr ()"
    "dec_kdc_dh_key_info (pe_msgs E) (vsd_content sv) = Inr info" "kdk_nonce info = uint (arp_nonce p)"
    "cl_dh_key s = Some kp" "rebuild_spki E (dkp_group kp) (kdk_subject_public_key info) = Inr spki"
    "derive_shared_secret (pe_dh E) kp spki = Inr secret"
proof -
  from process_as_rep_dh[OF assms(1,2)] obtain rp where d: "process_dh_rep E s rp p O2 = Inr key" by blast
  show thesis
    using d by (auto simp: process_dh_rep_def res intro: that decode_nonce_exact[OF assms(3)])
qed

lemma dh_answer_secret:
  assumes "dh_exchange_ok E grp" "same_libraries E K"
    and "dh_generate (pe_dh E) grp r = Inr kp" "dh_public_key_spki_der (pe_dh E) kp = Inr p"
    and "dh_reply_info K p grp nonce = Inr (info, ss)"
    and "rebuild_spki E grp (kdk_subject_public_key info) = Inr spki" "derive_shared_secret (pe_dh E) kp spki = Inr secret"
  shows "secret = ss"
proof -
  have lib: "pe_crypto K = pe_crypto E" "pe_msgs K = pe_msgs E" "pe_dh K = pe_dh E"
    using assms(2) by (simp_all add: same_libraries_def)
  from assms(5) obtain kk pk bits where A: "dh_generate (pe_dh E) grp (pe_keygen_seed K) = Inr kk"
    "dh_public_key_spki_der (pe_dh E) kk = Inr pk" "derive_shared_secret (pe_dh E) kk p = Inr ss"
    "extract_pub_key_bits K pk = Inr bits" "bit_string_new (pe_msgs E) bits = Inr (kdk_subject_public_key info)"
    by (auto simp: dh_reply_info_def res lib)
  from assms(1) A(1,2) assms(3,4) obtain al b where B:
    "dec_spki (pe_msgs E) pk = Inr \<lparr>spki_algorithm = al, spki_subject_public_key = b\<rparr>"
    "enc_spki (pe_msgs E) \<lparr>spki_algorithm = al, spki_subject_public_key = b\<rparr> = Inr pk"
    "group_algorithm_identifier E grp = Inr al" "derive_shared_secret (pe_dh E) kp pk = Inr ss"
    and same: "bit_string_new (pe_msgs E) x = Inr y \<Longrightarrow> y = x" for x y
    using A(3) unfolding dh_exchange_ok_def by blast
  have "bits = b" using A(4) B(1) by (simp add: extract_pub_key_bits_def asn1_def lib)
  then have "kdk_subject_public_key info = b" using same A(5) by blast
  then have "spki = pk" using assms(6) B(2,3) by (auto simp: rebuild_spki_identifier res dest!: same)
  with assms(7) B(4) show ?thesis by simp
qed

text \<open>
  The KDC's answer as the client holds it: the KDC made it for a request with the client's
  algorithm or a group, its ciphertext or public key is the one the client computes its secret
  with, and if the request that was answered carries the client's key the secrets are equal.
\<close>

definition kem_answer :: "pkinit_env \<Rightarrow> client_state \<Rightarrow> pkinit_env \<Rightarrow> verified_request \<Rightarrow> u32 \<Rightarrow> bool" where
  "kem_answer E s K v nonce \<longleftrightarrow> (\<exists>kp info ss secret.
     cl_kem_key s = Some kp \<and> vr_key_exchange v = KexKem (kkp_algorithm kp) \<and>
     kem_reply_info K (vr_client_dh_public v) (kkp_algorithm kp) nonce = Inr (info, ss) \<and>
     kem_decapsulate (pe_kem E) kp (kki_kemct info) = Inr secret \<and>
     (\<forall>alg r. kem_generate (pe_kem E) alg r = Inr kp \<longrightarrow>
        kem_public_key_spki_der (pe_kem E) kp = Inr (vr_client_dh_public v) \<longrightarrow> secret = ss))"

definition dh_answer :: "pkinit_env \<Rightarrow> client_state \<Rightarrow> pkinit_env \<Rightarrow> verified_request \<Rightarrow> u32 \<Rightarrow> bool" where
  "dh_answer E s K v nonce \<longleftrightarrow> (\<exists>kp grp info ss spki secret.
     cl_dh_key s = Some kp \<and> vr_key_exchange v = KexDh grp \<and>
     dh_reply_info K (vr_client_dh_public v) grp nonce = Inr (info, ss) \<and>
     rebuild_spki E (dkp_group kp) (kdk_subject_public_key info) = Inr spki \<and>
     derive_shared_secret (pe_dh E) kp spki = Inr secret \<and>
     (\<forall>r. dh_exchange_ok E grp \<longrightarrow> dh_generate (pe_dh E) grp r = Inr kp \<longrightarrow>
        dh_public_key_spki_der (pe_dh E) kp = Inr (vr_client_dh_public v) \<longrightarrow> secret = ss))"

lemma kem_reply_is_from_kdc:
  assumes "env_ok E" "kdcs_sign_only E s R" "cl_kem_key s = Some kp" "open_kem_rep E s kp rep p O2 = Inr key"
  shows "\<exists>K v pr. (K, v, pr) \<in> R \<and> brp_nonce pr = arp_nonce p \<and> kem_answer E s K v (arp_nonce p)"
proof -
  note ok = assms(1)[unfolded env_ok_def]
  have c: "codec_ok (pe_codec E)" using ok by simp
  from open_kem_rep_signed[OF assms(4) c] obtain d sv info secret where
    sv: "verify_signed_data (pe_crypto E) d = Inr sv" "vsd_content_type sv = ID_PKINIT_KEM_KEY_DATA"
      "validate_kdc_chain E s (vsd_signer_cert_der sv) (vsd_all_certs_der sv) = Inr ()"
    and info: "dec_kdc_kem_info (pe_codec E) (vsd_content sv) = Inr info"
      "ai_oid (kki_kem_algorithm info) = kem_oid (pe_oids E) (kkp_algorithm kp)"
      "kki_nonce info = Some (uint (arp_nonce p))"
    and secret: "kem_decapsulate (pe_kem E) kp (kki_kemct info) = Inr secret" .
  from kdc_content_logged[OF assms(1,2) sv(1,3)] obtain K v pr ss where
    R: "(K, v, pr) \<in> R" "same_libraries E K" "reply_content K v pr = Inr (vsd_content sv, ID_PKINIT_KEM_KEY_DATA, ss)"
    using sv(2) by metis
  from reply_content_kem[OF assms(1) R(2,3)] info(1) obtain alg where
    A: "vr_key_exchange v = KexKem alg" "kem_reply_info K (vr_client_dh_public v) alg (brp_nonce pr) = Inr (info, ss)"
    by auto
  note B = kem_reply_info_Inr[OF c R(2) A(2)]
  have alg: "alg = kkp_algorithm kp" and n: "brp_nonce pr = arp_nonce p"
    using B info(2,3) kem_oid_inj ok by (auto simp: encode_nonce_def word_uint_eq_iff)
  have "secret = ss" if "kem_generate (pe_kem E) a r = Inr kp"
    "kem_public_key_spki_der (pe_kem E) kp = Inr (vr_client_dh_public v)" for a r
    using encapsulated_secret_agrees[OF _ that] B(1) secret alg kem_generate_algorithm[OF that(1)] ok by auto
  then have "kem_answer E s K v (arp_nonce p)"
    unfolding kem_answer_def using assms(3) A secret by (intro exI[of _ kp]) (auto simp: alg n)
  with R(1) n show ?thesis by blast
qed

lemma dh_reply_is_from_kdc:
  assumes "env_ok E" "kdcs_sign_only E s R" "process_as_rep E s rep p O2 = (t, Inr key)" "\<not> is_kem_rep rep"
  shows "\<exists>K v pr. (K, v, pr) \<in> R \<and> brp_nonce pr = arp_nonce p \<and> dh_answer E s K v (arp_nonce p)"
proof -
  have c: "codec_ok (pe_codec E)" using assms(1) by (simp add: env_ok_def)
  from process_as_rep_dh_Inr[OF assms(3,4) c] obtain d sv info kp spki secret where
    sv: "verify_signed_data (pe_crypto E) d = Inr sv" "vsd_content_type sv = pe_oids E ID_PKINIT_DHKEY_DATA"
      "validate_kdc_chain E s (vsd_signer_cert_der sv) (vsd_all_certs_der sv) = Inr ()"
    and info: "dec_kdc_dh_key_info (pe_msgs E) (vsd_content sv) = Inr info" "kdk_nonce info = uint (arp_nonce p)"
    and kp: "cl_dh_key s = Some kp" "rebuild_spki E (dkp_group kp) (kdk_subject_public_key info) = Inr spki"
      "derive_shared_secret (pe_dh E) kp spki = Inr secret" .
  from kdc_content_logged[OF assms(1,2) sv(1,3)] obtain K v pr ss where
    R: "(K, v, pr) \<in> R" "same_libraries E K"
      "reply_content K v pr = Inr (vsd_content sv, pe_oids E ID_PKINIT_DHKEY_DATA, ss)"
    using sv(2) by metis
  from reply_content_dh[OF assms(1) R(2,3)] info(1) obtain grp where
    A: "vr_key_exchange v = KexDh grp" "dh_reply_info K (vr_client_dh_public v) grp (brp_nonce pr) = Inr (info, ss)"
    by auto
  have n: "brp_nonce pr = arp_nonce p"
    using A(2) info(2) by (auto simp: dh_reply_info_def res encode_nonce_def word_uint_eq_iff)
  have "secret = ss" if "dh_exchange_ok E grp" "dh_generate (pe_dh E) grp r = Inr kp"
    "dh_public_key_spki_der (pe_dh E) kp = Inr (vr_client_dh_public v)" for r
    using dh_answer_secret[OF that(1) R(2) that(2,3) A(2)] kp(2,3) dh_generate_group[OF that(2)] by simp
  then have "dh_answer E s K v (arp_nonce p)"
    unfolding dh_answer_def using A kp by (intro exI[of _ kp] exI[of _ grp]) (auto simp: n)
  with R(1) n show ?thesis by blast
qed

text \<open>C4: The KDC is authenticated: suppose that signatures are made only by who has the key, that digests
  bind, and that whoever has the key of a certificate the client trusts is a KDC that signs its
  replies and nothing else.  Then a reply that yields a key is the answer of one of these KDCs
  to a request for the client's own KEM algorithm, or for a classic group: the KDC signed the
  nonce of the client's request, the ciphertext or public key it signed is the one the client's
  secret is computed with, and the secret is the KDC's if the request it answered had the
  client's key.\<close>
theorem reply_is_from_kdc:
  assumes "env_ok E" "kdcs_sign_only E s R" "process_as_rep E s rep p O2 = (t, Inr key)"
  shows "\<exists>K v pr. (K, v, pr) \<in> R \<and> brp_nonce pr = arp_nonce p \<and>
    (if is_kem_rep rep then kem_answer E s K v (arp_nonce p) else dh_answer E s K v (arp_nonce p))"
proof (cases "is_kem_rep rep")
  case True
  with process_as_rep_kem[OF assms(3)] obtain kp where "cl_kem_key s = Some kp" "open_kem_rep E s kp rep p O2 = Inr key"
    by (auto simp: open_kem_rep_def)
  from kem_reply_is_from_kdc[OF assms(1,2) this] True show ?thesis by simp
qed (use dh_reply_is_from_kdc[OF assms] in simp)

lemma auth_pack_content_Inr:
  assumes "exchange_ok E" "auth_pack_content E s nonce ctime cusec body = Inr (ap, content)"
  obtains spki elem where "snd (request_key E s) = Inr spki" "element_to_der (pe_codec E) elem = Inr spki"
    "ap_client_public_value ap = Some elem" "dec_auth_pack (pe_msgs E) content = Inr ap"
    "build_pk_authenticator E s nonce ctime cusec body = Inr (ap_pk_authenticator ap)"
    "snd (request_dh_nonce E s (cc_kem_algorithm (cl_config s) \<noteq> None)) = Inr (ap_client_dhnonce ap)"
    "rbind (request_kdfs E (cc_kem_algorithm (cl_config s) \<noteq> None)) (\<lambda>k. Inr (Some k)) = Inr (ap_supported_kdfs ap)"
proof -
  have m: "msgs_ok (pe_codec E) (pe_msgs E)" by (rule exchange_okD(7)[OF assms(1)])
  show thesis
    using assms(2) by (auto simp: auth_pack_content_def Let_def res dest!: msgs_okD(8)[OF m] intro: that msgs_okD(1)[OF m])
qed

lemma check_body_digest:
  assumes "exchange_ok E" "build_pk_authenticator E s nonce ctime cusec body = Inr pk_auth"
    and "check_body E pk_auth (Some body') = Inr ()"
  shows "hash_data (pe_hash E) ''sha256'' body' = hash_data (pe_hash E) ''sha256'' body"
proof -
  note ok = exchange_okD[OF assms(1)]
  from assms(2) obtain sums o1 where A: "generate_checksums (pe_hash E) body = Inr sums"
    "oid_new (pe_codec E) (pe_oids E ID_SHA256) = Inr o1" "pka_pa_checksum pk_auth = Some (cs_sha1 sums)"
    "pka_pa_checksum2 pk_auth = Some \<lparr>pc2_checksum = cs_sha256 sums, pc2_algorithm = \<lparr>ai_oid = o1, ai_params = None\<rparr>\<rparr>"
    by (auto simp: build_pk_authenticator_def res)
  have o1: "o1 = pe_oids E ID_SHA256" by (rule codec_okD(4)[OF ok(3) A(2)])
  from assms(3) A(3,4) obtain sums' where B: "generate_checksums (pe_hash E) body' = Inr sums'"
    "verify_checksums (pe_hash E) body' (cs_sha1 sums) (Some (cs_sha256 sums, o1)) = Inr ()"
    by (auto simp: check_body_def verify_checksums_def res)
  have "hash_data (pe_hash E) ''sha256'' body' = Inr (cs_sha256 sums)"
    using B(2) ok(8) by (simp add: verify_checksums_Inr[OF ok(4) B(1)] o1)
  with A(1) show ?thesis by (simp add: generate_checksums_Inr)
qed

lemma request_key_kem_spki:
  assumes "exchange_ok E" "snd (request_key E s) = Inr p" "cc_kem_algorithm (cl_config s) = Some alg"
  shows "\<exists>key. dec_spki (pe_msgs E) p = Inr key \<and> ai_oid (spki_algorithm key) = kem_oid (pe_oids E) alg"
proof -
  from assms(2,3) obtain kp where "kem_generate (pe_kem E) alg (pe_keygen_seed E) = Inr kp"
    "kem_public_key_spki_der (pe_kem E) kp = Inr p"
    by (auto simp: request_key_def Let_def split: sum.splits)
  from exchange_okD(9)[OF assms(1) this] show ?thesis by auto
qed

lemma request_key_exchange_detected:
  assumes "oids_ok (pe_oids K)" "request_key_exchange K k p n = Inr kex" "dec_spki (pe_msgs K) p = Inr key"
    and "ai_oid (spki_algorithm key) = kem_oid (pe_oids K) alg"
  shows "kex = KexKem alg"
  using assms by (auto simp: request_key_exchange_def detect_spki_algorithm_def split: if_splits)

lemma signed_request_parts:
  assumes "verify_as_req K k req b skew now = Inr v" "\<not> vr_is_anonymous v"
  obtains d sv ap pv where "verify_signed_data (pe_crypto K) d = Inr sv" "vr_client_cert_der v = vsd_signer_cert_der sv"
    "dec_auth_pack (pe_msgs K) (vsd_content sv) = Inr ap"
    "\<bar>time_to_unix (pe_msgs K) (pka_ctime (ap_pk_authenticator ap)) - now\<bar> \<le> skew"
    "kc_require_freshness (ks_config k) \<longrightarrow> pka_freshness_token (ap_pk_authenticator ap) \<noteq> None"
    "check_body K (ap_pk_authenticator ap) b = Inr ()"
    "ap_client_public_value ap = Some pv" "element_to_der (pe_codec K) pv = Inr (vr_client_dh_public v)"
    "request_key_exchange K k (vr_client_dh_public v) (ap_client_dhnonce ap) = Inr (vr_key_exchange v)"
    "decode_nonce (pe_codec K) (pka_nonce (ap_pk_authenticator ap)) = Inr (vr_nonce v)"
    "vr_client_dh_nonce v = ap_client_dhnonce ap"
    "vr_supported_kdfs v = (case ap_supported_kdfs ap of Some kdfs \<Rightarrow> kdfs | None \<Rightarrow> [])"
proof -
  from assms obtain d content ap pv where
    o: "open_auth_pack K k d = Inr (content, vr_client_cert_der v, False)" and A: "dec_auth_pack (pe_msgs K) content = Inr ap"
      "\<bar>time_to_unix (pe_msgs K) (pka_ctime (ap_pk_authenticator ap)) - now\<bar> \<le> skew"
      "kc_require_freshness (ks_config k) \<longrightarrow> pka_freshness_token (ap_pk_authenticator ap) \<noteq> None"
      "check_body K (ap_pk_authenticator ap) b = Inr ()"
      "ap_client_public_value ap = Some pv" "element_to_der (pe_codec K) pv = Inr (vr_client_dh_public v)"
      "request_key_exchange K k (vr_client_dh_public v) (ap_client_dhnonce ap) = Inr (vr_key_exchange v)"
      "decode_nonce (pe_codec K) (pka_nonce (ap_pk_authenticator ap)) = Inr (vr_nonce v)"
      "vr_client_dh_nonce v = ap_client_dhnonce ap"
      "vr_supported_kdfs v = (case ap_supported_kdfs ap of Some kdfs \<Rightarrow> kdfs | None \<Rightarrow> [])"
    by (auto simp: verify_as_req_def Let_def res)
  from open_auth_pack_signed[OF o] obtain sv where "verify_signed_data (pe_crypto K) d = Inr sv" "content = vsd_content sv"
    "vr_client_cert_der v = vsd_signer_cert_der sv" by auto
  with that A show thesis by blast
qed

text \<open>C5: The client is authenticated: suppose that who has the key of the request's certificate is a
  client that signs its requests and nothing else, and that digests bind.  Then a signed request
  that the KDC verifies was built by such a client, with the nonce, the ephemeral public key,
  the DH nonce and the KDFs the KDC goes on with, within the clock skew and with a freshness
  token where one is required; a KEM request is for the KEM the client is configured for, and a
  request body that the KDC checked has the digest of the client's.\<close>
theorem request_is_from_client:
  assumes "exchange_ok K" "\<forall>(E, _)\<in>R. exchange_ok E \<and> same_libraries K E"
    and "signs_only (pe_crypto K) (vr_client_cert_der v) (client_log R (pe_oids K ID_PKINIT_AUTH_DATA))"
    and "digests_bind (pe_crypto K) (client_log R (pe_oids K ID_PKINIT_AUTH_DATA))"
    and "verify_as_req K k req b skew now = Inr v" "\<not> vr_is_anonymous v"
  shows "\<exists>E s nonce ctime cusec body. (E, s, nonce, ctime, cusec, body) \<in> R \<and>
    vr_nonce v = nonce \<and> \<bar>ctime - now\<bar> \<le> skew \<and> snd (request_key E s) = Inr (vr_client_dh_public v) \<and>
    (\<forall>alg. cc_kem_algorithm (cl_config s) = Some alg \<longrightarrow> vr_key_exchange v = KexKem alg) \<and>
    snd (request_dh_nonce E s (cc_kem_algorithm (cl_config s) \<noteq> None)) = Inr (vr_client_dh_nonce v) \<and>
    request_kdfs E (cc_kem_algorithm (cl_config s) \<noteq> None) = Inr (vr_supported_kdfs v) \<and>
    (kc_require_freshness (ks_config k) \<longrightarrow> cl_freshness_token s \<noteq> None) \<and>
    (\<forall>body'. b = Some body' \<longrightarrow> hash_data (pe_hash K) ''sha256'' body' = hash_data (pe_hash K) ''sha256'' body)"
  using assms(5,6)
proof (rule signed_request_parts, goal_cases)
  case (1 d sv ap pv)
  note ok = exchange_okD[OF assms(1)]
  from client_content_logged[OF ok(1) 1(1)] assms(3,4) 1(2) obtain E s nonce ctime cusec body ap' where
    R: "(E, s, nonce, ctime, cusec, body) \<in> R" and C: "auth_pack_content E s nonce ctime cusec body = Inr (ap', vsd_content sv)"
    by metis
  from assms(2) R have E: "exchange_ok E" "same_libraries K E" by auto
  then have lib: "pe_crypto E = pe_crypto K" "pe_msgs E = pe_msgs K" by (simp_all add: same_libraries_def)
  from auth_pack_content_Inr[OF E(1) C, unfolded lib] obtain spki elem where
    "dec_auth_pack (pe_msgs K) (vsd_content sv) = Inr ap'" and
    P0: "snd (request_key E s) = Inr spki" "element_to_der (pe_codec K) elem = Inr spki"
      "ap_client_public_value ap' = Some elem" "build_pk_authenticator E s nonce ctime cusec body = Inr (ap_pk_authenticator ap')"
      "snd (request_dh_nonce E s (cc_kem_algorithm (cl_config s) \<noteq> None)) = Inr (ap_client_dhnonce ap')"
      "rbind (request_kdfs E (cc_kem_algorithm (cl_config s) \<noteq> None)) (\<lambda>k. Inr (Some k)) = Inr (ap_supported_kdfs ap')" .
  with 1(3) have "ap' = ap" by simp
  note P = P0[unfolded this]
  have "check_body E x y = check_body K x y" for x y unfolding check_body_def lib ..
  note gen = check_body_generated[OF E(1) P(4)] and digest = check_body_digest[OF E(1) P(4), unfolded this]
  have spki: "spki = vr_client_dh_public v" using P(2,3) 1(7,8) by simp
  have "vr_nonce v = nonce" using 1(10) gen decode_encode_nonce[OF ok(3)] by simp
  moreover have "vr_key_exchange v = KexKem alg" if "cc_kem_algorithm (cl_config s) = Some alg" for alg
    using request_key_kem_spki[OF E(1) P(1) that] request_key_exchange_detected[OF ok(5) 1(9)] by (auto simp: spki lib)
  moreover have "request_kdfs E (cc_kem_algorithm (cl_config s) \<noteq> None) = Inr (vr_supported_kdfs v)"
    using P(6) 1(12) by (cases "ap_supported_kdfs ap") (auto simp: res)
  moreover have "\<forall>body'. b = Some body' \<longrightarrow> hash_data (pe_hash K) ''sha256'' body' = hash_data (pe_hash K) ''sha256'' body"
    using digest 1(6) by (auto simp: lib)
  ultimately show ?case
    using R P(1,5) 1(4,5,11) gen by (intro exI conjI) (auto simp: spki lib)
qed

section \<open>A world with these signatures only\<close>

text \<open>
  The exchange of \<open>Runs\<close> with a signature scheme under which exactly the two messages of that
  exchange have signatures, and a hash that no other content shares with the signed ones.
\<close>

definition sealed_hash :: hash_ops where
  "sealed_hash = demo_hash\<lparr>hash_data := \<lambda>alg d.
     if d = [1] \<or> d = [100] \<or> d = [200] then hash_data demo_hash alg d
     else rbind (hash_data demo_hash alg d) (\<lambda>h. Inr (0 # tl h))\<rparr>"

definition sealed_verify :: "obj \<Rightarrow> bytes \<Rightarrow> bytes \<Rightarrow> bytes \<Rightarrow> unit ext" where
  "sealed_verify pk tbs alg sg =
     (if alg = [6] \<and> sg = tl pk @ tbs \<and>
         (tl pk = [1] \<and> tbs = retag_as_set (demo_signed_attrs [200] 3) \<or>
          tl pk = [2] \<and> tbs = retag_as_set (demo_signed_attrs [100] 1))
      then Inr () else Inl ''bad signature'')"

definition sealed_env :: pkinit_env where
  "sealed_env = demo_penv\<lparr>pe_crypto := demo_crypto\<lparr>cv_hash := sealed_hash,
     cv_cms := (cv_cms demo_crypto)\<lparr>verify_signature := sealed_verify\<rparr>\<rparr>\<rparr>"

lemma sealed_env_parts [simp]:
  "pe_codec sealed_env = pe_codec demo_penv" "pe_oids sealed_env = pe_oids demo_penv"
  "pe_kem sealed_env = pe_kem demo_penv" "pe_msgs sealed_env = pe_msgs demo_penv" "pe_kdf sealed_env = pe_kdf demo_penv"
  "pe_chain sealed_env = pe_chain demo_penv" "pe_x509 sealed_env = pe_x509 demo_penv" "pe_dh sealed_env = pe_dh demo_penv"
  "pe_keygen_seed sealed_env = pe_keygen_seed demo_penv" "pe_hash sealed_env = sealed_hash"
  "digest_oid_to_name sealed_hash = digest_oid_to_name demo_hash" "ct_eq sealed_hash = ct_eq demo_hash"
  by (simp_all add: sealed_env_def demo_penv_def sealed_hash_def)

lemma sealed_hash_ok: "hash_ok sealed_hash"
  by (auto simp: hash_ok_def sealed_hash_def demo_hash_def res)

lemma cms_ok_other_signatures:
  "cms_ok V \<Longrightarrow> digest_oid_to_name H = digest_oid_to_name (cv_hash V) \<Longrightarrow>
   cms_ok (V\<lparr>cv_hash := H, cv_cms := (cv_cms V)\<lparr>verify_signature := f\<rparr>\<rparr>)"
  by (simp add: cms_ok_def Let_def)

lemma sealed_env_ok: "env_ok sealed_env"
proof -
  have "cms_ok (pe_crypto sealed_env)"
    unfolding sealed_env_def
    by (simp, rule cms_ok_other_signatures[OF demo_crypto_ok]) (simp add: demo_crypto_def demo_env_def)
  then show ?thesis using demo_penv_ok sealed_hash_ok by (simp add: env_ok_def)
qed

lemma sealed_exchange_ok: "exchange_ok sealed_env"
  using demo_exchange_ok sealed_env_ok
  by (simp add: exchange_ok_def) (simp add: demo_penv_def demo_crypto_def demo_env_def)

lemma sealed_digest:
  assumes "hash_data sealed_hash h x = Inr d" "hash_data sealed_hash h' y = Inr d" "x = [100] \<or> x = [200]"
  shows "y = x"
proof -
  have "hd d = (if z = [1] \<or> z = [100] \<or> z = [200] then hd z else 0)" if "hash_data sealed_hash a z = Inr d" for a z
    using that by (auto simp: sealed_hash_def demo_hash_def res split: if_splits)
  from this[OF assms(1)] this[OF assms(2)] assms(3) show ?thesis by (auto split: if_splits)
qed

lemma sealed_attrs:
  "build_signed_attrs (pe_crypto sealed_env) ID_PKINIT_KEM_KEY_DATA (200 # replicate 31 1)
     = Inr (retag_as_set (demo_signed_attrs [200] 3), demo_signed_attrs [200] 3)"
  "build_signed_attrs (pe_crypto sealed_env) (std_oids ID_PKINIT_AUTH_DATA) (100 # replicate 31 1)
     = Inr (retag_as_set (demo_signed_attrs [100] 1), demo_signed_attrs [100] 1)"
  "hash_data sealed_hash ''sha256'' [200] = Inr (200 # replicate 31 1)"
  "hash_data sealed_hash ''sha256'' [100] = Inr (100 # replicate 31 1)"
  by code_simp+

text \<open>Who signs: the KDC its reply, the client its request.\<close>

lemma sealed_signs:
  "signs_only (pe_crypto sealed_env) demo_kdc_cert {([200], ID_PKINIT_KEM_KEY_DATA)}"
  "signs_only (pe_crypto sealed_env) demo_client_cert {([100], std_oids ID_PKINIT_AUTH_DATA)}"
  using sealed_attrs
  by (auto simp: signs_only_def sealed_env_def demo_penv_def demo_crypto_def demo_env_def demo_cms_def sealed_verify_def
      demo_certificate_from_der_def demo_kdc_cert_def demo_client_cert_def demo_certificate_def split: if_splits)

lemma sealed_bind: "x = [100] \<or> x = [200] \<Longrightarrow> digests_bind (pe_crypto sealed_env) {(x, t)}"
  using sealed_digest unfolding digests_bind_def by auto

lemma sealed_kdc_log: "kdc_log {(sealed_env, demo_verified, demo_brp)} = {([200], ID_PKINIT_KEM_KEY_DATA)}"
proof -
  have "encapsulate_for_client (pe_kem demo_penv) [9, 9, 9] MlKem768 (pe_keygen_seed demo_penv) = Inr (demo_ct, [5, 5, 5, 5])"
    by (simp add: encapsulate_for_client_def demo_penv_def demo_pkem_def is_composite_def ciphertext_len_def demo_ct_length)
  moreover have "oid_new (pe_codec demo_penv) (kem_oid (pe_oids demo_penv) MlKem768) = Inr (std_oids ID_ML_KEM_768)"
    "oid_new (pe_codec demo_penv) (pe_oids demo_penv ID_ALG_HKDF_WITH_SHA512) = Inr (std_oids ID_ALG_HKDF_WITH_SHA512)"
    "pe_oids demo_penv ID_ALG_HKDF_WITH_SHA512 = std_oids ID_ALG_HKDF_WITH_SHA512"
    by code_simp+
  ultimately have "kem_reply_info sealed_env [9, 9, 9] MlKem768 7 = Inr (demo_kem_info, [5, 5, 5, 5])"
    by (simp add: kem_reply_info_def asn1_def encode_nonce_def demo_kem_info_def)
  then have "reply_content sealed_env demo_verified demo_brp = Inr ([200], ID_PKINIT_KEM_KEY_DATA, [5, 5, 5, 5])"
    using demo_codec_kem_info(1) \<open>pe_oids demo_penv ID_ALG_HKDF_WITH_SHA512 = _\<close>
    by (simp add: reply_content_def demo_verified_def demo_brp_def asn1_def)
  then show ?thesis by (auto simp: kdc_log_def)
qed

lemma sealed_trusts:
  assumes "validate_kdc_chain sealed_env demo_client_sent c cs = Inr ()"
  shows "signs_only (pe_crypto sealed_env) c {([200], ID_PKINIT_KEM_KEY_DATA)}"
proof -
  have "\<not> is_ok (verify_kdc_eku (pe_oids sealed_env) (pe_x509 sealed_env) demo_client_cert)"
    "\<not> is_ok (verify_kdc_eku (pe_oids sealed_env) (pe_x509 sealed_env) demo_pq_cert)"
    by code_simp+
  then have "c \<noteq> demo_client_cert" "c \<noteq> demo_pq_cert" using assms by (auto simp: verify_kdc_chain_Inr)
  moreover have "certificate_from_der (cv_cms (pe_crypto sealed_env)) = demo_certificate_from_der"
    by (simp add: sealed_env_def demo_crypto_def demo_env_def demo_cms_def)
  ultimately show ?thesis
    using sealed_signs(1) by (cases "c = demo_kdc_cert") (auto simp: signs_only_def demo_certificate_from_der_def)
qed

lemma sealed_open: "open_kem_rep sealed_env demo_client_done \<lparr>kkp_algorithm = MlKem768, kkp_private_key = [9, 9, 9]\<rparr>
    [162, 4, 48, 48, 160, 78] demo_arp demo_o2k = Inr demo_key"
proof -
  have "decode_kem_rep_content [162, 4, 48, 48, 160, 78] = Inr [48, 48, 160, 78]"
    "dec_kem_rep_info (pe_codec demo_penv) [48, 48, 160, 78] = Inr \<lparr>kri_signed_data = [48, 160, 78]\<rparr>"
    "verify_signed_data (pe_crypto sealed_env) [48, 160, 78] = Inr \<lparr>vsd_content = [200],
       vsd_content_type = ID_PKINIT_KEM_KEY_DATA, vsd_signer_cert_der = demo_kdc_cert,
       vsd_all_certs_der = [demo_kdc_cert], vsd_signer_algorithm_oid = std_oids ID_EC_PUBLIC_KEY\<rparr>"
    "\<not> has_pq_certificate sealed_env demo_client_done"
    "validate_kdc_chain sealed_env demo_client_done demo_kdc_cert [demo_kdc_cert] = Inr ()"
    "pkinit_kem_kdf (pe_codec demo_penv) (pe_kdf demo_penv) \<lparr>kki_shared_secret = [5, 5, 5, 5],
       kki_enctype = 18, kki_as_req_der = [3], kki_kem_signed_data = [48, 160, 78]\<rparr> demo_o2k = Inr demo_key"
    by code_simp+
  moreover have "kem_decapsulate (pe_kem demo_penv) \<lparr>kkp_algorithm = MlKem768, kkp_private_key = [9, 9, 9]\<rparr> demo_ct
      = Inr [5, 5, 5, 5]"
    by (simp add: kem_decapsulate_def demo_penv_def demo_pkem_def is_composite_def ciphertext_len_def demo_ct_length)
  moreover have "check_kem_info sealed_env MlKem768 7 demo_kem_info = Inr ()"
    using demo_check_kem_info by (simp add: check_kem_info_def)
  moreover note demo_codec_kem_info(2)
  moreover have "kki_kemct demo_kem_info = demo_ct" by (simp add: demo_kem_info_def)
  ultimately show ?thesis
    by (simp add: open_kem_rep_def asn1_def demo_arp_def)
qed

lemma sealed_reply: "process_as_rep sealed_env demo_client_sent [162, 4, 48, 48, 160, 78] demo_arp demo_o2k
    = (demo_client_done, Inr demo_key)"
proof -
  have "is_kem_rep [162, 4, 48, 48, 160, 78]" by code_simp
  moreover have "demo_client_sent\<lparr>cl_kem_key := None\<rparr> = demo_client_done"
    by (simp add: demo_client_sent_def demo_client_done_def demo_client_config client_state.equality)
  moreover have "cl_kem_key demo_client_sent = Some \<lparr>kkp_algorithm = MlKem768, kkp_private_key = [9, 9, 9]\<rparr>"
    by (simp add: demo_client_sent_def)
  ultimately show ?thesis by (simp add: process_as_rep_def process_kem_rep_def sealed_open)
qed

theorem reply_is_from_kdc_witness:
  "brp_nonce demo_brp = 7 \<and> kem_answer sealed_env demo_client_sent sealed_env demo_verified 7"
proof -
  have k: "kdcs_sign_only sealed_env demo_client_sent {(sealed_env, demo_verified, demo_brp)}"
    using sealed_bind sealed_trusts by (simp add: kdcs_sign_only_def sealed_kdc_log same_libraries_def)
  have n: "is_kem_rep [162, 4, 48, 48, 160, 78]" "arp_nonce demo_arp = 7" by code_simp+
  show ?thesis using reply_is_from_kdc[OF sealed_env_ok k sealed_reply] n by simp
qed

lemma sealed_auth_pack: "auth_pack_content sealed_env demo_client 7 1000 0 [1] = Inr (demo_auth_pack, [100])"
proof -
  have "build_pk_authenticator sealed_env demo_client 7 1000 0 [1] = Inr (ap_pk_authenticator demo_auth_pack)"
    "request_kdfs sealed_env True = Inr [std_oids ID_ALG_HKDF_WITH_SHA512]"
    "enc_auth_pack (pe_msgs demo_penv) demo_auth_pack = Inr [100]"
    "element_from_der (pe_codec demo_penv) [9, 9, 9] = Inr [9, 9, 9]"
    "kem_generate (pe_kem demo_penv) MlKem768 (pe_keygen_seed demo_penv)
      = Inr \<lparr>kkp_algorithm = MlKem768, kkp_private_key = [9, 9, 9]\<rparr>"
    "kem_public_key_spki_der (pe_kem demo_penv) \<lparr>kkp_algorithm = MlKem768, kkp_private_key = [9, 9, 9]\<rparr>
      = Inr [9, 9, 9]"
    by code_simp+
  moreover have "\<lparr>ap_pk_authenticator = ap_pk_authenticator demo_auth_pack, ap_client_public_value = Some [9, 9, 9],
      ap_client_dhnonce = None, ap_supported_kdfs = Some [std_oids ID_ALG_HKDF_WITH_SHA512]\<rparr> = demo_auth_pack"
    by (simp add: demo_auth_pack_def)
  ultimately show ?thesis
    by (simp add: auth_pack_content_def demo_client_config request_key_def request_dh_nonce_def asn1_def)
qed

lemma sealed_open_request: "open_auth_pack sealed_env demo_kdc [48, 160, 77] = Inr ([100], demo_client_cert, False)"
proof -
  have "extract_unsigned_content (pe_crypto sealed_env) [48, 160, 77]
      = Inl (CmsVerifyFailed ''SignedData has signers; expected unsigned anonymous content'')"
    "\<not> is_ok (extract_bare_content (pe_crypto sealed_env) [48, 160, 77])"
    "verify_signed_data (pe_crypto sealed_env) [48, 160, 77] = Inr \<lparr>vsd_content = [100],
       vsd_content_type = std_oids ID_PKINIT_AUTH_DATA, vsd_signer_cert_der = demo_client_cert,
       vsd_all_certs_der = [demo_client_cert], vsd_signer_algorithm_oid = std_oids ID_EC_PUBLIC_KEY\<rparr>"
    "pe_oids demo_penv ID_PKINIT_AUTH_DATA = std_oids ID_PKINIT_AUTH_DATA"
    by code_simp+
  moreover have "client_trusted demo_penv demo_kdc demo_client_identity" by (rule demo_client_trusted)
  ultimately show ?thesis
    by (cases "extract_bare_content (pe_crypto sealed_env) [48, 160, 77]")
      (simp_all add: open_auth_pack_def client_trusted_def demo_client_identity_def)
qed

lemma sealed_verify_request:
  "verify_as_req sealed_env demo_kdc [48, 48, 160, 77] (Some [1]) 300 1100 = Inr demo_verified"
proof -
  have "dec_pa_pk_as_req (pe_msgs demo_penv) [48, 48, 160, 77] = Inr \<lparr>par_signed_auth_pack = [48, 160, 77]\<rparr>"
    "dec_auth_pack (pe_msgs demo_penv) [100] = Inr demo_auth_pack"
    "time_to_unix (pe_msgs demo_penv) (pka_ctime (ap_pk_authenticator demo_auth_pack)) = 1000"
    "check_body sealed_env (ap_pk_authenticator demo_auth_pack) (Some [1]) = Inr ()"
    "element_to_der (pe_codec demo_penv) [9, 9, 9] = Inr [9, 9, 9]"
    "request_key_exchange sealed_env demo_kdc [9, 9, 9] None = Inr (KexKem MlKem768)"
    "decode_nonce (pe_codec demo_penv) 7 = Inr 7"
    "kc_require_freshness (ks_config demo_kdc) = False"
    by code_simp+
  moreover have "pka_nonce (ap_pk_authenticator demo_auth_pack) = 7"
    "ap_client_public_value demo_auth_pack = Some [9, 9, 9]" "ap_client_dhnonce demo_auth_pack = None"
    "ap_supported_kdfs demo_auth_pack = Some [std_oids ID_ALG_HKDF_WITH_SHA512]"
    by (simp_all add: demo_auth_pack_def)
  ultimately show ?thesis
    by (simp add: verify_as_req_def asn1_def sealed_open_request demo_verified_def)
qed

theorem request_is_from_client_witness:
  "snd (request_key sealed_env demo_client) = Inr (vr_client_dh_public demo_verified) \<and>
   vr_nonce demo_verified = 7 \<and> vr_key_exchange demo_verified = KexKem MlKem768"
proof -
  let ?R = "{(sealed_env, demo_client, 7 :: u32, 1000 :: int, 0 :: int, [1 :: byte])}"
  have o: "pe_oids sealed_env ID_PKINIT_AUTH_DATA = std_oids ID_PKINIT_AUTH_DATA" by code_simp
  have l: "client_log ?R (pe_oids sealed_env ID_PKINIT_AUTH_DATA) = {([100], std_oids ID_PKINIT_AUTH_DATA)}"
    using sealed_auth_pack unfolding client_log_def o by auto
  have d: "digests_bind (pe_crypto sealed_env) (client_log ?R (pe_oids sealed_env ID_PKINIT_AUTH_DATA))"
    using sealed_bind l by simp
  have s: "signs_only (pe_crypto sealed_env) (vr_client_cert_der demo_verified)
      (client_log ?R (pe_oids sealed_env ID_PKINIT_AUTH_DATA))"
    using sealed_signs(2) l by (simp add: demo_verified_def)
  have r: "\<forall>(E, _)\<in>?R. exchange_ok E \<and> same_libraries sealed_env E"
    using sealed_exchange_ok by (simp add: same_libraries_def)
  have a: "\<not> vr_is_anonymous demo_verified" by (simp add: demo_verified_def)
  show ?thesis
    using request_is_from_client[OF sealed_exchange_ok r s d sealed_verify_request a] by (auto simp: demo_client_config)
qed

end
