(* ===== verification/Spec2Isabelle.thy ===== *)
theory Spec2Isabelle
  imports Prelude Rust_Str Errors Algorithms Kem_Types Checksum Kem Kdf Oakley Dh Cms San Matching
    Identity Trust_Store Messages Client Server Exchange Runs Config Pin_Store
    Broker Plugin Kdc_Plugin Client_Plugin Prompters
    Trust_Ctl Daemon Plugin_Exchange Negotiation Plugin_Runs Authentic
begin

text \<open>
  A model of \<open>kurbu5-pkinit\<close>: PKINIT (RFC 4556) for MIT Kerberos with post-quantum key
  establishment and trust on first use, in Rust.  The model is a translation of the Rust
  code, function by function; the names are those of the source.

  \<^bold>\<open>The program.\<close>  A client and a KDC agree on a reply key with signed messages.
  \<open>pkinit-core\<close> has the protocol: the client's and the KDC's state (\<open>client.rs\<close>, \<open>server.rs\<close>), CMS
  SignedData, classic Diffie-Hellman and the key encapsulation (\<open>crypto/\<close>), the KEM messages
  (\<open>kem_types.rs\<close>), certificate names and purposes (\<open>san.rs\<close>, \<open>certauth.rs\<close>), identities, matching
  rules and trust store (\<open>identity/\<close>).  \<open>kurbu5-pkinit\<close> wraps it into three plugins of libkrb5
  and reads \<open>krb5.conf\<close>.  When a client has no configured anchor for a KDC it may ask the trust
  broker, a daemon (\<open>pkinit-trust-brokerd\<close>) that pins the authority of a realm when the user
  approves it; \<open>pkinit-trust-ctl\<close> turns pins into permanent anchors.

  \<^bold>\<open>Theories and sources\<close>, in the order of the calls:

  \<^item> \<open>Prelude\<close>, \<open>Rust_Str\<close>: results as \<open>'e + 'a\<close> with the question-mark operator \<open>rbind\<close>, their
    inversion rules (collection \<open>res\<close>), reachable states of a system of calls (locale
    \<open>guarded_calls\<close>), and the string functions of the Rust library.
  \<^item> \<open>Errors\<close> (\<open>error.rs\<close>), \<open>Algorithms\<close> (\<open>constants.rs\<close>), \<open>Kem_Types\<close> (\<open>kem_types.rs\<close>: the hand-written
    DER, locale \<open>length_codec\<close>), \<open>Checksum\<close>, \<open>Kem\<close>, \<open>Kdf\<close> (with \<open>o2k.rs\<close>, locale \<open>key_maker\<close>),
    \<open>Oakley\<close> and \<open>Dh\<close>, \<open>Cms\<close> (\<open>crypto/\<close>).
  \<^item> \<open>San\<close> (\<open>san.rs\<close>, \<open>certauth.rs\<close>), \<open>Matching\<close>, \<open>Identity\<close>, \<open>Trust_Store\<close> (\<open>identity/\<close>,
    \<open>trust_broker.rs\<close>, \<open>config.rs\<close>), \<open>Messages\<close> (the RFC 4556 messages, a library's types).
  \<^item> \<open>Client\<close> (\<open>client.rs\<close>): the record \<open>client_state\<close>, every public operation, and \<open>client_step\<close>,
    one call of any of them, with its invariant \<open>client_inv\<close>.
  \<^item> \<open>Server\<close> (\<open>server.rs\<close>): \<open>kdc_state\<close>, \<open>kdc_new\<close>, \<open>verify_as_req\<close>, \<open>build_as_rep\<close>, the hint and the
    typed data.
  \<^item> \<open>Config\<close> (\<open>profile.rs\<close>), \<open>Plugin\<close>, \<open>Kdc_Plugin\<close> and \<open>Client_Plugin\<close> (\<open>kdc_plugin.rs\<close>,
    \<open>client_plugin.rs\<close>, \<open>principal.rs\<close>): the callbacks of libkrb5, for the client with
    \<open>plugin_step\<close>, one callback, and its invariant \<open>plugin_inv\<close>.
  \<^item> \<open>Pin_Store\<close>, \<open>Broker\<close>, \<open>Prompters\<close>, \<open>Daemon\<close> (\<open>store.rs\<close>, \<open>lib.rs\<close>, \<open>client_tty.rs\<close>,
    \<open>graphical.rs\<close>, \<open>main.rs\<close> of the broker, \<open>trust_broker_client.rs\<close> of the plugin), \<open>Trust_Ctl\<close>.
    The locales are \<open>tofu\<close> (what a pin promises), \<open>timed_refinement\<close> (simulation of a
    specification with a clock) and \<open>consent\<close> (the \<open>Prompter\<close> trait).
  \<^item> \<open>Exchange\<close>, \<open>Negotiation\<close>, \<open>Plugin_Exchange\<close> and this theory: client and KDC together.
    \<open>Authentic\<close> has what a verified signature shows of who signed.  \<open>Runs\<close> and \<open>Plugin_Runs\<close>
    hold the concrete runs that instantiate the properties.

  \<^bold>\<open>How the code is represented.\<close>  A struct is a record, an enum a datatype, \<open>Result\<close> a sum with the
  crate's own error type, \<open>&mut self\<close> a state that is returned with the result, also by the calls
  that fail.  Machine integers are words where they wrap or saturate (nonces, lengths of DER,
  clocks); bytes are \<open>8 word\<close>.  Code that is not in the repository is a field of a record of
  operations: \<open>synta\<close> and \<open>synta_certificate\<close> (\<open>codec\<close>, \<open>cms_ops\<close>, \<open>x509_ops\<close>, \<open>chain_ops\<close>),
  OpenSSL (\<open>dh_ops\<close>, \<open>kem_ops\<close>, \<open>hash_ops\<close>), libkrb5 and its profile library (\<open>plugin_ctx\<close>,
  \<open>profile_ops\<close>), the file system (\<open>os_ops\<close>), the varlink transport (\<open>varlink_ops\<close>), terminals and
  notifications.  What a theorem needs of them is a named hypothesis that states documented
  behaviour (\<open>codec_ok\<close>: an encoding is decoded; \<open>exchange_ok\<close>: what was signed verifies, an
  encapsulated secret is decapsulated; for authentication \<open>signs_only\<close> and \<open>digests_bind\<close>, the ideal
  signature and hash), and each such theorem has a concrete instance.

  \<^bold>\<open>What is shown.\<close>  Of the protocol: both ends derive the same key, by KEM, by Diffie-Hellman,
  and through the two plugins; they find a common algorithm whenever they have one; a client
  accepts a reply only from a KDC it trusts, for its own nonce and a key it holds, a KEM reply at
  most once, and that KDC made it; a KDC accepts only a fresh request signed with a trusted certificate, which its owner
  built, and gives a ticket only to the principal the certificate names; \<open>pkinit_require_kem\<close> and the strength of the configured
  KEM hold over every run of calls.  Of the parts: the SignedData, wire formats, matching
  language, checksums and key derivations do what they are for.  Of trust on first use: the
  pin store refines its specification, pins are sticky, lapse on time and survive a restart;
  every pin was granted by the user in answer to a request that shows the fingerprint; what
  the user sees cannot be forged; a prompt ends at its deadline; an exported pin is the anchor
  that is loaded.

  \<^bold>\<open>Termination and bounds.\<close>  There is no fuel: loops over data are structural recursions or
  recursions with a decreasing length, and the loops over a terminal, which only the deadline
  ends, are partial functions for which \<open>prompt_ends_at_deadline\<close> shows that they return.

  \<^bold>\<open>Not modelled.\<close>  The cryptography, ASN.1 and path validation of the libraries; sockets, JSON and
  the asynchronous runtime (a call is what it comes to, requests are served one after the
  other, as the service's lock makes them); log and trace output; zeroing of secrets (keys
  that are dropped are gone from the state); the text of most error messages is kept only
  where the code builds it from its data.  Tests, build files and the registration macros are
  no part of the model.
\<close>

section \<open>Client and KDC together\<close>

text \<open>A request that the client builds with a KEM algorithm is accepted by a KDC that trusts the
  client's certificate, accepts the algorithm, is within the clock skew and has the freshness
  token it asks for; the KDC reads back exactly the client's certificate, nonce, offered KDF and
  ephemeral public key.\<close>
theorem honest_request_accepted:
  assumes "exchange_ok E" "same_libraries E K"
    and "build_as_req E s nonce ctime cusec body = (t, Inr req)" "cc_kem_algorithm (cl_config s) = Some alg"
    and "signer_ok E (cl_identity s)" "client_trusted K k (cl_identity s)"
    and "accepts_kem k alg" "\<bar>ctime - now\<bar> \<le> skew"
    and "kc_require_freshness (ks_config k) \<longrightarrow> cl_freshness_token s \<noteq> None"
  shows "\<exists>v. verify_as_req K k req (Some body) skew now = Inr v \<and> vr_key_exchange v = KexKem alg \<and>
    vr_nonce v = nonce \<and> vr_client_cert_der v = id_cert_der (cl_identity s) \<and> \<not> vr_is_anonymous v \<and>
    vr_supported_kdfs v = [pe_oids E ID_ALG_HKDF_WITH_SHA512] \<and>
    (\<exists>kp. cl_kem_key t = Some kp \<and> kem_public_key_spki_der (pe_kem E) kp = Inr (vr_client_dh_public v))"
  using kem_request_accepted[OF assms] by auto

text \<open>C1: Both ends of a post-quantum exchange hold the same key: if the KDC verifies the client's
  request, with or without the request body, and answers it, and the client trusts the KDC's
  certificate, then the client accepts the reply and derives the KDC's key, and its
  decapsulation key is gone.\<close>
theorem kem_exchange_agreement:
  assumes "exchange_ok E" "same_libraries E K"
    and "build_as_req E s nonce ctime cusec body = (t, Inr req)" "cc_kem_algorithm (cl_config s) = Some alg"
    and "signer_ok E (cl_identity s)" "verify_as_req K k req b skew now = Inr v"
    and "build_as_rep K k v \<lparr>brp_nonce = vr_nonce v, brp_enctype = enctype, brp_as_req_der = as_req,
      brp_client_name = cname, brp_server_name = sname\<rparr> O2 = Inr (rep, key)" "length rep < 2 ^ 32"
    and "signer_ok E (ks_identity k)" "kdc_trusted E t (ks_identity k)"
  shows "process_as_rep E t rep \<lparr>arp_nonce = nonce, arp_enctype = enctype, arp_as_req_der = as_req,
      arp_pa_rep_raw = rep, arp_client_name = cname, arp_server_name = sname\<rparr> O2
    = (t\<lparr>cl_kem_key := None\<rparr>, Inr key)"
proof -
  from verified_kem_request[OF assms(1-6)] obtain kp where
    g: "kem_generate (pe_kem E) alg (pe_keygen_seed E) = Inr kp"
      "kem_public_key_spki_der (pe_kem E) kp = Inr (vr_client_dh_public v)"
    and t: "cl_kem_key t = Some kp" and v: "vr_nonce v = nonce" "vr_key_exchange v = KexKem alg"
    by auto
  have "kdc_trusted E (t\<lparr>cl_kem_key := None\<rparr>) (ks_identity k)"
    using assms(10) by (simp add: kdc_trusted_def)
  moreover have b: "build_kem_rep K k v \<lparr>brp_nonce = vr_nonce v, brp_enctype = enctype, brp_as_req_der = as_req,
      brp_client_name = cname, brp_server_name = sname\<rparr> O2 alg = Inr (rep, key)"
    using assms(7) v(2) by (simp add: build_as_rep_def)
  ultimately have "is_kem_rep rep \<and> open_kem_rep E (t\<lparr>cl_kem_key := None\<rparr>) kp rep \<lparr>arp_nonce = nonce, arp_enctype = enctype,
      arp_as_req_der = as_req, arp_pa_rep_raw = rep, arp_client_name = cname, arp_server_name = sname\<rparr> O2 = Inr key"
    using v(1) by (intro kem_reply_opened[OF assms(1,2) g b assms(8,9)]) simp_all
  then show ?thesis
    by (simp add: t process_as_rep_def process_kem_rep_def)
qed

text \<open>C6: Both ends of a classic exchange hold the same key: a client whose group and key the KDC's
  reply answers, and which trusts the KDC's certificate, derives the KDC's key from the public
  key bits of the reply, the KDF the reply names (or the legacy derivation with both nonces
  when it names none), the two principals and the messages; its state does not change.\<close>
theorem dh_exchange_agreement:
  assumes "dh_exchange_ok E grp" "same_libraries E K"
    and "dh_generate (pe_dh E) grp r = Inr kc" "dh_public_key_spki_der (pe_dh E) kc = Inr (vr_client_dh_public v)"
    and "cl_dh_key t = Some kc" "vr_client_dh_nonce v = cl_dh_nonce t" "vr_key_exchange v = KexDh grp"
    and "build_as_rep K k v \<lparr>brp_nonce = nonce, brp_enctype = enctype, brp_as_req_der = as_req,
      brp_client_name = cname, brp_server_name = sname\<rparr> O2 = Inr (rep, key)"
    and "signer_ok E (ks_identity k)"
    and "validate_kdc_chain E t (id_cert_der (ks_identity k)) (id_cert_der (ks_identity k) # id_chain (ks_identity k)) = Inr ()"
  shows "process_as_rep E t rep \<lparr>arp_nonce = nonce, arp_enctype = enctype, arp_as_req_der = as_req,
      arp_pa_rep_raw = rep, arp_client_name = cname, arp_server_name = sname\<rparr> O2 = (t, Inr key)"
proof -
  have b: "build_dh_rep K k v \<lparr>brp_nonce = nonce, brp_enctype = enctype, brp_as_req_der = as_req,
      brp_client_name = cname, brp_server_name = sname\<rparr> O2 grp = Inr (rep, key)"
    using assms(7,8) by (simp add: build_as_rep_def)
  show ?thesis
    by (rule dh_reply_opened[OF assms(1-6) b assms(9,10)]) simp_all
qed

theorem dh_exchange_agreement_witness:
  "snd (process_as_rep demo_dh_env demo_dh_client [160, 1] \<lparr>arp_nonce = 7, arp_enctype = 18, arp_as_req_der = [3],
     arp_pa_rep_raw = [160, 1], arp_client_name = ''c@R'', arp_server_name = ''krbtgt/R@R''\<rparr> demo_o2k)
   = Inr demo_dh_reply_key"
proof -
  have g: "dh_generate (pe_dh demo_dh_env) EcP256 [7] = Inr \<lparr>dkp_group = EcP256, dkp_pkey = [7]\<rparr>"
    by (simp add: demo_dh_generate)
  have p: "dh_public_key_spki_der (pe_dh demo_dh_env) \<lparr>dkp_group = EcP256, dkp_pkey = [7]\<rparr>
      = Inr (vr_client_dh_public demo_dh_verified)"
    by (simp add: dh_public_key_spki_der_def demo_dh_env_def demo_pdh_def demo_dh_verified_def)
  have t: "cl_dh_key demo_dh_client = Some \<lparr>dkp_group = EcP256, dkp_pkey = [7]\<rparr>"
    "vr_client_dh_nonce demo_dh_verified = cl_dh_nonce demo_dh_client" "vr_key_exchange demo_dh_verified = KexDh EcP256"
    by (simp_all add: demo_dh_client_def demo_dh_verified_def client_new_def set_kdc_identity_def)
  have r: "build_as_rep demo_dh_env demo_dh_kdc demo_dh_verified \<lparr>brp_nonce = 7, brp_enctype = 18, brp_as_req_der = [3],
      brp_client_name = ''c@R'', brp_server_name = ''krbtgt/R@R''\<rparr> demo_o2k = Inr ([160, 1], demo_dh_reply_key)"
    using demo_dh_rep t(3) by (simp add: build_as_rep_def demo_brp_def)
  have k: "ks_identity demo_dh_kdc = demo_kdc_identity" by (simp add: demo_dh_kdc_def)
  show ?thesis
    using dh_exchange_agreement[OF demo_dh_exchange_ok _ g p t r] demo_dh_signer demo_dh_trust
    by (simp add: same_libraries_def k) (simp add: demo_kdc_identity_def)
qed

theorem honest_request_accepted_witness:
  "\<exists>v. verify_as_req demo_penv demo_kdc [48, 48, 160, 77] (Some [1]) 300 1100 = Inr v \<and>
     vr_key_exchange v = KexKem MlKem768 \<and> vr_nonce v = 7"
  using honest_request_accepted[OF demo_exchange_ok _ demo_request, of demo_penv MlKem768 demo_kdc 1100 300]
    demo_client_trusted demo_signers demo_kdc_accepts
  by (auto simp: same_libraries_def demo_client_config)

theorem kem_exchange_agreement_witness:
  "snd (process_as_rep demo_penv demo_client_sent [162, 4, 48, 48, 160, 78] \<lparr>arp_nonce = 7, arp_enctype = 18,
     arp_as_req_der = [3], arp_pa_rep_raw = [162, 4, 48, 48, 160, 78], arp_client_name = ''c@R'',
     arp_server_name = ''krbtgt/R@R''\<rparr> demo_o2k) = Inr demo_key"
proof -
  have r: "build_as_rep demo_penv demo_kdc demo_verified \<lparr>brp_nonce = vr_nonce demo_verified, brp_enctype = 18,
      brp_as_req_der = [3], brp_client_name = ''c@R'', brp_server_name = ''krbtgt/R@R''\<rparr> demo_o2k
    = Inr ([162, 4, 48, 48, 160, 78], demo_key)"
    using demo_kem_rep by (simp add: demo_verified_def demo_brp_def)
  have k: "ks_identity demo_kdc = demo_kdc_identity" by (simp add: demo_kdc_def)
  show ?thesis
    using kem_exchange_agreement[OF demo_exchange_ok _ demo_request _ _ demo_verify r, of MlKem768]
      demo_signers demo_kdc_trusted
    by (simp add: same_libraries_def demo_client_config k)
qed

end
